(* ===== verification/Prelude.thy ===== *)
theory Prelude
  imports Main "HOL-Library.Word"
begin

text \<open>
  Shared vocabulary of the development.

  Go's \<open>error\<close> result is an optional message (\<open>None\<close> is Go's \<open>nil\<close>), a Go function that
  returns \<open>(T, error)\<close> is a value of a sum type with the error on the left, and a slice is an
  optional list because the source distinguishes \<open>nil\<close> from an empty slice. A database table
  is a list of rows; \<open>sql_update\<close> and \<open>sql_count\<close> are SQL's \<open>UPDATE \<dots> WHERE\<close> and its number
  of affected rows. Time is an integer number of nanoseconds since Go's zero time
  (January 1, year 1, UTC), so that \<open>time.Time.IsZero\<close> is equality with 0.
\<close>

section \<open>Collections of facts\<close>

named_theorems go_simps \<open>unfolding rules of the Go library model\<close>
named_theorems sql_simps \<open>rules of the table operations\<close>
named_theorems frame_simps \<open>what an operation leaves unchanged\<close>

section \<open>Results, slices and time\<close>

type_synonym go_error = "string option"
type_synonym 'a go_result = "string + 'a"
type_synonym 'a slice = "'a list option"
type_synonym time = int
type_synonym duration = int

definition elems :: "'a slice \<Rightarrow> 'a list" where
  "elems s = (case s of None \<Rightarrow> [] | Some xs \<Rightarrow> xs)"

lemma elems_simps [simp, go_simps]: "elems None = []" "elems (Some xs) = xs"
  by (simp_all add: elems_def)

lemma elems_eq_Nil: "elems s = [] \<longleftrightarrow> s = None \<or> s = Some []"
  by (cases s) auto

abbreviation second :: duration where "second \<equiv> 1000000000"
abbreviation minute :: duration where "minute \<equiv> 60 * second"
abbreviation hour :: duration where "hour \<equiv> 60 * minute"

definition is_ok :: "'e + 'a \<Rightarrow> bool" where
  "is_ok r = (case r of Inl _ \<Rightarrow> False | Inr _ \<Rightarrow> True)"

lemma is_ok_simps [simp]: "\<not> is_ok (Inl e)" "is_ok (Inr x)"
  by (simp_all add: is_ok_def)

lemma is_ok_iff: "is_ok r \<longleftrightarrow> (\<exists>x. r = Inr x)"
  by (cases r) auto

lemma find_SomeD: "find P xs = Some x \<Longrightarrow> x \<in> set xs \<and> P x"
  by (auto simp: find_Some_iff)

section \<open>Tables\<close>

definition sql_update :: "('r \<Rightarrow> bool) \<Rightarrow> ('r \<Rightarrow> 'r) \<Rightarrow> 'r list \<Rightarrow> 'r list" where
  "sql_update p f rows = map (\<lambda>r. if p r then f r else r) rows"

definition sql_count :: "('r \<Rightarrow> bool) \<Rightarrow> 'r list \<Rightarrow> nat" where
  "sql_count p rows = length (filter p rows)"

lemma sql_update_simps [simp, sql_simps]:
  "sql_update p f [] = []"
  "sql_update p f (r # rs) = (if p r then f r else r) # sql_update p f rs"
  by (simp_all add: sql_update_def)

lemma length_sql_update [simp, sql_simps]: "length (sql_update p f rows) = length rows"
  by (simp add: sql_update_def)

lemma in_sql_update:
  "r \<in> set (sql_update p f rows) \<longleftrightarrow> (\<exists>q\<in>set rows. r = (if p q then f q else q))"
  by (auto simp: sql_update_def)

lemma sql_count_0: "sql_count p rows = 0 \<longleftrightarrow> (\<forall>r\<in>set rows. \<not> p r)"
  by (simp add: sql_count_def filter_empty_conv)

lemma sql_count_pos: "0 < sql_count p rows \<longleftrightarrow> (\<exists>r\<in>set rows. p r)"
  by (metis sql_count_0 gr0I less_numeral_extra(3))

lemma sql_update_none: "\<forall>r\<in>set rows. \<not> p r \<Longrightarrow> sql_update p f rows = rows"
  by (induction rows) auto

lemma map_sql_update:
  "(\<And>r. p r \<Longrightarrow> k (f r) = k r) \<Longrightarrow> map k (sql_update p f rows) = map k rows"
  by (induction rows) auto

lemma sql_update_cong:
  "(\<And>r. r \<in> set rows \<Longrightarrow> p r = q r) \<Longrightarrow> sql_update p f rows = sql_update q f rows"
  by (induction rows) auto

lemma set_sql_update_one:
  assumes "e \<in> set rows" and "\<And>r. r \<in> set rows \<Longrightarrow> p r \<longleftrightarrow> r = e"
  shows "set (sql_update p f rows) = insert (f e) {r \<in> set rows. \<not> p r}"
  using assms by (auto simp: sql_update_def image_iff)

lemma sql_update_bex:
  assumes "\<exists>r\<in>set rows. P r" and "\<And>r. P r \<Longrightarrow> p r \<Longrightarrow> P (f r)"
  shows "\<exists>r\<in>set (sql_update p f rows). P r"
proof -
  obtain r where "r \<in> set rows" "P r" using assms(1) by blast
  moreover from this have "(if p r then f r else r) \<in> set (sql_update p f rows)"
    unfolding in_sql_update by blast
  ultimately show ?thesis using assms(2) [of r] by (cases "p r") auto
qed

text \<open>The first row in key order that satisfies a condition: \<open>ORDER BY key LIMIT 1\<close>.\<close>

definition sql_first :: "('r \<Rightarrow> int) \<Rightarrow> ('r \<Rightarrow> bool) \<Rightarrow> 'r list \<Rightarrow> 'r option" where
  "sql_first k p rows =
     (case sort_key k (filter p rows) of [] \<Rightarrow> None | r # _ \<Rightarrow> Some r)"

lemma sql_first_Some:
  assumes "sql_first k p rows = Some r"
  shows "r \<in> set rows" and "p r" and "\<forall>q\<in>set rows. p q \<longrightarrow> k r \<le> k q"
proof -
  from assms obtain rs where eq: "sort_key k (filter p rows) = r # rs"
    by (auto simp: sql_first_def split: list.splits)
  have s: "set (r # rs) = {q \<in> set rows. p q}"
    by (metis eq set_sort set_filter)
  then show "r \<in> set rows" and "p r" by auto
  have "sorted (map k (r # rs))"
    by (metis eq sorted_sort_key)
  with s show "\<forall>q\<in>set rows. p q \<longrightarrow> k r \<le> k q" by auto
qed

lemma sql_first_None: "sql_first k p rows = None \<longleftrightarrow> (\<forall>r\<in>set rows. \<not> p r)"
proof -
  have "sort_key k (filter p rows) = [] \<longleftrightarrow> filter p rows = []"
    by (metis length_0_conv length_sort)
  then show ?thesis
    by (auto simp: sql_first_def filter_empty_conv split: list.splits)
qed

text \<open>
  Tables with a primary key: updates that do not touch the key keep it unique, and a row is
  determined by its key.
\<close>

definition keyed_on :: "('r \<Rightarrow> 'k) \<Rightarrow> 'r list \<Rightarrow> bool" where
  "keyed_on key rows \<longleftrightarrow> distinct (map key rows)"

lemma keyed_on_unique:
  "keyed_on key rows \<Longrightarrow> r \<in> set rows \<Longrightarrow> q \<in> set rows \<Longrightarrow> key r = key q \<Longrightarrow> r = q"
  by (auto simp: keyed_on_def distinct_map inj_on_def)

lemma keyed_on_update:
  "keyed_on key rows \<Longrightarrow> (\<And>r. p r \<Longrightarrow> key (f r) = key r) \<Longrightarrow> keyed_on key (sql_update p f rows)"
  by (simp add: keyed_on_def map_sql_update)

lemma keyed_on_count_le_1:
  assumes "keyed_on key rows" and "\<And>r. p r \<Longrightarrow> key r = i"
  shows "sql_count p rows \<le> 1"
proof -
  have "distinct (map key (filter p rows))"
    using assms(1) by (simp add: keyed_on_def distinct_map_filter)
  moreover have "set (map key (filter p rows)) \<subseteq> {i}"
    using assms(2) by auto
  ultimately have "length (map key (filter p rows)) \<le> card {i}"
    by (metis card_mono distinct_card finite.emptyI finite.insertI)
  then show ?thesis by (simp add: sql_count_def)
qed

lemma keyed_on_count_1:
  assumes "keyed_on key rows" and "\<And>r. p r \<Longrightarrow> key r = i" and "r \<in> set rows" and "p r"
  shows "sql_count p rows = 1"
proof -
  have "0 < sql_count p rows" using assms(3,4) by (auto simp: sql_count_pos)
  with keyed_on_count_le_1 [OF assms(1,2)] show ?thesis by fastforce
qed

end
