(* ===== verification/Authorization.thy ===== *)
theory Authorization
  imports Prelude
begin

text \<open>
  \<open>services/control-plane-api/internal/authorization/policy.go\<close>: which permission a principal
  holds in a context, and the capabilities the console shows. Permissions and relations are
  typed strings in the source; every other string is \<open>OtherPermission\<close> / \<open>OtherRelation\<close>.
\<close>

datatype Permission =
    CreateWorkspace | ManageUsers | ManageAgents | ManageBindings
  | ReadWorkspace | ManageWorkspace | ManageMembers | ManageGroups | ReadAudit
  | ManageAutomation | EditResources | Deploy | OtherPermission string

datatype Relation = RelationViewer | RelationEditor | RelationDeployer | RelationManager
  | OtherRelation string

abbreviation RoleOwner :: string where "RoleOwner \<equiv> ''Owner''"
abbreviation RoleMember :: string where "RoleMember \<equiv> ''Member''"
abbreviation RoleViewer :: string where "RoleViewer \<equiv> ''Viewer''"

record Context =
  InstallationAdministrator :: bool
  MembershipRole :: string
  MembershipSuspended :: bool
  Relations :: "Relation list"

record Capabilities =
  cap_ReadWorkspace :: bool
  cap_ManageWorkspace :: bool
  cap_ManageMembers :: bool
  cap_ManageGroups :: bool
  cap_ReadAudit :: bool
  cap_ManageAutomation :: bool
  cap_EditResources :: bool
  cap_Deploy :: bool

text \<open>The loop over the relations: the first relation that grants the permission ends it.\<close>

fun relations_allow :: "Relation list \<Rightarrow> Permission \<Rightarrow> bool" where
  "relations_allow [] permission = False"
| "relations_allow (relation # rest) permission =
     (case relation of
        RelationManager \<Rightarrow> True
      | RelationEditor \<Rightarrow>
          if permission = EditResources \<or> permission = Deploy then True
          else relations_allow rest permission
      | RelationDeployer \<Rightarrow>
          if permission = Deploy then True else relations_allow rest permission
      | RelationViewer \<Rightarrow>
          if permission = ReadWorkspace then True else relations_allow rest permission
      | OtherRelation _ \<Rightarrow> relations_allow rest permission)"

definition Allowed :: "Context \<Rightarrow> Permission \<Rightarrow> bool" where
  "Allowed context permission =
     (if permission = CreateWorkspace \<or> permission = ManageUsers \<or> permission = ManageAgents
         \<or> permission = ManageBindings
      then InstallationAdministrator context
      else if MembershipSuspended context \<or> MembershipRole context = '''' then False
      else if permission = ReadWorkspace then True
      else if MembershipRole context = RoleOwner then True
      else if MembershipRole context = RoleMember
              \<and> (permission = EditResources \<or> permission = Deploy) then True
      else relations_allow (Relations context) permission)"

definition EffectiveCapabilities :: "Context \<Rightarrow> Capabilities" where
  "EffectiveCapabilities context =
     \<lparr> cap_ReadWorkspace = Allowed context ReadWorkspace,
       cap_ManageWorkspace = Allowed context ManageWorkspace,
       cap_ManageMembers = Allowed context ManageMembers,
       cap_ManageGroups = Allowed context ManageGroups,
       cap_ReadAudit = Allowed context ReadAudit,
       cap_ManageAutomation = Allowed context ManageAutomation,
       cap_EditResources = Allowed context EditResources,
       cap_Deploy = Allowed context Deploy \<rparr>"

section \<open>The policy as a set of grants\<close>

definition installation_permissions :: "Permission set" where
  "installation_permissions = {CreateWorkspace, ManageUsers, ManageAgents, ManageBindings}"

fun grants :: "Relation \<Rightarrow> Permission \<Rightarrow> bool" where
  "grants RelationManager p = True"
| "grants RelationEditor p = (p \<in> {EditResources, Deploy})"
| "grants RelationDeployer p = (p = Deploy)"
| "grants RelationViewer p = (p = ReadWorkspace)"
| "grants (OtherRelation _) p = False"

lemma relations_allow_iff: "relations_allow rs p \<longleftrightarrow> (\<exists>r\<in>set rs. grants r p)"
  by (induction rs) (auto split: Relation.splits)

lemma Allowed_workspace_iff:
  assumes "p \<notin> installation_permissions"
  shows "Allowed c p \<longleftrightarrow>
     \<not> MembershipSuspended c \<and> MembershipRole c \<noteq> '''' \<and>
     (p = ReadWorkspace \<or> MembershipRole c = RoleOwner
      \<or> MembershipRole c = RoleMember \<and> p \<in> {EditResources, Deploy}
      \<or> (\<exists>r\<in>set (Relations c). grants r p))"
  using assms by (auto simp: Allowed_def installation_permissions_def relations_allow_iff)

text \<open>
  The policy as one would state it: a role grants a set of permissions, a relation grants a set of
  permissions, and an active member holds the union. Installation permissions are separate.
\<close>

definition role_grants :: "string \<Rightarrow> Permission set" where
  "role_grants role =
     (if role = RoleOwner then - installation_permissions
      else if role = RoleMember then {ReadWorkspace, EditResources, Deploy}
      else {ReadWorkspace})"

definition policy :: "Context \<Rightarrow> Permission set" where
  "policy c =
     (if InstallationAdministrator c then installation_permissions else {}) \<union>
     (if MembershipSuspended c \<or> MembershipRole c = '''' then {}
      else role_grants (MembershipRole c)
           \<union> (\<Union>r\<in>set (Relations c). {p. grants r p} - installation_permissions))"

section \<open>Properties\<close>

text \<open>
  C20: The early-return chain of \<open>Allowed\<close> implements the declarative policy: a permission is
  allowed exactly if the administrator flag, the membership role or one of the relations grants it.
\<close>

theorem Allowed_refines_policy: "Allowed c p \<longleftrightarrow> p \<in> policy c"
proof (cases "p \<in> installation_permissions")
  case True
  then show ?thesis
    by (auto simp: Allowed_def policy_def role_grants_def installation_permissions_def)
next
  case False
  then have "p \<in> role_grants role \<longleftrightarrow> p = ReadWorkspace \<or> role = RoleOwner
      \<or> role = RoleMember \<and> p \<in> {EditResources, Deploy}" for role
    by (auto simp: role_grants_def installation_permissions_def)
  with False show ?thesis
    by (auto simp: Allowed_workspace_iff policy_def)
qed

text \<open>
  C21: Workspace capabilities do not depend on the administrator flag, on the order or the
  repetition of relations, and only grow with more relations; a suspended member has none, not
  even as owner.
\<close>

theorem EffectiveCapabilities_stable:
  "EffectiveCapabilities (c\<lparr>InstallationAdministrator := b\<rparr>) = EffectiveCapabilities c
   \<and> (set rs = set (Relations c) \<longrightarrow>
        EffectiveCapabilities (c\<lparr>Relations := rs\<rparr>) = EffectiveCapabilities c)
   \<and> (set (Relations c) \<subseteq> set rs \<and> Allowed c p \<longrightarrow> Allowed (c\<lparr>Relations := rs\<rparr>) p)
   \<and> EffectiveCapabilities (c\<lparr>MembershipSuspended := True\<rparr>) =
       \<lparr> cap_ReadWorkspace = False, cap_ManageWorkspace = False, cap_ManageMembers = False,
         cap_ManageGroups = False, cap_ReadAudit = False, cap_ManageAutomation = False,
         cap_EditResources = False, cap_Deploy = False \<rparr>"
  by (auto simp: EffectiveCapabilities_def Allowed_def relations_allow_iff)

theorem EffectiveCapabilities_stable_witness:
  "let c = \<lparr> InstallationAdministrator = False, MembershipRole = RoleViewer,
             MembershipSuspended = False, Relations = [RelationDeployer, RelationViewer] \<rparr> in
   set [RelationViewer, RelationDeployer] = set (Relations c) \<and> Allowed c Deploy
   \<and> EffectiveCapabilities (c\<lparr>Relations := [RelationViewer, RelationDeployer]\<rparr>)
     = EffectiveCapabilities c"
proof -
  let ?c = "\<lparr> InstallationAdministrator = False, MembershipRole = RoleViewer,
             MembershipSuspended = False, Relations = [RelationDeployer, RelationViewer] \<rparr>"
  have "set [RelationViewer, RelationDeployer] = set (Relations ?c)" by auto
  moreover have "Allowed ?c Deploy" by (simp add: Allowed_def)
  ultimately show ?thesis
    using EffectiveCapabilities_stable [where c = ?c and rs = "[RelationViewer, RelationDeployer]"]
    by (simp add: Let_def)
qed

end
