(* ===== verification/Go_Strings.thy ===== *)
theory Go_Strings
  imports Prelude
begin

text \<open>
  The part of Go's \<open>strings\<close>, \<open>unicode\<close> and \<open>unicode/utf8\<close> packages the control plane uses. A Go
  string is a sequence of bytes, here a list of \<open>char\<close>. Functions that Go defines on runes are
  defined on the bytes of their UTF-8 encoding: a white space or control character is
  recognised by its encoding, which cannot occur inside the encoding of another rune because
  it starts with a lead byte.
\<close>

section \<open>Byte level functions\<close>

abbreviation byte_of :: "char \<Rightarrow> nat" where "byte_of \<equiv> of_char"

definition HasPrefix :: "string \<Rightarrow> string \<Rightarrow> bool" where
  "HasPrefix s p \<longleftrightarrow> take (length p) s = p"

definition HasSuffix :: "string \<Rightarrow> string \<Rightarrow> bool" where
  "HasSuffix s p \<longleftrightarrow> length p \<le> length s \<and> drop (length s - length p) s = p"

definition TrimPrefix :: "string \<Rightarrow> string \<Rightarrow> string" where
  "TrimPrefix s p = (if HasPrefix s p then drop (length p) s else s)"

definition TrimSuffix :: "string \<Rightarrow> string \<Rightarrow> string" where
  "TrimSuffix s p = (if HasSuffix s p then take (length s - length p) s else s)"

fun Contains :: "string \<Rightarrow> string \<Rightarrow> bool" where
  "Contains [] p = (p = [])"
| "Contains (c # s) p = (HasPrefix (c # s) p \<or> Contains s p)"

definition ContainsAny :: "string \<Rightarrow> char list \<Rightarrow> bool" where
  "ContainsAny s cs \<longleftrightarrow> list_ex (\<lambda>c. c \<in> set cs) s"

text \<open>\<open>strings.Cut\<close> around a single byte: before, after, and whether the byte was found.\<close>

fun Cut :: "string \<Rightarrow> char \<Rightarrow> string \<times> string \<times> bool" where
  "Cut [] sep = ([], [], False)"
| "Cut (c # s) sep =
     (if c = sep then ([], s, True)
      else (let (before, after, found) = Cut s sep in (c # before, after, found)))"

text \<open>\<open>strings.LastIndexByte\<close>; \<open>None\<close> is Go's \<open>-1\<close>.\<close>

fun LastIndexByte :: "string \<Rightarrow> char \<Rightarrow> nat option" where
  "LastIndexByte [] b = None"
| "LastIndexByte (c # s) b =
     (case LastIndexByte s b of
        Some i \<Rightarrow> Some (Suc i)
      | None \<Rightarrow> if c = b then Some 0 else None)"

text \<open>\<open>strings.Split\<close> around a single byte.\<close>

fun Split :: "string \<Rightarrow> char \<Rightarrow> string list" where
  "Split [] sep = [[]]"
| "Split (c # s) sep =
     (if c = sep then [] # Split s sep
      else (case Split s sep of [] \<Rightarrow> [[c]] | w # ws \<Rightarrow> (c # w) # ws))"

fun Join :: "string list \<Rightarrow> string \<Rightarrow> string" where
  "Join [] sep = []"
| "Join [w] sep = w"
| "Join (w # ws) sep = w @ sep @ Join ws sep"

definition ReplaceByte :: "string \<Rightarrow> char \<Rightarrow> char \<Rightarrow> string" where
  "ReplaceByte s a b = map (\<lambda>c. if c = a then b else c) s"

section \<open>White space\<close>

text \<open>The UTF-8 encodings of the runes for which \<open>unicode.IsSpace\<close> holds.\<close>

definition bytes :: "nat list \<Rightarrow> string" where
  "bytes ns = map char_of ns"

definition ascii_spaces :: "nat list" where
  "ascii_spaces = [9, 10, 11, 12, 13, 32]"

definition wide_spaces :: "nat list list" where
  "wide_spaces =
     [[0xC2, 0x85], [0xC2, 0xA0], [0xE1, 0x9A, 0x80],
      [0xE2, 0x80, 0x80], [0xE2, 0x80, 0x81], [0xE2, 0x80, 0x82], [0xE2, 0x80, 0x83],
      [0xE2, 0x80, 0x84], [0xE2, 0x80, 0x85], [0xE2, 0x80, 0x86], [0xE2, 0x80, 0x87],
      [0xE2, 0x80, 0x88], [0xE2, 0x80, 0x89], [0xE2, 0x80, 0x8A],
      [0xE2, 0x80, 0xA8], [0xE2, 0x80, 0xA9], [0xE2, 0x80, 0xAF], [0xE2, 0x81, 0x9F],
      [0xE3, 0x80, 0x80]]"

definition space_encodings :: "nat list list" where
  "space_encodings = map (\<lambda>n. [n]) ascii_spaces @ wide_spaces"

definition starts_with :: "string \<Rightarrow> nat list \<Rightarrow> bool" where
  "starts_with s e \<longleftrightarrow> take (length e) (map byte_of s) = e"

text \<open>
  The number of bytes of the white space rune at the start of the string, 0 if none; and
  of the one at the end, for a string given in reverse.
\<close>

definition space_width :: "string \<Rightarrow> nat" where
  "space_width s =
     (case find (starts_with s) space_encodings of None \<Rightarrow> 0 | Some e \<Rightarrow> length e)"

definition space_width_back :: "string \<Rightarrow> nat" where
  "space_width_back s =
     (case find (starts_with s) (map rev space_encodings) of None \<Rightarrow> 0 | Some e \<Rightarrow> length e)"

lemma space_encodings_bytes:
  assumes "e \<in> set space_encodings"
  shows "e \<noteq> []" and "hd e \<in> set ascii_spaces \<and> tl e = [] \<or> (\<forall>b\<in>set e. 0x80 \<le> b)"
proof -
  have "list_all (\<lambda>e. e \<noteq> [] \<and> (hd e \<in> set ascii_spaces \<and> tl e = [] \<or> list_all ((\<le>) 0x80) e))
      space_encodings"
    by (simp add: space_encodings_def ascii_spaces_def wide_spaces_def)
  with assms show "e \<noteq> []" and "hd e \<in> set ascii_spaces \<and> tl e = [] \<or> (\<forall>b\<in>set e. 0x80 \<le> b)"
    by (auto simp: list_all_iff)
qed

lemma space_width_pos_iff: "0 < space_width s \<longleftrightarrow> (\<exists>e\<in>set space_encodings. starts_with s e)"
  by (auto simp: space_width_def find_None_iff find_Some_iff space_encodings_bytes(1)
      split: option.splits)

lemma starts_with_Nil: "starts_with [] e \<longleftrightarrow> e = []"
  by (auto simp: starts_with_def)

lemma space_width_Nil [simp]: "space_width [] = 0"
  using space_width_pos_iff [of "[]"] space_encodings_bytes(1) by (auto simp: starts_with_Nil)

lemma space_width_back_Nil [simp]: "space_width_back [] = 0"
proof -
  have "find (starts_with []) (map rev space_encodings) = None"
    using space_encodings_bytes(1) by (auto simp: find_None_iff starts_with_Nil)
  then show ?thesis by (simp add: space_width_back_def)
qed

lemma drop_shorter: "s \<noteq> [] \<Longrightarrow> 0 < n \<Longrightarrow> length (drop n s) < length s"
  by simp

function trim_left :: "string \<Rightarrow> string" where
  "trim_left s = (let n = space_width s in if n = 0 then s else trim_left (drop n s))"
  by pat_completeness auto
termination
proof (relation "measure length")
  fix s :: string and n
  assume "n = space_width s" and "n \<noteq> 0"
  then show "(drop n s, s) \<in> measure length" by (cases s) simp_all
qed simp

function trim_left_back :: "string \<Rightarrow> string" where
  "trim_left_back s =
     (let n = space_width_back s in if n = 0 then s else trim_left_back (drop n s))"
  by pat_completeness auto
termination
proof (relation "measure length")
  fix s :: string and n
  assume "n = space_width_back s" and "n \<noteq> 0"
  then show "(drop n s, s) \<in> measure length" by (cases s) simp_all
qed simp

declare trim_left.simps [simp del] trim_left_back.simps [simp del]

text \<open>\<open>strings.TrimSpace\<close>: the leading, then the trailing white space runes are removed.\<close>

definition TrimSpace :: "string \<Rightarrow> string" where
  "TrimSpace s = rev (trim_left_back (rev (trim_left s)))"

text \<open>\<open>strings.Fields\<close>: the maximal runs of bytes that are not part of a white space rune.\<close>

function fields_from :: "string \<Rightarrow> string \<Rightarrow> string list" where
  "fields_from acc s =
     (case s of
        [] \<Rightarrow> if acc = [] then [] else [rev acc]
      | c # rest \<Rightarrow>
          let n = space_width s in
          if n = 0 then fields_from (c # acc) rest
          else if acc = [] then fields_from [] (drop n s)
          else rev acc # fields_from [] (drop n s))"
  by pat_completeness auto
termination
  by (relation "measure (\<lambda>(acc, s). length s)") simp_all

declare fields_from.simps [simp del]

definition Fields :: "string \<Rightarrow> string list" where
  "Fields s = fields_from [] s"

section \<open>Control characters and rune counting\<close>

text \<open>
  A rune for which \<open>unicode.IsControl\<close> holds (U+0000 to U+001F, U+007F to U+009F) starts at the
  beginning of the string. The tab is reported apart, because hierarchy names admit it.
\<close>

definition control_at :: "string \<Rightarrow> bool" where
  "control_at s =
     (case s of
        [] \<Rightarrow> False
      | c # rest \<Rightarrow>
          byte_of c < 0x20 \<or> byte_of c = 0x7F
          \<or> byte_of c = 0xC2 \<and> (case rest of [] \<Rightarrow> False | d # _ \<Rightarrow> 0x80 \<le> byte_of d \<and> byte_of d \<le> 0x9F))"

fun HasControl :: "string \<Rightarrow> bool" where
  "HasControl [] = False"
| "HasControl (c # s) = (control_at (c # s) \<or> HasControl s)"

fun HasControlExceptTab :: "string \<Rightarrow> bool" where
  "HasControlExceptTab [] = False"
| "HasControlExceptTab (c # s) =
     (control_at (c # s) \<and> byte_of c \<noteq> 9 \<or> HasControlExceptTab s)"

text \<open>
  \<open>utf8.DecodeRuneInString\<close>: the number of bytes of the first rune, with Go's accept ranges
  for the second byte; an ill-formed sequence is one rune of one byte.
\<close>

definition cont :: "nat \<Rightarrow> nat \<Rightarrow> string \<Rightarrow> nat \<Rightarrow> bool" where
  "cont lo hi s i \<longleftrightarrow> i < length s \<and> lo \<le> byte_of (s ! i) \<and> byte_of (s ! i) \<le> hi"

definition second_byte_range :: "nat \<Rightarrow> nat \<times> nat" where
  "second_byte_range b =
     (if b = 0xE0 then (0xA0, 0xBF)
      else if b = 0xED then (0x80, 0x9F)
      else if b = 0xF0 then (0x90, 0xBF)
      else if b = 0xF4 then (0x80, 0x8F)
      else (0x80, 0xBF))"

definition well_formed_width :: "string \<Rightarrow> nat option" where
  "well_formed_width s =
     (case s of
        [] \<Rightarrow> None
      | c # _ \<Rightarrow>
          let b = byte_of c; (lo, hi) = second_byte_range b in
          if b < 0x80 then Some 1
          else if 0xC2 \<le> b \<and> b \<le> 0xDF then (if cont lo hi s 1 then Some 2 else None)
          else if 0xE0 \<le> b \<and> b \<le> 0xEF then
            (if cont lo hi s 1 \<and> cont 0x80 0xBF s 2 then Some 3 else None)
          else if 0xF0 \<le> b \<and> b \<le> 0xF4 then
            (if cont lo hi s 1 \<and> cont 0x80 0xBF s 2 \<and> cont 0x80 0xBF s 3 then Some 4 else None)
          else None)"

definition rune_width :: "string \<Rightarrow> nat" where
  "rune_width s = (case well_formed_width s of Some n \<Rightarrow> n | None \<Rightarrow> 1)"

lemma rune_width_pos: "0 < rune_width s"
proof -
  have "well_formed_width s = Some n \<Longrightarrow> 0 < n" for n
    by (cases s) (simp_all add: well_formed_width_def Let_def case_prod_beta split: if_splits)
  then show ?thesis by (simp add: rune_width_def split: option.splits)
qed

function RuneCount :: "string \<Rightarrow> nat" where
  "RuneCount s = (if s = [] then 0 else Suc (RuneCount (drop (rune_width s) s)))"
  by pat_completeness auto
termination
  by (relation "measure length") (simp_all add: rune_width_pos)

declare RuneCount.simps [simp del]

lemma RuneCount_Nil [simp]: "RuneCount [] = 0"
  by (simp add: RuneCount.simps)

section \<open>Lower case\<close>

definition ascii_lower :: "char \<Rightarrow> char" where
  "ascii_lower c = (if 65 \<le> byte_of c \<and> byte_of c \<le> 90 then char_of (byte_of c + 32) else c)"

definition is_ascii :: "string \<Rightarrow> bool" where
  "is_ascii s \<longleftrightarrow> list_all (\<lambda>c. byte_of c < 0x80) s"

text \<open>The value of the first rune; an ill-formed byte is U+FFFD.\<close>

definition rune_value :: "string \<Rightarrow> nat" where
  "rune_value s =
     (let b = (\<lambda>i. byte_of (s ! i)) in
      case well_formed_width s of
        None \<Rightarrow> 0xFFFD
      | Some n \<Rightarrow>
          if n = 1 then b 0
          else if n = 2 then (b 0 - 0xC0) * 64 + (b 1 - 0x80)
          else if n = 3 then (b 0 - 0xE0) * 4096 + (b 1 - 0x80) * 64 + (b 2 - 0x80)
          else (b 0 - 0xF0) * 262144 + (b 1 - 0x80) * 4096 + (b 2 - 0x80) * 64 + (b 3 - 0x80))"

function runes :: "string \<Rightarrow> nat list" where
  "runes s = (if s = [] then [] else rune_value s # runes (drop (rune_width s) s))"
  by pat_completeness auto
termination
  by (relation "measure length") (simp_all add: rune_width_pos)

declare runes.simps [simp del]

definition encode_rune :: "nat \<Rightarrow> string" where
  "encode_rune r =
     (if r < 0x80 then bytes [r]
      else if r < 0x800 then bytes [0xC0 + r div 64, 0x80 + r mod 64]
      else if r < 0x10000 then bytes [0xE0 + r div 4096, 0x80 + r div 64 mod 64, 0x80 + r mod 64]
      else bytes [0xF0 + r div 262144, 0x80 + r div 4096 mod 64, 0x80 + r div 64 mod 64, 0x80 + r mod 64])"

text \<open>
  \<open>strings.ToLower\<close>. The case mapping of the runes beyond ASCII is a table of the \<open>unicode\<close>
  package; it is the parameter \<open>table\<close>.
\<close>

definition ToLower :: "(nat \<Rightarrow> nat) \<Rightarrow> string \<Rightarrow> string" where
  "ToLower table s =
     (if is_ascii s then map ascii_lower s
      else concat (map (\<lambda>r. encode_rune (if r < 0x80 then byte_of (ascii_lower (char_of r)) else table r))
                       (runes s)))"

lemma ToLower_ascii: "is_ascii s \<Longrightarrow> ToLower table s = map ascii_lower s"
  by (simp add: ToLower_def)

section \<open>Trimming and splitting\<close>

lemma trim_left_width: "space_width (trim_left s) = 0"
  by (induction s rule: trim_left.induct) (subst trim_left.simps, auto simp: Let_def)

lemma trim_left_back_width: "space_width_back (trim_left_back s) = 0"
  by (induction s rule: trim_left_back.induct) (subst trim_left_back.simps, auto simp: Let_def)

lemma trim_left_id: "space_width s = 0 \<Longrightarrow> trim_left s = s"
  by (subst trim_left.simps) simp

lemma trim_left_back_id: "space_width_back s = 0 \<Longrightarrow> trim_left_back s = s"
  by (subst trim_left_back.simps) simp

lemma starts_with_append: "starts_with s e \<Longrightarrow> starts_with (s @ t) e"
  by (auto simp: starts_with_def) (metis length_map min.cobounded2 length_take nat_le_linear take_all take_append append_eq_conv_conj min_def)

lemma space_width_prefix: "space_width (s @ t) = 0 \<Longrightarrow> space_width s = 0"
  using space_width_pos_iff starts_with_append by (metis neq0_conv)

lemma trim_left_back_drop: "\<exists>n. trim_left_back s = drop n s"
proof (induction s rule: trim_left_back.induct)
  case (1 s)
  show ?case
  proof (cases "space_width_back s = 0")
    case True
    then show ?thesis by (metis trim_left_back_id drop_0)
  next
    case False
    with 1 obtain n where "trim_left_back (drop (space_width_back s) s) = drop n (drop (space_width_back s) s)"
      by auto
    with False have "trim_left_back s = drop (n + space_width_back s) s"
      by (subst trim_left_back.simps) (simp add: Let_def)
    then show ?thesis ..
  qed
qed

lemma TrimSpace_prefix: "\<exists>t. trim_left s = TrimSpace s @ t"
proof -
  obtain n where "trim_left_back (rev (trim_left s)) = drop n (rev (trim_left s))"
    using trim_left_back_drop by blast
  then have "TrimSpace s = take (length (trim_left s) - n) (trim_left s)"
    by (simp add: TrimSpace_def rev_drop)
  then show ?thesis by (metis append_take_drop_id)
qed

lemma TrimSpace_trimmed: "space_width (TrimSpace s) = 0" "space_width_back (rev (TrimSpace s)) = 0"
proof -
  show "space_width (TrimSpace s) = 0"
    using TrimSpace_prefix [of s] trim_left_width [of s] space_width_prefix by metis
  show "space_width_back (rev (TrimSpace s)) = 0"
    by (simp add: TrimSpace_def trim_left_back_width)
qed

lemma TrimSpace_idem: "TrimSpace (TrimSpace s) = TrimSpace s"
  using TrimSpace_trimmed [of s]
  by (simp add: TrimSpace_def [of "TrimSpace s"] trim_left_id trim_left_back_id)

text \<open>A word: no white space rune starts in it.\<close>

fun no_space :: "string \<Rightarrow> bool" where
  "no_space [] = True"
| "no_space (c # s) = (space_width (c # s) = 0 \<and> no_space s)"

lemma starts_with_length: "starts_with s e \<Longrightarrow> length e \<le> length s"
  by (metis starts_with_def length_map length_take min.cobounded1)

lemma space_width_ascii_context:
  assumes "space_width v = 0" and "v \<noteq> []" and "t = [] \<or> byte_of (hd t) < 0x80"
  shows "space_width (v @ t) = 0"
proof (rule ccontr)
  assume "space_width (v @ t) \<noteq> 0"
  then obtain e where e: "e \<in> set space_encodings" and st: "starts_with (v @ t) e"
    using space_width_pos_iff by auto
  have "\<not> starts_with v e" using assms(1) e space_width_pos_iff by (metis less_numeral_extra(3))
  then have long: "length v < length e"
    using st by (auto simp: starts_with_def) (metis length_map not_less take_append take_eq_Nil2 append_Nil2 diff_is_0_eq')
  then have "1 < length e" using assms(2) by (cases v) auto
  then have "tl e \<noteq> []" by (metis length_tl list.size(3) less_numeral_extra(3) zero_less_diff)
  with space_encodings_bytes(2) [OF e] have wide: "\<forall>b\<in>set e. 0x80 \<le> b" by blast
  have "t \<noteq> []" using long starts_with_length [OF st] by auto
  have "e ! length v = map byte_of (v @ t) ! length v"
    using st long by (metis starts_with_def nth_take)
  also have "\<dots> = byte_of (hd t)" using \<open>t \<noteq> []\<close> by (simp add: nth_append hd_conv_nth)
  finally have "byte_of (hd t) \<in> set e" using long by (metis nth_mem)
  with wide assms(3) \<open>t \<noteq> []\<close> show False by fastforce
qed

lemma fields_from_word:
  assumes "no_space w" and "t = [] \<or> byte_of (hd t) < 0x80"
  shows "fields_from acc (w @ t) = fields_from (rev w @ acc) t"
  using assms
proof (induction w arbitrary: acc)
  case (Cons c w)
  then have "space_width ((c # w) @ t) = 0"
    by (intro space_width_ascii_context) auto
  then have "fields_from acc ((c # w) @ t) = fields_from (c # acc) (w @ t)"
    by (subst fields_from.simps) simp
  with Cons show ?case by simp
qed simp

lemma space_width_blank: "space_width (CHR '' '' # s) = 1"
  by (simp add: space_width_def space_encodings_def ascii_spaces_def starts_with_def)

lemma Fields_Join:
  assumes "\<forall>w\<in>set ws. w \<noteq> [] \<and> no_space w"
  shows "Fields (Join ws '' '') = ws"
  using assms
proof (induction ws rule: induct_list012)
  case (2 w)
  have "fields_from [] (w @ []) = fields_from (rev w @ []) []"
    using 2 by (intro fields_from_word) auto
  with 2 show ?case by (simp add: Fields_def fields_from.simps)
next
  case (3 w v ws)
  let ?rest = "Join (v # ws) '' ''"
  have "fields_from [] (w @ '' '' @ ?rest) = fields_from (rev w @ []) ('' '' @ ?rest)"
    using 3 by (intro fields_from_word) auto
  also have "\<dots> = w # fields_from [] ?rest"
    using 3 by (subst fields_from.simps) (simp add: space_width_blank)
  finally show ?case using 3 by (simp add: Fields_def)
qed (simp add: Fields_def fields_from.simps)

text \<open>The bytes collected so far contain no white space, also in the context of the rest.\<close>

fun word_before :: "string \<Rightarrow> string \<Rightarrow> bool" where
  "word_before [] s = True"
| "word_before (c # acc) s = (space_width (c # s) = 0 \<and> word_before acc (c # s))"

lemma word_before_no_space: "word_before acc (u @ s) \<Longrightarrow> no_space u \<Longrightarrow> no_space (rev acc @ u)"
proof (induction acc arbitrary: u)
  case (Cons c acc)
  then have "no_space (c # u)"
    using space_width_prefix [of "c # u" s] by simp
  with Cons show ?case using Cons.IH [of "c # u"] by simp
qed simp

lemma fields_from_words:
  assumes "word_before acc s" and "w \<in> set (fields_from acc s)"
  shows "w \<noteq> [] \<and> no_space w"
  using assms
proof (induction acc s rule: fields_from.induct)
  case (1 acc s)
  have acc: "no_space (rev acc)"
    using word_before_no_space [of acc "[]" s] "1.prems"(1) by simp
  show ?case
  proof (cases s)
    case Nil
    with "1.prems"(2) acc show ?thesis by (subst (asm) fields_from.simps) (auto split: if_splits)
  next
    case (Cons c rest)
    consider "space_width s = 0" | "space_width s \<noteq> 0" "acc = []" | "space_width s \<noteq> 0" "acc \<noteq> []"
      by blast
    then show ?thesis
    proof cases
      case 1
      then have "w \<in> set (fields_from (c # acc) rest)"
        using "1.prems"(2) Cons by (subst (asm) fields_from.simps) simp
      moreover have "word_before (c # acc) rest" using "1.prems"(1) 1 Cons by simp
      ultimately show ?thesis using "1.IH"(1) Cons 1 by simp
    next
      case 2
      then have "w \<in> set (fields_from [] (drop (space_width s) s))"
        using "1.prems"(2) Cons by (subst (asm) fields_from.simps) simp
      then show ?thesis using "1.IH"(2) Cons 2 by simp
    next
      case 3
      then have "w = rev acc \<or> w \<in> set (fields_from [] (drop (space_width s) s))"
        using "1.prems"(2) Cons by (subst (asm) fields_from.simps) simp
      then show ?thesis using "1.IH"(3) Cons 3 acc by auto
    qed
  qed
qed

lemma Fields_words: "w \<in> set (Fields s) \<Longrightarrow> w \<noteq> [] \<and> no_space w"
  unfolding Fields_def by (rule fields_from_words [of "[]"]) simp_all

lemma Fields_Join_Fields: "Fields (Join (Fields s) '' '') = Fields s"
  by (rule Fields_Join) (simp add: Fields_words)

end
