(* ===== verification/Go_Regexp.thy ===== *)
theory Go_Regexp
  imports Go_Strings
begin

text \<open>
  The fully anchored patterns (\<open>^\<dots>$\<close>) the source compiles with \<open>regexp.MustCompile\<close>. Matching
  such a pattern is membership of the whole string in the pattern's language; \<open>MatchString\<close>
  decides it with Brzozowski derivatives, so that a witness can evaluate it, and
  \<open>MatchString_lang\<close> shows that it decides the language. The character classes of the source
  are ASCII, so a class of runes is a class of bytes.
\<close>

section \<open>Patterns, their language and their matcher\<close>

datatype regexp =
    Nul
  | Eps
  | Cls "char \<Rightarrow> bool"
  | Seq regexp regexp
  | Alt regexp regexp
  | Star regexp

inductive_set star_lang :: "string set \<Rightarrow> string set" for L where
  star_Nil: "[] \<in> star_lang L"
| star_app: "u \<in> L \<Longrightarrow> v \<in> star_lang L \<Longrightarrow> u @ v \<in> star_lang L"

primrec lang :: "regexp \<Rightarrow> string set" where
  "lang Nul = {}"
| "lang Eps = {[]}"
| "lang (Cls p) = {[c] | c. p c}"
| "lang (Seq r s) = {u @ v | u v. u \<in> lang r \<and> v \<in> lang s}"
| "lang (Alt r s) = lang r \<union> lang s"
| "lang (Star r) = star_lang (lang r)"

primrec nullable :: "regexp \<Rightarrow> bool" where
  "nullable Nul = False"
| "nullable Eps = True"
| "nullable (Cls p) = False"
| "nullable (Seq r s) = (nullable r \<and> nullable s)"
| "nullable (Alt r s) = (nullable r \<or> nullable s)"
| "nullable (Star r) = True"

text \<open>Constructors that absorb \<open>Nul\<close> and \<open>Eps\<close>, so that derivatives stay small.\<close>

fun mk_seq :: "regexp \<Rightarrow> regexp \<Rightarrow> regexp" where
  "mk_seq Nul s = Nul"
| "mk_seq Eps s = s"
| "mk_seq r s = Seq r s"

fun mk_alt :: "regexp \<Rightarrow> regexp \<Rightarrow> regexp" where
  "mk_alt Nul s = s"
| "mk_alt r Nul = r"
| "mk_alt r s = Alt r s"

primrec deriv :: "char \<Rightarrow> regexp \<Rightarrow> regexp" where
  "deriv c Nul = Nul"
| "deriv c Eps = Nul"
| "deriv c (Cls p) = (if p c then Eps else Nul)"
| "deriv c (Seq r s) =
     (if nullable r then mk_alt (mk_seq (deriv c r) s) (deriv c s)
      else mk_seq (deriv c r) s)"
| "deriv c (Alt r s) = mk_alt (deriv c r) (deriv c s)"
| "deriv c (Star r) = mk_seq (deriv c r) (Star r)"

fun MatchString :: "regexp \<Rightarrow> string \<Rightarrow> bool" where
  "MatchString r [] = nullable r"
| "MatchString r (c # s) = MatchString (deriv c r) s"

section \<open>The matcher decides the language\<close>

lemma lang_mk_seq [simp]: "lang (mk_seq r s) = lang (Seq r s)"
  by (cases r) auto

lemma lang_mk_alt [simp]: "lang (mk_alt r s) = lang (Alt r s)"
  by (cases "(r, s)" rule: mk_alt.cases) auto

lemma nullable_lang: "nullable r \<longleftrightarrow> [] \<in> lang r"
  by (induction r) (auto intro: star_Nil)

lemma star_lang_Cons:
  "c # s \<in> star_lang L \<longleftrightarrow> (\<exists>u v. s = u @ v \<and> c # u \<in> L \<and> v \<in> star_lang L)"
proof
  have "w \<in> star_lang L \<Longrightarrow> w = c # s \<Longrightarrow>
          \<exists>u v. s = u @ v \<and> c # u \<in> L \<and> v \<in> star_lang L" for w
  proof (induction rule: star_lang.induct)
    case (star_app u v)
    then show ?case by (cases u) auto
  qed simp
  then show "c # s \<in> star_lang L \<Longrightarrow> \<exists>u v. s = u @ v \<and> c # u \<in> L \<and> v \<in> star_lang L"
    by blast
next
  assume "\<exists>u v. s = u @ v \<and> c # u \<in> L \<and> v \<in> star_lang L"
  then obtain u v where "s = u @ v" "c # u \<in> L" "v \<in> star_lang L" by blast
  then show "c # s \<in> star_lang L" using star_app [of "c # u" L v] by simp
qed

lemma deriv_lang: "s \<in> lang (deriv c r) \<longleftrightarrow> c # s \<in> lang r"
proof (induction r arbitrary: s)
  case (Seq r1 r2)
  have "c # s \<in> lang (Seq r1 r2) \<longleftrightarrow>
      (\<exists>u v. s = u @ v \<and> c # u \<in> lang r1 \<and> v \<in> lang r2) \<or> [] \<in> lang r1 \<and> c # s \<in> lang r2"
    by (auto simp: Cons_eq_append_conv)
  then show ?case using Seq by (auto simp: nullable_lang)
next
  case (Star r)
  then show ?case by (auto simp: star_lang_Cons)
qed auto

theorem MatchString_lang: "MatchString r s \<longleftrightarrow> s \<in> lang r"
  by (induction s arbitrary: r) (auto simp: nullable_lang deriv_lang)

declare MatchString.simps [simp del]

section \<open>Pattern combinators\<close>

definition Opt :: "regexp \<Rightarrow> regexp" where
  "Opt r = Alt r Eps"

fun Rep :: "nat \<Rightarrow> regexp \<Rightarrow> regexp" where
  "Rep 0 r = Eps"
| "Rep (Suc n) r = Seq r (Rep n r)"

text \<open>\<open>r{0,n}\<close>\<close>

fun RepMax :: "nat \<Rightarrow> regexp \<Rightarrow> regexp" where
  "RepMax 0 r = Eps"
| "RepMax (Suc n) r = Opt (Seq r (RepMax n r))"

definition RepRange :: "nat \<Rightarrow> nat \<Rightarrow> regexp \<Rightarrow> regexp" where
  "RepRange m n r = Seq (Rep m r) (RepMax (n - m) r)"

fun Lit :: "string \<Rightarrow> regexp" where
  "Lit [] = Eps"
| "Lit (c # s) = Seq (Cls (\<lambda>d. d = c)) (Lit s)"

lemma lang_Opt: "s \<in> lang (Opt r) \<longleftrightarrow> s = [] \<or> s \<in> lang r"
  by (auto simp: Opt_def)

lemma lang_Seq_Cls:
  "s \<in> lang (Seq (Cls p) r) \<longleftrightarrow> (\<exists>c t. s = c # t \<and> p c \<and> t \<in> lang r)"
  by (auto, metis append_Cons append_Nil)

lemma lang_Star_Cls: "s \<in> lang (Star (Cls p)) \<longleftrightarrow> list_all p s"
proof (induction s)
  case Nil
  show ?case by (simp add: star_Nil)
next
  case (Cons c s)
  then show ?case by (auto simp: star_lang_Cons)
qed

lemma lang_Lit [simp]: "lang (Lit s) = {s}"
  by (induction s) auto

lemma lang_Rep_Cls: "s \<in> lang (Rep n (Cls p)) \<longleftrightarrow> length s = n \<and> list_all p s"
proof (induction n arbitrary: s)
  case (Suc n)
  have "s \<in> lang (Rep (Suc n) (Cls p)) \<longleftrightarrow>
      (\<exists>c t. s = c # t \<and> p c \<and> length t = n \<and> list_all p t)"
    using Suc lang_Seq_Cls [of s p "Rep n (Cls p)"] by simp
  then show ?case by (cases s) auto
qed auto

lemma lang_RepMax_Cls: "s \<in> lang (RepMax n (Cls p)) \<longleftrightarrow> length s \<le> n \<and> list_all p s"
proof (induction n arbitrary: s)
  case (Suc n)
  have "s \<in> lang (RepMax (Suc n) (Cls p)) \<longleftrightarrow>
      s = [] \<or> (\<exists>c t. s = c # t \<and> p c \<and> length t \<le> n \<and> list_all p t)"
    using Suc lang_Seq_Cls [of s p "RepMax n (Cls p)"] by (simp add: lang_Opt)
  then show ?case by (cases s) auto
qed auto

lemma lang_Seq_Lit: "s \<in> lang (Seq (Lit w) r) \<longleftrightarrow> (\<exists>t. s = w @ t \<and> t \<in> lang r)"
  by auto

lemma lang_RepRange_Cls:
  assumes "m \<le> n"
  shows "s \<in> lang (RepRange m n (Cls p)) \<longleftrightarrow> m \<le> length s \<and> length s \<le> n \<and> list_all p s"
proof
  assume "s \<in> lang (RepRange m n (Cls p))"
  then obtain u v where "s = u @ v" "u \<in> lang (Rep m (Cls p))" "v \<in> lang (RepMax (n - m) (Cls p))"
    by (auto simp: RepRange_def)
  with assms show "m \<le> length s \<and> length s \<le> n \<and> list_all p s"
    by (auto simp: lang_Rep_Cls lang_RepMax_Cls)
next
  assume s: "m \<le> length s \<and> length s \<le> n \<and> list_all p s"
  then have "take m s \<in> lang (Rep m (Cls p))" "drop m s \<in> lang (RepMax (n - m) (Cls p))"
    by (auto simp: lang_Rep_Cls lang_RepMax_Cls list_all_iff dest: in_set_takeD in_set_dropD)
  then have "take m s @ drop m s \<in> lang (RepRange m n (Cls p))"
    unfolding RepRange_def by (simp del: append_take_drop_id) blast
  then show "s \<in> lang (RepRange m n (Cls p))" by simp
qed

text \<open>
  The shape of the label patterns: a first and a last character of one class around inner
  characters of a wider class, the group after the first character being optional.
\<close>

lemma lang_label_tail:
  assumes "\<And>c. p c \<Longrightarrow> q c"
  shows "t \<in> lang (Opt (Seq (Star (Cls q)) (Cls p))) \<longleftrightarrow> t = [] \<or> list_all q t \<and> p (last t)"
proof
  assume "t \<in> lang (Opt (Seq (Star (Cls q)) (Cls p)))"
  then show "t = [] \<or> list_all q t \<and> p (last t)"
    using lang_Star_Cls assms by (auto simp: lang_Opt)
next
  assume t: "t = [] \<or> list_all q t \<and> p (last t)"
  show "t \<in> lang (Opt (Seq (Star (Cls q)) (Cls p)))"
  proof (cases "t = []")
    case False
    with t have "list_all q (butlast t)" "p (last t)"
      by (auto simp: list_all_iff dest: in_set_butlastD)
    then have "butlast t @ [last t] \<in> lang (Seq (Star (Cls q)) (Cls p))"
      using lang_Star_Cls [of "butlast t" q] by auto
    with False show ?thesis by (simp add: lang_Opt)
  qed (simp add: lang_Opt)
qed

section \<open>Character classes\<close>

definition in_range :: "char \<Rightarrow> char \<Rightarrow> char \<Rightarrow> bool" where
  "in_range lo hi c \<longleftrightarrow> byte_of lo \<le> byte_of c \<and> byte_of c \<le> byte_of hi"

abbreviation lower :: "char \<Rightarrow> bool" where "lower \<equiv> in_range CHR ''a'' CHR ''z''"
abbreviation upper :: "char \<Rightarrow> bool" where "upper \<equiv> in_range CHR ''A'' CHR ''Z''"
abbreviation digit :: "char \<Rightarrow> bool" where "digit \<equiv> in_range CHR ''0'' CHR ''9''"

definition lower_digit :: "char \<Rightarrow> bool" where
  "lower_digit c \<longleftrightarrow> lower c \<or> digit c"

definition hex_digit :: "char \<Rightarrow> bool" where
  "hex_digit c \<longleftrightarrow> in_range CHR ''a'' CHR ''f'' c \<or> digit c"

definition label_char :: "char \<Rightarrow> bool" where
  "label_char c \<longleftrightarrow> c = CHR ''-'' \<or> lower_digit c"

definition base32_char :: "char \<Rightarrow> bool" where
  "base32_char c \<longleftrightarrow> lower c \<or> in_range CHR ''2'' CHR ''7'' c"

lemma lower_digit_label_char: "lower_digit c \<Longrightarrow> label_char c"
  by (simp add: label_char_def)

text \<open>The label pattern \<open>^[a-z0-9](?:[-a-z0-9]*[a-z0-9])?$\<close>, used by several packages.\<close>

definition label_pattern :: regexp where
  "label_pattern =
     Seq (Cls lower_digit) (Opt (Seq (Star (Cls label_char)) (Cls lower_digit)))"

lemma label_pattern_iff:
  "MatchString label_pattern s \<longleftrightarrow>
     s \<noteq> [] \<and> lower_digit (hd s) \<and> lower_digit (last s) \<and> list_all label_char s"
proof -
  have "s \<in> lang label_pattern \<longleftrightarrow>
      (\<exists>c t. s = c # t \<and> lower_digit c \<and> (t = [] \<or> list_all label_char t \<and> lower_digit (last t)))"
    unfolding label_pattern_def lang_Seq_Cls
    by (simp only: lang_label_tail [OF lower_digit_label_char])
  then show ?thesis
    by (cases s) (auto simp: MatchString_lang lower_digit_label_char)
qed

end
