(* ===== verification/Go_Encoding.thy ===== *)
theory Go_Encoding
  imports Go_Regexp
begin

text \<open>
  \<open>encoding/base32\<close>, \<open>encoding/base64\<close> and \<open>encoding/binary\<close> as far as public identifiers,
  cursors and password hashes use them: the unpadded encodings, the lenient decoder of Go
  (it skips carriage returns and line feeds and ignores the unused bits of the last
  character), and the big endian layout of a 64-bit integer.
\<close>

section \<open>Bits\<close>

fun bits_of_char :: "char \<Rightarrow> bool list" where
  "bits_of_char (Char b0 b1 b2 b3 b4 b5 b6 b7) = [b7, b6, b5, b4, b3, b2, b1, b0]"

definition char_of_bits :: "bool list \<Rightarrow> char" where
  "char_of_bits bs = Char (bs ! 7) (bs ! 6) (bs ! 5) (bs ! 4) (bs ! 3) (bs ! 2) (bs ! 1) (bs ! 0)"

definition bits_of_string :: "string \<Rightarrow> bool list" where
  "bits_of_string s = concat (map bits_of_char s)"

fun bits_val :: "bool list \<Rightarrow> nat" where
  "bits_val [] = 0"
| "bits_val (b # bs) = (if b then 2 ^ length bs else 0) + bits_val bs"

fun val_bits :: "nat \<Rightarrow> nat \<Rightarrow> bool list" where
  "val_bits 0 n = []"
| "val_bits (Suc k) n = (n div 2 ^ k mod 2 = 1) # val_bits k n"

text \<open>Groups of \<open>k\<close> bits, the last one filled up with zeros.\<close>

function chunks :: "nat \<Rightarrow> bool list \<Rightarrow> bool list list" where
  "chunks k bs =
     (if bs = [] \<or> k = 0 then []
      else if length bs \<le> k then [bs @ replicate (k - length bs) False]
      else take k bs # chunks k (drop k bs))"
  by pat_completeness auto
termination
  by (relation "measure (\<lambda>(k, bs). length bs)") auto

declare chunks.simps [simp del]

lemma length_bits_of_char [simp]: "length (bits_of_char c) = 8"
  by (cases c) simp

lemma char_of_bits_of_char: "char_of_bits (bits_of_char c) = c"
  by (cases c) (simp add: char_of_bits_def numeral_eq_Suc)

lemma length_bits_of_string [simp]: "length (bits_of_string s) = 8 * length s"
  by (induction s) (simp_all add: bits_of_string_def)

lemma bits_val_less: "bits_val bs < 2 ^ length bs"
  by (induction bs) auto

lemma length_val_bits [simp]: "length (val_bits k n) = k"
  by (induction k) simp_all

lemma val_bits_mod: "k \<le> j \<Longrightarrow> val_bits k (n + m * 2 ^ j) = val_bits k n"
proof (induction k)
  case (Suc k)
  have "(2::nat) ^ j = 2 ^ k * (2 * 2 ^ (j - Suc k))"
    using Suc.prems by (simp flip: power_Suc power_add)
  then have "n + m * 2 ^ j = n + (m * 2 ^ (j - Suc k) * 2) * 2 ^ k"
    by simp
  then have "(n + m * 2 ^ j) div 2 ^ k = n div 2 ^ k + m * 2 ^ (j - Suc k) * 2"
    by (simp only: div_mult_self1 power_not_zero zero_neq_numeral not_False_eq_True)
  then have "(n + m * 2 ^ j) div 2 ^ k mod 2 = n div 2 ^ k mod 2"
    by simp
  with Suc show ?case by simp
qed simp

lemma val_bits_val: "val_bits (length bs) (bits_val bs) = bs"
proof (induction bs)
  case (Cons b bs)
  have "bits_val (b # bs) div 2 ^ length bs = (if b then 1 else 0)"
    using bits_val_less [of bs] by (cases b) (simp_all add: div_add_self1)
  moreover have "val_bits (length bs) (bits_val (b # bs)) = val_bits (length bs) (bits_val bs)"
    using val_bits_mod [of "length bs" "length bs" "bits_val bs" 1] by (cases b) (simp_all add: add.commute)
  ultimately show ?case using Cons by (cases b) simp_all
qed simp

lemma chunks_Nil [simp]: "chunks k [] = []"
  by (subst chunks.simps) simp

lemma chunks_last:
  "0 < k \<Longrightarrow> bs \<noteq> [] \<Longrightarrow> length bs \<le> k \<Longrightarrow>
     chunks k bs = [bs @ replicate (k - length bs) False]"
  by (subst chunks.simps) simp

lemma chunks_zero [simp]: "chunks 0 bs = []"
  by (subst chunks.simps) simp

lemma chunks_more:
  "0 < k \<Longrightarrow> k < length bs \<Longrightarrow> chunks k bs = take k bs # chunks k (drop k bs)"
  by (subst chunks.simps) (cases bs, simp_all)

lemma chunks_cases [consumes 1, case_names Nil Last More]:
  assumes "0 < k" and "bs = [] \<Longrightarrow> P" and "bs \<noteq> [] \<Longrightarrow> length bs \<le> k \<Longrightarrow> P"
    and "k < length bs \<Longrightarrow> bs \<noteq> [] \<Longrightarrow> P"
  shows P
  using assms by (cases "bs = []"; cases "length bs \<le> k") auto

lemma chunk_length:
  shows "ch \<in> set (chunks k bs) \<Longrightarrow> length ch = k"
proof (induction k bs rule: chunks.induct)
  case (1 k bs)
  show ?case
  proof (cases "bs = [] \<or> k = 0 \<or> length bs \<le> k")
    case True
    with "1.prems" show ?thesis
      by (cases "bs = []"; cases "k = 0") (simp_all add: chunks_last chunks_zero)
  next
    case False
    with "1.prems" have "ch = take k bs \<or> ch \<in> set (chunks k (drop k bs))"
      by (simp add: chunks_more)
    with False "1.IH" show ?thesis by auto
  qed
qed

lemma round_up_div:
  assumes "0 < k" and "0 < n"
  shows "(n + k - 1) div k = Suc ((n - 1) div (k::nat))"
proof -
  have "n + k - 1 = (n - 1) + k" using assms by simp
  then show ?thesis using assms(1) by (metis div_add_self2 Suc_eq_plus1 less_numeral_extra(3))
qed

lemma length_chunks:
  assumes "0 < k"
  shows "length (chunks k bs) = (length bs + k - 1) div k"
  using assms
proof (induction k bs rule: chunks.induct)
  case (1 k bs)
  from \<open>0 < k\<close> show ?case
  proof (cases rule: chunks_cases [of k bs])
    case Nil
    with \<open>0 < k\<close> show ?thesis by simp
  next
    case Last
    then have "(length bs + k - 1) div k = Suc 0"
      using \<open>0 < k\<close> by (subst round_up_div) auto
    then show ?thesis using Last \<open>0 < k\<close> by (simp add: chunks_last)
  next
    case More
    then have "length (chunks k (drop k bs)) = (length (drop k bs) + k - 1) div k"
      using "1.IH" \<open>0 < k\<close> by simp
    also have "length (drop k bs) + k - 1 = length bs - 1" using More by simp
    finally have "length (chunks k bs) = Suc ((length bs - 1) div k)"
      using More \<open>0 < k\<close> by (simp only: chunks_more list.size)
    then show ?thesis using More \<open>0 < k\<close> by (subst round_up_div) auto
  qed
qed

lemma concat_chunks:
  assumes "0 < k"
  shows "\<exists>n. concat (chunks k bs) = bs @ replicate n False \<and> n < k"
  using assms
proof (induction k bs rule: chunks.induct)
  case (1 k bs)
  from \<open>0 < k\<close> show ?case
  proof (cases rule: chunks_cases [of k bs])
    case Nil
    with \<open>0 < k\<close> show ?thesis by simp
  next
    case Last
    then have "k - length bs < k" using \<open>0 < k\<close> by simp
    with Last \<open>0 < k\<close> show ?thesis by (auto simp: chunks_last)
  next
    case More
    then obtain n where "concat (chunks k (drop k bs)) = drop k bs @ replicate n False" "n < k"
      using "1.IH" \<open>0 < k\<close> by auto
    then have "concat (chunks k bs) = (take k bs @ drop k bs) @ replicate n False"
      using More \<open>0 < k\<close> by (simp add: chunks_more del: append_take_drop_id)
    with \<open>n < k\<close> show ?thesis by auto
  qed
qed

section \<open>Encoding with an alphabet\<close>

definition encode_alphabet :: "nat \<Rightarrow> string \<Rightarrow> string \<Rightarrow> string" where
  "encode_alphabet k alphabet s =
     map (\<lambda>ch. alphabet ! bits_val ch) (chunks k (bits_of_string s))"

definition base32_std :: string where
  "base32_std = ''ABCDEFGHIJKLMNOPQRSTUVWXYZ234567''"

definition base64_url :: string where
  "base64_url = ''ABCDEFGHIJKLMNOPQRSTUVWXYZabcdefghijklmnopqrstuvwxyz0123456789-_''"

definition base64_std :: string where
  "base64_std = ''ABCDEFGHIJKLMNOPQRSTUVWXYZabcdefghijklmnopqrstuvwxyz0123456789+/''"

fun index_of :: "char \<Rightarrow> string \<Rightarrow> nat option" where
  "index_of c [] = None"
| "index_of c (d # s) = (if c = d then Some 0 else map_option Suc (index_of c s))"

fun bytes_of_bits :: "bool list \<Rightarrow> string" where
  "bytes_of_bits (a # b # c # d # e # f # g # h # rest) =
     char_of_bits [a, b, c, d, e, f, g, h] # bytes_of_bits rest"
| "bytes_of_bits _ = []"

fun lookup_all :: "string \<Rightarrow> string \<Rightarrow> nat list option" where
  "lookup_all alphabet [] = Some []"
| "lookup_all alphabet (c # s) =
     (case index_of c alphabet of
        None \<Rightarrow> None
      | Some n \<Rightarrow> map_option ((#) n) (lookup_all alphabet s))"

text \<open>\<open>base64.Encoding.DecodeString\<close> for an encoding without padding.\<close>

definition decode64 :: "string \<Rightarrow> string \<Rightarrow> string option" where
  "decode64 alphabet s =
     (let t = filter (\<lambda>c. byte_of c \<noteq> 10 \<and> byte_of c \<noteq> 13) s in
      case lookup_all alphabet t of
        None \<Rightarrow> None
      | Some ns \<Rightarrow>
          if length t mod 4 = 1 then None
          else Some (bytes_of_bits (concat (map (val_bits 6) ns))))"

lemma index_of_nth:
  "distinct xs \<Longrightarrow> i < length xs \<Longrightarrow> index_of (xs ! i) xs = Some i"
proof (induction xs arbitrary: i)
  case (Cons x xs)
  then show ?case by (cases i) auto
qed simp

lemma lookup_all_encode:
  assumes "distinct alphabet" and "\<forall>n\<in>set ns. n < length alphabet"
  shows "lookup_all alphabet (map ((!) alphabet) ns) = Some ns"
  using assms by (induction ns) (simp_all add: index_of_nth)

lemma bytes_of_bits_of_string:
  "length pad < 8 \<Longrightarrow> bytes_of_bits (bits_of_string s @ pad) = s"
proof (induction s)
  case Nil
  then show ?case
    by (cases pad rule: bytes_of_bits.cases) (simp_all add: bits_of_string_def)
next
  case (Cons c s)
  obtain a b d e f g h i where bs: "bits_of_char c = [a, b, d, e, f, g, h, i]"
    by (cases c) simp
  then have "char_of_bits [a, b, d, e, f, g, h, i] = c"
    by (metis char_of_bits_of_char)
  with Cons bs show ?case by (simp add: bits_of_string_def)
qed

lemma distinct_base64: "distinct base64_url" "distinct base64_std"
  by (simp_all add: base64_url_def base64_std_def)

lemma length_base64 [simp]: "length base64_url = 64" "length base64_std = 64"
  by (simp_all add: base64_url_def base64_std_def)

lemma base64_no_newline:
  "\<forall>c\<in>set base64_url. byte_of c \<noteq> 10 \<and> byte_of c \<noteq> 13"
  "\<forall>c\<in>set base64_std. byte_of c \<noteq> 10 \<and> byte_of c \<noteq> 13"
  by (simp_all add: base64_url_def base64_std_def)

lemma quantum_length: "((8 * n + 5) div 6) mod 4 \<noteq> (1::nat)"
proof -
  define q r where "q = n div 3" and "r = n mod 3"
  have n: "8 * n + 5 = 6 * (4 * q) + (8 * r + 5)" unfolding q_def r_def by presburger
  have "(8 * n + 5) div 6 = 4 * q + (8 * r + 5) div 6" unfolding n by simp
  moreover have "r = 0 \<or> r = 1 \<or> r = 2" unfolding r_def by presburger
  ultimately show ?thesis by auto
qed

lemma decode64_encode:
  assumes "distinct alphabet" and "length alphabet = 64"
    and "\<forall>c\<in>set alphabet. byte_of c \<noteq> 10 \<and> byte_of c \<noteq> 13"
  shows "decode64 alphabet (encode_alphabet 6 alphabet s) = Some s"
proof -
  let ?cs = "chunks 6 (bits_of_string s)"
  let ?ns = "map bits_val ?cs"
  have enc: "encode_alphabet 6 alphabet s = map ((!) alphabet) ?ns"
    by (simp add: encode_alphabet_def)
  have len6: "\<forall>ch\<in>set ?cs. length ch = 6"
    using chunk_length by blast
  have bound: "\<forall>n\<in>set ?ns. n < length alphabet"
  proof
    fix n
    assume "n \<in> set ?ns"
    then obtain ch where "ch \<in> set ?cs" and "n = bits_val ch" by auto
    with len6 have "n < 2 ^ 6" using bits_val_less [of ch] by simp
    then show "n < length alphabet" using assms(2) by simp
  qed
  then have clean: "filter (\<lambda>c. byte_of c \<noteq> 10 \<and> byte_of c \<noteq> 13) (encode_alphabet 6 alphabet s)
      = encode_alphabet 6 alphabet s"
    unfolding enc using assms(3) by (intro filter_True) simp
  have "map (val_bits 6) ?ns = ?cs"
  proof -
    have "\<forall>ch\<in>set ?cs. val_bits 6 (bits_val ch) = ch"
      using len6 val_bits_val by metis
    then show ?thesis by (simp add: map_idI)
  qed
  moreover obtain n where "concat ?cs = bits_of_string s @ replicate n False" "n < 6"
    using concat_chunks [of 6 "bits_of_string s"] by auto
  ultimately have dec: "bytes_of_bits (concat (map (val_bits 6) ?ns)) = s"
    using bytes_of_bits_of_string [of "replicate n False" s] by simp
  have "length (encode_alphabet 6 alphabet s) = (8 * length s + 5) div 6"
    by (simp add: enc length_chunks)
  then have "length (encode_alphabet 6 alphabet s) mod 4 \<noteq> 1"
    by (metis quantum_length)
  with dec show ?thesis
    unfolding decode64_def clean Let_def
    using lookup_all_encode [OF assms(1) bound] by (simp add: enc)
qed

section \<open>Big endian integers\<close>

unbundle bit_operations_syntax

text \<open>\<open>binary.BigEndian.PutUint64\<close> and \<open>Uint64\<close>.\<close>

definition PutUint64 :: "64 word \<Rightarrow> string" where
  "PutUint64 v = map (\<lambda>i. char_of (unat (drop_bit (8 * i) v))) [7, 6, 5, 4, 3, 2, 1, 0]"

definition Uint64 :: "string \<Rightarrow> 64 word" where
  "Uint64 b = foldl (\<lambda>acc c. push_bit 8 acc OR of_nat (byte_of c)) 0 b"

lemma length_PutUint64 [simp]: "length (PutUint64 v) = 8"
  by (simp add: PutUint64_def)

lemma word_of_nat_byte:
  fixes w :: "64 word"
  shows "word_of_nat (unat w mod 256) = take_bit 8 w"
proof -
  have "word_of_nat (take_bit 8 (unat w)) = take_bit 8 (word_of_nat (unat w) :: 64 word)"
    by (simp only: take_bit_of_nat)
  then show ?thesis by (simp add: take_bit_eq_mod)
qed

lemma byte_step:
  fixes v :: "64 word"
  shows "push_bit 8 (drop_bit (n + 8) v) OR of_nat (byte_of (char_of (unat (drop_bit n v)) :: char))
    = drop_bit n v"
proof -
  have "push_bit 8 (drop_bit (n + 8) v) OR take_bit 8 (drop_bit n v) = drop_bit n v"
    by (rule bit_eqI) (auto simp: bit_simps add.commute add.left_commute)
  then show ?thesis by (simp add: word_of_nat_byte)
qed

lemma Uint64_PutUint64: "Uint64 (PutUint64 v) = v"
proof -
  have top: "drop_bit 64 v = 0"
    by (rule bit_eqI) (auto simp: bit_simps dest: bit_imp_le_length)
  have "Uint64 (PutUint64 v) =
      foldl (\<lambda>acc i. push_bit 8 acc OR of_nat (byte_of (char_of (unat (drop_bit (8 * i) v)) :: char)))
        (drop_bit 64 v) [7, 6, 5, 4, 3, 2, 1, 0]"
    unfolding Uint64_def PutUint64_def top by simp
  also have "\<dots> = drop_bit 0 v"
    using byte_step [of 56 v] byte_step [of 48 v] byte_step [of 40 v] byte_step [of 32 v]
      byte_step [of 24 v] byte_step [of 16 v] byte_step [of 8 v] byte_step [of 0 v]
    by (simp del: of_char_of)
  finally show ?thesis by simp
qed

end
