(* ===== verification/Domain_Types.thy ===== *)
theory Domain_Types
  imports Prelude
begin

text \<open>
  The data of \<open>services/control-plane-api/internal/domain\<close> that the modelled operations use: each
  struct is a record with the fields of the source in their order, the field names prefixed
  with an abbreviation of the struct. Identifiers and counters (\<open>int64\<close>, \<open>int32\<close>) are integers,
  a pointer is an option, \<open>[]byte\<close> is a string, and the slices of a configuration are optional
  lists because normalisation distinguishes \<open>nil\<close> from an empty slice. String fields whose
  values the schema restricts to a list are datatypes with the constants of the source as
  constructors; an \<open>Other\<close> constructor stands for every other string where Go code has a branch
  for it. A status the source reads through \<open>COALESCE(\<dots>,'')\<close> is an option, \<open>None\<close> being the
  empty string.
\<close>

section \<open>Constants\<close>

datatype OperationStatus = OperationPending | OperationRunning | OperationSucceeded | OperationFailed

datatype OperationKind =
    OperationEnsureWorkspace | OperationApplyDeployment | OperationDeleteAppEnv
  | OperationEnsureVolume | OperationExpandVolume | OperationDeleteVolume
  | OtherOperationKind string

datatype BuildStatus = BuildPending | BuildRunning | BuildSucceeded | BuildFailed
  | BuildSuperseded | BuildTimedOut

datatype DeliveryStatus = DeliveryPending | DeliveryRunning | DeliverySucceeded
  | DeliveryIgnored | DeliveryFailed

datatype TargetStatus = TargetBuilding | TargetDeployPending | TargetDeploying
  | TargetSucceeded | TargetFailed | TargetSuperseded

datatype RuntimeState = StatePending | StateProgressing | StateReady | StateDegraded | StateUnknown

abbreviation ExposurePublic :: string where "ExposurePublic \<equiv> ''Public''"
abbreviation PortProtocolTCP :: string where "PortProtocolTCP \<equiv> ''TCP''"
abbreviation ProbeHTTP :: string where "ProbeHTTP \<equiv> ''HTTP''"
abbreviation ProbeTCP :: string where "ProbeTCP \<equiv> ''TCP''"
abbreviation EndpointHTTP :: string where "EndpointHTTP \<equiv> ''HTTP''"
abbreviation EndpointTCP :: string where "EndpointTCP \<equiv> ''TCP''"
abbreviation ParameterPlainText :: string where "ParameterPlainText \<equiv> ''PlainText''"
abbreviation ParameterSecret :: string where "ParameterSecret \<equiv> ''Secret''"
abbreviation WorkloadStateless :: string where "WorkloadStateless \<equiv> ''Stateless''"
abbreviation WorkloadStateful :: string where "WorkloadStateful \<equiv> ''Stateful''"
abbreviation VolumeDesiredReady :: string where "VolumeDesiredReady \<equiv> ''Ready''"
abbreviation VolumeDesiredDeleted :: string where "VolumeDesiredDeleted \<equiv> ''Deleted''"

section \<open>Records\<close>

record ActorReference =
  act_ID :: string
  act_Kind :: string
  act_DisplayName :: string

record VolumeRequest =
  vr_StorageProfileID :: string
  vr_SizeGiB :: int
  vr_MountPath :: string

record AppVolume =
  av_ID :: int
  av_PublicID :: string
  av_WorkspaceID :: int
  av_AppEnvironmentID :: int
  av_AppEnvironmentPublicID :: string
  av_StorageProfileID :: string
  av_RuntimeStorageClass :: string
  av_StorageBindingVersion :: int
  av_SizeGiB :: int
  av_MountPath :: string
  av_RetentionPolicy :: string
  av_DesiredState :: string
  av_State :: string
  av_Message :: string
  av_Attached :: bool
  av_Version :: int
  av_CreatedAt :: time
  av_UpdatedAt :: time
  av_DeletionRequestedAt :: "time option"

record ResourceValues =
  rv_CPUMillis :: int
  rv_MemoryMiB :: int

record Resources =
  rs_Requests :: ResourceValues
  rs_Limits :: ResourceValues

record Probe =
  pr_Type :: string
  pr_PortName :: string
  pr_Path :: string

record Probes =
  prs_Startup :: Probe
  prs_Liveness :: Probe
  prs_Readiness :: Probe

record RuntimePort =
  rp_Name :: string
  rp_ContainerPort :: int
  rp_Protocol :: string

record PublicEndpoint =
  pe_Name :: string
  pe_Type :: string
  pe_PortName :: string
  pe_DomainID :: string
  pe_HostnameLabel :: string
  pe_ExternalPort :: int
  pe_Hostname :: string

record Variable =
  var_Name :: string
  var_Value :: string

record ParameterBinding =
  pb_Name :: string
  pb_ParameterPublicID :: string
  pb_ParameterVersion :: int

record ResolvedParameter =
  rpar_Binding :: ParameterBinding
  rpar_Kind :: string
  rpar_PlainTextValue :: string
  rpar_SecretReference :: string
  rpar_SecretBackendVersion :: int

record RuntimeConfig =
  rc_Replicas :: int
  rc_Ports :: "RuntimePort slice"
  rc_Resources :: Resources
  rc_Probes :: Probes
  rc_PublicEndpoints :: "PublicEndpoint slice"
  rc_Variables :: "Variable slice"
  rc_Parameters :: "ParameterBinding slice"
  rc_Port :: int
  rc_Exposure :: string
  rc_Slug :: string

record Intent =
  itn_Image :: string
  itn_Replicas :: int
  itn_Ports :: "RuntimePort slice"
  itn_Resources :: Resources
  itn_Probes :: Probes
  itn_PublicEndpoints :: "PublicEndpoint slice"
  itn_Variables :: "Variable slice"
  itn_ConfigMapRef :: string
  itn_SecretRef :: string
  itn_SecretVariables :: "Variable slice"
  itn_ConfigurationVersion :: int
  itn_WorkloadKind :: string
  itn_Volume :: "AppVolume option"
  itn_Port :: int
  itn_Exposure :: string
  itn_Slug :: string

record Workspace =
  ws_ID :: int
  ws_PublicID :: string
  ws_Name :: string
  ws_Namespace :: string
  ws_Version :: int
  ws_BootstrapState :: string
  ws_CreatedAt :: time
  ws_UpdatedAt :: time

record Project =
  pj_ID :: int
  pj_PublicID :: string
  pj_WorkspaceID :: int
  pj_Name :: string
  pj_Version :: int
  pj_CreatedAt :: time
  pj_UpdatedAt :: time
  pj_ArchivedAt :: "time option"

record Environment =
  en_ID :: int
  en_PublicID :: string
  en_ProjectID :: int
  en_Name :: string
  en_Version :: int
  en_CreatedAt :: time
  en_UpdatedAt :: time
  en_ArchivedAt :: "time option"

record App =
  ap_ID :: int
  ap_PublicID :: string
  ap_ProjectID :: int
  ap_Name :: string
  ap_Version :: int
  ap_CreatedAt :: time
  ap_UpdatedAt :: time
  ap_ArchivedAt :: "time option"

record StorageProfile =
  stp_ID :: string
  stp_Name :: string
  stp_MinimumSizeGiB :: int
  stp_MaximumSizeGiB :: int
  stp_Expandable :: bool
  stp_Snapshots :: bool
  stp_AutomaticBackup :: bool
  stp_Durability :: string
  stp_AvailableGiB :: int

record AppEnvironment =
  ae_ID :: int
  ae_PublicID :: string
  ae_WorkspaceID :: int
  ae_ClusterID :: int
  ae_ClusterPublicID :: string
  ae_ClusterUID :: string
  ae_ProjectID :: int
  ae_AppID :: int
  ae_EnvironmentID :: int
  ae_ProjectPublicID :: string
  ae_AppPublicID :: string
  ae_AppName :: string
  ae_EnvironmentPublicID :: string
  ae_EnvironmentName :: string
  ae_SourceBranch :: string
  ae_WorkloadKind :: string
  ae_RuntimeName :: string
  ae_Configuration :: RuntimeConfig
  ae_ConfigurationVersion :: int
  ae_Version :: int
  ae_DesiredDeploymentPublicID :: string
  ae_CurrentDeploymentPublicID :: string
  ae_CurrentReleasePublicID :: string
  ae_DesiredConfigurationVersion :: int
  ae_CurrentConfigurationVersion :: int
  ae_RuntimeObservedGeneration :: int
  ae_RuntimeObservedAt :: "time option"
  ae_State :: RuntimeState
  ae_Message :: string
  ae_CreatedAt :: time
  ae_UpdatedAt :: time
  ae_DeletionRequestedAt :: "time option"
  ae_ArchivedAt :: "time option"

record ConfigurationRevision =
  crv_AppEnvironmentID :: int
  crv_AppEnvironmentPublicID :: string
  crv_Version :: int
  crv_Configuration :: RuntimeConfig
  crv_CreatedBy :: string
  crv_CreatedAt :: time

record Deployment =
  dpl_ID :: int
  dpl_PublicID :: string
  dpl_WorkspaceID :: int
  dpl_AppEnvironmentID :: int
  dpl_AppID :: int
  dpl_AppEnvironmentPublicID :: string
  dpl_ReleasePublicID :: string
  dpl_Image :: string
  dpl_ConfigurationVersion :: int
  dpl_Configuration :: RuntimeConfig
  dpl_WorkloadKind :: string
  dpl_AppVolumePublicID :: string
  dpl_RequestedBy :: ActorReference
  dpl_State :: RuntimeState
  dpl_Message :: string
  dpl_ObservedRelease :: string
  dpl_CreatedAt :: time
  dpl_UpdatedAt :: time

record DeploymentRequest =
  drq_WorkspaceID :: int
  drq_AppEnvironmentPublicID :: string
  drq_DeploymentPublicID :: string
  drq_ReleasePublicID :: string
  drq_ConfigurationVersion :: int
  drq_ExpectedVersion :: int
  drq_ExpectedCurrentDeploymentPublicID :: string
  drq_IdempotencyHash :: string
  drq_PayloadHash :: string

record DeploymentTarget =
  dtg_ReleasePublicID :: string
  dtg_ConfigurationVersion :: int

record DeploymentPreview =
  dpv_Current :: "DeploymentTarget option"
  dpv_Target :: DeploymentTarget
  dpv_Changes :: "string list"
  dpv_RolloutRequired :: bool

record Operation =
  op_ID :: int
  op_ClusterID :: int
  op_PublicID :: string
  op_AppEnvironmentID :: int
  op_AppEnvironmentPublicID :: string
  op_DeploymentID :: int
  op_DeploymentPublicID :: string
  op_AppVolumeID :: int
  op_AppVolumePublicID :: string
  op_WorkspaceID :: int
  op_ActorID :: int
  op_Kind :: OperationKind
  op_Status :: OperationStatus
  op_DesiredVersion :: int
  op_Attempts :: int
  op_WorkerID :: string
  op_FencingToken :: int
  op_LeaseUntil :: "time option"
  op_ErrorCode :: string
  op_ErrorMessage :: string
  op_CreatedAt :: time
  op_UpdatedAt :: time

record Release =
  rel_ID :: int
  rel_PublicID :: string
  rel_WorkspaceID :: int
  rel_ProjectID :: int
  rel_AppID :: int
  rel_AppEnvironmentID :: int
  rel_ProjectPublicID :: string
  rel_AppPublicID :: string
  rel_AppEnvironmentPublicID :: string
  rel_BuildPublicID :: string
  rel_OriginKind :: string
  rel_SourceProvider :: string
  rel_SourceRepository :: string
  rel_SourceRevision :: string
  rel_SourceRef :: string
  rel_ProducerKind :: string
  rel_ProducerExternalID :: string
  rel_ProducerURL :: string
  rel_ProvenanceStatus :: string
  rel_CreatedBy :: ActorReference
  rel_SourceBranch :: string
  rel_CommitSHA :: string
  rel_CommitTitle :: string
  rel_CommitAuthorName :: string
  rel_CommitAuthorLogin :: string
  rel_CommittedAt :: "time option"
  rel_TriggerType :: string
  rel_Image :: string
  rel_Platform :: string
  rel_AvailabilityStatus :: string
  rel_ExpiredAt :: "time option"
  rel_CreatedAt :: time

record Build =
  bld_ID :: int
  bld_PublicID :: string
  bld_WorkspaceID :: int
  bld_ProjectID :: int
  bld_AppID :: int
  bld_AppEnvironmentID :: int
  bld_ProjectPublicID :: string
  bld_AppPublicID :: string
  bld_AppEnvironmentPublicID :: string
  bld_InstallationExternalID :: int
  bld_RepositoryID :: int
  bld_RepositoryFullName :: string
  bld_SourceBranch :: string
  bld_CommitSHA :: string
  bld_CommitTitle :: string
  bld_CommitAuthorName :: string
  bld_CommitAuthorLogin :: string
  bld_CommittedAt :: "time option"
  bld_TriggerType :: string
  bld_Platform :: string
  bld_Status :: BuildStatus
  bld_Attempts :: int
  bld_WorkerID :: string
  bld_FencingToken :: int
  bld_LeaseUntil :: "time option"
  bld_ErrorCode :: string
  bld_ErrorMessage :: string
  bld_CreatedAt :: time
  bld_UpdatedAt :: time

record CommitMetadata =
  cm_SHA :: string
  cm_Title :: string
  cm_AuthorName :: string
  cm_AuthorLogin :: string
  cm_CommittedAt :: "time option"

record GitHubDelivery =
  ghd_ID :: int
  ghd_DeliveryID :: string
  ghd_EventType :: string
  ghd_Action :: string
  ghd_InstallationExternalID :: int
  ghd_RepositoryID :: int
  ghd_RepositoryFullName :: string
  ghd_SourceBranch :: string
  ghd_SourceRef :: string
  ghd_CommitSHA :: string
  ghd_TagName :: string
  ghd_RepositoryIDs :: "int list"
  ghd_PayloadHash :: string
  ghd_Status :: DeliveryStatus
  ghd_Attempts :: int
  ghd_WorkerID :: string
  ghd_FencingToken :: int
  ghd_LeaseUntil :: "time option"

record DeliveryCandidate =
  dc_WorkspaceID :: int
  dc_ProjectID :: int
  dc_ProjectPublicID :: string
  dc_AppID :: int
  dc_AppPublicID :: string
  dc_AppEnvironmentID :: int
  dc_AppEnvironmentPublicID :: string
  dc_SourceBranch :: string
  dc_RequestedByActorID :: int
  dc_PolicyVersion :: int

record DeliveryTarget =
  dt_ID :: int
  dt_PublicID :: string
  dt_GitHubDeliveryID :: int
  dt_WorkspaceID :: int
  dt_ProjectID :: int
  dt_AppID :: int
  dt_AppEnvironmentID :: int
  dt_AppEnvironmentPublicID :: string
  dt_RequestedByActorID :: int
  dt_TriggerType :: string
  dt_SourceBranch :: string
  dt_CommitSHA :: string
  dt_BuildID :: int
  dt_BuildPublicID :: string
  dt_ReleasePublicID :: string
  dt_DeploymentID :: int
  dt_DeploymentPublicID :: string
  dt_Status :: TargetStatus
  dt_BuildStatus :: "BuildStatus option"
  dt_DeploymentStatus :: "RuntimeState option"

record SecretMutation =
  sm_ParameterID :: int
  sm_ParameterPublicID :: string
  sm_WorkspaceID :: int
  sm_ParameterVersion :: int
  sm_ResourceVersion :: int
  sm_Reference :: string
  sm_ExpectedBackendVersion :: int
  sm_BackendVersion :: int
  sm_State :: string
  sm_CreatedAt :: time

record ParameterPurgeCandidate =
  ppc_ParameterID :: int
  ppc_ParameterPublicID :: string
  ppc_WorkspaceID :: int
  ppc_Kind :: string
  ppc_SecretReference :: string

section \<open>Zero values\<close>

definition zero_Probe :: Probe where
  "zero_Probe = \<lparr>pr_Type = '''', pr_PortName = '''', pr_Path = ''''\<rparr>"

definition zero_RuntimeConfig :: RuntimeConfig where
  "zero_RuntimeConfig =
     \<lparr>rc_Replicas = 0, rc_Ports = None,
      rc_Resources = \<lparr>rs_Requests = \<lparr>rv_CPUMillis = 0, rv_MemoryMiB = 0\<rparr>,
                      rs_Limits = \<lparr>rv_CPUMillis = 0, rv_MemoryMiB = 0\<rparr>\<rparr>,
      rc_Probes = \<lparr>prs_Startup = zero_Probe, prs_Liveness = zero_Probe, prs_Readiness = zero_Probe\<rparr>,
      rc_PublicEndpoints = None, rc_Variables = None, rc_Parameters = None, rc_Port = 0,
      rc_Exposure = '''', rc_Slug = ''''\<rparr>"

text \<open>The empty string of a state is \<open>StateUnknown\<close> here; no modelled code reads it from a zero value.\<close>

definition zero_AppEnvironment :: AppEnvironment where
  "zero_AppEnvironment =
     \<lparr>ae_ID = 0, ae_PublicID = '''', ae_WorkspaceID = 0, ae_ClusterID = 0, ae_ClusterPublicID = '''',
      ae_ClusterUID = '''', ae_ProjectID = 0, ae_AppID = 0, ae_EnvironmentID = 0,
      ae_ProjectPublicID = '''', ae_AppPublicID = '''', ae_AppName = '''', ae_EnvironmentPublicID = '''',
      ae_EnvironmentName = '''', ae_SourceBranch = '''', ae_WorkloadKind = '''', ae_RuntimeName = '''',
      ae_Configuration = zero_RuntimeConfig, ae_ConfigurationVersion = 0, ae_Version = 0,
      ae_DesiredDeploymentPublicID = '''', ae_CurrentDeploymentPublicID = '''',
      ae_CurrentReleasePublicID = '''', ae_DesiredConfigurationVersion = 0,
      ae_CurrentConfigurationVersion = 0, ae_RuntimeObservedGeneration = 0, ae_RuntimeObservedAt = None,
      ae_State = StateUnknown, ae_Message = '''', ae_CreatedAt = 0, ae_UpdatedAt = 0,
      ae_DeletionRequestedAt = None, ae_ArchivedAt = None\<rparr>"

definition zero_Deployment :: Deployment where
  "zero_Deployment =
     \<lparr>dpl_ID = 0, dpl_PublicID = '''', dpl_WorkspaceID = 0, dpl_AppEnvironmentID = 0, dpl_AppID = 0,
      dpl_AppEnvironmentPublicID = '''', dpl_ReleasePublicID = '''', dpl_Image = '''',
      dpl_ConfigurationVersion = 0, dpl_Configuration = zero_RuntimeConfig, dpl_WorkloadKind = '''',
      dpl_AppVolumePublicID = '''', dpl_RequestedBy = \<lparr>act_ID = '''', act_Kind = '''', act_DisplayName = ''''\<rparr>,
      dpl_State = StateUnknown, dpl_Message = '''', dpl_ObservedRelease = '''',
      dpl_CreatedAt = 0, dpl_UpdatedAt = 0\<rparr>"

end
