(* ===== verification/Identifiers.thy ===== *)
theory Identifiers
  imports Go_Encoding Domain_Types
begin

text \<open>
  Identifiers, cursors, names and image references of the control plane:
  \<open>internal/domain/domain.go\<close> (public identifiers, parameter paths, hierarchy names, runtime
  names), \<open>cursor.go\<close>, \<open>build.go\<close> (commits and branches) and \<open>release.go\<close> (image references).
  The random source of \<open>NewPublicID\<close> is an argument: the error of \<open>rand.Read\<close>, or the bytes it
  delivered. The case table of runes beyond ASCII is an argument of \<open>NormalizeHierarchyName\<close>.
\<close>

section \<open>Patterns\<close>

definition id_pattern :: "string \<Rightarrow> regexp" where
  "id_pattern prefix = Seq (Lit prefix) (Rep 20 (Cls base32_char))"

definition appIDPattern :: regexp where "appIDPattern = id_pattern ''app-''"
definition envIDPattern :: regexp where "envIDPattern = id_pattern ''env-''"
definition appEnvIDPattern :: regexp where "appEnvIDPattern = id_pattern ''aev-''"
definition parameterIDPattern :: regexp where "parameterIDPattern = id_pattern ''par-''"

definition slugPattern :: regexp where "slugPattern = label_pattern"
definition storageProfilePattern :: regexp where "storageProfilePattern = label_pattern"

definition variable_first :: "char \<Rightarrow> bool" where
  "variable_first c \<longleftrightarrow> upper c \<or> lower c \<or> c = CHR ''_''"

definition variable_char :: "char \<Rightarrow> bool" where
  "variable_char c \<longleftrightarrow> variable_first c \<or> digit c"

definition variableNamePattern :: regexp where
  "variableNamePattern = Seq (Cls variable_first) (Star (Cls variable_char))"

definition path_char :: "char \<Rightarrow> bool" where
  "path_char c \<longleftrightarrow> lower c \<or> upper c \<or> digit c \<or> c \<in> set ''._/-''"

definition parameterPathPattern :: regexp where
  "parameterPathPattern = Seq (Lit ''/'') (RepRange 1 254 (Cls path_char))"

definition repository_char :: "char \<Rightarrow> bool" where
  "repository_char c \<longleftrightarrow> lower_digit c \<or> c \<in> set ''._:/-''"

definition repositoryPattern :: regexp where
  "repositoryPattern = Seq (Cls lower_digit) (Star (Cls repository_char))"

definition digestPattern :: regexp where
  "digestPattern = Seq (Lit ''sha256:'') (Rep 64 (Cls hex_digit))"

definition imagePattern :: regexp where
  "imagePattern =
     Seq (Cls lower_digit) (Seq (Star (Cls repository_char))
       (Seq (Lit ''@sha256:'') (Rep 64 (Cls hex_digit))))"

definition commitSHAPattern :: regexp where
  "commitSHAPattern = Rep 40 (Cls hex_digit)"

section \<open>Public identifiers\<close>

text \<open>The base32 alphabet is ASCII, so lower case does not depend on the table of other runes.\<close>

definition NewPublicID :: "string \<Rightarrow> string go_result \<Rightarrow> string go_result" where
  "NewPublicID prefix random =
     (case random of
        Inl err \<Rightarrow> Inl err
      | Inr b \<Rightarrow> Inr (prefix @ ''-'' @ ToLower id (encode_alphabet 5 base32_std b)))"

definition ValidateParameterID :: "string \<Rightarrow> go_error" where
  "ValidateParameterID value =
     (if \<not> MatchString parameterIDPattern value
      then Some ''parameterId must be an opaque Parameter identifier'' else None)"

definition ValidateHierarchyReferences :: "string \<Rightarrow> string \<Rightarrow> go_error" where
  "ValidateHierarchyReferences appID environmentID =
     (if \<not> MatchString appIDPattern appID
      then Some ''appId must be an opaque App identifier''
      else if \<not> MatchString envIDPattern environmentID
      then Some ''environmentId must be an opaque Environment identifier''
      else None)"

definition ValidateAppEnvironmentID :: "string \<Rightarrow> go_error" where
  "ValidateAppEnvironmentID value =
     (if \<not> MatchString appEnvIDPattern value
      then Some ''appEnvironmentId must be an opaque AppEnvironment identifier'' else None)"

definition ValidateEnvironmentID :: "string \<Rightarrow> go_error" where
  "ValidateEnvironmentID value =
     (if \<not> MatchString envIDPattern value
      then Some ''environmentId must be an opaque Environment identifier'' else None)"

definition RuntimeName :: "string \<Rightarrow> string" where
  "RuntimeName publicID =
     (if HasPrefix publicID ''ap-'' then publicID
      else ''ap-'' @ ReplaceByte publicID CHR ''_'' CHR ''-'')"

section \<open>Cursors\<close>

type_synonym int64 = "64 word"

definition EncodeCursor :: "int64 \<Rightarrow> string" where
  "EncodeCursor i = (if sint i < 1 then '''' else encode_alphabet 6 base64_url (PutUint64 i))"

definition DecodeCursor :: "string \<Rightarrow> int64 go_result" where
  "DecodeCursor cursor =
     (case decode64 base64_url cursor of
        None \<Rightarrow> Inl ''invalid cursor''
      | Some value \<Rightarrow>
          if length value \<noteq> 8 then Inl ''invalid cursor''
          else let i = Uint64 value in
            if sint i < 1 then Inl ''invalid cursor'' else Inr i)"

section \<open>Names and paths\<close>

definition NormalizeParameterPath :: "string \<Rightarrow> string go_result" where
  "NormalizeParameterPath value =
     (let path = TrimSpace value in
      if length path < 2 \<or> length path > 255 \<or> \<not> MatchString parameterPathPattern path
         \<or> Contains path ''//'' \<or> HasSuffix path ''/''
      then Inl ''path must start with / and contain only letters, numbers, dot, underscore, slash, or hyphen''
      else Inr path)"

definition ValidateParameter :: "string \<Rightarrow> string \<Rightarrow> string \<Rightarrow> go_error" where
  "ValidateParameter kind description value =
     (if kind \<noteq> ParameterPlainText \<and> kind \<noteq> ParameterSecret
      then Some ''type must be PlainText or Secret''
      else if RuneCount description > 500 \<or> HasControl description
      then Some ''description must contain at most 500 characters without control characters''
      else if length value = 0 \<or> length value > 65536 \<or> ContainsAny value [char_of (0::nat)]
      then Some ''value must contain between 1 byte and 64 KiB without null bytes''
      else None)"

definition NormalizeHierarchyName :: "(nat \<Rightarrow> nat) \<Rightarrow> string \<Rightarrow> (string \<times> string) go_result" where
  "NormalizeHierarchyName table value =
     (if HasControlExceptTab value then Inl ''name must not contain control characters''
      else let display = Join (Fields value) '' '' in
        if display = '''' \<or> RuneCount display > 80
        then Inl ''name must contain between 1 and 80 characters''
        else Inr (display, ToLower table display))"

definition ValidateCommitSHA :: "string \<Rightarrow> go_error" where
  "ValidateCommitSHA value =
     (if \<not> MatchString commitSHAPattern value
      then Some ''commit SHA must be a full lowercase SHA-1 object ID'' else None)"

definition NormalizeSourceBranch :: "string \<Rightarrow> string go_result" where
  "NormalizeSourceBranch value0 =
     (let value = TrimSpace value0 in
      if value = '''' \<or> RuneCount value > 255
      then Inl ''branch must contain between 1 and 255 characters''
      else if HasControl value then Inl ''branch must not contain control characters''
      else Inr value)"

section \<open>Image references\<close>

definition ReleaseImageReference :: "string \<Rightarrow> string \<Rightarrow> string go_result" where
  "ReleaseImageReference repository digest =
     (if \<not> MatchString repositoryPattern repository \<or> Contains repository ''@''
      then Inl ''image repository is invalid''
      else
        let lastSlash = LastIndexByte repository CHR ''/'';
            name = drop (case lastSlash of None \<Rightarrow> 0 | Some i \<Rightarrow> Suc i) repository in
        if Contains name '':'' then Inl ''image repository must not contain a tag''
        else if \<not> MatchString digestPattern digest then Inl ''image digest is invalid''
        else Inr (repository @ ''@'' @ digest))"

section \<open>Generated identifiers are accepted\<close>

lemma id_pattern_iff:
  "MatchString (id_pattern p) s \<longleftrightarrow> (\<exists>t. s = p @ t \<and> length t = 20 \<and> list_all base32_char t)"
  unfolding MatchString_lang id_pattern_def lang_Seq_Lit lang_Rep_Cls by simp

lemma base32_lower_char:
  "c \<in> set base32_std \<Longrightarrow> base32_char (ascii_lower c) \<and> byte_of c < 0x80"
  by (auto simp: base32_std_def base32_char_def ascii_lower_def in_range_def)

lemma base32_encoding:
  "set (encode_alphabet 5 base32_std b) \<subseteq> set base32_std"
proof
  fix c
  assume "c \<in> set (encode_alphabet 5 base32_std b)"
  then obtain ch where ch: "ch \<in> set (chunks 5 (bits_of_string b))" "c = base32_std ! bits_val ch"
    by (auto simp: encode_alphabet_def)
  then have "bits_val ch < 2 ^ 5" using chunk_length [of ch 5] bits_val_less [of ch] by simp
  then have "bits_val ch < length base32_std" by (simp add: base32_std_def)
  with ch(2) show "c \<in> set base32_std" by simp
qed

lemma base32_lower_encoding:
  fixes b
  defines "t \<equiv> ToLower id (encode_alphabet 5 base32_std b)"
  shows "length t = (8 * length b + 4) div 5" and "list_all base32_char t"
proof -
  have "is_ascii (encode_alphabet 5 base32_std b)"
    using base32_encoding base32_lower_char by (auto simp: is_ascii_def list_all_iff)
  then have t: "t = map ascii_lower (encode_alphabet 5 base32_std b)"
    by (simp add: t_def ToLower_ascii)
  then show "length t = (8 * length b + 4) div 5"
    by (simp add: encode_alphabet_def length_chunks)
  show "list_all base32_char t"
    using t base32_encoding base32_lower_char by (auto simp: list_all_iff)
qed

lemma NewPublicID_pattern:
  assumes "length b = 12" and "NewPublicID p (Inr b) = Inr i"
  shows "MatchString (id_pattern (p @ ''-'')) i"
proof -
  have "i = (p @ ''-'') @ ToLower id (encode_alphabet 5 base32_std b)"
    using assms(2) by (simp add: NewPublicID_def)
  then show ?thesis
    using assms(1) base32_lower_encoding [of b] by (auto simp: id_pattern_iff)
qed

section \<open>Image references are immutable\<close>

lemma repository_no_at: "list_all repository_char r \<Longrightarrow> CHR ''@'' \<notin> set r"
  by (auto simp: list_all_iff repository_char_def lower_digit_def in_range_def)

lemma repositoryPattern_iff:
  "MatchString repositoryPattern r \<longleftrightarrow> r \<noteq> [] \<and> lower_digit (hd r) \<and> list_all repository_char (tl r)"
  unfolding MatchString_lang repositoryPattern_def lang_Seq_Cls lang_Star_Cls by (cases r) auto

lemma digestPattern_iff:
  "MatchString digestPattern d \<longleftrightarrow>
     (\<exists>w. d = ''sha256:'' @ w \<and> length w = 64 \<and> list_all hex_digit w)"
  unfolding MatchString_lang digestPattern_def lang_Seq_Lit lang_Rep_Cls ..

lemma lang_Seq_Star:
  "s \<in> lang (Seq (Star (Cls p)) r) \<longleftrightarrow> (\<exists>u v. s = u @ v \<and> list_all p u \<and> v \<in> lang r)"
  using lang_Star_Cls by auto

lemma imagePattern_iff:
  "MatchString imagePattern s \<longleftrightarrow>
     (\<exists>r d. s = r @ ''@'' @ d \<and> MatchString repositoryPattern r \<and> MatchString digestPattern d)"
proof
  assume "MatchString imagePattern s"
  then obtain c u w where s: "s = c # u @ ''@sha256:'' @ w"
    and cu: "lower_digit c" "list_all repository_char u"
    and w: "length w = 64" "list_all hex_digit w"
    unfolding MatchString_lang imagePattern_def lang_Seq_Cls lang_Seq_Star lang_Seq_Lit lang_Rep_Cls
    by blast
  have "s = (c # u) @ ''@'' @ (''sha256:'' @ w)" using s by simp
  moreover have "MatchString repositoryPattern (c # u)" using cu by (simp add: repositoryPattern_iff)
  moreover have "MatchString digestPattern (''sha256:'' @ w)" using w by (auto simp: digestPattern_iff)
  ultimately show "\<exists>r d. s = r @ ''@'' @ d \<and> MatchString repositoryPattern r \<and> MatchString digestPattern d"
    by blast
next
  assume "\<exists>r d. s = r @ ''@'' @ d \<and> MatchString repositoryPattern r \<and> MatchString digestPattern d"
  then obtain r d where s: "s = r @ ''@'' @ d" and r: "MatchString repositoryPattern r"
    and d: "MatchString digestPattern d" by blast
  from d obtain w where d': "d = ''sha256:'' @ w" "length w = 64" "list_all hex_digit w"
    unfolding digestPattern_iff by blast
  from r obtain c u where r': "r = c # u" "lower_digit c" "list_all repository_char u"
    by (cases r) (auto simp: repositoryPattern_iff)
  have "s = c # u @ ''@sha256:'' @ w" using s d'(1) r'(1) by simp
  then show "MatchString imagePattern s"
    unfolding MatchString_lang imagePattern_def lang_Seq_Cls lang_Seq_Star lang_Seq_Lit lang_Rep_Cls
    using r'(2,3) d'(2,3) by blast
qed

lemma Cut_append:
  "c \<notin> set u \<Longrightarrow> Cut (u @ c # v) c = (u, v, True)"
  by (induction u) auto

lemma Cut_found: "Cut s c = (u, v, True) \<Longrightarrow> s = u @ c # v \<and> c \<notin> set u"
  by (induction s arbitrary: u) (auto split: if_splits prod.splits)

lemma repositoryPattern_no_at: "MatchString repositoryPattern r \<Longrightarrow> CHR ''@'' \<notin> set r"
  using repository_no_at [of "tl r"]
  by (cases r) (auto simp: repositoryPattern_iff lower_digit_def in_range_def)

lemma ReleaseImageReference_ok:
  assumes "ReleaseImageReference r d = Inr i"
  shows "i = r @ ''@'' @ d" "MatchString repositoryPattern r" "MatchString digestPattern d"
  using assms by (auto simp: ReleaseImageReference_def Let_def split: if_splits)

section \<open>Hierarchy names\<close>

lemma control_at_append: "control_at s \<Longrightarrow> control_at (s @ t)"
  by (auto simp: control_at_def split: list.splits)

lemma HasControlExceptTab_infix:
  "HasControlExceptTab w \<Longrightarrow> HasControlExceptTab (u @ w @ v)"
proof (induction u)
  case Nil
  then show ?case
  proof (induction w)
    case (Cons c w)
    then show ?case using control_at_append [of "c # w" v] by auto
  qed simp
qed simp

lemma fields_from_infix:
  "w \<in> set (fields_from acc s) \<Longrightarrow> \<exists>u v. rev acc @ s = u @ w @ v"
proof (induction acc s rule: fields_from.induct)
  case (1 acc s)
  show ?case
  proof (cases s)
    case Nil
    with "1.prems" have "w = rev acc" by (subst (asm) fields_from.simps) (auto split: if_splits)
    then have "rev acc @ s = [] @ w @ s" by simp
    then show ?thesis by blast
  next
    case (Cons c rest)
    have split: "s = take n s @ drop n s" for n by simp
    consider "space_width s = 0" | "space_width s \<noteq> 0"
      "w \<in> set (fields_from [] (drop (space_width s) s))" | "space_width s \<noteq> 0" "acc \<noteq> []" "w = rev acc"
      using "1.prems" Cons by (subst (asm) fields_from.simps) (auto simp: Let_def split: if_splits)
    then show ?thesis
    proof cases
      case 1
      then have "w \<in> set (fields_from (c # acc) rest)"
        using "1.prems" Cons by (subst (asm) fields_from.simps) simp
      then show ?thesis using "1.IH"(1) Cons 1 by simp
    next
      case 2
      then have "\<exists>u v. rev [] @ drop (space_width s) s = u @ w @ v"
        using "1.IH"(2,3) Cons by (cases "acc = []") blast+
      then obtain u v where "drop (space_width s) s = u @ w @ v" by auto
      then have "rev acc @ s = (rev acc @ take (space_width s) s @ u) @ w @ v"
        using split [of "space_width s"] by (metis append.assoc)
      then show ?thesis by blast
    next
      case 3
      then have "rev acc @ s = [] @ w @ s" by simp
      then show ?thesis by blast
    qed
  qed
qed

lemma HasControlExceptTab_Join:
  assumes "HasControlExceptTab (Join ws '' '')"
  shows "\<exists>w\<in>set ws. HasControlExceptTab w"
proof -
  have blank: "\<not> HasControlExceptTab w \<Longrightarrow> HasControlExceptTab (w @ '' '' @ t) \<Longrightarrow>
      HasControlExceptTab t" for w t
  proof (induction w)
    case Nil
    then show ?case by (simp add: control_at_def)
  next
    case (Cons c w)
    then show ?case by (cases w) (auto simp: control_at_def)
  qed
  show ?thesis using assms
  proof (induction ws rule: induct_list012)
    case (3 w v ws)
    then show ?case using blank [of w "Join (v # ws) '' ''"] by auto
  qed auto
qed

lemma display_no_control:
  "\<not> HasControlExceptTab s \<Longrightarrow> \<not> HasControlExceptTab (Join (Fields s) '' '')"
  using HasControlExceptTab_Join [of "Fields s"] fields_from_infix [of _ "[]" s]
    HasControlExceptTab_infix by (fastforce simp: Fields_def)

section \<open>Injectivity of the encodings\<close>

lemma bits_val_inj: "length a = length b \<Longrightarrow> bits_val a = bits_val b \<Longrightarrow> a = b"
  by (metis val_bits_val)

lemma encode_alphabet_inj:
  assumes eq: "encode_alphabet k alphabet a = encode_alphabet k alphabet b"
    and k: "0 < k" "2 ^ k \<le> length alphabet" and alphabet: "distinct alphabet"
    and len: "length a = length b"
  shows "a = b"
proof -
  let ?a = "chunks k (bits_of_string a)" and ?b = "chunks k (bits_of_string b)"
  have nth: "x = y" if "x \<in> set ?a" "y \<in> set ?b" "alphabet ! bits_val x = alphabet ! bits_val y" for x y
  proof -
    have "length x = k" "length y = k" using that(1,2) chunk_length by auto
    moreover from this have "bits_val x < length alphabet" "bits_val y < length alphabet"
      using bits_val_less [of x] bits_val_less [of y] k(2) by auto
    ultimately show ?thesis
      using that(3) alphabet by (metis bits_val_inj nth_eq_iff_index_eq)
  qed
  have "map (\<lambda>ch. alphabet ! bits_val ch) ?a = map (\<lambda>ch. alphabet ! bits_val ch) ?b"
    using eq by (simp add: encode_alphabet_def)
  then have "?a = ?b"
    using nth by (rule list.inj_map_strong [rotated]) 
  moreover obtain m n where "concat ?a = bits_of_string a @ replicate m False"
    "concat ?b = bits_of_string b @ replicate n False"
    using concat_chunks [OF k(1)] by metis
  ultimately have bits: "bits_of_string a = bits_of_string b"
    using len by (metis append_eq_append_conv length_bits_of_string)
  have "bytes_of_bits (bits_of_string x @ []) = x" for x
    by (rule bytes_of_bits_of_string) simp
  then show ?thesis using bits by metis
qed

lemma distinct_lower_base32: "distinct (map ascii_lower base32_std)"
  by code_simp

lemma lower_encoding_inj:
  assumes "ToLower id (encode_alphabet 5 base32_std a) = ToLower id (encode_alphabet 5 base32_std b)"
  shows "encode_alphabet 5 base32_std a = encode_alphabet 5 base32_std b"
proof -
  have ascii: "is_ascii (encode_alphabet 5 base32_std x)" for x
    using base32_encoding base32_lower_char by (auto simp: is_ascii_def list_all_iff)
  have inj: "inj_on ascii_lower (set base32_std)"
    using distinct_lower_base32 by (simp add: distinct_map)
  have "map ascii_lower (encode_alphabet 5 base32_std a) = map ascii_lower (encode_alphabet 5 base32_std b)"
    using assms ascii by (simp add: ToLower_ascii)
  moreover have "inj_on ascii_lower (set (encode_alphabet 5 base32_std a) \<union> set (encode_alphabet 5 base32_std b))"
    using inj base32_encoding by (meson Un_least inj_on_subset)
  ultimately show ?thesis by (rule map_inj_on)
qed

section \<open>Properties\<close>

text \<open>
  C30: Every identifier \<open>NewPublicID\<close> generates from twelve random bytes is accepted by the
  validator of its kind, whatever the bytes are.
\<close>

theorem generated_ids_are_valid:
  assumes "length b = 12"
  shows "\<exists>app env aev par.
     NewPublicID ''app'' (Inr b) = Inr app \<and> NewPublicID ''env'' (Inr b) = Inr env
   \<and> NewPublicID ''aev'' (Inr b) = Inr aev \<and> NewPublicID ''par'' (Inr b) = Inr par
   \<and> ValidateHierarchyReferences app env = None \<and> ValidateEnvironmentID env = None
   \<and> ValidateAppEnvironmentID aev = None \<and> ValidateParameterID par = None"
proof -
  have ok: "\<exists>i. NewPublicID p (Inr b) = Inr i \<and> MatchString (id_pattern (p @ ''-'')) i" for p
    using NewPublicID_pattern [OF assms] by (auto simp: NewPublicID_def)
  show ?thesis
    using ok [of "''app''"] ok [of "''env''"] ok [of "''aev''"] ok [of "''par''"]
    by (auto simp: ValidateHierarchyReferences_def ValidateEnvironmentID_def
        ValidateAppEnvironmentID_def ValidateParameterID_def appIDPattern_def envIDPattern_def
        appEnvIDPattern_def parameterIDPattern_def)
qed

theorem generated_ids_are_valid_witness:
  "length (replicate 12 CHR ''A'') = 12 \<and>
   (\<exists>app. NewPublicID ''app'' (Inr (replicate 12 CHR ''A'')) = Inr app)"
  using generated_ids_are_valid [of "replicate 12 CHR ''A''"] by auto

text \<open>
  C29: A generated identifier determines its random bytes: no entropy is lost by the encoding,
  so two draws collide only if all 96 bits agree.
\<close>

theorem generated_ids_injective:
  assumes "length a = 12" and "length b = 12"
    and "NewPublicID p (Inr a) = NewPublicID p (Inr b)"
  shows "a = b"
proof -
  have "ToLower id (encode_alphabet 5 base32_std a) = ToLower id (encode_alphabet 5 base32_std b)"
    using assms(3) by (simp add: NewPublicID_def)
  then have "encode_alphabet 5 base32_std a = encode_alphabet 5 base32_std b"
    by (rule lower_encoding_inj)
  then show ?thesis
  proof (rule encode_alphabet_inj)
    show "distinct base32_std" "2 ^ 5 \<le> length base32_std" by (simp_all add: base32_std_def)
  qed (use assms(1,2) in simp_all)
qed

theorem generated_ids_injective_witness:
  "NewPublicID ''rel'' (Inr ''abcdefghijkl'') = NewPublicID ''rel'' (Inr ''abcdefghijkl'')
   \<and> ''abcdefghijkl'' = ''abcdefghijkl''"
  using generated_ids_injective [of "''abcdefghijkl''" "''abcdefghijkl''" "''rel''"] by simp

lemma decode_encode_cursor: "\<not> sint i < 1 \<Longrightarrow> DecodeCursor (EncodeCursor i) = Inr i"
proof -
  have "decode64 base64_url (encode_alphabet 6 base64_url (PutUint64 i)) = Some (PutUint64 i)"
    by (rule decode64_encode [OF distinct_base64(1) length_base64(1) base64_no_newline(1)])
  then show "\<not> sint i < 1 \<Longrightarrow> DecodeCursor (EncodeCursor i) = Inr i"
    by (simp add: EncodeCursor_def DecodeCursor_def Uint64_PutUint64)
qed

lemma EncodeCursor_nonempty: "\<not> sint i < 1 \<Longrightarrow> EncodeCursor i \<noteq> ''''"
  using decode_encode_cursor [of i] by (auto simp: DecodeCursor_def decode64_def)

text \<open>
  C28: Pagination cursors round trip: decoding an encoded row identifier gives it back, and the
  cursor of a non-positive identifier (no further page) is rejected.
\<close>

theorem cursor_roundtrip:
  "DecodeCursor (EncodeCursor i) = (if sint i < 1 then Inl ''invalid cursor'' else Inr i)"
  using decode_encode_cursor [of i] by (auto simp: EncodeCursor_def DecodeCursor_def decode64_def)

text \<open>
  C27: An accepted image reference is immutable: it splits at its only \<open>@\<close> into the repository
  and a full SHA-256 digest, and it satisfies the pattern a deployment intent requires.
\<close>

theorem image_reference_roundtrip:
  assumes "ReleaseImageReference r d = Inr i"
  shows "Cut i CHR ''@'' = (r, d, True) \<and> MatchString imagePattern i \<and> CHR ''@'' \<notin> set r"
proof -
  note ok = ReleaseImageReference_ok [OF assms]
  have "CHR ''@'' \<notin> set r" using ok(2) by (rule repositoryPattern_no_at)
  moreover from this have "Cut i CHR ''@'' = (r, d, True)" using ok(1) by (simp add: Cut_append)
  moreover have "MatchString imagePattern i" unfolding imagePattern_iff using ok by blast
  ultimately show ?thesis by blast
qed

theorem image_reference_roundtrip_witness:
  "let d = ''sha256:'' @ replicate 64 CHR ''a'' in
   ReleaseImageReference ''ghcr.io/acme/web'' d = Inr (''ghcr.io/acme/web@'' @ d)
   \<and> MatchString imagePattern (''ghcr.io/acme/web@'' @ d)"
proof -
  let ?r = "''ghcr.io/acme/web''" and ?d = "''sha256:'' @ replicate 64 CHR ''a''"
  have "MatchString repositoryPattern ?r"
    by (simp add: repositoryPattern_iff lower_digit_def repository_char_def in_range_def)
  moreover have "MatchString digestPattern ?d"
    by (auto simp: digestPattern_iff hex_digit_def in_range_def list_all_iff)
  ultimately have "ReleaseImageReference ?r ?d = Inr (?r @ ''@'' @ ?d)"
    by (simp add: ReleaseImageReference_def HasPrefix_def Let_def)
  then show ?thesis
    using image_reference_roundtrip [of ?r ?d "?r @ ''@'' @ ?d"] by simp
qed

text \<open>
  C31: Normalising a hierarchy name is idempotent, and an accepted display name has between 1 and
  80 characters.
\<close>

theorem hierarchy_name_idempotent:
  assumes "NormalizeHierarchyName table s = Inr (display, key)"
  shows "NormalizeHierarchyName table display = Inr (display, key)
     \<and> display \<noteq> '''' \<and> RuneCount display \<le> 80"
proof -
  have ctl: "\<not> HasControlExceptTab s" and d: "display = Join (Fields s) '' ''"
    and len: "display \<noteq> ''''" "RuneCount display \<le> 80" and k: "key = ToLower table display"
    using assms by (auto simp: NormalizeHierarchyName_def Let_def split: if_splits)
  have "Join (Fields display) '' '' = display" using d Fields_Join_Fields by simp
  moreover have "\<not> HasControlExceptTab display" using display_no_control [OF ctl] d by simp
  ultimately show ?thesis
    using len k by (simp add: NormalizeHierarchyName_def)
qed

theorem hierarchy_name_idempotent_witness:
  "NormalizeHierarchyName id ''  My  App '' = Inr (''My App'', ''my app'')
   \<and> NormalizeHierarchyName id ''My App'' = Inr (''My App'', ''my app'')"
proof -
  have ev: "NormalizeHierarchyName id ''  My  App '' = Inr (''My App'', ''my app'')"
    by code_simp
  then show ?thesis using hierarchy_name_idempotent [OF ev] by simp
qed

end
