(* ===== verification/Go_Path.thy ===== *)
theory Go_Path
  imports Go_Strings
begin

text \<open>
  \<open>path.Clean\<close> and \<open>path.IsAbs\<close>: the lexical normal form of a slash separated path, by the
  rules of the package's documentation (empty and \<open>.\<close> elements are dropped, an inner \<open>..\<close>
  removes the element before it, \<open>..\<close> at the root is dropped, the empty result is \<open>.\<close>).
\<close>

abbreviation slash :: char where "slash \<equiv> CHR ''/''"

definition IsAbs :: "string \<Rightarrow> bool" where
  "IsAbs p \<longleftrightarrow> HasPrefix p ''/''"

text \<open>The elements kept so far are on a stack, the last one first.\<close>

fun clean_step :: "bool \<Rightarrow> string list \<Rightarrow> string \<Rightarrow> string list" where
  "clean_step rooted stack e =
     (if e = '''' \<or> e = ''.'' then stack
      else if e = ''..'' then
        (case stack of
           [] \<Rightarrow> if rooted then [] else [''..'']
         | t # rest \<Rightarrow> if t = ''..'' then ''..'' # stack else rest)
      else e # stack)"

definition clean_elements :: "bool \<Rightarrow> string list \<Rightarrow> string list" where
  "clean_elements rooted es = rev (foldl (clean_step rooted) [] es)"

definition Clean :: "string \<Rightarrow> string" where
  "Clean p =
     (let rooted = IsAbs p; es = clean_elements rooted (Split p slash);
          body = Join es ''/'' in
      if rooted then CHR ''/'' # body else if body = '''' then ''.'' else body)"

section \<open>Elements of a clean path\<close>

lemma Split_not_Nil [simp]: "Split s c \<noteq> []"
  by (induction s) (auto split: list.splits)

lemma Split_no_sep: "w \<in> set (Split s c) \<Longrightarrow> c \<notin> set w"
proof (induction s arbitrary: w)
  case (Cons d s)
  show ?case
  proof (cases "Split s c")
    case Nil
    then show ?thesis by simp
  next
    case (Cons v vs)
    with Cons.IH Cons.prems show ?thesis by (auto split: if_splits)
  qed
qed simp

lemma Join_Split: "Join (Split s c) [c] = s"
proof (induction s)
  case (Cons d s)
  obtain v vs where "Split s c = v # vs" by (cases "Split s c") auto
  with Cons show ?case by (cases vs) auto
qed simp

lemma Split_Join:
  assumes "ws \<noteq> []" and "\<forall>w\<in>set ws. c \<notin> set w"
  shows "Split (Join ws [c]) c = ws"
proof -
  have word: "c \<notin> set w \<Longrightarrow> Split w c = [w]" for w
    by (induction w) auto
  have app: "c \<notin> set w \<Longrightarrow> Split (w @ c # s) c = w # Split s c" for w s
    by (induction w) auto
  show ?thesis using assms
  proof (induction ws)
    case (Cons w ws)
    then show ?case by (cases ws) (auto simp: word app)
  qed simp
qed

text \<open>An element of a clean path is never empty or \<open>.\<close>; of a rooted one, never \<open>..\<close> either.\<close>

definition plain_element :: "string \<Rightarrow> bool" where
  "plain_element e \<longleftrightarrow> e \<noteq> '''' \<and> e \<noteq> ''.'' \<and> e \<noteq> ''..''"

lemma clean_step_rooted:
  "list_all plain_element stack \<Longrightarrow> list_all plain_element (clean_step True stack e)"
  by (cases stack) (auto simp: plain_element_def)

lemma clean_elements_rooted: "list_all plain_element (clean_elements True es)"
proof -
  have "list_all plain_element stack \<Longrightarrow>
      list_all plain_element (foldl (clean_step True) stack es)" for stack
    by (induction es arbitrary: stack) (simp_all del: clean_step.simps add: clean_step_rooted)
  then show ?thesis by (simp add: clean_elements_def list_all_rev)
qed

text \<open>A relative path leaves its start directory only by leading \<open>..\<close> elements.\<close>

definition dotdot_prefixed :: "string list \<Rightarrow> bool" where
  "dotdot_prefixed stack \<longleftrightarrow>
     (\<exists>n es. stack = es @ replicate n ''..'' \<and> list_all plain_element es)"

lemma clean_step_relative:
  assumes "dotdot_prefixed stack"
  shows "dotdot_prefixed (clean_step False stack e)"
proof -
  from assms obtain n es where stack: "stack = es @ replicate n ''..''"
    and es: "list_all plain_element es"
    by (auto simp: dotdot_prefixed_def)
  consider "e = '''' \<or> e = ''.''" | "e = ''..''" | "plain_element e"
    by (auto simp: plain_element_def)
  then show ?thesis
  proof cases
    case 1
    with assms show ?thesis by auto
  next
    case 2
    show ?thesis
    proof (cases es)
      case Nil
      with stack 2 have "clean_step False stack e = [] @ replicate (Suc n) ''..''"
        by (cases n) auto
      then show ?thesis unfolding dotdot_prefixed_def
        by (intro exI [of _ "Suc n"] exI [of _ "[]"]) simp
    next
      case (Cons t rest)
      with stack es 2 have "clean_step False stack e = rest @ replicate n ''..''"
        and "list_all plain_element rest"
        by (auto simp: plain_element_def)
      then show ?thesis unfolding dotdot_prefixed_def by blast
    qed
  next
    case 3
    with stack es have "clean_step False stack e = (e # es) @ replicate n ''..''"
      and "list_all plain_element (e # es)"
      by (auto simp: plain_element_def)
    then show ?thesis unfolding dotdot_prefixed_def by blast
  qed
qed

lemma clean_elements_relative:
  "\<exists>n es. clean_elements False ws = replicate n ''..'' @ es \<and> list_all plain_element es"
proof -
  have "dotdot_prefixed stack \<Longrightarrow> dotdot_prefixed (foldl (clean_step False) stack ws)" for stack
    by (induction ws arbitrary: stack)
       (simp_all del: clean_step.simps add: clean_step_relative)
  moreover have "dotdot_prefixed []" by (simp add: dotdot_prefixed_def)
  ultimately have "dotdot_prefixed (foldl (clean_step False) [] ws)" by blast
  then obtain n es where "foldl (clean_step False) [] ws = es @ replicate n ''..''"
    "list_all plain_element es"
    by (auto simp: dotdot_prefixed_def)
  then have "clean_elements False ws = replicate n ''..'' @ rev es" "list_all plain_element (rev es)"
    by (simp_all add: clean_elements_def)
  then show ?thesis by blast
qed

lemma clean_elements_subset: "set (clean_elements rooted es) \<subseteq> set es \<union> {''..''}"
proof -
  have "set (clean_step rooted stack e) \<subseteq> insert e (set stack \<union> {''..''})" for stack e
    by (cases stack) auto
  then have "set (foldl (clean_step rooted) stack es) \<subseteq> set stack \<union> set es \<union> {''..''}" for stack
    by (induction es arbitrary: stack) (force simp del: clean_step.simps)+
  then show ?thesis by (force simp: clean_elements_def)
qed

text \<open>A path that is its own normal form and is rooted is a list of plain elements.\<close>

lemma rooted_clean_path:
  assumes "HasPrefix p ''/''" and "Clean p = p"
  shows "\<exists>es. p = slash # Join es ''/'' \<and> list_all plain_element es \<and> (\<forall>e\<in>set es. slash \<notin> set e)"
proof -
  let ?es = "clean_elements True (Split p slash)"
  have "p = slash # Join ?es ''/''" using assms by (simp add: Clean_def IsAbs_def Let_def)
  moreover have "slash \<notin> set e" if "e \<in> set ?es" for e
    using that clean_elements_subset [of True "Split p slash"] Split_no_sep [of e p slash] by auto
  ultimately show ?thesis using clean_elements_rooted by blast
qed

end
