(* ===== verification/Go_Strconv.thy ===== *)
theory Go_Strconv
  imports Prelude
begin

text \<open>
  Decimal integers of Go's \<open>strconv\<close>: \<open>FormatInt(i, 10)\<close> (also \<open>%d\<close> of \<open>fmt\<close>) and
  \<open>ParseInt(s, 10, 64)\<close>, whose error (syntax or range) is \<open>None\<close>.
\<close>

definition digit :: "nat \<Rightarrow> char" where
  "digit n = char_of (48 + n)"

definition is_digit :: "char \<Rightarrow> bool" where
  "is_digit c \<longleftrightarrow> 48 \<le> (of_char c :: nat) \<and> (of_char c :: nat) \<le> 57"

definition digit_value :: "char \<Rightarrow> nat" where
  "digit_value c = of_char c - 48"

fun nat_digits :: "nat \<Rightarrow> string" where
  "nat_digits n = (if n < 10 then [digit n] else nat_digits (n div 10) @ [digit (n mod 10)])"

declare nat_digits.simps [simp del]

definition FormatInt :: "int \<Rightarrow> string" where
  "FormatInt i = (if i < 0 then CHR ''-'' # nat_digits (nat (- i)) else nat_digits (nat i))"

definition parse_digits :: "string \<Rightarrow> nat option" where
  "parse_digits s =
     (if s \<noteq> [] \<and> list_all is_digit s then Some (foldl (\<lambda>n c. n * 10 + digit_value c) 0 s) else None)"

definition ParseInt :: "string \<Rightarrow> int option" where
  "ParseInt s =
     (case s of
        [] \<Rightarrow> None
      | c # rest \<Rightarrow>
          let neg = (c = CHR ''-'');
              body = (if c = CHR ''-'' \<or> c = CHR ''+'' then rest else s)
          in (case parse_digits body of
                None \<Rightarrow> None
              | Some un \<Rightarrow>
                  if \<not> neg \<and> 2 ^ 63 \<le> un then None
                  else if neg \<and> 2 ^ 63 < un then None
                  else Some (if neg then - int un else int un)))"

section \<open>Lemmas\<close>

lemma of_char_digit [simp]: "n < 10 \<Longrightarrow> of_char (digit n) = 48 + n"
  by (simp add: digit_def)

lemma digit_simps [simp]: "n < 10 \<Longrightarrow> is_digit (digit n)" "n < 10 \<Longrightarrow> digit_value (digit n) = n"
  by (simp_all add: is_digit_def digit_value_def)

lemma nat_digits_not_Nil [simp]: "nat_digits n \<noteq> []"
  by (subst nat_digits.simps) simp

lemma nat_digits_digits: "list_all is_digit (nat_digits n)"
proof (induction n rule: nat_digits.induct)
  case (1 n)
  then show ?case by (subst nat_digits.simps) simp
qed

lemma nat_digits_value: "foldl (\<lambda>n c. n * 10 + digit_value c) 0 (nat_digits n) = n"
proof (induction n rule: nat_digits.induct)
  case (1 n)
  then show ?case by (subst nat_digits.simps) simp
qed

lemma parse_nat_digits: "parse_digits (nat_digits n) = Some n"
  by (simp add: parse_digits_def nat_digits_digits nat_digits_value)

lemma is_digit_not_special:
  "is_digit c \<Longrightarrow> c \<noteq> CHR ''-''" "is_digit c \<Longrightarrow> c \<noteq> CHR ''+''" "is_digit c \<Longrightarrow> c \<noteq> CHR '':''"
  by (auto simp: is_digit_def)

lemma nat_digits_Cons: "\<exists>c cs. nat_digits n = c # cs \<and> is_digit c"
  using nat_digits_digits [of n] by (cases "nat_digits n") auto

lemma FormatInt_not_Nil [simp]: "FormatInt i \<noteq> []"
  by (simp add: FormatInt_def)

lemma FormatInt_no_colon: "CHR '':'' \<notin> set (FormatInt i)"
  using nat_digits_digits is_digit_not_special(3)
  by (auto simp: FormatInt_def list_all_iff)

lemma ParseInt_FormatInt:
  assumes "- (2 ^ 63) \<le> i" and "i < 2 ^ 63"
  shows "ParseInt (FormatInt i) = Some i"
proof (cases "i < 0")
  case True
  then show ?thesis
    using assms(1) by (simp add: FormatInt_def ParseInt_def parse_nat_digits)
next
  case False
  obtain c cs where c: "nat_digits (nat i) = c # cs" "is_digit c"
    using nat_digits_Cons by blast
  from False assms(2) show ?thesis
    using c is_digit_not_special(1,2) [OF c(2)] parse_nat_digits [of "nat i"]
    by (simp add: FormatInt_def ParseInt_def)
qed

end
