(* ===== verification/Runtime_Config.thy ===== *)
theory Runtime_Config
  imports Identifiers Go_Path Go_Strconv
begin

text \<open>
  \<open>internal/domain/domain.go\<close> and \<open>deployment.go\<close>: normalisation and validation of an
  application's runtime configuration, of intents and of volume requests, and the preview of a
  deployment. \<open>NormalizeRuntimeConfig\<close> reads \<open>config.Ports[0]\<close> without a guard; the run-time
  panic of an out-of-range index is the value \<open>None\<close>. The functions are on values: that Go's
  slices of the argument share their array with the result is not represented.
\<close>

section \<open>Normalisation\<close>

definition normalize_ports :: "RuntimeConfig \<Rightarrow> RuntimePort list" where
  "normalize_ports config =
     map (\<lambda>port. if rp_Protocol port = '''' then port\<lparr>rp_Protocol := PortProtocolTCP\<rparr> else port)
       (if elems (rc_Ports config) = [] \<and> rc_Port config \<noteq> 0
        then [\<lparr>rp_Name = ''http'', rp_ContainerPort = rc_Port config, rp_Protocol = PortProtocolTCP\<rparr>]
        else elems (rc_Ports config))"

definition default_domain :: "PublicEndpoint \<Rightarrow> PublicEndpoint" where
  "default_domain endpoint =
     (if pe_DomainID endpoint = '''' then endpoint\<lparr>pe_DomainID := ''default''\<rparr> else endpoint)"

definition web_endpoint :: "string \<Rightarrow> string \<Rightarrow> string \<Rightarrow> PublicEndpoint" where
  "web_endpoint port_name domain_id slug =
     \<lparr>pe_Name = ''web'', pe_Type = EndpointHTTP, pe_PortName = port_name,
      pe_DomainID = domain_id, pe_HostnameLabel = slug, pe_ExternalPort = 0, pe_Hostname = ''''\<rparr>"

definition legacy_exposure :: "RuntimeConfig \<Rightarrow> bool" where
  "legacy_exposure config \<longleftrightarrow>
     elems (rc_PublicEndpoints config) = [] \<and> rc_Exposure config = ExposurePublic
     \<and> rc_Slug config \<noteq> ''''"

definition normalize_endpoints :: "RuntimePort list \<Rightarrow> RuntimeConfig \<Rightarrow> PublicEndpoint list option" where
  "normalize_endpoints ports config =
     (if legacy_exposure config
      then (case ports of
              [] \<Rightarrow> None
            | port # _ \<Rightarrow> Some (map default_domain
                             [web_endpoint (rp_Name port) ''default'' (rc_Slug config)]))
      else Some (map default_domain (elems (rc_PublicEndpoints config))))"

definition normalize_probe :: "string \<Rightarrow> Probe \<Rightarrow> Probe" where
  "normalize_probe default_port_name probe =
     probe\<lparr>pr_Type := (if pr_Type probe = '''' then ProbeHTTP else pr_Type probe),
           pr_PortName := (if pr_PortName probe = '''' then default_port_name else pr_PortName probe)\<rparr>"

definition normalize_probes :: "string \<Rightarrow> Probes \<Rightarrow> Probes" where
  "normalize_probes default_port_name probes =
     (let readiness = normalize_probe default_port_name (prs_Readiness probes);
          liveness = normalize_probe default_port_name (prs_Liveness probes)
      in \<lparr>prs_Startup = (if pr_Type (prs_Startup probes) = '''' \<and> pr_Path (prs_Startup probes) = ''''
                        then readiness
                        else normalize_probe default_port_name (prs_Startup probes)),
          prs_Liveness = liveness,
          prs_Readiness = readiness\<rparr>)"

definition NormalizeRuntimeConfig :: "RuntimeConfig \<Rightarrow> RuntimeConfig option" where
  "NormalizeRuntimeConfig config =
     (let ports = normalize_ports config in
      case normalize_endpoints ports config of
        None \<Rightarrow> None
      | Some endpoints \<Rightarrow>
          let default_port_name = (case ports of [] \<Rightarrow> '''' | port # _ \<Rightarrow> rp_Name port) in
          Some (config\<lparr>rc_Replicas := (if rc_Replicas config = 0 then 1 else rc_Replicas config),
                       rc_Ports := Some ports,
                       rc_Probes := normalize_probes default_port_name (rc_Probes config),
                       rc_PublicEndpoints := Some endpoints,
                       rc_Variables := Some (elems (rc_Variables config)),
                       rc_Parameters := Some (elems (rc_Parameters config)),
                       rc_Port := 0, rc_Exposure := '''', rc_Slug := ''''\<rparr>))"

definition ConfigurationFromIntent :: "Intent \<Rightarrow> RuntimeConfig" where
  "ConfigurationFromIntent intent =
     \<lparr>rc_Replicas = itn_Replicas intent, rc_Ports = itn_Ports intent,
      rc_Resources = itn_Resources intent, rc_Probes = itn_Probes intent,
      rc_PublicEndpoints = itn_PublicEndpoints intent, rc_Variables = itn_Variables intent,
      rc_Parameters = Some [], rc_Port = itn_Port intent, rc_Exposure = itn_Exposure intent,
      rc_Slug = itn_Slug intent\<rparr>"

definition NormalizeIntent :: "Intent \<Rightarrow> Intent option" where
  "NormalizeIntent intent0 =
     (let intent1 =
            (if elems (itn_Ports intent0) = [] \<and> itn_Port intent0 \<noteq> 0
             then intent0\<lparr>itn_Ports := Some [\<lparr>rp_Name = ''http'', rp_ContainerPort = itn_Port intent0,
                                              rp_Protocol = PortProtocolTCP\<rparr>]\<rparr>
             else intent0);
          intent =
            (if elems (itn_PublicEndpoints intent1) = [] \<and> itn_Exposure intent1 = ExposurePublic
                \<and> itn_Slug intent1 \<noteq> ''''
             then intent1\<lparr>itn_PublicEndpoints := Some [web_endpoint ''http'' '''' (itn_Slug intent1)]\<rparr>
             else intent1)
      in case NormalizeRuntimeConfig (ConfigurationFromIntent intent) of
           None \<Rightarrow> None
         | Some configuration \<Rightarrow>
             Some (intent\<lparr>itn_Replicas := rc_Replicas configuration,
                          itn_Ports := rc_Ports configuration,
                          itn_Resources := rc_Resources configuration,
                          itn_Probes := rc_Probes configuration,
                          itn_PublicEndpoints := rc_PublicEndpoints configuration,
                          itn_Variables := rc_Variables configuration,
                          itn_Port := 0, itn_Exposure := '''', itn_Slug := ''''\<rparr>))"

definition IntentFromConfiguration :: "string \<Rightarrow> RuntimeConfig \<Rightarrow> Intent option" where
  "IntentFromConfiguration img config =
     (case NormalizeRuntimeConfig config of
        None \<Rightarrow> None
      | Some configuration \<Rightarrow>
          Some \<lparr>itn_Image = img, itn_Replicas = rc_Replicas configuration,
                itn_Ports = rc_Ports configuration, itn_Resources = rc_Resources configuration,
                itn_Probes = rc_Probes configuration,
                itn_PublicEndpoints = rc_PublicEndpoints configuration,
                itn_Variables = rc_Variables configuration,
                itn_ConfigMapRef = '''', itn_SecretRef = '''', itn_SecretVariables = None,
                itn_ConfigurationVersion = 0, itn_WorkloadKind = '''', itn_Volume = None,
                itn_Port = 0, itn_Exposure = '''', itn_Slug = ''''\<rparr>)"

section \<open>Validation\<close>

definition validPath :: "string \<Rightarrow> bool" where
  "validPath path \<longleftrightarrow>
     path \<noteq> '''' \<and> length path \<le> 2048 \<and> HasPrefix path ''/''
     \<and> \<not> ContainsAny path (bytes [13, 10])"

text \<open>The loop over the ports; it returns the set \<open>portNames\<close> as a list.\<close>

fun validate_ports :: "string list \<Rightarrow> RuntimePort list \<Rightarrow> string list go_result" where
  "validate_ports portNames [] = Inr portNames"
| "validate_ports portNames (port # rest) =
     (if \<not> MatchString slugPattern (rp_Name port) \<or> 15 < length (rp_Name port)
      then Inl ''port names must be unique lowercase labels of at most 15 characters''
      else if rp_Name port \<in> set portNames
      then Inl ''port names must be unique lowercase labels of at most 15 characters''
      else if rp_ContainerPort port < 1 \<or> 65535 < rp_ContainerPort port
              \<or> rp_Protocol port \<noteq> PortProtocolTCP
      then Inl ''ports must use TCP and a container port between 1 and 65535''
      else validate_ports (rp_Name port # portNames) rest)"

definition validate_resources :: "Resources \<Rightarrow> int \<Rightarrow> int \<Rightarrow> go_error" where
  "validate_resources r maxCPU maxMemory =
     (if rv_CPUMillis (rs_Requests r) < 1
         \<or> rv_CPUMillis (rs_Limits r) < rv_CPUMillis (rs_Requests r)
         \<or> maxCPU < rv_CPUMillis (rs_Limits r) then Some ''invalid CPU resources''
      else if rv_MemoryMiB (rs_Requests r) < 1
         \<or> rv_MemoryMiB (rs_Limits r) < rv_MemoryMiB (rs_Requests r)
         \<or> maxMemory < rv_MemoryMiB (rs_Limits r) then Some ''invalid memory resources''
      else None)"

fun validate_probes :: "string list \<Rightarrow> Probe list \<Rightarrow> go_error" where
  "validate_probes portNames [] = None"
| "validate_probes portNames (probe # rest) =
     (if pr_PortName probe \<notin> set portNames
      then Some ''probes must reference an existing port name''
      else if pr_Type probe = ProbeHTTP \<and> \<not> validPath (pr_Path probe)
      then Some ''HTTP probe paths must be absolute''
      else if pr_Type probe = ProbeTCP \<and> pr_Path probe \<noteq> ''''
      then Some ''TCP probes cannot declare a path''
      else if pr_Type probe \<noteq> ProbeHTTP \<and> pr_Type probe \<noteq> ProbeTCP
      then Some ''probe type must be HTTP or TCP''
      else validate_probes portNames rest)"

fun validate_endpoints :: "string list \<Rightarrow> string list \<Rightarrow> string list \<Rightarrow> PublicEndpoint list \<Rightarrow> go_error" where
  "validate_endpoints portNames endpointNames endpointTypes [] = None"
| "validate_endpoints portNames endpointNames endpointTypes (endpoint # rest) =
     (if \<not> MatchString slugPattern (pe_Name endpoint) \<or> 15 < length (pe_Name endpoint)
      then Some ''public endpoint names must be unique lowercase labels of at most 15 characters''
      else if pe_Name endpoint \<in> set endpointNames
      then Some ''public endpoint names must be unique lowercase labels of at most 15 characters''
      else if pe_Type endpoint \<in> set endpointTypes
              \<or> (pe_Type endpoint \<noteq> EndpointHTTP \<and> pe_Type endpoint \<noteq> EndpointTCP)
      then Some ''configuration supports at most one HTTP and one TCP public endpoint''
      else if pe_PortName endpoint \<notin> set portNames
      then Some ''public endpoints must reference an existing port name''
      else if pe_HostnameLabel endpoint = '''' \<or> 63 < length (pe_HostnameLabel endpoint)
              \<or> \<not> MatchString slugPattern (pe_HostnameLabel endpoint)
      then Some ''public endpoint hostnameLabel must be a lowercase DNS label''
      else if pe_DomainID endpoint = '''' \<or> 63 < length (pe_DomainID endpoint)
              \<or> \<not> MatchString slugPattern (pe_DomainID endpoint)
      then Some ''public endpoint domainId must be a lowercase DNS label''
      else if pe_Type endpoint = EndpointHTTP \<and> pe_ExternalPort endpoint \<noteq> 0
      then Some ''HTTP public endpoints cannot declare an external port''
      else if pe_Type endpoint = EndpointTCP \<and> pe_ExternalPort endpoint \<noteq> 0
              \<and> (pe_ExternalPort endpoint < 1 \<or> 65535 < pe_ExternalPort endpoint)
      then Some ''TCP public endpoint external port is invalid''
      else validate_endpoints portNames (pe_Name endpoint # endpointNames)
             (pe_Type endpoint # endpointTypes) rest)"

fun validate_variables :: "string list \<Rightarrow> Variable list \<Rightarrow> string list go_result" where
  "validate_variables seen [] = Inr seen"
| "validate_variables seen (variable # rest) =
     (if \<not> MatchString variableNamePattern (var_Name variable) \<or> 253 < length (var_Name variable)
      then Inl ''variable names must be valid environment variable identifiers''
      else if 4096 < length (var_Value variable) \<or> ContainsAny (var_Value variable) (bytes [0, 13, 10])
      then Inl ''variable values must be at most 4096 characters without line breaks''
      else if var_Name variable \<in> set seen
      then Inl ''variable names must be unique''
      else validate_variables (var_Name variable # seen) rest)"

fun validate_bindings :: "string list \<Rightarrow> ParameterBinding list \<Rightarrow> go_error" where
  "validate_bindings seen [] = None"
| "validate_bindings seen (binding # rest) =
     (if \<not> MatchString variableNamePattern (pb_Name binding) \<or> 253 < length (pb_Name binding)
      then Some ''parameter binding names must be valid environment variable identifiers''
      else if ValidateParameterID (pb_ParameterPublicID binding) \<noteq> None \<or> pb_ParameterVersion binding < 1
      then Some ''parameter bindings must reference an opaque Parameter identifier and positive version''
      else if pb_Name binding \<in> set seen
      then Some ''variable and parameter binding names must be unique''
      else validate_bindings (pb_Name binding # seen) rest)"

definition ValidateRuntimeConfig :: "RuntimeConfig \<Rightarrow> int \<Rightarrow> int \<Rightarrow> int \<Rightarrow> go_error" where
  "ValidateRuntimeConfig config maxReplicas maxCPU maxMemory =
     (if rc_Replicas config < 1 \<or> maxReplicas < rc_Replicas config
      then Some (''replicas must be between 1 and '' @ FormatInt maxReplicas)
      else if length (elems (rc_Ports config)) < 1 \<or> 8 < length (elems (rc_Ports config))
      then Some ''configuration must contain between 1 and 8 ports''
      else case validate_ports [] (elems (rc_Ports config)) of
        Inl err \<Rightarrow> Some err
      | Inr portNames \<Rightarrow>
      (case validate_resources (rc_Resources config) maxCPU maxMemory of
        Some err \<Rightarrow> Some err
      | None \<Rightarrow>
      (case validate_probes portNames [prs_Startup (rc_Probes config), prs_Readiness (rc_Probes config),
                                       prs_Liveness (rc_Probes config)] of
        Some err \<Rightarrow> Some err
      | None \<Rightarrow>
      if 2 < length (elems (rc_PublicEndpoints config))
      then Some ''configuration must contain at most 2 public endpoints''
      else case validate_endpoints portNames [] [] (elems (rc_PublicEndpoints config)) of
        Some err \<Rightarrow> Some err
      | None \<Rightarrow>
      if 100 < length (elems (rc_Variables config)) + length (elems (rc_Parameters config))
      then Some ''configuration must contain at most 100 variables and parameters''
      else case validate_variables [] (elems (rc_Variables config)) of
        Inl err \<Rightarrow> Some err
      | Inr seen \<Rightarrow> validate_bindings seen (elems (rc_Parameters config)))))"

definition ValidateIntent :: "Intent \<Rightarrow> int \<Rightarrow> int \<Rightarrow> int \<Rightarrow> go_error" where
  "ValidateIntent intent maxReplicas maxCPU maxMemory =
     (if \<not> MatchString imagePattern (itn_Image intent)
      then Some ''image must use an immutable sha256 digest''
      else ValidateRuntimeConfig (ConfigurationFromIntent intent) maxReplicas maxCPU maxMemory)"

definition ValidateVolumeRequest :: "VolumeRequest \<Rightarrow> go_error" where
  "ValidateVolumeRequest volume =
     (let mount = vr_MountPath volume in
      if \<not> MatchString storageProfilePattern (vr_StorageProfileID volume)
         \<or> 63 < length (vr_StorageProfileID volume)
      then Some ''storageProfileId must be a portable storage profile identifier''
      else if vr_SizeGiB volume < 1 then Some ''sizeGiB must be positive''
      else if mount = '''' \<or> 255 < length mount \<or> \<not> HasPrefix mount ''/'' \<or> Clean mount \<noteq> mount
              \<or> mount = ''/''
      then Some ''mountPath must be an absolute normalized path below the filesystem root''
      else if \<exists>reserved\<in>set [''/dev'', ''/proc'', ''/sys'']. mount = reserved \<or> HasPrefix mount (reserved @ ''/'')
      then Some ''mountPath uses a reserved runtime path''
      else None)"

definition ValidateWorkloadConfiguration :: "string \<Rightarrow> RuntimeConfig \<Rightarrow> VolumeRequest option \<Rightarrow> go_error" where
  "ValidateWorkloadConfiguration kind configuration volume =
     (if kind = WorkloadStateless
      then (if volume \<noteq> None then Some ''stateless workloads cannot declare persistent storage'' else None)
      else if kind = WorkloadStateful
      then (if rc_Replicas configuration \<noteq> 1
            then Some ''stateful workloads require exactly one replica''
            else case volume of
                   None \<Rightarrow> Some ''stateful workloads require persistent storage''
                 | Some v \<Rightarrow> ValidateVolumeRequest v)
      else Some ''workloadKind must be Stateless or Stateful'')"

definition ValidateVolumeExpansion :: "int \<Rightarrow> int \<Rightarrow> int \<Rightarrow> go_error" where
  "ValidateVolumeExpansion currentSizeGiB requestedSizeGiB maximumSizeGiB =
     (if requestedSizeGiB \<le> currentSizeGiB then Some ''volume size can only increase''
      else if maximumSizeGiB < requestedSizeGiB
      then Some ''requested size exceeds the storage profile limit''
      else None)"

definition ValidateVolumeRemoval :: "AppVolume \<Rightarrow> go_error" where
  "ValidateVolumeRemoval volume =
     (if av_DesiredState volume \<noteq> VolumeDesiredDeleted then Some ''volume removal was not requested''
      else if av_Attached volume then Some ''volume must be detached before removal''
      else None)"

section \<open>Preview of a deployment\<close>

definition PreviewDeployment :: "Deployment option \<Rightarrow> string \<Rightarrow> ConfigurationRevision \<Rightarrow> DeploymentPreview option" where
  "PreviewDeployment current releasePublicID revision =
     (let target = \<lparr>dtg_ReleasePublicID = releasePublicID, dtg_ConfigurationVersion = crv_Version revision\<rparr> in
      case current of
        None \<Rightarrow> Some \<lparr>dpv_Current = None, dpv_Target = target,
                      dpv_Changes = [''InitialDeployment''], dpv_RolloutRequired = True\<rparr>
      | Some c \<Rightarrow>
          (case (NormalizeRuntimeConfig (dpl_Configuration c),
                 NormalizeRuntimeConfig (crv_Configuration revision)) of
             (Some before, Some after) \<Rightarrow>
               let changes =
                 (if dpl_ReleasePublicID c \<noteq> releasePublicID then [''Release''] else [])
                 @ (if rc_Replicas before \<noteq> rc_Replicas after then [''Scale''] else [])
                 @ (if rc_Ports before \<noteq> rc_Ports after
                       \<or> rc_PublicEndpoints before \<noteq> rc_PublicEndpoints after then [''Network''] else [])
                 @ (if rc_Probes before \<noteq> rc_Probes after then [''HealthChecks''] else [])
                 @ (if rc_Resources before \<noteq> rc_Resources after then [''Resources''] else [])
                 @ (if rc_Variables before \<noteq> rc_Variables after then [''Variables''] else [])
                 @ (if rc_Parameters before \<noteq> rc_Parameters after then [''Secrets''] else [])
               in Some \<lparr>dpv_Current = Some \<lparr>dtg_ReleasePublicID = dpl_ReleasePublicID c,
                                            dtg_ConfigurationVersion = dpl_ConfigurationVersion c\<rparr>,
                        dpv_Target = target, dpv_Changes = changes,
                        dpv_RolloutRequired = (0 < length changes)\<rparr>
           | _ \<Rightarrow> None))"

section \<open>Lemmas on normalisation\<close>

lemma normalize_ports_normal:
  "rc_Ports config = Some (normalize_ports c) \<Longrightarrow> rc_Port config = 0 \<Longrightarrow>
   normalize_ports config = normalize_ports c"
  by (simp add: normalize_ports_def)

lemma default_domain_idem [simp]: "default_domain (default_domain e) = default_domain e"
  by (simp add: default_domain_def)

lemma normalize_probe_idem [simp]:
  "normalize_probe d (normalize_probe d p) = normalize_probe d p"
  by (simp add: normalize_probe_def)

lemma normalize_probe_typed: "pr_Type (normalize_probe d p) \<noteq> ''''"
  by (simp add: normalize_probe_def)

lemma normalize_probes_idem [simp]:
  "normalize_probes d (normalize_probes d p) = normalize_probes d p"
  by (simp add: normalize_probes_def Let_def normalize_probe_typed)

lemma normalize_endpoints_normal:
  assumes "normalize_endpoints ports c = Some endpoints"
    and "rc_PublicEndpoints config = Some endpoints" and "rc_Exposure config = ''''"
  shows "normalize_endpoints ports config = Some endpoints"
  using assms
  by (auto simp: normalize_endpoints_def legacy_exposure_def o_def split: if_splits list.splits)

lemma NormalizeRuntimeConfig_Some:
  assumes "NormalizeRuntimeConfig config = Some c"
  shows "rc_Port c = 0 \<and> rc_Exposure c = '''' \<and> rc_Slug c = '''' \<and> rc_Resources c = rc_Resources config
    \<and> rc_Ports c = Some (normalize_ports config)
    \<and> rc_Variables c = Some (elems (rc_Variables config))
    \<and> rc_Parameters c = Some (elems (rc_Parameters config))
    \<and> normalize_endpoints (normalize_ports config) config = Some (elems (rc_PublicEndpoints c))
    \<and> rc_PublicEndpoints c \<noteq> None"
  using assms by (auto simp: NormalizeRuntimeConfig_def Let_def split: option.splits)

lemma NormalizeRuntimeConfig_idem:
  assumes "NormalizeRuntimeConfig config = Some c"
  shows "NormalizeRuntimeConfig c = Some c"
proof -
  from assms obtain endpoints where e: "normalize_endpoints (normalize_ports config) config = Some endpoints"
    and c: "c = config\<lparr>rc_Replicas := (if rc_Replicas config = 0 then 1 else rc_Replicas config),
              rc_Ports := Some (normalize_ports config),
              rc_Probes := normalize_probes (case normalize_ports config of [] \<Rightarrow> '''' | port # _ \<Rightarrow> rp_Name port)
                             (rc_Probes config),
              rc_PublicEndpoints := Some endpoints, rc_Variables := Some (elems (rc_Variables config)),
              rc_Parameters := Some (elems (rc_Parameters config)),
              rc_Port := 0, rc_Exposure := '''', rc_Slug := ''''\<rparr>"
    by (auto simp: NormalizeRuntimeConfig_def Let_def split: option.splits)
  have "normalize_ports c = normalize_ports config"
    by (rule normalize_ports_normal) (simp_all add: c)
  moreover have "normalize_endpoints (normalize_ports config) c = Some endpoints"
    by (rule normalize_endpoints_normal [OF e]) (simp_all add: c)
  ultimately show ?thesis
    by (simp add: NormalizeRuntimeConfig_def Let_def) (simp add: c)
qed

section \<open>What validation accepts\<close>

definition label_upto :: "nat \<Rightarrow> string \<Rightarrow> bool" where
  "label_upto n s \<longleftrightarrow> MatchString slugPattern s \<and> length s \<le> n"

definition valid_port :: "RuntimePort \<Rightarrow> bool" where
  "valid_port p \<longleftrightarrow> label_upto 15 (rp_Name p) \<and> rp_ContainerPort p \<in> {1..65535}
     \<and> rp_Protocol p = PortProtocolTCP"

definition valid_probe :: "string set \<Rightarrow> Probe \<Rightarrow> bool" where
  "valid_probe names p \<longleftrightarrow> pr_PortName p \<in> names
     \<and> (pr_Type p = ProbeHTTP \<and> validPath (pr_Path p) \<or> pr_Type p = ProbeTCP \<and> pr_Path p = '''')"

definition valid_endpoint :: "string set \<Rightarrow> PublicEndpoint \<Rightarrow> bool" where
  "valid_endpoint names e \<longleftrightarrow> label_upto 15 (pe_Name e) \<and> pe_PortName e \<in> names
     \<and> label_upto 63 (pe_HostnameLabel e) \<and> label_upto 63 (pe_DomainID e)
     \<and> (pe_Type e = EndpointHTTP \<and> pe_ExternalPort e = 0
        \<or> pe_Type e = EndpointTCP \<and> pe_ExternalPort e \<in> {0..65535})"

definition valid_variable :: "Variable \<Rightarrow> bool" where
  "valid_variable v \<longleftrightarrow> MatchString variableNamePattern (var_Name v) \<and> length (var_Name v) \<le> 253
     \<and> length (var_Value v) \<le> 4096 \<and> \<not> ContainsAny (var_Value v) (bytes [0, 13, 10])"

definition valid_binding :: "ParameterBinding \<Rightarrow> bool" where
  "valid_binding b \<longleftrightarrow> MatchString variableNamePattern (pb_Name b) \<and> length (pb_Name b) \<le> 253
     \<and> ValidateParameterID (pb_ParameterPublicID b) = None \<and> 1 \<le> pb_ParameterVersion b"

definition within :: "int \<Rightarrow> int \<Rightarrow> int \<Rightarrow> bool" where
  "within request limit maximum \<longleftrightarrow> 1 \<le> request \<and> request \<le> limit \<and> limit \<le> maximum"

definition valid_config :: "RuntimeConfig \<Rightarrow> int \<Rightarrow> int \<Rightarrow> int \<Rightarrow> bool" where
  "valid_config c maxReplicas maxCPU maxMemory \<longleftrightarrow>
     (let ports = elems (rc_Ports c); endpoints = elems (rc_PublicEndpoints c);
          variables = elems (rc_Variables c); bindings = elems (rc_Parameters c);
          names = set (map rp_Name ports); r = rc_Resources c
      in rc_Replicas c \<in> {1..maxReplicas} \<and> length ports \<in> {1..8}
       \<and> list_all valid_port ports \<and> distinct (map rp_Name ports)
       \<and> within (rv_CPUMillis (rs_Requests r)) (rv_CPUMillis (rs_Limits r)) maxCPU
       \<and> within (rv_MemoryMiB (rs_Requests r)) (rv_MemoryMiB (rs_Limits r)) maxMemory
       \<and> valid_probe names (prs_Startup (rc_Probes c)) \<and> valid_probe names (prs_Readiness (rc_Probes c))
       \<and> valid_probe names (prs_Liveness (rc_Probes c))
       \<and> length endpoints \<le> 2 \<and> list_all (valid_endpoint names) endpoints
       \<and> distinct (map pe_Name endpoints) \<and> distinct (map pe_Type endpoints)
       \<and> length variables + length bindings \<le> 100
       \<and> list_all valid_variable variables \<and> list_all valid_binding bindings
       \<and> distinct (map var_Name variables @ map pb_Name bindings))"

lemma validate_ports_iff:
  "validate_ports names ports = Inr names' \<longleftrightarrow>
     list_all valid_port ports \<and> distinct (map rp_Name ports) \<and> set (map rp_Name ports) \<inter> set names = {}
     \<and> names' = rev (map rp_Name ports) @ names"
  by (induction ports arbitrary: names) (auto simp: valid_port_def label_upto_def)

lemma validate_resources_iff:
  "validate_resources r maxCPU maxMemory = None \<longleftrightarrow>
     within (rv_CPUMillis (rs_Requests r)) (rv_CPUMillis (rs_Limits r)) maxCPU
     \<and> within (rv_MemoryMiB (rs_Requests r)) (rv_MemoryMiB (rs_Limits r)) maxMemory"
  by (auto simp: validate_resources_def within_def)

lemma validate_probes_iff:
  "validate_probes names ps = None \<longleftrightarrow> list_all (valid_probe (set names)) ps"
  by (induction ps) (auto simp: valid_probe_def)

lemma slug_not_empty: "\<not> MatchString slugPattern ''''"
  by (simp add: slugPattern_def label_pattern_iff)

lemma validate_endpoints_iff:
  "validate_endpoints ports names types es = None \<longleftrightarrow>
     list_all (valid_endpoint (set ports)) es
     \<and> distinct (map pe_Name es) \<and> set (map pe_Name es) \<inter> set names = {}
     \<and> distinct (map pe_Type es) \<and> set (map pe_Type es) \<inter> set types = {}"
proof (induction es arbitrary: names types)
  case (Cons e es)
  have step: "validate_endpoints ports names types (e # es) = None \<longleftrightarrow>
     valid_endpoint (set ports) e \<and> pe_Name e \<notin> set names \<and> pe_Type e \<notin> set types
     \<and> validate_endpoints ports (pe_Name e # names) (pe_Type e # types) es = None"
    by (auto simp: valid_endpoint_def label_upto_def slug_not_empty)
  show ?case unfolding step Cons.IH by auto
qed simp

lemma validate_variables_iff:
  "validate_variables seen vs = Inr seen' \<longleftrightarrow>
     list_all valid_variable vs \<and> distinct (map var_Name vs) \<and> set (map var_Name vs) \<inter> set seen = {}
     \<and> seen' = rev (map var_Name vs) @ seen"
  by (induction vs arbitrary: seen) (auto simp: valid_variable_def)

lemma validate_bindings_iff:
  "validate_bindings seen bs = None \<longleftrightarrow>
     list_all valid_binding bs \<and> distinct (map pb_Name bs) \<and> set (map pb_Name bs) \<inter> set seen = {}"
  by (induction bs arbitrary: seen) (auto simp: valid_binding_def)

lemma is_Inr_iff: "(case r of Inl e \<Rightarrow> Some e | Inr x \<Rightarrow> f x) = None \<longleftrightarrow> (\<exists>x. r = Inr x \<and> f x = None)"
  by (cases r) auto

lemma is_None_iff: "(case r of Some e \<Rightarrow> Some e | None \<Rightarrow> f) = None \<longleftrightarrow> r = None \<and> f = None"
  by (cases r) auto

lemma if_err_iff: "(if b then Some e else r) = None \<longleftrightarrow> \<not> b \<and> r = None"
  by auto

lemma ValidateRuntimeConfig_iff:
  "ValidateRuntimeConfig c maxReplicas maxCPU maxMemory = None \<longleftrightarrow>
   valid_config c maxReplicas maxCPU maxMemory"
  unfolding ValidateRuntimeConfig_def is_Inr_iff is_None_iff if_err_iff validate_ports_iff
    validate_resources_iff validate_probes_iff validate_endpoints_iff validate_variables_iff
    validate_bindings_iff valid_config_def Let_def
  by (auto simp: not_le not_less Suc_le_eq)

lemma reserved_prefix:
  assumes "mount = slash # Join (e # es) ''/''" and "\<not> HasPrefix mount (slash # r @ ''/'')" and "mount \<noteq> slash # r"
  shows "e \<noteq> r"
proof
  assume "e = r"
  with assms show False by (cases es) (auto simp: HasPrefix_def)
qed

lemma config_of_intent:
  assumes "NormalizeRuntimeConfig config = Some c" and "IntentFromConfiguration img config = Some intent"
  shows "ConfigurationFromIntent intent = c\<lparr>rc_Parameters := Some []\<rparr>" and "itn_Image intent = img"
  using assms NormalizeRuntimeConfig_Some [OF assms(1)]
  by (auto simp: IntentFromConfiguration_def ConfigurationFromIntent_def)

lemma valid_config_no_parameters:
  "valid_config c r cpu mem \<Longrightarrow> valid_config (c\<lparr>rc_Parameters := Some []\<rparr>) r cpu mem"
  by (auto simp: valid_config_def Let_def)

lemma NormalizeRuntimeConfig_parameters:
  "NormalizeRuntimeConfig (c\<lparr>rc_Parameters := Some ps\<rparr>) =
   map_option (\<lambda>d. d\<lparr>rc_Parameters := Some ps\<rparr>) (NormalizeRuntimeConfig c)"
proof -
  let ?c = "c\<lparr>rc_Parameters := Some ps\<rparr>"
  have "normalize_ports ?c = normalize_ports c"
    "normalize_endpoints (normalize_ports c) ?c = normalize_endpoints (normalize_ports c) c"
    by (simp_all add: normalize_ports_def)
       (simp add: normalize_endpoints_def legacy_exposure_def split: list.split)
  then show ?thesis
    by (auto simp: NormalizeRuntimeConfig_def Let_def split: option.splits)
qed

definition sample_probe :: Probe where
  "sample_probe = \<lparr>pr_Type = '''', pr_PortName = '''', pr_Path = ''/healthz''\<rparr>"

definition sample_config :: RuntimeConfig where
  "sample_config =
     \<lparr>rc_Replicas = 0, rc_Ports = None,
      rc_Resources = \<lparr>rs_Requests = \<lparr>rv_CPUMillis = 100, rv_MemoryMiB = 64\<rparr>,
                      rs_Limits = \<lparr>rv_CPUMillis = 200, rv_MemoryMiB = 128\<rparr>\<rparr>,
      rc_Probes = \<lparr>prs_Startup = sample_probe, prs_Liveness = sample_probe, prs_Readiness = sample_probe\<rparr>,
      rc_PublicEndpoints = None, rc_Variables = None, rc_Parameters = None,
      rc_Port = 8080, rc_Exposure = ExposurePublic, rc_Slug = ''shop''\<rparr>"

section \<open>Properties\<close>

text \<open>
  C22: Normalising a runtime configuration is idempotent and total except for one input shape: it
  panics exactly if a legacy public exposure with a slug declares neither endpoints nor any port.
\<close>

theorem normalize_runtime_config:
  "(NormalizeRuntimeConfig config = None \<longleftrightarrow>
      legacy_exposure config \<and> elems (rc_Ports config) = [] \<and> rc_Port config = 0)
   \<and> (NormalizeRuntimeConfig config = Some c \<longrightarrow> NormalizeRuntimeConfig c = Some c)"
proof -
  have "normalize_ports config = [] \<longleftrightarrow> elems (rc_Ports config) = [] \<and> rc_Port config = 0"
    by (auto simp: normalize_ports_def)
  then have "NormalizeRuntimeConfig config = None \<longleftrightarrow>
      legacy_exposure config \<and> elems (rc_Ports config) = [] \<and> rc_Port config = 0"
    by (auto simp: NormalizeRuntimeConfig_def normalize_endpoints_def Let_def split: option.splits list.splits)
  then show ?thesis using NormalizeRuntimeConfig_idem by blast
qed

theorem normalize_runtime_config_witness:
  "\<exists>c. NormalizeRuntimeConfig sample_config = Some c \<and> NormalizeRuntimeConfig c = Some c
     \<and> map pe_HostnameLabel (elems (rc_PublicEndpoints c)) = [''shop'']"
proof -
  obtain c where c: "NormalizeRuntimeConfig sample_config = Some c"
    and h: "map pe_HostnameLabel (elems (rc_PublicEndpoints c)) = [''shop'']"
    by (simp add: NormalizeRuntimeConfig_def sample_config_def normalize_ports_def Let_def
        normalize_endpoints_def legacy_exposure_def default_domain_def web_endpoint_def)
  then show ?thesis using normalize_runtime_config [of sample_config c] by auto
qed


text \<open>
  C23: A configuration that validates after normalisation can be deployed: the intent built from it
  exists and passes the intent validation with the same limits for every immutable image.
\<close>

theorem valid_config_gives_valid_intent:
  assumes "NormalizeRuntimeConfig config = Some c"
    and "ValidateRuntimeConfig c maxReplicas maxCPU maxMemory = None"
    and "ReleaseImageReference repository digest = Inr img"
  shows "\<exists>intent. IntentFromConfiguration img config = Some intent
           \<and> ValidateIntent intent maxReplicas maxCPU maxMemory = None
           \<and> NormalizeRuntimeConfig (ConfigurationFromIntent intent) = Some (ConfigurationFromIntent intent)"
proof -
  obtain intent where i: "IntentFromConfiguration img config = Some intent"
    using assms(1) by (auto simp: IntentFromConfiguration_def)
  note ci = config_of_intent [OF assms(1) i]
  have "valid_config (ConfigurationFromIntent intent) maxReplicas maxCPU maxMemory"
    using assms(2) unfolding ci ValidateRuntimeConfig_iff by (rule valid_config_no_parameters)
  moreover have "MatchString imagePattern img"
    using ReleaseImageReference_ok [OF assms(3)] unfolding imagePattern_iff by blast
  moreover have "NormalizeRuntimeConfig (c\<lparr>rc_Parameters := Some []\<rparr>) = Some (c\<lparr>rc_Parameters := Some []\<rparr>)"
    using NormalizeRuntimeConfig_idem [OF assms(1)] by (simp add: NormalizeRuntimeConfig_parameters)
  ultimately show ?thesis
    using i ci by (simp add: ValidateIntent_def ValidateRuntimeConfig_iff)
qed

theorem valid_config_gives_valid_intent_witness:
  "let d = ''sha256:'' @ replicate 64 CHR ''a'' in
   \<exists>intent. IntentFromConfiguration (''ghcr.io/acme/web@'' @ d) sample_config = Some intent
          \<and> ValidateIntent intent 3 1000 1024 = None"
proof -
  let ?d = "''sha256:'' @ replicate 64 CHR ''a''"
  obtain c where c: "NormalizeRuntimeConfig sample_config = Some c"
      "ValidateRuntimeConfig c 3 1000 1024 = None"
    by (rule that [of "the (NormalizeRuntimeConfig sample_config)"]) code_simp+
  have "ReleaseImageReference ''ghcr.io/acme/web'' ?d = Inr (''ghcr.io/acme/web@'' @ ?d)"
    by code_simp
  from valid_config_gives_valid_intent [OF c this] show ?thesis by (auto simp: Let_def)
qed

text \<open>
  C24: The deployment preview asks for a rollout exactly if the release or the normalised
  configuration differs from the current deployment, and always for a first deployment.
\<close>

theorem preview_rollout_iff_changed:
  assumes "PreviewDeployment current r revision = Some p"
  shows "dpv_RolloutRequired p \<longleftrightarrow>
     (case current of
        None \<Rightarrow> True
      | Some d \<Rightarrow> dpl_ReleasePublicID d \<noteq> r
          \<or> NormalizeRuntimeConfig (dpl_Configuration d) \<noteq> NormalizeRuntimeConfig (crv_Configuration revision))"
proof (cases current)
  case (Some d)
  with assms obtain before after where
    n: "NormalizeRuntimeConfig (dpl_Configuration d) = Some before"
       "NormalizeRuntimeConfig (crv_Configuration revision) = Some after"
    by (auto simp: PreviewDeployment_def Let_def split: option.splits)
  have "before = after \<longleftrightarrow> rc_Replicas before = rc_Replicas after \<and> rc_Ports before = rc_Ports after
      \<and> rc_PublicEndpoints before = rc_PublicEndpoints after \<and> rc_Probes before = rc_Probes after
      \<and> rc_Resources before = rc_Resources after \<and> rc_Variables before = rc_Variables after
      \<and> rc_Parameters before = rc_Parameters after"
    using n [THEN NormalizeRuntimeConfig_Some] by (auto intro!: RuntimeConfig.equality)
  with assms Some n show ?thesis
    by (auto simp: PreviewDeployment_def Let_def)
qed (use assms in \<open>auto simp: PreviewDeployment_def Let_def\<close>)

definition sample_revision :: ConfigurationRevision where
  "sample_revision = \<lparr>crv_AppEnvironmentID = 1, crv_AppEnvironmentPublicID = ''aev'', crv_Version = 2,
     crv_Configuration = sample_config, crv_CreatedBy = ''ana'', crv_CreatedAt = 0\<rparr>"

definition sample_deployment :: Deployment where
  "sample_deployment = \<lparr>dpl_ID = 1, dpl_PublicID = ''dep'', dpl_WorkspaceID = 1, dpl_AppEnvironmentID = 1,
     dpl_AppID = 1, dpl_AppEnvironmentPublicID = ''aev'', dpl_ReleasePublicID = ''rel'', dpl_Image = '''',
     dpl_ConfigurationVersion = 1, dpl_Configuration = sample_config\<lparr>rc_Replicas := 1\<rparr>,
     dpl_WorkloadKind = WorkloadStateless, dpl_AppVolumePublicID = '''',
     dpl_RequestedBy = \<lparr>act_ID = '''', act_Kind = '''', act_DisplayName = ''''\<rparr>,
     dpl_State = StateReady, dpl_Message = '''', dpl_ObservedRelease = '''',
     dpl_CreatedAt = 0, dpl_UpdatedAt = 0\<rparr>"

theorem preview_rollout_iff_changed_witness:
  "\<exists>p. PreviewDeployment (Some sample_deployment) ''rel'' sample_revision = Some p
     \<and> \<not> dpv_RolloutRequired p"
proof -
  have same: "NormalizeRuntimeConfig (dpl_Configuration sample_deployment)
      = NormalizeRuntimeConfig (crv_Configuration sample_revision)"
    by (simp add: sample_deployment_def sample_revision_def sample_config_def NormalizeRuntimeConfig_def
        normalize_ports_def normalize_endpoints_def legacy_exposure_def Let_def)
  obtain c where "NormalizeRuntimeConfig (crv_Configuration sample_revision) = Some c"
    by (simp add: sample_revision_def sample_config_def NormalizeRuntimeConfig_def
        normalize_ports_def normalize_endpoints_def legacy_exposure_def Let_def)
  with same obtain p where p: "PreviewDeployment (Some sample_deployment) ''rel'' sample_revision = Some p"
    by (simp add: PreviewDeployment_def Let_def)
  with preview_rollout_iff_changed [OF p] same show ?thesis
    by (simp add: sample_deployment_def)
qed

text \<open>
  C25: An accepted mount path is a rooted list of ordinary path elements, none of them \<open>.\<close> or \<open>..\<close>,
  that does not start in \<open>/dev\<close>, \<open>/proc\<close> or \<open>/sys\<close>; the requested size is positive.
\<close>

theorem accepted_mount_path:
  assumes "ValidateVolumeRequest v = None"
  shows "1 \<le> vr_SizeGiB v \<and>
     (\<exists>e es. vr_MountPath v = slash # Join (e # es) ''/'' \<and> list_all plain_element (e # es)
           \<and> (\<forall>x\<in>set (e # es). slash \<notin> set x) \<and> e \<noteq> ''dev'' \<and> e \<noteq> ''proc'' \<and> e \<noteq> ''sys'')"
proof -
  let ?m = "vr_MountPath v"
  have m: "1 \<le> vr_SizeGiB v" "HasPrefix ?m ''/''" "Clean ?m = ?m" "?m \<noteq> ''/''"
    and reserved: "\<forall>r\<in>set [''/dev'', ''/proc'', ''/sys'']. ?m \<noteq> r \<and> \<not> HasPrefix ?m (r @ ''/'')"
    using assms by (auto simp: ValidateVolumeRequest_def Let_def split: if_splits)
  obtain es where es: "?m = slash # Join es ''/''" "list_all plain_element es" "\<forall>e\<in>set es. slash \<notin> set e"
    using rooted_clean_path [OF m(2,3)] by blast
  with m(4) obtain f fs where fs: "es = f # fs" by (cases es) auto
  have "f \<noteq> ''dev''" "f \<noteq> ''proc''" "f \<noteq> ''sys''"
    using reserved reserved_prefix [OF es(1) [unfolded fs]] by auto
  with m(1) es fs show ?thesis by blast
qed

theorem accepted_mount_path_witness:
  "let v = \<lparr>vr_StorageProfileID = ''local'', vr_SizeGiB = 5, vr_MountPath = ''/var/lib''\<rparr> in
   ValidateVolumeRequest v = None \<and> 1 \<le> vr_SizeGiB v"
proof -
  have "ValidateVolumeRequest \<lparr>vr_StorageProfileID = ''local'', vr_SizeGiB = 5, vr_MountPath = ''/var/lib''\<rparr> = None"
    by code_simp
  from accepted_mount_path [OF this] this show ?thesis by simp
qed

end
