(* ===== verification/Store_Schema.thy ===== *)
theory Store_Schema
  imports Runtime_Config
begin

text \<open>
  The tables of the control plane's PostgreSQL store that the modelled operations read and write
  (\<open>services/control-plane-api/internal/store/migrations\<close>), and the error values of the package.

  A table is a list of rows and a row a record of its columns; nullable columns are options. The
  \<open>configuration_json\<close> columns hold the configuration value itself, not its JSON text. An
  identity column takes its values from a counter of the table. A transaction is a function from
  the database to an error or a result with the new database; \<open>commit\<close> turns it into an operation
  of the store that leaves the database unchanged on error. Unique indexes and check constraints
  are conditions of the inserts and updates that can violate them. Failures of the connection
  itself are not represented.
\<close>

section \<open>Errors\<close>

datatype store_error =
    ErrNotFound | ErrConflict | ErrVersionConflict | ErrIdempotencyConflict | ErrLeaseLost
  | ErrPublicIDCollision | ErrAgentUnavailable | ErrPublicationConflict | ErrPublicationUnavailable
  | ErrPublicationDomainNotAllowed | ErrPublicationHostnameReserved | ErrStorageProfileUnavailable
  | ErrStorageQuotaExceeded | ErrVolumeAttached | ErrDependencyConflict | ErrNameConflict | ErrParameterBinding | ErrAgentEnrollmentInvalid
  | ErrAgentEnrollmentConsumed | ErrAgentIdentityMismatch | ErrClusterNotFound | ErrClusterNotPending | ErrNoRows
  | ErrSessionInvalid | ErrResetCodeInvalid | ErrInvitationInvalid | ErrGovernanceInvariant
  | UniqueViolation string | CheckViolation string | ForeignKeyViolation string | Message string | Panic

definition translateDBError :: "store_error \<Rightarrow> store_error" where
  "translateDBError err = (case err of UniqueViolation _ \<Rightarrow> ErrConflict | _ \<Rightarrow> err)"

definition uniqueConstraint :: "store_error \<Rightarrow> string" where
  "uniqueConstraint err =
     (case err of UniqueViolation name \<Rightarrow> name | CheckViolation name \<Rightarrow> name
      | ForeignKeyViolation name \<Rightarrow> name | _ \<Rightarrow> '''')"

section \<open>Rows\<close>

record OperationRow =
  o_id :: int
  o_public_id :: string
  o_workspace_id :: int
  o_agent_installation_id :: "int option"
  o_app_environment_id :: "int option"
  o_deployment_id :: "int option"
  o_app_volume_id :: "int option"
  o_requested_by_user_id :: "int option"
  o_requested_by_principal_id :: int
  o_kind :: OperationKind
  o_status :: OperationStatus
  o_idempotency_hash :: string
  o_payload_hash :: string
  o_desired_version :: int
  o_attempts :: int
  o_next_attempt_at :: time
  o_lease_until :: "time option"
  o_worker_id :: "string option"
  o_fencing_token :: int
  o_error_code :: string
  o_error_message :: string
  o_started_at :: "time option"
  o_completed_at :: "time option"
  o_created_at :: time
  o_updated_at :: time

text \<open>
  The certificate columns of \<open>agent_installations\<close> are left out: the source keeps them filled for
  old versions only and reads \<open>agent_credentials\<close> instead.
\<close>

record AgentInstallationRow =
  ai_id :: int
  ai_public_id :: string
  ai_name :: string
  ai_status :: string
  ai_cluster_uid :: "string option"
  ai_agent_version :: string
  ai_kubernetes_version :: string
  ai_capabilities :: "string list"
  ai_workspace_provisioning_mode :: string
  ai_trust_bundle_id :: string
  ai_control_session_id :: "string option"
  ai_control_session_sequence :: int
  ai_last_seen_at :: "time option"
  ai_revoked_at :: "time option"
  ai_revocation_reason :: string
  ai_enrollment_attempt_id :: "string option"
  ai_csr_fingerprint :: "string option"
  ai_certificate_pem :: "string option"
  ai_ca_certificate_pem :: "string option"
  ai_certificate_serial :: "string option"
  ai_certificate_fingerprint :: "string option"
  ai_certificate_not_after :: "time option"
  ai_created_by :: int
  ai_created_at :: time
  ai_updated_at :: time

record EnrollmentTokenRow =
  et_installation_id :: int
  et_token_hash :: string
  et_expires_at :: time
  et_consumed_at :: "time option"
  et_created_at :: time

record AgentCredentialRow =
  ac_id :: int
  ac_installation_id :: int
  ac_status :: string
  ac_enrollment_attempt_id :: string
  ac_csr_fingerprint :: string
  ac_certificate_pem :: string
  ac_ca_certificate_pem :: string
  ac_server_ca_certificate_pem :: string
  ac_certificate_serial :: string
  ac_certificate_fingerprint :: string
  ac_certificate_not_after :: time
  ac_trust_bundle_id :: string
  ac_overlap_not_after :: "time option"
  ac_created_at :: time
  ac_updated_at :: time

record WorkspaceClusterRow =
  wc_workspace_id :: int
  wc_installation_id :: int
  wc_namespace_name :: string
  wc_state :: string
  wc_message :: string
  wc_observed_generation :: int
  wc_created_at :: time
  wc_updated_at :: time

record AppEnvironmentRow =
  aer_id :: int
  aer_public_id :: string
  aer_workspace_id :: int
  aer_cluster_id :: "int option"
  aer_project_id :: int
  aer_app_id :: int
  aer_environment_id :: int
  aer_source_branch :: string
  aer_runtime_name :: string
  aer_workload_kind :: string
  aer_configuration_json :: RuntimeConfig
  aer_configuration_version :: int
  aer_version :: int
  aer_desired_deployment_id :: "int option"
  aer_current_deployment_id :: "int option"
  aer_current_release_id :: "int option"
  aer_runtime_observed_generation :: int
  aer_runtime_observed_at :: "time option"
  aer_reconciliation_generation :: int
  aer_runtime_desired_version :: int
  aer_runtime_spec_hash :: "string option"
  aer_last_state :: RuntimeState
  aer_last_message :: string
  aer_deletion_requested_at :: "time option"
  aer_archived_at :: "time option"
  aer_created_at :: time
  aer_updated_at :: time

record DeploymentRow =
  dr_id :: int
  dr_public_id :: string
  dr_workspace_id :: int
  dr_app_environment_id :: int
  dr_app_id :: int
  dr_release_id :: int
  dr_requested_by_user_id :: "int option"
  dr_requested_by_principal_id :: int
  dr_configuration_version :: int
  dr_configuration_json :: RuntimeConfig
  dr_workload_kind :: string
  dr_app_volume_id :: "int option"
  dr_status :: RuntimeState
  dr_message :: string
  dr_observed_release :: string
  dr_started_at :: "time option"
  dr_completed_at :: "time option"
  dr_created_at :: time
  dr_updated_at :: time

record AppVolumeRow =
  vol_id :: int
  vol_public_id :: string
  vol_workspace_id :: int
  vol_app_environment_id :: int
  vol_storage_profile_id :: string
  vol_requested_size_gib :: int
  vol_observed_size_gib :: int
  vol_mount_path :: string
  vol_retention_policy :: string
  vol_desired_state :: string
  vol_observed_state :: string
  vol_message :: string
  vol_version :: int
  vol_runtime_storage_class_name :: string
  vol_storage_binding_version :: int
  vol_runtime_desired_version :: int
  vol_runtime_spec_hash :: "string option"
  vol_runtime_reconciliation_generation :: int
  vol_deletion_requested_at :: "time option"
  vol_created_at :: time
  vol_updated_at :: time

record PublicationClaimRow =
  pc_id :: int
  pc_app_environment_id :: int
  pc_endpoint_name :: string
  pc_endpoint_type :: string
  pc_hostname :: string
  pc_external_port :: "int option"
  pc_desired_configuration_version :: "int option"
  pc_current_configuration_version :: "int option"
  pc_created_at :: time
  pc_updated_at :: time

record ProjectRow =
  prj_id :: int
  prj_public_id :: string
  prj_workspace_id :: int
  prj_name :: string
  prj_name_key :: string
  prj_version :: int
  prj_created_at :: time
  prj_updated_at :: time
  prj_archived_at :: "time option"

record EnvironmentRow =
  env_id :: int
  env_public_id :: string
  env_project_id :: int
  env_name :: string
  env_name_key :: string
  env_version :: int
  env_created_at :: time
  env_updated_at :: time
  env_archived_at :: "time option"

record AppRow =
  app_id :: int
  app_public_id :: string
  app_project_id :: int
  app_name :: string
  app_name_key :: string
  app_version :: int
  app_created_at :: time
  app_updated_at :: time
  app_archived_at :: "time option"

record MembershipRow =
  wm_workspace_id :: int
  wm_user_id :: int
  wm_role :: string
  wm_status :: string
  wm_version :: int
  wm_created_at :: time
  wm_updated_at :: time

record ReleaseRow =
  rr_id :: int
  rr_public_id :: string
  rr_workspace_id :: int
  rr_project_id :: int
  rr_app_id :: int
  rr_build_id :: "int option"
  rr_commit_sha :: "string option"
  rr_image :: string
  rr_platform :: "string option"
  rr_created_at :: time
  rr_app_environment_id :: "int option"
  rr_availability_status :: string
  rr_expired_at :: "time option"
  rr_origin_kind :: string
  rr_source_provider :: "string option"
  rr_source_repository :: "string option"
  rr_source_revision :: "string option"
  rr_source_ref :: "string option"
  rr_producer_kind :: string
  rr_producer_external_id :: "string option"
  rr_producer_url :: "string option"
  rr_created_by_principal_id :: int
  rr_idempotency_hash :: "string option"
  rr_payload_hash :: "string option"
  rr_provenance_status :: string

record PrincipalRow =
  p_id :: int
  p_public_id :: string
  p_kind :: string
  p_display_name :: string
  p_status :: string
  p_created_at :: time
  p_updated_at :: time

record UserRow =
  u_id :: int
  u_username :: string
  u_created_at :: time
  u_public_id :: string
  u_username_key :: string
  u_display_name :: string
  u_status :: string
  u_version :: int
  u_auth_version :: int
  u_updated_at :: time
  u_principal_id :: int

record ConfigurationRevisionRow =
  cr_app_environment_id :: int
  cr_version :: int
  cr_configuration_json :: RuntimeConfig
  cr_created_by_user_id :: "int option"
  cr_created_at :: time

record StorageProfileInstallation =
  sp_ID :: string
  sp_Name :: string
  sp_MinimumSizeGiB :: int
  sp_MaximumSizeGiB :: int
  sp_TotalCapacityGiB :: int
  sp_WorkspaceQuotaGiB :: int
  sp_Expandable :: bool
  sp_Snapshots :: bool
  sp_AutomaticBackup :: bool
  sp_Durability :: string
  sp_RuntimeBinding :: string
  sp_Enabled :: bool

record StorageProfileRow = StorageProfileInstallation +
  spr_version :: int
  spr_created_at :: time
  spr_updated_at :: time

record StorageBindingRow =
  csb_cluster_id :: int
  csb_storage_profile_id :: string
  csb_storage_class_name :: string
  csb_provisioner :: string
  csb_access_modes :: "string list"
  csb_allow_expansion :: bool
  csb_volume_binding_mode :: string
  csb_health :: string
  csb_reason_code :: string
  csb_observed_at :: "time option"
  csb_expires_at :: "time option"
  csb_observed_session_id :: string
  csb_observed_sequence :: int
  csb_version :: int
  csb_created_by :: int
  csb_updated_by :: int
  csb_created_at :: time
  csb_updated_at :: time

record ParameterRow =
  pm_id :: int
  pm_public_id :: string
  pm_workspace_id :: int
  pm_path :: string
  pm_kind :: string
  pm_description :: string
  pm_current_version :: int
  pm_version :: int
  pm_archived_at :: "time option"
  pm_created_at :: time
  pm_updated_at :: time
  pm_value_state :: string
  pm_purge_after :: "time option"
  pm_purged_at :: "time option"

record ParameterVersionRow =
  pv_parameter_id :: int
  pv_version :: int
  pv_created_by_user_id :: int
  pv_plaintext_value :: "string option"
  pv_secret_reference :: "string option"
  pv_secret_backend_version :: "int option"
  pv_fingerprint :: string
  pv_created_at :: time
  pv_value_state :: string
  pv_expected_secret_backend_version :: "int option"
  pv_idempotency_hash :: string
  pv_payload_hash :: string
  pv_requested_path :: "string option"
  pv_requested_description :: "string option"
  pv_completed_at :: "time option"

record ParameterBindingRow =
  apb_app_environment_id :: int
  apb_environment_name :: string
  apb_parameter_id :: int
  apb_parameter_version :: int
  apb_created_at :: time

text \<open>\<open>internal/audit\<close>: an audit event; the metadata is its JSON text.\<close>

record Event =
  aud_PublicID :: string
  aud_ActorUserID :: "int option"
  aud_ActorPrincipalID :: "int option"
  aud_SessionID :: "int option"
  aud_WorkspaceID :: "int option"
  aud_Action :: string
  aud_TargetType :: string
  aud_TargetPublicID :: string
  aud_Outcome :: string
  aud_Reason :: string
  aud_RequestID :: string
  aud_TraceID :: string
  aud_SourceHash :: string
  aud_UserAgentHash :: string
  aud_Metadata :: string

text \<open>Accounts: credentials, sessions, roles and grants of users, and second factors.\<close>

record PasswordCredentialRow =
  pcr_user_id :: int
  pcr_password_hash :: string
  pcr_changed_at :: time

record RoleAssignmentRow =
  ra_user_id :: int
  ra_role :: string
  ra_created_at :: time

record SessionRow =
  sn_id :: int
  sn_public_id :: string
  sn_token_hash :: string
  sn_user_id :: int
  sn_csrf_hash :: string
  sn_expires_at :: time
  sn_idle_expires_at :: time
  sn_revoked_at :: "time option"
  sn_auth_version :: int
  sn_assurance_level :: string
  sn_last_seen_at :: time
  sn_created_at :: time

record RateLimitRow =
  rl_key_hash :: string
  rl_failures :: int
  rl_blocked_until :: "time option"
  rl_updated_at :: time

record ResetGrantRow =
  rg_id :: int
  rg_public_id :: string
  rg_user_id :: int
  rg_code_hash :: string
  rg_attempts :: int
  rg_expires_at :: time
  rg_verified_at :: "time option"
  rg_consumed_at :: "time option"
  rg_created_by_user_id :: int
  rg_created_at :: time

record InvitationRow =
  inv_id :: int
  inv_public_id :: string
  inv_user_id :: int
  inv_token_hash :: string
  inv_expires_at :: time
  inv_accepted_at :: "time option"
  inv_revoked_at :: "time option"
  inv_created_by_user_id :: int
  inv_created_at :: time

record GroupRow =
  grp_id :: int
  grp_public_id :: string
  grp_workspace_id :: int
  grp_name :: string
  grp_name_key :: string
  grp_version :: int
  grp_created_at :: time
  grp_updated_at :: time

record GroupMemberRow =
  gm_workspace_id :: int
  gm_group_id :: int
  gm_user_id :: int
  gm_created_at :: time

record AccessGrantRow =
  agr_id :: int
  agr_public_id :: string
  agr_workspace_id :: int
  agr_subject_type :: string
  agr_subject_id :: int
  agr_resource_type :: string
  agr_resource_public_id :: string
  agr_relation :: string
  agr_created_by_user_id :: int
  agr_created_at :: time

record TOTPCredentialRow =
  tc_user_id :: int
  tc_secret_reference :: string
  tc_secret_version :: int
  tc_enabled_at :: time
  tc_last_used_step :: int

record RecoveryCodeRow =
  rec_id :: int
  rec_user_id :: int
  rec_code_hash :: string
  rec_used_at :: "time option"
  rec_created_at :: time

record ChallengeRow =
  ch_id :: int
  ch_challenge_hash :: string
  ch_user_id :: int
  ch_kind :: string
  ch_payload_json :: string
  ch_attempts :: int
  ch_expires_at :: time
  ch_consumed_at :: "time option"
  ch_created_at :: time

record account_tables =
  password_credentials :: "PasswordCredentialRow list"
  installation_role_assignments :: "RoleAssignmentRow list"
  sessions :: "SessionRow list"
  authentication_rate_limits :: "RateLimitRow list"
  password_reset_grants :: "ResetGrantRow list"
  user_invitations :: "InvitationRow list"
  workspace_groups :: "GroupRow list"
  workspace_group_members :: "GroupMemberRow list"
  access_grants :: "AccessGrantRow list"
  totp_credentials :: "TOTPCredentialRow list"
  webauthn_credentials :: "int list"
  recovery_codes :: "RecoveryCodeRow list"
  authentication_challenges :: "ChallengeRow list"
  users_seq :: int
  principals_seq :: int
  sessions_seq :: int
  password_reset_grants_seq :: int
  user_invitations_seq :: int
  workspace_groups_seq :: int
  access_grants_seq :: int
  recovery_codes_seq :: int
  authentication_challenges_seq :: int

section \<open>The database\<close>

text \<open>The tables of accounts are one field; passkeys are kept by the user they belong to.\<close>

record database =
  operations :: "OperationRow list"
  agent_installations :: "AgentInstallationRow list"
  workspaces :: "Workspace list"
  workspace_clusters :: "WorkspaceClusterRow list"
  workspace_memberships :: "MembershipRow list"
  projects :: "ProjectRow list"
  apps :: "AppRow list"
  environments :: "EnvironmentRow list"
  releases :: "ReleaseRow list"
  principals :: "PrincipalRow list"
  users :: "UserRow list"
  app_environments :: "AppEnvironmentRow list"
  configuration_revisions :: "ConfigurationRevisionRow list"
  deployments :: "DeploymentRow list"
  app_volumes :: "AppVolumeRow list"
  publication_claims :: "PublicationClaimRow list"
  storage_profiles :: "StorageProfileRow list"
  cluster_storage_bindings :: "StorageBindingRow list"
  parameters :: "ParameterRow list"
  parameter_versions :: "ParameterVersionRow list"
  parameter_bindings :: "ParameterBindingRow list"
  agent_enrollment_tokens :: "EnrollmentTokenRow list"
  agent_credentials :: "AgentCredentialRow list"
  audit_events :: "Event list"
  accounts :: account_tables
  workspaces_seq :: int
  projects_seq :: int
  apps_seq :: int
  environments_seq :: int
  agent_installations_seq :: int
  agent_credentials_seq :: int
  app_environments_seq :: int
  operations_seq :: int
  deployments_seq :: int
  app_volumes_seq :: int
  publication_claims_seq :: int

type_synonym 'a tx = "database \<Rightarrow> store_error + ('a \<times> database)"

definition commit :: "'a tx \<Rightarrow> database \<Rightarrow> (store_error + 'a) \<times> database" where
  "commit t db = (case t db of Inl err \<Rightarrow> (Inl err, db) | Inr (x, db') \<Rightarrow> (Inr x, db'))"

lemma commit_simps [simp]:
  "t db = Inl err \<Longrightarrow> commit t db = (Inl err, db)"
  "t db = Inr (x, db') \<Longrightarrow> commit t db = (Inr x, db')"
  by (simp_all add: commit_def)

lemma commit_Inr: "commit t db = (Inr x, db') \<longleftrightarrow> t db = Inr (x, db')"
  by (auto simp: commit_def split: sum.splits)

lemma commit_Inl: "commit t db = (Inl err, db') \<longleftrightarrow> t db = Inl err \<and> db' = db"
  by (auto simp: commit_def split: sum.splits)

definition COALESCE :: "'a option \<Rightarrow> 'a \<Rightarrow> 'a" where
  "COALESCE v d = (case v of None \<Rightarrow> d | Some x \<Rightarrow> x)"

lemma COALESCE_simps [simp]: "COALESCE None d = d" "COALESCE (Some x) d = x"
  by (simp_all add: COALESCE_def)

definition NULLIF0 :: "int \<Rightarrow> int option" where
  "NULLIF0 i = (if i = 0 then None else Some i)"

text \<open>
  What a configuration column gives back: the JSON text leaves out the fields tagged \<open>json:"-"\<close>. The
  strings of a configuration come from a JSON request, so they are valid UTF-8 and the text
  determines all other fields.
\<close>

definition stored_configuration :: "RuntimeConfig \<Rightarrow> RuntimeConfig" where
  "stored_configuration c =
     c\<lparr>rc_PublicEndpoints := map_option (map (\<lambda>e. e\<lparr>pe_Hostname := []\<rparr>)) (rc_PublicEndpoints c),
       rc_Port := 0, rc_Exposure := [], rc_Slug := []\<rparr>"

text \<open>Text columns are compared byte by byte, as with the \<open>C\<close> collation.\<close>

fun text_le :: "string \<Rightarrow> string \<Rightarrow> bool" where
  "text_le [] t = True"
| "text_le (a # s) [] = False"
| "text_le (a # s) (b # t) = (byte_of a < byte_of b \<or> a = b \<and> text_le s t)"

fun insert_text :: "('r \<Rightarrow> string) \<Rightarrow> 'r \<Rightarrow> 'r list \<Rightarrow> 'r list" where
  "insert_text key r [] = [r]"
| "insert_text key r (q # qs) = (if text_le (key r) (key q) then r # q # qs else q # insert_text key r qs)"

definition order_by_text :: "('r \<Rightarrow> string) \<Rightarrow> 'r list \<Rightarrow> 'r list" where
  "order_by_text key rows = foldr (insert_text key) rows []"

lemma set_insert_text [simp]: "set (insert_text key r rows) = insert r (set rows)"
  by (induction rows) auto

lemma set_order_by_text [simp]: "set (order_by_text key rows) = set rows"
  unfolding order_by_text_def by (induction rows) simp_all

text \<open>\<open>QueryRow\<close> on a condition that a unique key determines: the first row, or no rows.\<close>

definition query_row :: "('r \<Rightarrow> bool) \<Rightarrow> 'r list \<Rightarrow> store_error + 'r" where
  "query_row p rows = (case find p rows of None \<Rightarrow> Inl ErrNoRows | Some r \<Rightarrow> Inr r)"

lemma query_row_Inr: "query_row p rows = Inr r \<Longrightarrow> r \<in> set rows \<and> p r"
  by (auto simp: query_row_def find_Some_iff split: option.splits)

lemma query_row_Inl: "query_row p rows = Inl e \<longleftrightarrow> e = ErrNoRows \<and> (\<forall>r\<in>set rows. \<not> p r)"
  by (auto simp: query_row_def find_None_iff find_Some_iff split: option.splits)

lemma query_row_unique:
  assumes "y \<in> set rows" and "q y" and "\<And>z. z \<in> set rows \<Longrightarrow> q z \<Longrightarrow> z = y"
  shows "query_row q rows = Inr y"
proof (cases "query_row q rows")
  case (Inl e)
  then show ?thesis using assms(1,2) by (auto simp: query_row_Inl)
next
  case (Inr z)
  then show ?thesis using query_row_Inr [OF Inr] assms(3) by simp
qed

definition empty_accounts :: account_tables where
  "empty_accounts =
     \<lparr>password_credentials = [], installation_role_assignments = [], sessions = [], authentication_rate_limits = [],
      password_reset_grants = [], user_invitations = [], workspace_groups = [], workspace_group_members = [],
      access_grants = [], totp_credentials = [], webauthn_credentials = [], recovery_codes = [],
      authentication_challenges = [], users_seq = 1, principals_seq = 1, sessions_seq = 1,
      password_reset_grants_seq = 1, user_invitations_seq = 1, workspace_groups_seq = 1, access_grants_seq = 1,
      recovery_codes_seq = 1, authentication_challenges_seq = 1\<rparr>"

definition empty_database :: database where
  "empty_database =
     \<lparr>operations = [], agent_installations = [], workspaces = [], workspace_clusters = [], workspace_memberships = [], projects = [],
      apps = [], environments = [], releases = [], principals = [], users = [], app_environments = [],
      configuration_revisions = [], deployments = [], app_volumes = [], publication_claims = [],
      storage_profiles = [], cluster_storage_bindings = [], parameters = [], parameter_versions = [],
      parameter_bindings = [], agent_enrollment_tokens = [], agent_credentials = [], audit_events = [],
      accounts = empty_accounts,
      workspaces_seq = 1, projects_seq = 1, apps_seq = 1, environments_seq = 1,
      agent_installations_seq = 1, agent_credentials_seq = 1, app_environments_seq = 1, operations_seq = 1, deployments_seq = 1,
      app_volumes_seq = 1, publication_claims_seq = 1\<rparr>"

section \<open>Audit events\<close>

definition audit_id_pattern :: regexp where "audit_id_pattern = id_pattern ''aud-''"

definition action_char :: "char \<Rightarrow> bool" where
  "action_char c \<longleftrightarrow> lower_digit c \<or> c = CHR ''_'' \<or> c = CHR ''.''"

definition audit_action_pattern :: regexp where
  "audit_action_pattern = Seq (Cls (in_range CHR ''a'' CHR ''z'')) (RepRange 2 127 (Cls action_char))"

definition insertAudit :: "Event \<Rightarrow> unit tx" where
  "insertAudit event db =
     (let actor = (case aud_ActorPrincipalID event of
                     Some p \<Rightarrow> Some p
                   | None \<Rightarrow> (case aud_ActorUserID event of
                              None \<Rightarrow> None
                            | Some u \<Rightarrow> map_option u_principal_id (find (\<lambda>x. u_id x = u) (users db))))
      in if \<not> MatchString audit_id_pattern (aud_PublicID event)
         then Inl (CheckViolation ''audit_events_public_id_valid'')
         else if \<not> MatchString audit_action_pattern (aud_Action event)
         then Inl (CheckViolation ''audit_events_action_valid'')
         else if aud_Outcome event \<notin> {''Succeeded'', ''Failed'', ''Denied''}
         then Inl (CheckViolation ''audit_events_outcome_valid'')
         else if list_ex (\<lambda>e. aud_PublicID e = aud_PublicID event) (audit_events db)
         then Inl (UniqueViolation ''audit_events_public_id_key'')
         else Inr ((), db\<lparr>audit_events := audit_events db @ [event\<lparr>aud_ActorPrincipalID := actor\<rparr>]\<rparr>))"

lemma insertAudit_frame:
  "insertAudit event db = Inr (u, db') \<Longrightarrow> \<exists>e. db' = db\<lparr>audit_events := audit_events db @ [e]\<rparr>"
  by (auto simp: insertAudit_def Let_def split: if_splits)

end
