(* ===== verification/Store_Reads.thy ===== *)
theory Store_Reads
  imports Store_Schema
begin

text \<open>
  Reads of the store: the joins and scans that build the domain values of
  \<open>app_environment.go\<close>, \<open>deployment.go\<close> and \<open>volume.go\<close> from the tables. An inner join without a
  partner gives no rows. Normalisation of the stored configuration may panic.
\<close>

section \<open>App environments\<close>

definition find_by :: "('r \<Rightarrow> int) \<Rightarrow> int option \<Rightarrow> 'r list \<Rightarrow> 'r option" where
  "find_by key i rows = (case i of None \<Rightarrow> None | Some k \<Rightarrow> find (\<lambda>r. key r = k) rows)"

definition optional_string :: "('r \<Rightarrow> string) \<Rightarrow> 'r option \<Rightarrow> string" where
  "optional_string f r = (case r of None \<Rightarrow> '''' | Some x \<Rightarrow> f x)"

definition optional_int :: "('r \<Rightarrow> int) \<Rightarrow> 'r option \<Rightarrow> int" where
  "optional_int f r = (case r of None \<Rightarrow> 0 | Some x \<Rightarrow> f x)"

definition scanAppEnvironment :: "database \<Rightarrow> AppEnvironmentRow \<Rightarrow> store_error + AppEnvironment" where
  "scanAppEnvironment db ae =
     (case (find (\<lambda>p. prj_id p = aer_project_id ae) (projects db),
            find (\<lambda>a. app_id a = aer_app_id ae) (apps db),
            find (\<lambda>e. env_id e = aer_environment_id ae) (environments db)) of
        (Some p, Some a, Some e) \<Rightarrow>
          let ai = find_by ai_id (aer_cluster_id ae) (agent_installations db);
              dd = find_by dr_id (aer_desired_deployment_id ae) (deployments db);
              cd = find_by dr_id (aer_current_deployment_id ae) (deployments db);
              cr = find_by rr_id (aer_current_release_id ae) (releases db)
          in (case NormalizeRuntimeConfig (aer_configuration_json ae) of
                None \<Rightarrow> Inl Panic
              | Some configuration \<Rightarrow> Inr
                  \<lparr>ae_ID = aer_id ae, ae_PublicID = aer_public_id ae, ae_WorkspaceID = aer_workspace_id ae,
                   ae_ClusterID = COALESCE (aer_cluster_id ae) 0,
                   ae_ClusterPublicID = optional_string ai_public_id ai,
                   ae_ClusterUID = optional_string (\<lambda>i. COALESCE (ai_cluster_uid i) '''') ai,
                   ae_ProjectID = aer_project_id ae, ae_AppID = aer_app_id ae,
                   ae_EnvironmentID = aer_environment_id ae,
                   ae_ProjectPublicID = prj_public_id p, ae_AppPublicID = app_public_id a,
                   ae_AppName = app_name a, ae_EnvironmentPublicID = env_public_id e,
                   ae_EnvironmentName = env_name e, ae_SourceBranch = aer_source_branch ae,
                   ae_WorkloadKind = aer_workload_kind ae, ae_RuntimeName = aer_runtime_name ae,
                   ae_Configuration = configuration,
                   ae_ConfigurationVersion = aer_configuration_version ae, ae_Version = aer_version ae,
                   ae_DesiredDeploymentPublicID = optional_string dr_public_id dd,
                   ae_CurrentDeploymentPublicID = optional_string dr_public_id cd,
                   ae_CurrentReleasePublicID = optional_string rr_public_id cr,
                   ae_DesiredConfigurationVersion = optional_int dr_configuration_version dd,
                   ae_CurrentConfigurationVersion = optional_int dr_configuration_version cd,
                   ae_RuntimeObservedGeneration = aer_runtime_observed_generation ae,
                   ae_RuntimeObservedAt = aer_runtime_observed_at ae,
                   ae_State = aer_last_state ae, ae_Message = aer_last_message ae,
                   ae_CreatedAt = aer_created_at ae, ae_UpdatedAt = aer_updated_at ae,
                   ae_DeletionRequestedAt = aer_deletion_requested_at ae,
                   ae_ArchivedAt = aer_archived_at ae\<rparr>)
      | _ \<Rightarrow> Inl ErrNoRows)"

definition select_app_environment :: "database \<Rightarrow> (AppEnvironmentRow \<Rightarrow> bool) \<Rightarrow> store_error + AppEnvironment" where
  "select_app_environment db p =
     (case query_row p (app_environments db) of
        Inl err \<Rightarrow> Inl err
      | Inr row \<Rightarrow> scanAppEnvironment db row)"

definition appEnvironmentByID :: "database \<Rightarrow> int \<Rightarrow> store_error + AppEnvironment" where
  "appEnvironmentByID db i = select_app_environment db (\<lambda>ae. aer_id ae = i)"

text \<open>\<open>FindAppEnvironment\<close> and \<open>appEnvironmentForUpdate\<close> select the same row; the second also locks it.\<close>

definition FindAppEnvironment :: "database \<Rightarrow> int \<Rightarrow> string \<Rightarrow> store_error + AppEnvironment" where
  "FindAppEnvironment db workspaceID publicID =
     (case select_app_environment db (\<lambda>ae. aer_workspace_id ae = workspaceID
             \<and> aer_public_id ae = publicID \<and> aer_archived_at ae = None) of
        Inl ErrNoRows \<Rightarrow> Inl ErrNotFound
      | r \<Rightarrow> r)"

definition appEnvironmentForUpdate :: "database \<Rightarrow> int \<Rightarrow> string \<Rightarrow> store_error + AppEnvironment" where
  "appEnvironmentForUpdate db workspaceID publicID =
     (case select_app_environment db (\<lambda>ae. aer_workspace_id ae = workspaceID
             \<and> aer_public_id ae = publicID \<and> aer_archived_at ae = None) of
        Inl ErrNoRows \<Rightarrow> Inl ErrNotFound
      | r \<Rightarrow> r)"

section \<open>Deployments\<close>

definition scanDeployment :: "database \<Rightarrow> DeploymentRow \<Rightarrow> store_error + Deployment" where
  "scanDeployment db d =
     (case (find (\<lambda>ae. aer_id ae = dr_app_environment_id d) (app_environments db),
            find (\<lambda>r. rr_id r = dr_release_id d) (releases db),
            find (\<lambda>p. p_id p = dr_requested_by_principal_id d) (principals db)) of
        (Some ae, Some r, Some p) \<Rightarrow>
          (case NormalizeRuntimeConfig (dr_configuration_json d) of
             None \<Rightarrow> Inl Panic
           | Some configuration \<Rightarrow> Inr
               \<lparr>dpl_ID = dr_id d, dpl_PublicID = dr_public_id d, dpl_WorkspaceID = dr_workspace_id d,
                dpl_AppEnvironmentID = dr_app_environment_id d, dpl_AppID = dr_app_id d,
                dpl_AppEnvironmentPublicID = aer_public_id ae, dpl_ReleasePublicID = rr_public_id r,
                dpl_Image = rr_image r, dpl_ConfigurationVersion = dr_configuration_version d,
                dpl_Configuration = configuration, dpl_WorkloadKind = dr_workload_kind d,
                dpl_AppVolumePublicID =
                  optional_string vol_public_id (find_by vol_id (dr_app_volume_id d) (app_volumes db)),
                dpl_RequestedBy = \<lparr>act_ID = p_public_id p, act_Kind = p_kind p,
                                   act_DisplayName = p_display_name p\<rparr>,
                dpl_State = dr_status d, dpl_Message = dr_message d,
                dpl_ObservedRelease = dr_observed_release d,
                dpl_CreatedAt = dr_created_at d, dpl_UpdatedAt = dr_updated_at d\<rparr>)
      | _ \<Rightarrow> Inl ErrNoRows)"

definition deploymentByID :: "database \<Rightarrow> int \<Rightarrow> store_error + Deployment" where
  "deploymentByID db i =
     (case query_row (\<lambda>d. dr_id d = i) (deployments db) of
        Inl err \<Rightarrow> Inl err
      | Inr row \<Rightarrow> scanDeployment db row)"

definition FindDeployment :: "database \<Rightarrow> int \<Rightarrow> int \<Rightarrow> string \<Rightarrow> store_error + Deployment" where
  "FindDeployment db workspaceID appEnvironmentID publicID =
     (case (case query_row (\<lambda>d. dr_workspace_id d = workspaceID \<and> dr_app_environment_id d = appEnvironmentID
                              \<and> dr_public_id d = publicID) (deployments db) of
              Inl err \<Rightarrow> Inl err
            | Inr row \<Rightarrow> scanDeployment db row) of
        Inl ErrNoRows \<Rightarrow> Inl ErrNotFound
      | r \<Rightarrow> r)"

section \<open>Configuration revisions\<close>

definition scanConfigurationRevision :: "database \<Rightarrow> AppEnvironmentRow \<Rightarrow> ConfigurationRevisionRow \<Rightarrow> store_error + ConfigurationRevision" where
  "scanConfigurationRevision db ae r =
     (case NormalizeRuntimeConfig (cr_configuration_json r) of
        None \<Rightarrow> Inl Panic
      | Some configuration \<Rightarrow> Inr
          \<lparr>crv_AppEnvironmentID = cr_app_environment_id r, crv_AppEnvironmentPublicID = aer_public_id ae,
           crv_Version = cr_version r, crv_Configuration = configuration,
           crv_CreatedBy = (case find_by u_id (cr_created_by_user_id r) (users db) of
                              None \<Rightarrow> ''system'' | Some u \<Rightarrow> u_username u),
           crv_CreatedAt = cr_created_at r\<rparr>)"

definition configurationRevision :: "database \<Rightarrow> int \<Rightarrow> int \<Rightarrow> int \<Rightarrow> store_error + ConfigurationRevision" where
  "configurationRevision db workspaceID appEnvironmentID version =
     (case (query_row (\<lambda>ae. aer_id ae = appEnvironmentID \<and> aer_workspace_id ae = workspaceID) (app_environments db),
            query_row (\<lambda>r. cr_app_environment_id r = appEnvironmentID \<and> cr_version r = version)
              (configuration_revisions db)) of
        (Inr ae, Inr r) \<Rightarrow> scanConfigurationRevision db ae r
      | _ \<Rightarrow> Inl ErrNotFound)"

section \<open>Volumes and workspaces\<close>

definition volume_attached :: "database \<Rightarrow> AppEnvironmentRow \<Rightarrow> AppVolumeRow \<Rightarrow> bool" where
  "volume_attached db ae av \<longleftrightarrow>
     aer_archived_at ae = None \<and>
     list_ex (\<lambda>d. dr_app_volume_id d = Some (vol_id av)
                  \<and> dr_status d \<in> {StatePending, StateProgressing, StateReady}) (deployments db)"

definition scanAppVolume :: "database \<Rightarrow> AppVolumeRow \<Rightarrow> store_error + AppVolume" where
  "scanAppVolume db av =
     (case query_row (\<lambda>ae. aer_id ae = vol_app_environment_id av) (app_environments db) of
        Inl err \<Rightarrow> Inl err
      | Inr ae \<Rightarrow> Inr
          \<lparr>av_ID = vol_id av, av_PublicID = vol_public_id av, av_WorkspaceID = vol_workspace_id av,
           av_AppEnvironmentID = vol_app_environment_id av, av_AppEnvironmentPublicID = aer_public_id ae,
           av_StorageProfileID = vol_storage_profile_id av, av_RuntimeStorageClass = '''',
           av_StorageBindingVersion = 0,
           av_SizeGiB = vol_requested_size_gib av, av_MountPath = vol_mount_path av,
           av_RetentionPolicy = vol_retention_policy av, av_DesiredState = vol_desired_state av,
           av_State = vol_observed_state av, av_Message = vol_message av,
           av_Attached = volume_attached db ae av, av_Version = vol_version av,
           av_CreatedAt = vol_created_at av, av_UpdatedAt = vol_updated_at av,
           av_DeletionRequestedAt = vol_deletion_requested_at av\<rparr>)"

definition appVolumeByID :: "database \<Rightarrow> int \<Rightarrow> store_error + AppVolume" where
  "appVolumeByID db i =
     (case query_row (\<lambda>av. vol_id av = i) (app_volumes db) of
        Inl err \<Rightarrow> Inl err
      | Inr row \<Rightarrow> scanAppVolume db row)"

definition volume_of_environment :: "database \<Rightarrow> int \<Rightarrow> string \<Rightarrow> AppVolumeRow \<Rightarrow> bool" where
  "volume_of_environment db workspaceID appEnvironmentPublicID av \<longleftrightarrow>
     vol_workspace_id av = workspaceID \<and>
     list_ex (\<lambda>ae. aer_id ae = vol_app_environment_id av \<and> aer_public_id ae = appEnvironmentPublicID)
       (app_environments db)"

definition FindAppVolume :: "database \<Rightarrow> int \<Rightarrow> string \<Rightarrow> store_error + AppVolume" where
  "FindAppVolume db workspaceID appEnvironmentPublicID =
     (case query_row (volume_of_environment db workspaceID appEnvironmentPublicID) (app_volumes db) of
        Inl err \<Rightarrow> Inl ErrNotFound
      | Inr row \<Rightarrow> (case scanAppVolume db row of Inl ErrNoRows \<Rightarrow> Inl ErrNotFound | r \<Rightarrow> r))"

record VolumeRuntime =
  vrt_Volume :: AppVolume
  vrt_RuntimeBinding :: string

definition VolumeRuntime_of :: "database \<Rightarrow> int \<Rightarrow> int \<Rightarrow> store_error + VolumeRuntime" where
  "VolumeRuntime_of db workspaceID volumeID =
     (case query_row (\<lambda>av. vol_workspace_id av = workspaceID \<and> vol_id av = volumeID) (app_volumes db) of
        Inl err \<Rightarrow> Inl ErrNotFound
      | Inr row \<Rightarrow>
          (case scanAppVolume db row of
             Inl ErrNoRows \<Rightarrow> Inl ErrNotFound
           | Inl err \<Rightarrow> Inl err
           | Inr volume \<Rightarrow> Inr \<lparr>vrt_Volume = volume,
                                vrt_RuntimeBinding = vol_runtime_storage_class_name row\<rparr>))"

definition Workspace_of :: "database \<Rightarrow> int \<Rightarrow> store_error + Workspace" where
  "Workspace_of db workspaceID = query_row (\<lambda>w. ws_ID w = workspaceID) (workspaces db)"

definition principalIDForUser :: "database \<Rightarrow> int \<Rightarrow> store_error + int" where
  "principalIDForUser db userID =
     (case query_row (\<lambda>u. u_id u = userID) (users db) of
        Inl err \<Rightarrow> Inl err
      | Inr u \<Rightarrow> Inr (u_principal_id u))"

section \<open>What reads depend on\<close>

lemma scan_operations [simp]:
  "scanAppEnvironment (db\<lparr>operations := ops\<rparr>) ae = scanAppEnvironment db ae"
  "scanDeployment (db\<lparr>operations := ops\<rparr>) d = scanDeployment db d"
  "scanAppVolume (db\<lparr>operations := ops\<rparr>) av = scanAppVolume db av"
  by (auto simp: scanAppEnvironment_def scanDeployment_def scanAppVolume_def volume_attached_def
      split: option.split sum.split)

lemma reads_operations [simp]:
  "appEnvironmentByID (db\<lparr>operations := ops\<rparr>) i = appEnvironmentByID db i"
  "deploymentByID (db\<lparr>operations := ops\<rparr>) i = deploymentByID db i"
  "appVolumeByID (db\<lparr>operations := ops\<rparr>) i = appVolumeByID db i"
  by (auto simp: appEnvironmentByID_def select_app_environment_def deploymentByID_def appVolumeByID_def
      split: sum.split)

lemma deploymentByID_id: "deploymentByID db i = Inr d \<Longrightarrow> dpl_ID d = i"
  by (auto simp: deploymentByID_def scanDeployment_def dest!: query_row_Inr
      split: sum.splits option.splits)

end
