(* ===== verification/Publication.thy ===== *)
theory Publication
  imports Store_Schema
begin

text \<open>
  \<open>internal/store/publication.go\<close>: the policy that maps a public endpoint to a hostname, and the
  claims on hostnames and external TCP ports that a configuration reserves and a completed
  deployment activates. The advisory lock that serialises port allocation is implicit: a
  transaction is one step.
\<close>

section \<open>Policy\<close>

record PublicationDomain =
  pd_ID :: string
  pd_Suffix :: string
  pd_WorkloadKinds :: "string list"
  pd_EndpointTypes :: "string list"
  pd_ReservedLabels :: "string list"

record PublicationPolicy =
  pp_Domains :: "PublicationDomain list"
  pp_TCPEnabled :: bool
  pp_TCPMinimumPort :: int
  pp_TCPMaximumPort :: int

definition NewPublicationPolicy :: "string \<Rightarrow> string \<Rightarrow> bool \<Rightarrow> int \<Rightarrow> int \<Rightarrow> PublicationPolicy" where
  "NewPublicationPolicy defaultDomain statefulDomain tcpEnabled minimumPort maximumPort =
     (let child = TrimSuffix statefulDomain (''.'' @ defaultDomain);
          reserved = [''cloud''] @
            (if statefulDomain \<noteq> '''' \<and> child \<noteq> statefulDomain \<and> \<not> Contains child ''.'' then [child] else [])
      in \<lparr>pp_Domains =
            [\<lparr>pd_ID = ''default'', pd_Suffix = defaultDomain,
              pd_WorkloadKinds = [WorkloadStateless, WorkloadStateful],
              pd_EndpointTypes = [EndpointHTTP, EndpointTCP], pd_ReservedLabels = reserved\<rparr>]
            @ (if statefulDomain \<noteq> ''''
               then [\<lparr>pd_ID = ''stateful'', pd_Suffix = statefulDomain,
                      pd_WorkloadKinds = [WorkloadStateful],
                      pd_EndpointTypes = [EndpointHTTP, EndpointTCP], pd_ReservedLabels = []\<rparr>]
               else []),
          pp_TCPEnabled = tcpEnabled, pp_TCPMinimumPort = minimumPort, pp_TCPMaximumPort = maximumPort\<rparr>)"

fun resolve_in :: "PublicationDomain list \<Rightarrow> string \<Rightarrow> PublicEndpoint \<Rightarrow> store_error + string" where
  "resolve_in [] workloadKind endpoint = Inl ErrPublicationDomainNotAllowed"
| "resolve_in (candidate # rest) workloadKind endpoint =
     (if pd_ID candidate \<noteq> pe_DomainID endpoint then resolve_in rest workloadKind endpoint
      else if workloadKind \<notin> set (pd_WorkloadKinds candidate) \<or> pe_Type endpoint \<notin> set (pd_EndpointTypes candidate)
      then Inl ErrPublicationDomainNotAllowed
      else if pe_HostnameLabel endpoint \<in> set (pd_ReservedLabels candidate)
      then Inl ErrPublicationHostnameReserved
      else Inr (pe_HostnameLabel endpoint @ ''.'' @ pd_Suffix candidate))"

definition Resolve :: "PublicationPolicy \<Rightarrow> string \<Rightarrow> PublicEndpoint \<Rightarrow> store_error + string" where
  "Resolve p workloadKind endpoint = resolve_in (pp_Domains p) workloadKind endpoint"

section \<open>Allocated ports\<close>

definition same_endpoint :: "PublicEndpoint \<Rightarrow> PublicEndpoint \<Rightarrow> bool" where
  "same_endpoint existing endpoint \<longleftrightarrow>
     pe_Type existing = pe_Type endpoint \<and> pe_Name existing = pe_Name endpoint
     \<and> pe_DomainID existing = pe_DomainID endpoint \<and> pe_HostnameLabel existing = pe_HostnameLabel endpoint"

definition inherit_port :: "PublicEndpoint list \<Rightarrow> PublicEndpoint \<Rightarrow> PublicEndpoint" where
  "inherit_port current endpoint =
     (if pe_Type endpoint \<noteq> EndpointTCP then endpoint
      else (case find (\<lambda>existing. same_endpoint existing endpoint) current of
              None \<Rightarrow> endpoint\<lparr>pe_ExternalPort := 0\<rparr>
            | Some existing \<Rightarrow> endpoint\<lparr>pe_ExternalPort := pe_ExternalPort existing\<rparr>))"

definition inheritAllocatedPorts :: "RuntimeConfig \<Rightarrow> RuntimeConfig \<Rightarrow> RuntimeConfig" where
  "inheritAllocatedPorts configuration current =
     configuration\<lparr>rc_PublicEndpoints :=
       map_option (map (inherit_port (elems (rc_PublicEndpoints current)))) (rc_PublicEndpoints configuration)\<rparr>"

section \<open>Claims\<close>

definition claim_name_pattern :: regexp where "claim_name_pattern = label_pattern"

definition domain_char :: "char \<Rightarrow> bool" where
  "domain_char c \<longleftrightarrow> lower_digit c \<or> c = CHR ''.'' \<or> c = CHR ''-''"

definition claim_hostname_pattern :: regexp where
  "claim_hostname_pattern =
     Seq label_pattern (Seq (Lit ''.'') (Seq (Cls domain_char) (Star (Cls domain_char))))"

text \<open>The check constraints of \<open>publication_claims\<close> that an upsert can violate.\<close>

definition claim_checks :: "PublicationClaimRow \<Rightarrow> bool" where
  "claim_checks c \<longleftrightarrow>
     MatchString claim_name_pattern (pc_endpoint_name c) \<and> RuneCount (pc_endpoint_name c) \<le> 15
     \<and> (pc_endpoint_type c = EndpointHTTP \<and> pc_external_port c = None
        \<or> pc_endpoint_type c = EndpointTCP \<and> (\<exists>p\<in>set_option (pc_external_port c). 1 \<le> p \<and> p \<le> 65535))
     \<and> MatchString claim_hostname_pattern (pc_hostname c) \<and> RuneCount (pc_hostname c) \<le> 253"

definition port_taken :: "PublicationClaimRow list \<Rightarrow> int option \<Rightarrow> bool" where
  "port_taken claims port \<longleftrightarrow> port \<noteq> None \<and> list_ex (\<lambda>c. pc_external_port c = port) claims"

text \<open>
  \<open>INSERT \<dots> ON CONFLICT(hostname) DO UPDATE \<dots> WHERE\<close> same environment. No returned row and every
  constraint violation end in \<open>ErrPublicationConflict\<close>.
\<close>

definition upsert_claim :: "time \<Rightarrow> int \<Rightarrow> string \<Rightarrow> string \<Rightarrow> string \<Rightarrow> int option \<Rightarrow> int \<Rightarrow> unit tx" where
  "upsert_claim now appEnvironmentID name typ hostname port version db =
     (let claims = publication_claims db in
      case find (\<lambda>c. pc_hostname c = hostname) claims of
        Some existing \<Rightarrow>
          (let updated = existing\<lparr>pc_endpoint_name := name, pc_endpoint_type := typ, pc_external_port := port,
                                  pc_desired_configuration_version := Some version, pc_updated_at := now\<rparr>
           in if pc_app_environment_id existing \<noteq> appEnvironmentID then Inl ErrPublicationConflict
              else if \<not> claim_checks updated
                      \<or> port_taken (filter (\<lambda>c. pc_hostname c \<noteq> hostname) claims) port
              then Inl ErrPublicationConflict
              else Inr ((), db\<lparr>publication_claims :=
                      sql_update (\<lambda>c. pc_hostname c = hostname) (\<lambda>_. updated) claims\<rparr>))
      | None \<Rightarrow>
          (let inserted = \<lparr>pc_id = publication_claims_seq db, pc_app_environment_id = appEnvironmentID,
                           pc_endpoint_name = name, pc_endpoint_type = typ, pc_hostname = hostname,
                           pc_external_port = port, pc_desired_configuration_version = Some version,
                           pc_current_configuration_version = None, pc_created_at = now, pc_updated_at = now\<rparr>
           in if \<not> claim_checks inserted \<or> port_taken claims port then Inl ErrPublicationConflict
              else Inr ((), db\<lparr>publication_claims := claims @ [inserted],
                              publication_claims_seq := publication_claims_seq db + 1\<rparr>)))"

definition allocate_port :: "PublicationPolicy \<Rightarrow> int \<Rightarrow> PublicEndpoint \<Rightarrow> string \<Rightarrow> database \<Rightarrow> store_error + int" where
  "allocate_port policy appEnvironmentID endpoint hostname db =
     (if \<not> pp_TCPEnabled policy \<or> pp_TCPMinimumPort policy < 1
         \<or> pp_TCPMaximumPort policy < pp_TCPMinimumPort policy
      then Inl ErrPublicationUnavailable
      else if pe_ExternalPort endpoint \<noteq> 0 then Inr (pe_ExternalPort endpoint)
      else (let claimed = (case find (\<lambda>c. pc_app_environment_id c = appEnvironmentID
                                 \<and> pc_endpoint_name c = pe_Name endpoint
                                 \<and> pc_endpoint_type c = EndpointTCP \<and> pc_hostname c = hostname)
                               (publication_claims db) of
                             None \<Rightarrow> 0
                           | Some c \<Rightarrow> COALESCE (pc_external_port c) 0)
            in if claimed \<noteq> 0 then Inr claimed
               else (case find (\<lambda>candidate. \<not> port_taken (publication_claims db) (Some candidate))
                            [pp_TCPMinimumPort policy..pp_TCPMaximumPort policy] of
                       None \<Rightarrow> Inl ErrPublicationUnavailable
                     | Some candidate \<Rightarrow> Inr candidate)))"

definition reserve_endpoint :: "PublicationPolicy \<Rightarrow> time \<Rightarrow> int \<Rightarrow> int \<Rightarrow> string \<Rightarrow> PublicEndpoint \<Rightarrow> PublicEndpoint tx" where
  "reserve_endpoint policy now appEnvironmentID version workloadKind endpoint db =
     (case Resolve policy workloadKind endpoint of
        Inl err \<Rightarrow> Inl err
      | Inr hostname \<Rightarrow>
          (if pe_Type endpoint = EndpointTCP
           then (case allocate_port policy appEnvironmentID endpoint hostname db of
                   Inl err \<Rightarrow> Inl err
                 | Inr allocated \<Rightarrow>
                     (case upsert_claim now appEnvironmentID (pe_Name endpoint) (pe_Type endpoint) hostname
                             (Some allocated) version db of
                        Inl err \<Rightarrow> Inl err
                      | Inr (_, db') \<Rightarrow> Inr (endpoint\<lparr>pe_ExternalPort := allocated\<rparr>, db')))
           else (case upsert_claim now appEnvironmentID (pe_Name endpoint) (pe_Type endpoint) hostname
                        None version db of
                   Inl err \<Rightarrow> Inl err
                 | Inr (_, db') \<Rightarrow> Inr (endpoint, db'))))"

fun reserve_endpoints :: "PublicationPolicy \<Rightarrow> time \<Rightarrow> int \<Rightarrow> int \<Rightarrow> string \<Rightarrow> PublicEndpoint list \<Rightarrow> PublicEndpoint list tx" where
  "reserve_endpoints policy now appEnvironmentID version workloadKind [] db = Inr ([], db)"
| "reserve_endpoints policy now appEnvironmentID version workloadKind (endpoint # rest) db =
     (case reserve_endpoint policy now appEnvironmentID version workloadKind endpoint db of
        Inl err \<Rightarrow> Inl err
      | Inr (reserved, db') \<Rightarrow>
          (case reserve_endpoints policy now appEnvironmentID version workloadKind rest db' of
             Inl err \<Rightarrow> Inl err
           | Inr (others, db'') \<Rightarrow> Inr (reserved # others, db'')))"

definition release_superseded :: "time \<Rightarrow> int \<Rightarrow> int \<Rightarrow> PublicationClaimRow list \<Rightarrow> PublicationClaimRow list" where
  "release_superseded now appEnvironmentID version claims =
     sql_update (\<lambda>c. pc_app_environment_id c = appEnvironmentID \<and> pc_current_configuration_version c \<noteq> None
                     \<and> pc_desired_configuration_version c \<noteq> Some version)
       (\<lambda>c. c\<lparr>pc_desired_configuration_version := None, pc_updated_at := now\<rparr>)
       (filter (\<lambda>c. \<not> (pc_app_environment_id c = appEnvironmentID \<and> pc_current_configuration_version c = None
                       \<and> pc_desired_configuration_version c \<noteq> Some version)) claims)"

definition reservePublicationClaims :: "PublicationPolicy \<Rightarrow> time \<Rightarrow> int \<Rightarrow> int \<Rightarrow> string \<Rightarrow> RuntimeConfig \<Rightarrow> RuntimeConfig tx" where
  "reservePublicationClaims policy now appEnvironmentID version workloadKind configuration db =
     (case reserve_endpoints policy now appEnvironmentID version workloadKind
             (elems (rc_PublicEndpoints configuration)) db of
        Inl err \<Rightarrow> Inl err
      | Inr (endpoints, db') \<Rightarrow>
          Inr (configuration\<lparr>rc_PublicEndpoints := map_option (\<lambda>_. endpoints) (rc_PublicEndpoints configuration)\<rparr>,
               db'\<lparr>publication_claims :=
                     release_superseded now appEnvironmentID version (publication_claims db')\<rparr>))"

fun activate_endpoints :: "PublicationPolicy \<Rightarrow> time \<Rightarrow> int \<Rightarrow> int \<Rightarrow> string \<Rightarrow> PublicEndpoint list \<Rightarrow> unit tx" where
  "activate_endpoints policy now appEnvironmentID version workloadKind [] db = Inr ((), db)"
| "activate_endpoints policy now appEnvironmentID version workloadKind (endpoint # rest) db =
     (case Resolve policy workloadKind endpoint of
        Inl err \<Rightarrow> Inl err
      | Inr hostname \<Rightarrow>
          (let p = (\<lambda>c. pc_app_environment_id c = appEnvironmentID \<and> pc_hostname c = hostname) in
           if sql_count p (publication_claims db) \<noteq> 1 then Inl ErrPublicationConflict
           else activate_endpoints policy now appEnvironmentID version workloadKind rest
                  (db\<lparr>publication_claims :=
                     sql_update p (\<lambda>c. c\<lparr>pc_current_configuration_version := Some version,
                                        pc_updated_at := now\<rparr>) (publication_claims db)\<rparr>)))"

definition activatePublicationClaims :: "PublicationPolicy \<Rightarrow> time \<Rightarrow> int \<Rightarrow> int \<Rightarrow> string \<Rightarrow> RuntimeConfig \<Rightarrow> unit tx" where
  "activatePublicationClaims policy now appEnvironmentID version workloadKind configuration db =
     (case activate_endpoints policy now appEnvironmentID version workloadKind
             (elems (rc_PublicEndpoints configuration)) db of
        Inl err \<Rightarrow> Inl err
      | Inr (_, db') \<Rightarrow>
          Inr ((), db'\<lparr>publication_claims :=
            filter (\<lambda>c. \<not> (pc_app_environment_id c = appEnvironmentID
                           \<and> pc_current_configuration_version c \<noteq> Some version
                           \<and> pc_desired_configuration_version c = None)) (publication_claims db')\<rparr>))"

section \<open>Invariant of the claims\<close>

definition claims_wf :: "PublicationClaimRow list \<Rightarrow> bool" where
  "claims_wf cs \<longleftrightarrow>
     keyed_on pc_hostname cs
     \<and> (\<forall>c\<in>set cs. \<forall>d\<in>set cs. pc_external_port c \<noteq> None \<and> pc_external_port c = pc_external_port d
          \<longrightarrow> pc_hostname c = pc_hostname d)
     \<and> (\<forall>c\<in>set cs. claim_checks c
          \<and> (pc_desired_configuration_version c \<noteq> None \<or> pc_current_configuration_version c \<noteq> None))"

definition claims_of_others :: "int \<Rightarrow> PublicationClaimRow list \<Rightarrow> PublicationClaimRow list" where
  "claims_of_others i cs = filter (\<lambda>c. pc_app_environment_id c \<noteq> i) cs"

definition reserved_for :: "int \<Rightarrow> int \<Rightarrow> PublicationClaimRow list \<Rightarrow> string \<Rightarrow> bool" where
  "reserved_for i version cs hostname \<longleftrightarrow>
     (\<exists>c\<in>set cs. pc_hostname c = hostname \<and> pc_app_environment_id c = i
        \<and> pc_desired_configuration_version c = Some version)"

text \<open>Only the claims table changes.\<close>

definition claims_only :: "database \<Rightarrow> database \<Rightarrow> bool" where
  "claims_only db db' \<longleftrightarrow> (\<exists>cs n. db' = db\<lparr>publication_claims := cs, publication_claims_seq := n\<rparr>)"

lemma claims_only_refl [simp]: "claims_only db db"
  unfolding claims_only_def by (intro exI [of _ "publication_claims db"] exI [of _ "publication_claims_seq db"]) simp

lemma claims_only_update [simp]: "claims_only db (db\<lparr>publication_claims := cs\<rparr>)"
  unfolding claims_only_def by (intro exI [of _ cs] exI [of _ "publication_claims_seq db"]) simp

lemma claims_only_trans: "claims_only db db' \<Longrightarrow> claims_only db' db'' \<Longrightarrow> claims_only db db''"
  unfolding claims_only_def by (elim exE) (simp, blast)

lemma claims_only_frame:
  assumes "claims_only db db'"
  shows "operations db' = operations db" and "app_environments db' = app_environments db"
    and "deployments db' = deployments db" and "app_volumes db' = app_volumes db"
  using assms by (auto simp: claims_only_def)

lemma claims_wf_filter: "claims_wf cs \<Longrightarrow> claims_wf (filter p cs)"
  by (auto simp: claims_wf_def keyed_on_def distinct_map_filter)

lemma claims_wf_update:
  assumes wf: "claims_wf cs" and f: "\<And>c. p c \<Longrightarrow> pc_hostname (f c) = pc_hostname c
      \<and> pc_external_port (f c) = pc_external_port c \<and> pc_endpoint_name (f c) = pc_endpoint_name c
      \<and> pc_endpoint_type (f c) = pc_endpoint_type c"
    and ref: "\<And>c. p c \<Longrightarrow> pc_desired_configuration_version (f c) \<noteq> None \<or> pc_current_configuration_version (f c) \<noteq> None"
  shows "claims_wf (sql_update p f cs)"
proof -
  define g where "g c = (if p c then f c else c)" for c
  have g: "pc_hostname (g c) = pc_hostname c" "pc_external_port (g c) = pc_external_port c"
    "claim_checks (g c) = claim_checks c" for c
    using f [of c] by (simp_all add: g_def claim_checks_def)
  have r: "pc_desired_configuration_version (g c) \<noteq> None \<or> pc_current_configuration_version (g c) \<noteq> None"
    if "c \<in> set cs" for c
    using that wf ref [of c] by (auto simp: g_def claims_wf_def)
  have eq: "sql_update p f cs = map g cs" by (simp add: sql_update_def g_def)
  have "keyed_on pc_hostname (map g cs)" using wf by (simp add: claims_wf_def keyed_on_def o_def g)
  then show ?thesis using wf r unfolding claims_wf_def eq by (simp add: g) blast
qed

lemma claims_of_others_update:
  "(\<And>c. p c \<Longrightarrow> pc_app_environment_id c = i \<and> pc_app_environment_id (f c) = i) \<Longrightarrow>
   claims_of_others i (sql_update p f cs) = claims_of_others i cs"
  by (induction cs) (auto simp: claims_of_others_def)

section \<open>Reservation\<close>

text \<open>An upsert leaves one checked row for the hostname and all other rows as they are.\<close>

definition upserted :: "int \<Rightarrow> string \<Rightarrow> int option \<Rightarrow> int \<Rightarrow> PublicationClaimRow list \<Rightarrow> PublicationClaimRow list \<Rightarrow> bool" where
  "upserted i h port v cs cs' \<longleftrightarrow>
     claims_of_others i cs' = claims_of_others i cs \<and> keyed_on pc_hostname cs'
     \<and> \<not> port_taken (filter (\<lambda>c. pc_hostname c \<noteq> h) cs) port
     \<and> (\<exists>r. pc_hostname r = h \<and> pc_app_environment_id r = i \<and> pc_desired_configuration_version r = Some v
          \<and> pc_external_port r = port \<and> claim_checks r
          \<and> set cs' = insert r {c \<in> set cs. pc_hostname c \<noteq> h})"

lemma upsert_claim_rows:
  assumes wf: "claims_wf (publication_claims db)"
    and ok: "upsert_claim now i name typ h port v db = Inr (u, db')"
  shows "claims_only db db' \<and> upserted i h port v (publication_claims db) (publication_claims db')"
proof (cases "find (\<lambda>c. pc_hostname c = h) (publication_claims db)")
  case None
  let ?r = "\<lparr>pc_id = publication_claims_seq db, pc_app_environment_id = i,
             pc_endpoint_name = name, pc_endpoint_type = typ, pc_hostname = h,
             pc_external_port = port, pc_desired_configuration_version = Some v,
             pc_current_configuration_version = None, pc_created_at = now, pc_updated_at = now\<rparr>"
  have fresh: "\<forall>c\<in>set (publication_claims db). pc_hostname c \<noteq> h"
    using None by (auto simp: find_None_iff)
  then have all: "filter (\<lambda>c. pc_hostname c \<noteq> h) (publication_claims db) = publication_claims db"
    by simp
  have db': "db' = db\<lparr>publication_claims := publication_claims db @ [?r],
                      publication_claims_seq := publication_claims_seq db + 1\<rparr>"
    and c: "claim_checks ?r" "\<not> port_taken (publication_claims db) port"
    using ok None by (auto simp: upsert_claim_def Let_def split: if_splits)
  have "set (publication_claims db') = insert ?r {c \<in> set (publication_claims db). pc_hostname c \<noteq> h}"
    using fresh db' by auto
  moreover have "claims_only db db'" unfolding claims_only_def db' by blast
  moreover have "keyed_on pc_hostname (publication_claims db')"
    using wf fresh db' by (auto simp: claims_wf_def keyed_on_def)
  ultimately show ?thesis
    using c all db' unfolding upserted_def by (intro conjI exI [of _ ?r]) (simp_all add: claims_of_others_def)
next
  case (Some e)
  let ?r = "e\<lparr>pc_endpoint_name := name, pc_endpoint_type := typ, pc_external_port := port,
              pc_desired_configuration_version := Some v, pc_updated_at := now\<rparr>"
  have e: "e \<in> set (publication_claims db)" "pc_hostname e = h"
    using Some by (auto simp: find_Some_iff)
  have db': "db' = db\<lparr>publication_claims :=
      sql_update (\<lambda>c. pc_hostname c = h) (\<lambda>_. ?r) (publication_claims db)\<rparr>"
    and c: "claim_checks ?r" "\<not> port_taken (filter (\<lambda>c. pc_hostname c \<noteq> h) (publication_claims db)) port"
    and env: "pc_app_environment_id e = i"
    using ok Some by (auto simp: upsert_claim_def Let_def split: if_splits)
  have only: "c = e" if "c \<in> set (publication_claims db)" "pc_hostname c = h" for c
    using that e wf by (auto simp: claims_wf_def dest: keyed_on_unique)
  have is_e: "pc_hostname c = h \<longleftrightarrow> c = e" if "c \<in> set (publication_claims db)" for c
    using only [OF that] e by blast
  have "sql_update (\<lambda>c. pc_hostname c = h) (\<lambda>_. ?r) (publication_claims db)
      = sql_update (\<lambda>c. c = e) (\<lambda>_. ?r) (publication_claims db)"
    using is_e by (rule sql_update_cong)
  moreover have "claims_of_others i (sql_update (\<lambda>c. c = e) (\<lambda>_. ?r) (publication_claims db))
      = claims_of_others i (publication_claims db)"
    by (rule claims_of_others_update) (simp add: env)
  ultimately have "claims_of_others i (publication_claims db') = claims_of_others i (publication_claims db)"
    by (simp add: db')
  moreover have "set (publication_claims db') = insert ?r {c \<in> set (publication_claims db). pc_hostname c \<noteq> h}"
    unfolding db' using set_sql_update_one [OF e(1) is_e] by simp
  moreover have "keyed_on pc_hostname (publication_claims db')"
    using wf db' e by (auto simp: claims_wf_def intro!: keyed_on_update)
  ultimately show ?thesis
    using c db' e env unfolding upserted_def by (intro conjI exI [of _ ?r]) simp_all
qed

lemma upserted_wf:
  assumes wf: "claims_wf cs" and up: "upserted i h port v cs cs'"
  shows "claims_wf cs'"
proof -
  obtain r where r: "pc_hostname r = h" "pc_desired_configuration_version r = Some v"
      "pc_external_port r = port" "claim_checks r" "set cs' = insert r {c \<in> set cs. pc_hostname c \<noteq> h}"
    using up by (auto simp: upserted_def)
  have free: "pc_external_port c \<noteq> port" if "c \<in> set cs" "pc_hostname c \<noteq> h" "port \<noteq> None" for c
    using up that by (auto simp: upserted_def port_taken_def list_ex_iff)
  have ports: "pc_hostname c = pc_hostname d"
    if "c \<in> set cs'" "d \<in> set cs'" "pc_external_port c \<noteq> None" "pc_external_port c = pc_external_port d" for c d
  proof (cases "c = r \<or> d = r")
    case True
    then show ?thesis using that r(1,3) free [of c] free [of d] unfolding r(5) by auto
  next
    case False
    then show ?thesis using that wf unfolding r(5) by (auto simp: claims_wf_def)
  qed
  have "claim_checks c \<and> (pc_desired_configuration_version c \<noteq> None \<or> pc_current_configuration_version c \<noteq> None)"
    if "c \<in> set cs'" for c
    using that r(2,4) wf unfolding r(5) by (auto simp: claims_wf_def)
  then show ?thesis using ports up unfolding claims_wf_def upserted_def by blast
qed

lemma upserted_reserved:
  assumes "upserted i h port v cs cs'" and "h' = h \<or> reserved_for i v cs h'"
  shows "reserved_for i v cs' h'"
proof -
  obtain r where "pc_hostname r = h" "pc_app_environment_id r = i" "pc_desired_configuration_version r = Some v"
      "set cs' = insert r {c \<in> set cs. pc_hostname c \<noteq> h}"
    using assms(1) unfolding upserted_def by blast
  with assms(2) show ?thesis unfolding reserved_for_def by (cases "h' = h") auto
qed

lemma Resolve_port [simp]: "Resolve p k (e\<lparr>pe_ExternalPort := n\<rparr>) = Resolve p k e"
proof -
  have "resolve_in ds k (e\<lparr>pe_ExternalPort := n\<rparr>) = resolve_in ds k e" for ds
    by (induction ds) auto
  then show ?thesis by (simp add: Resolve_def)
qed

lemma reserve_endpoint_rows:
  assumes wf: "claims_wf (publication_claims db)"
    and ok: "reserve_endpoint policy now i v k e db = Inr (e', db')"
  shows "\<exists>h port. Resolve policy k e' = Inr h \<and> Resolve policy k e = Inr h \<and> claims_only db db'
           \<and> upserted i h port v (publication_claims db) (publication_claims db')"
proof -
  obtain h port u where "Resolve policy k e' = Inr h" "Resolve policy k e = Inr h"
      "upsert_claim now i (pe_Name e) (pe_Type e) h port v db = Inr (u, db')"
    using ok by (auto simp: reserve_endpoint_def split: sum.splits if_splits)
  with upsert_claim_rows [OF wf] show ?thesis by blast
qed

lemma reserve_endpoints_rows:
  assumes "claims_wf (publication_claims db)"
    and "reserve_endpoints policy now i v k es db = Inr (es', db')"
  shows "claims_only db db' \<and> claims_wf (publication_claims db')
    \<and> claims_of_others i (publication_claims db') = claims_of_others i (publication_claims db)
    \<and> (\<forall>h. reserved_for i v (publication_claims db) h \<longrightarrow> reserved_for i v (publication_claims db') h)
    \<and> map (Resolve policy k) es' = map (Resolve policy k) es
    \<and> (\<forall>e\<in>set es'. \<exists>h. Resolve policy k e = Inr h \<and> reserved_for i v (publication_claims db') h)"
  using assms
proof (induction es arbitrary: db es')
  case (Cons e es)
  obtain e1 db1 es1 where one: "reserve_endpoint policy now i v k e db = Inr (e1, db1)"
    and rest: "reserve_endpoints policy now i v k es db1 = Inr (es1, db')" and es': "es' = e1 # es1"
    using Cons.prems(2) by (auto split: sum.splits)
  obtain h port where h: "Resolve policy k e1 = Inr h" "Resolve policy k e = Inr h" "claims_only db db1"
    and up: "upserted i h port v (publication_claims db) (publication_claims db1)"
    using reserve_endpoint_rows [OF Cons.prems(1) one] by blast
  note IH = Cons.IH [OF upserted_wf [OF Cons.prems(1) up] rest]
  have others: "claims_of_others i (publication_claims db1) = claims_of_others i (publication_claims db)"
    using up by (simp add: upserted_def)
  have "reserved_for i v (publication_claims db') h"
    using IH upserted_reserved [OF up] by blast
  moreover have "reserved_for i v (publication_claims db') h'" if "reserved_for i v (publication_claims db) h'" for h'
    using IH upserted_reserved [OF up, of h'] that by blast
  ultimately show ?case
    using IH h others es' claims_only_trans [OF h(3)] by auto
qed auto

lemma release_superseded_reserved:
  "reserved_for i v cs h \<Longrightarrow> reserved_for i v (release_superseded now i v cs) h"
  unfolding reserved_for_def release_superseded_def by (rule sql_update_bex) auto

lemma release_superseded_others:
  "claims_of_others i (release_superseded now i v cs) = claims_of_others i cs"
proof -
  have "claims_of_others i (filter (\<lambda>c. \<not> (pc_app_environment_id c = i \<and> q c)) cs) = claims_of_others i cs" for q
    by (induction cs) (auto simp: claims_of_others_def)
  then show ?thesis
    unfolding release_superseded_def by (subst claims_of_others_update) (simp_all only: simp_thms, simp_all)
qed

lemma release_superseded_wf: "claims_wf cs \<Longrightarrow> claims_wf (release_superseded now i v cs)"
  unfolding release_superseded_def by (rule claims_wf_update) (auto intro: claims_wf_filter)

lemma reservation_rows:
  assumes wf: "claims_wf (publication_claims db)"
    and ok: "reservePublicationClaims policy now i v k c db = Inr (c', db')"
  shows "claims_wf (publication_claims db')"
    and "claims_of_others i (publication_claims db') = claims_of_others i (publication_claims db)"
    and "claims_only db db'"
    and "\<forall>e\<in>set (elems (rc_PublicEndpoints c')). \<exists>h. Resolve policy k e = Inr h
           \<and> reserved_for i v (publication_claims db') h"
proof -
  obtain es db1 where r: "reserve_endpoints policy now i v k (elems (rc_PublicEndpoints c)) db = Inr (es, db1)"
    and db': "db' = db1\<lparr>publication_claims := release_superseded now i v (publication_claims db1)\<rparr>"
    and c': "c' = c\<lparr>rc_PublicEndpoints := map_option (\<lambda>_. es) (rc_PublicEndpoints c)\<rparr>"
    using ok by (auto simp: reservePublicationClaims_def split: sum.splits)
  note rows = reserve_endpoints_rows [OF wf r]
  show "claims_wf (publication_claims db')"
    using rows by (simp add: db' release_superseded_wf)
  show "claims_of_others i (publication_claims db') = claims_of_others i (publication_claims db)"
    using rows by (simp add: db' release_superseded_others)
  have "claims_only db db1" using rows by blast
  then show "claims_only db db'" unfolding db' by (rule claims_only_trans) simp
  have es: "set (elems (rc_PublicEndpoints c')) \<subseteq> set es"
    by (cases "rc_PublicEndpoints c") (simp_all add: c')
  have keep: "reserved_for i v (publication_claims db') h" if "reserved_for i v (publication_claims db1) h" for h
    using release_superseded_reserved [OF that] by (simp add: db')
  show "\<forall>e\<in>set (elems (rc_PublicEndpoints c')). \<exists>h. Resolve policy k e = Inr h
           \<and> reserved_for i v (publication_claims db') h"
    using rows es keep by blast
qed

section \<open>Activation\<close>

lemma activate_endpoints_frame:
  "activate_endpoints policy now i v k es db = Inr (u, db') \<Longrightarrow> claims_only db db'"
proof (induction es arbitrary: db)
  case (Cons e es)
  then show ?case
    by (auto simp: Let_def split: sum.splits if_splits intro: claims_only_trans [OF claims_only_update])
qed simp

lemma activatePublicationClaims_frame:
  assumes "activatePublicationClaims policy now i v k c db = Inr (u, db')"
  shows "claims_only db db'"
proof -
  obtain w db1 cs where "activate_endpoints policy now i v k (elems (rc_PublicEndpoints c)) db = Inr (w, db1)"
    and db': "db' = db1\<lparr>publication_claims := cs\<rparr>"
    using assms by (auto simp: activatePublicationClaims_def split: sum.splits)
  then have "claims_only db db1" by (blast dest: activate_endpoints_frame)
  then show ?thesis unfolding db' by (rule claims_only_trans) simp
qed

lemma activate_endpoints_total:
  assumes "keyed_on pc_hostname (publication_claims db)"
    and "\<forall>e\<in>set es. \<exists>h. Resolve policy k e = Inr h \<and>
           (\<exists>c\<in>set (publication_claims db). pc_hostname c = h \<and> pc_app_environment_id c = i)"
  shows "\<exists>db'. activate_endpoints policy now i v k es db = Inr ((), db')"
  using assms
proof (induction es arbitrary: db)
  case (Cons e es)
  obtain h c where h: "Resolve policy k e = Inr h" and c: "c \<in> set (publication_claims db)"
      "pc_hostname c = h" "pc_app_environment_id c = i"
    using Cons.prems(2) by auto
  let ?p = "\<lambda>c. pc_app_environment_id c = i \<and> pc_hostname c = h"
  let ?f = "\<lambda>c. c\<lparr>pc_current_configuration_version := Some v, pc_updated_at := now\<rparr>"
  let ?db = "db\<lparr>publication_claims := sql_update ?p ?f (publication_claims db)\<rparr>"
  have one: "sql_count ?p (publication_claims db) = 1"
    by (rule keyed_on_count_1 [OF Cons.prems(1), where i = h and r = c]) (use c in auto)
  have "keyed_on pc_hostname (publication_claims ?db)"
    using Cons.prems(1) by (simp add: keyed_on_update)
  moreover have "\<exists>c\<in>set (publication_claims ?db). pc_hostname c = h' \<and> pc_app_environment_id c = i"
    if "\<exists>c\<in>set (publication_claims db). pc_hostname c = h' \<and> pc_app_environment_id c = i" for h'
    using sql_update_bex [OF that, of ?p ?f] by simp
  then have "\<forall>e\<in>set es. \<exists>h. Resolve policy k e = Inr h \<and>
      (\<exists>c\<in>set (publication_claims ?db). pc_hostname c = h \<and> pc_app_environment_id c = i)"
    using Cons.prems(2) by (meson list.set_intros(2))
  ultimately obtain db' where "activate_endpoints policy now i v k es ?db = Inr ((), db')"
    using Cons.IH by blast
  then show ?case using h one by (simp add: Let_def)
qed simp

definition active_for :: "int \<Rightarrow> int \<Rightarrow> PublicationClaimRow list \<Rightarrow> string \<Rightarrow> bool" where
  "active_for i version cs hostname \<longleftrightarrow>
     (\<exists>c\<in>set cs. pc_hostname c = hostname \<and> pc_app_environment_id c = i
        \<and> pc_current_configuration_version c = Some version)"

lemma activate_endpoints_active:
  assumes "activate_endpoints policy now i v k es db = Inr (u, db')"
  shows "(\<forall>h. active_for i v (publication_claims db) h \<longrightarrow> active_for i v (publication_claims db') h)
    \<and> (\<forall>e\<in>set es. \<exists>h. Resolve policy k e = Inr h \<and> active_for i v (publication_claims db') h)"
  using assms
proof (induction es arbitrary: db)
  case (Cons e es)
  let ?f = "\<lambda>c. c\<lparr>pc_current_configuration_version := Some v, pc_updated_at := now\<rparr>"
  obtain h0 where h0: "Resolve policy k e = Inr h0" using Cons.prems by (auto split: sum.splits)
  let ?p = "\<lambda>c. pc_app_environment_id c = i \<and> pc_hostname c = h0"
  let ?cs = "sql_update ?p ?f (publication_claims db)"
  have one: "sql_count ?p (publication_claims db) = 1"
    and rest: "activate_endpoints policy now i v k es (db\<lparr>publication_claims := ?cs\<rparr>) = Inr (u, db')"
    using Cons.prems h0 by (auto simp: Let_def split: if_splits)
  have "\<exists>c\<in>set (publication_claims db). ?p c"
    using one sql_count_pos [of ?p "publication_claims db"] by simp
  then obtain c where c: "c \<in> set (publication_claims db)" "?p c" by blast
  have "?f c \<in> set ?cs" unfolding in_sql_update using c by (intro bexI [OF _ c(1)]) simp
  then have first: "active_for i v ?cs h0" using c(2) unfolding active_for_def by (intro bexI) simp_all
  have keep: "active_for i v ?cs h" if "active_for i v (publication_claims db) h" for h
    using that unfolding active_for_def by (rule sql_update_bex) simp
  have IH: "\<And>h. active_for i v ?cs h \<Longrightarrow> active_for i v (publication_claims db') h"
    "\<forall>e\<in>set es. \<exists>h. Resolve policy k e = Inr h \<and> active_for i v (publication_claims db') h"
    using Cons.IH [OF rest] by simp_all
  show ?case using IH first keep h0 by auto
qed simp

lemma activation_keeps_active:
  "active_for i v cs h \<Longrightarrow>
   active_for i v (filter (\<lambda>c. \<not> (pc_app_environment_id c = i
      \<and> pc_current_configuration_version c \<noteq> Some v \<and> pc_desired_configuration_version c = None)) cs) h"
  unfolding active_for_def by force

lemma activatePublicationClaims_active:
  assumes "activatePublicationClaims policy now i v k c db = Inr (u, db')"
  shows "\<forall>e\<in>set (elems (rc_PublicEndpoints c)). \<exists>h. Resolve policy k e = Inr h
    \<and> active_for i v (publication_claims db') h"
proof -
  obtain w db1 where a: "activate_endpoints policy now i v k (elems (rc_PublicEndpoints c)) db = Inr (w, db1)"
    and db': "publication_claims db' = filter (\<lambda>c. \<not> (pc_app_environment_id c = i
      \<and> pc_current_configuration_version c \<noteq> Some v \<and> pc_desired_configuration_version c = None)) (publication_claims db1)"
    using assms by (auto simp: activatePublicationClaims_def split: sum.splits)
  show ?thesis
    using activate_endpoints_active [OF a] activation_keeps_active unfolding db' by blast
qed

section \<open>Samples\<close>

definition sample_endpoint :: "string \<Rightarrow> string \<Rightarrow> PublicEndpoint" where
  "sample_endpoint name typ =
     \<lparr>pe_Name = name, pe_Type = typ, pe_PortName = ''http'', pe_DomainID = ''default'',
      pe_HostnameLabel = ''shop'', pe_ExternalPort = 0, pe_Hostname = ''''\<rparr>"

definition sample_policy :: PublicationPolicy where
  "sample_policy = NewPublicationPolicy ''molejo.dev'' '''' True 20000 20015"

definition sample_public_config :: "PublicEndpoint list \<Rightarrow> RuntimeConfig" where
  "sample_public_config es = sample_config\<lparr>rc_PublicEndpoints := Some es\<rparr>"

definition external_ports :: "RuntimeConfig \<Rightarrow> int list" where
  "external_ports c = map pe_ExternalPort (elems (rc_PublicEndpoints c))"

definition sample_reservation :: "store_error + RuntimeConfig \<times> database" where
  "sample_reservation = reservePublicationClaims sample_policy 5 1 1 WorkloadStateless
     (sample_public_config [sample_endpoint ''db'' EndpointTCP, sample_endpoint ''web'' EndpointHTTP]) empty_database"

lemma sample_reservation_ok: "\<exists>c db. sample_reservation = Inr (c, db)"
proof -
  have "is_ok sample_reservation" by code_simp
  then show ?thesis by (auto simp: is_ok_iff)
qed

lemma empty_claims_wf: "claims_wf (publication_claims empty_database)"
  by (simp add: claims_wf_def keyed_on_def empty_database_def)

section \<open>Properties\<close>

text \<open>
  C17: Reserving the public endpoints of a configuration claims every resolved hostname for the
  environment at the new version, keeps hostnames and external ports unique across the whole
  table, and changes neither the claims of another environment nor any other table.
\<close>

theorem reservation_claims_endpoints:
  assumes "claims_wf (publication_claims db)"
    and "reservePublicationClaims policy now i v k c db = Inr (c', db')"
  shows "claims_wf (publication_claims db')
    \<and> claims_of_others i (publication_claims db') = claims_of_others i (publication_claims db)
    \<and> claims_only db db'
    \<and> (\<forall>e\<in>set (elems (rc_PublicEndpoints c')). \<exists>h. Resolve policy k e = Inr h
         \<and> reserved_for i v (publication_claims db') h)"
  using reservation_rows [OF assms] by blast

theorem reservation_claims_endpoints_witness:
  "\<exists>c db. sample_reservation = Inr (c, db) \<and> claims_wf (publication_claims db)"
proof -
  obtain c db where r: "sample_reservation = Inr (c, db)" using sample_reservation_ok by blast
  from reservation_claims_endpoints [OF empty_claims_wf r [unfolded sample_reservation_def]] r
  show ?thesis by blast
qed

text \<open>
  C18: A deployment that completes finds the claims it reserved: activating the configuration a
  reservation returned always succeeds in the database the reservation left, and every public
  hostname of the configuration is then active at that version.
\<close>

theorem reserved_claims_activate:
  assumes "claims_wf (publication_claims db)"
    and "reservePublicationClaims policy now i v k c db = Inr (c', db')"
  shows "\<exists>db''. activatePublicationClaims policy now' i v k c' db' = Inr ((), db'')
    \<and> (\<forall>e\<in>set (elems (rc_PublicEndpoints c')). \<exists>h. Resolve policy k e = Inr h
         \<and> active_for i v (publication_claims db'') h)"
proof -
  let ?es = "elems (rc_PublicEndpoints c')"
  note rows = reservation_rows [OF assms]
  have keyed: "keyed_on pc_hostname (publication_claims db')" using rows(1) by (simp add: claims_wf_def)
  have "\<forall>e\<in>set ?es. \<exists>h. Resolve policy k e = Inr h \<and>
      (\<exists>c\<in>set (publication_claims db'). pc_hostname c = h \<and> pc_app_environment_id c = i)"
    using rows(4) unfolding reserved_for_def by blast
  from activate_endpoints_total [OF keyed this] obtain db2 where
    a: "activate_endpoints policy now' i v k ?es db' = Inr ((), db2)" by blast
  then obtain db3 where "activatePublicationClaims policy now' i v k c' db' = Inr ((), db3)"
    by (simp add: activatePublicationClaims_def)
  with activatePublicationClaims_active [OF this] show ?thesis by blast
qed

theorem reserved_claims_activate_witness:
  "\<exists>c db db'. sample_reservation = Inr (c, db)
     \<and> activatePublicationClaims sample_policy 9 1 1 WorkloadStateless c db = Inr ((), db')"
proof -
  obtain c db where r: "sample_reservation = Inr (c, db)" using sample_reservation_ok by blast
  from reserved_claims_activate [OF empty_claims_wf r [unfolded sample_reservation_def], of 9] r
  show ?thesis by blast
qed




section \<open>Ports that escape the claims\<close>

text \<open>
  Two endpoints of one configuration may resolve to the same hostname. The upsert of the second
  overwrites the claim of the first, so a TCP endpoint listed before an HTTP endpoint keeps its
  external port in the configuration but not in the claims; the port is then allocated again to
  another environment.
\<close>

lemma shared_hostname_frees_port:
  "case sample_reservation of
     Inl _ \<Rightarrow> False
   | Inr (c, db) \<Rightarrow>
       external_ports c = [20000, 0] \<and> \<not> port_taken (publication_claims db) (Some 20000)
       \<and> (case reservePublicationClaims sample_policy 6 2 1 WorkloadStateless
                 (sample_public_config [(sample_endpoint ''db'' EndpointTCP)\<lparr>pe_HostnameLabel := ''api''\<rparr>]) db of
            Inl _ \<Rightarrow> False
          | Inr (c', _) \<Rightarrow> external_ports c' = [20000])"
  by code_simp

text \<open>
  The reservation takes a non-zero external port of the configuration as it is, also one outside
  the pool. Creating an environment does not pass the configuration through
  \<open>inheritAllocatedPorts\<close> first.
\<close>

lemma reservation_accepts_given_port:
  "case reservePublicationClaims sample_policy 5 1 1 WorkloadStateless
          (sample_public_config [(sample_endpoint ''db'' EndpointTCP)\<lparr>pe_ExternalPort := 443\<rparr>]) empty_database of
     Inl _ \<Rightarrow> False
   | Inr (c, db) \<Rightarrow> external_ports c = [443] \<and> port_taken (publication_claims db) (Some 443)"
  by code_simp

end
