(* ===== verification/Fenced_Queue.thy ===== *)
theory Fenced_Queue
  imports Prelude
begin

text \<open>
  The contract of the store's work queues (operations, builds, webhook deliveries). A row is
  claimed for a worker with a lease and a fencing token that grows by one; every later write of
  the worker names that token. Rows of one group are never held by two workers at a time. The
  laws are stated for arbitrary tables, as a step relation of time and rows; a queue of the store
  is an instance by giving its columns and the row update of its claim.
\<close>

locale fenced_queue =
  fixes key :: "'r \<Rightarrow> int"
    and running :: "'r \<Rightarrow> bool"
    and terminal :: "'r \<Rightarrow> bool"
    and worker :: "'r \<Rightarrow> string option"
    and token :: "'r \<Rightarrow> int"
    and lease :: "'r \<Rightarrow> time option"
    and group :: "'r \<Rightarrow> int option"
    and claimable :: "time \<Rightarrow> 'r list \<Rightarrow> 'r \<Rightarrow> bool"
    and claim :: "time \<Rightarrow> duration \<Rightarrow> string \<Rightarrow> 'r \<Rightarrow> 'r"
  assumes claim_key: "key (claim now d w r) = key r"
    and claim_token: "token (claim now d w r) = token r + 1"
    and claim_held: "running (claim now d w r)" "worker (claim now d w r) = Some w"
      "lease (claim now d w r) = Some (now + d)"
    and claim_group: "group (claim now d w r) = group r"
    and claimable_fresh: "claimable now rows r \<Longrightarrow> \<not> terminal r"
    and claimable_free: "claimable now rows r \<Longrightarrow> running r \<Longrightarrow> lease r = Some l \<Longrightarrow> l < now"
    and claimable_alone: "claimable now rows r \<Longrightarrow> group r = Some g \<Longrightarrow> q \<in> set rows \<Longrightarrow> key q \<noteq> key r \<Longrightarrow>
      group q = Some g \<Longrightarrow> running q \<Longrightarrow> lease q = Some l \<Longrightarrow> l < now"
    and terminal_not_running: "terminal r \<Longrightarrow> \<not> running r"
begin

definition held :: "time \<Rightarrow> 'r \<Rightarrow> bool" where
  "held now r \<longleftrightarrow> running r \<and> (\<exists>l. lease r = Some l \<and> now \<le> l)"

text \<open>A worker's write is accepted only while it owns the row under the token it names.\<close>

definition owns :: "time \<Rightarrow> 'r list \<Rightarrow> int \<Rightarrow> string \<Rightarrow> int \<Rightarrow> bool" where
  "owns now rows i w t \<longleftrightarrow>
     (\<exists>r\<in>set rows. key r = i \<and> running r \<and> worker r = Some w \<and> token r = t
        \<and> (\<exists>l. lease r = Some l \<and> now < l))"

text \<open>
  Updates other than a claim keep keys and tokens, leave finished rows alone, and never extend
  or start a lease.
\<close>

definition plain_update :: "('r \<Rightarrow> bool) \<Rightarrow> ('r \<Rightarrow> 'r) \<Rightarrow> bool" where
  "plain_update p f \<longleftrightarrow>
     (\<forall>r. p r \<longrightarrow> key (f r) = key r \<and> token (f r) = token r \<and> \<not> terminal r
        \<and> (running (f r) \<longrightarrow> running r \<and> lease (f r) = lease r \<and> group (f r) = group r))"

inductive qstep :: "time \<times> 'r list \<Rightarrow> time \<times> 'r list \<Rightarrow> bool" where
  tick: "now \<le> now' \<Longrightarrow> qstep (now, rows) (now', rows)"
| claim: "r \<in> set rows \<Longrightarrow> claimable now rows r \<Longrightarrow>
    qstep (now, rows) (now, sql_update (\<lambda>q. key q = key r) (claim now d w) rows)"
| update: "plain_update p f \<Longrightarrow> qstep (now, rows) (now, sql_update p f rows)"
| insert: "key r \<notin> key ` set rows \<Longrightarrow> \<not> running r \<Longrightarrow> \<not> terminal r \<Longrightarrow>
    qstep (now, rows) (now, rows @ [r])"

abbreviation qsteps :: "time \<times> 'r list \<Rightarrow> time \<times> 'r list \<Rightarrow> bool" where
  "qsteps \<equiv> qstep\<^sup>*\<^sup>*"

inductive_cases qstep_pairs: "qstep (now, rows) (now', rows')"

lemma qstep_keyed:
  assumes "qstep s s'" and "keyed_on key (snd s)"
  shows "keyed_on key (snd s')"
  using assms
proof cases
  case (claim r rows now d w)
  then show ?thesis using assms(2) by (auto intro!: keyed_on_update simp: claim_key)
next
  case (update p f now rows)
  then show ?thesis using assms(2) by (auto intro!: keyed_on_update simp: plain_update_def)
qed (auto simp: keyed_on_def)

lemma qsteps_keyed: "qsteps s s' \<Longrightarrow> keyed_on key (snd s) \<Longrightarrow> keyed_on key (snd s')"
  by (induction rule: rtranclp_induct) (auto dest: qstep_keyed)

text \<open>Every row survives a step under its key, with a token that never shrinks.\<close>

lemma qstep_row:
  assumes "qstep s s'" and "keyed_on key (snd s)" and "r \<in> set (snd s)"
  shows "\<exists>r'\<in>set (snd s'). key r' = key r \<and> token r \<le> token r' \<and> (terminal r \<longrightarrow> r' = r)"
  using assms
proof cases
  case (claim q rows now d w)
  let ?r' = "if key r = key q then claim now d w r else r"
  have "?r' \<in> set (snd s')" using claim assms(3) by (auto simp: in_sql_update)
  moreover have "\<not> terminal r" if "key r = key q"
  proof -
    from that claim assms(2,3) have "r = q" by (auto dest: keyed_on_unique)
    with claimable_fresh claim show ?thesis by blast
  qed
  ultimately show ?thesis
    by (auto simp: claim_key claim_token intro!: bexI [of _ ?r'])
next
  case (update p f now rows)
  then have "(if p r then f r else r) \<in> set (snd s')"
    using assms(3) by (auto simp: in_sql_update)
  with update(3) show ?thesis
    by (auto simp: plain_update_def intro!: bexI [of _ "if p r then f r else r"])
qed (use assms(3) in auto)

lemma qsteps_row:
  assumes "qsteps s s'" and "keyed_on key (snd s)" and "r \<in> set (snd s)"
  shows "\<exists>r'\<in>set (snd s'). key r' = key r \<and> token r \<le> token r' \<and> (terminal r \<longrightarrow> r' = r)"
  using assms(1)
proof (induction rule: rtranclp_induct)
  case base
  then show ?case using assms(3) by auto
next
  case (step u v)
  then obtain q where q: "q \<in> set (snd u)" "key q = key r" "token r \<le> token q" "terminal r \<longrightarrow> q = r"
    by blast
  have "keyed_on key (snd u)" using qsteps_keyed step.hyps(1) assms(2) by blast
  from qstep_row [OF step.hyps(2) this q(1)] q show ?case by force
qed

text \<open>
  Fencing: once the token of a row has grown, nobody owns the row under an earlier token any more,
  whatever happens afterwards.
\<close>

lemma token_fences:
  assumes keyed: "keyed_on key rows" and r: "r \<in> set rows" "t < token r"
    and after: "qsteps (now, rows) (now', rows')"
  shows "\<not> owns now' rows' (key r) w t"
proof
  assume "owns now' rows' (key r) w t"
  then obtain q where q: "q \<in> set rows'" "key q = key r" "token q = t" by (auto simp: owns_def)
  obtain r' where r': "r' \<in> set rows'" "key r' = key r" "token r \<le> token r'"
    using qsteps_row [OF after] keyed r by auto
  have "keyed_on key rows'" using qsteps_keyed [OF after] keyed by simp
  from keyed_on_unique [OF this q(1) r'(1)] q r' r(2) show False by simp
qed

text \<open>A finished row is never changed again.\<close>

lemma terminal_stable:
  assumes "keyed_on key rows" and "r \<in> set rows" and "terminal r" and "qsteps (now, rows) (now', rows')"
  shows "r \<in> set rows'"
  using qsteps_row [OF assms(4)] assms(1-3) by force

text \<open>Mutual exclusion: two rows of one group are never held at the same time.\<close>

definition exclusive :: "time \<times> 'r list \<Rightarrow> bool" where
  "exclusive s \<longleftrightarrow>
     (\<forall>r\<in>set (snd s). \<forall>q\<in>set (snd s). \<forall>g. group r = Some g \<and> group q = Some g
        \<and> held (fst s) r \<and> held (fst s) q \<longrightarrow> key r = key q)"

lemma exclusiveI:
  "(\<And>r q g. r \<in> set (snd s) \<Longrightarrow> q \<in> set (snd s) \<Longrightarrow> group r = Some g \<Longrightarrow> group q = Some g \<Longrightarrow>
      held (fst s) r \<Longrightarrow> held (fst s) q \<Longrightarrow> key r = key q) \<Longrightarrow> exclusive s"
  unfolding exclusive_def by blast

lemma exclusiveD:
  "exclusive s \<Longrightarrow> r \<in> set (snd s) \<Longrightarrow> q \<in> set (snd s) \<Longrightarrow> group r = Some g \<Longrightarrow> group q = Some g \<Longrightarrow>
   held (fst s) r \<Longrightarrow> held (fst s) q \<Longrightarrow> key r = key q"
  unfolding exclusive_def by blast

lemma held_antimono: "now \<le> now' \<Longrightarrow> held now' r \<Longrightarrow> held now r"
  by (auto simp: held_def)

lemma qstep_exclusive:
  assumes "qstep s s'" and "keyed_on key (snd s)" and ex: "exclusive s"
  shows "exclusive s'"
  using assms(1)
proof cases
  case (tick now now' rows)
  show ?thesis
  proof (rule exclusiveI)
    fix a b g
    assume "a \<in> set (snd s')" "b \<in> set (snd s')" "group a = Some g" "group b = Some g"
      "held (fst s') a" "held (fst s') b"
    with tick show "key a = key b"
      using exclusiveD [OF ex, of a b g] held_antimono [OF tick(3)] by simp
  qed
next
  case (claim r rows now d w)
  have other: "\<not> held now q" if "q \<in> set rows" "key q \<noteq> key r" "group r = Some g" "group q = Some g" for q g
    using claimable_alone [OF claim(4) that(3) that(1,2,4)] by (auto simp: held_def)
  have same: "x = r" if "x \<in> set rows" "key x = key r" for x
    using keyed_on_unique [of key rows x r] claim assms(2) that by auto
  show ?thesis
  proof (rule exclusiveI)
    fix a b g
    assume "a \<in> set (snd s')" "b \<in> set (snd s')"
      and g: "group a = Some g" "group b = Some g" and h: "held (fst s') a" "held (fst s') b"
    then obtain a0 b0 where
      ab: "a0 \<in> set rows" "a = (if key a0 = key r then claim now d w a0 else a0)"
          "b0 \<in> set rows" "b = (if key b0 = key r then claim now d w b0 else b0)"
      unfolding claim(2) snd_conv in_sql_update by blast
    have gr: "group a0 = Some g" "group b0 = Some g"
      using g ab by (simp_all add: claim_group split: if_splits)
    show "key a = key b"
    proof (cases "key a0 = key r \<or> key b0 = key r")
      case True
      then have r: "group r = Some g" using same [OF ab(1)] same [OF ab(3)] gr by auto
      have "key a0 = key r"
        using other [OF ab(1) _ r gr(1)] h(1) ab(2) claim(2) by (cases "key a0 = key r") simp_all
      moreover have "key b0 = key r"
        using other [OF ab(3) _ r gr(2)] h(2) ab(4) claim(2) by (cases "key b0 = key r") simp_all
      ultimately show ?thesis using ab by (simp add: claim_key)
    next
      case False
      then show ?thesis using exclusiveD [OF ex, of a0 b0 g] ab gr h claim(1,2) by simp
    qed
  qed
next
  case (update p f now rows)
  have unheld: "held now r \<and> group (if p r then f r else r) = group r"
    if "held now (if p r then f r else r)" for r
    using that update(3) by (auto simp: plain_update_def held_def split: if_splits)
  have k: "key (if p r then f r else r) = key r" for r
    using update(3) by (auto simp: plain_update_def)
  show ?thesis
  proof (rule exclusiveI)
    fix a b g
    assume "a \<in> set (snd s')" "b \<in> set (snd s')"
      and g: "group a = Some g" "group b = Some g" and h: "held (fst s') a" "held (fst s') b"
    then obtain a0 b0 where ab: "a0 \<in> set rows" "a = (if p a0 then f a0 else a0)"
        "b0 \<in> set rows" "b = (if p b0 then f b0 else b0)"
      unfolding update(2) snd_conv in_sql_update by blast
    have now: "fst s' = now" "fst s = now" "snd s = rows" by (simp_all add: update)
    note a = unheld [of a0, folded ab(2), OF h(1) [unfolded now]]
      and b = unheld [of b0, folded ab(4), OF h(2) [unfolded now]]
    have "group a0 = Some g" "group b0 = Some g" using a b g by metis+
    then have "key a0 = key b0"
      using exclusiveD [OF ex, of a0 b0 g] a b ab(1,3) now by metis
    then show "key a = key b" using ab k by metis
  qed
next
  case (insert r rows now)
  then have "\<not> held now r" by (simp add: held_def)
  show ?thesis
  proof (rule exclusiveI)
    fix a b g
    assume "a \<in> set (snd s')" "b \<in> set (snd s')" "group a = Some g" "group b = Some g"
      "held (fst s') a" "held (fst s') b"
    with insert \<open>\<not> held now r\<close> show "key a = key b"
      using exclusiveD [OF ex, of a b g] by auto
  qed
qed

lemma qsteps_exclusive:
  assumes "qsteps s s'" and "keyed_on key (snd s)" and "exclusive s"
  shows "exclusive s'"
  using assms(1)
proof (induction rule: rtranclp_induct)
  case (step u v)
  then show ?case using qstep_exclusive qsteps_keyed [OF step.hyps(1) assms(2)] by blast
qed (use assms(3) in simp)

lemma exclusive_if_none_running: "\<forall>r\<in>set rows. \<not> running r \<Longrightarrow> exclusive (now, rows)"
  by (simp add: exclusive_def held_def)

end

end
