(* ===== verification/Operation_Store.thy ===== *)
theory Operation_Store
  imports Store_Reads Publication Fenced_Queue
begin

text \<open>
  \<open>internal/store/operation.go\<close> and \<open>operation_dispatch.go\<close>: the queue of runtime operations.
  A cluster agent claims the next due operation of its installation, works on it under a lease
  and a fencing token, and reports completion or failure in one transaction that also updates
  the workspace, deployment, environment or volume the operation is about. \<open>now\<close> is the
  transaction's \<open>now()\<close>.
\<close>

section \<open>Values of operations\<close>

text \<open>The columns a claim returns; a \<open>NULL\<close> worker cannot occur there.\<close>

definition claimed_operation :: "OperationRow \<Rightarrow> Operation" where
  "claimed_operation o' =
     \<lparr>op_ID = o_id o', op_ClusterID = COALESCE (o_agent_installation_id o') 0,
      op_PublicID = o_public_id o', op_AppEnvironmentID = COALESCE (o_app_environment_id o') 0,
      op_AppEnvironmentPublicID = '''', op_DeploymentID = COALESCE (o_deployment_id o') 0,
      op_DeploymentPublicID = '''', op_AppVolumeID = COALESCE (o_app_volume_id o') 0,
      op_AppVolumePublicID = '''', op_WorkspaceID = o_workspace_id o',
      op_ActorID = o_requested_by_principal_id o', op_Kind = o_kind o', op_Status = o_status o',
      op_DesiredVersion = o_desired_version o', op_Attempts = o_attempts o',
      op_WorkerID = COALESCE (o_worker_id o') '''', op_FencingToken = o_fencing_token o',
      op_LeaseUntil = o_lease_until o', op_ErrorCode = '''', op_ErrorMessage = '''',
      op_CreatedAt = o_created_at o', op_UpdatedAt = o_updated_at o'\<rparr>"

definition scanOperation :: "database \<Rightarrow> OperationRow \<Rightarrow> Operation" where
  "scanOperation db o' =
     \<lparr>op_ID = o_id o', op_ClusterID = 0, op_PublicID = o_public_id o',
      op_AppEnvironmentID = COALESCE (o_app_environment_id o') 0,
      op_AppEnvironmentPublicID =
        optional_string aer_public_id (find_by aer_id (o_app_environment_id o') (app_environments db)),
      op_DeploymentID = COALESCE (o_deployment_id o') 0,
      op_DeploymentPublicID = optional_string dr_public_id (find_by dr_id (o_deployment_id o') (deployments db)),
      op_AppVolumeID = COALESCE (o_app_volume_id o') 0,
      op_AppVolumePublicID = optional_string vol_public_id (find_by vol_id (o_app_volume_id o') (app_volumes db)),
      op_WorkspaceID = o_workspace_id o', op_ActorID = o_requested_by_principal_id o',
      op_Kind = o_kind o', op_Status = o_status o', op_DesiredVersion = o_desired_version o',
      op_Attempts = o_attempts o', op_WorkerID = '''', op_FencingToken = 0, op_LeaseUntil = None,
      op_ErrorCode = o_error_code o', op_ErrorMessage = o_error_message o',
      op_CreatedAt = o_created_at o', op_UpdatedAt = o_updated_at o'\<rparr>"

definition GetOperationForPrincipal :: "database \<Rightarrow> int \<Rightarrow> string \<Rightarrow> store_error + Operation" where
  "GetOperationForPrincipal db principalID publicID =
     (case query_row (\<lambda>o'. o_requested_by_principal_id o' = principalID \<and> o_public_id o' = publicID)
             (operations db) of
        Inl err \<Rightarrow> Inl ErrNotFound
      | Inr o' \<Rightarrow> Inr (scanOperation db o'))"

definition operationByPrincipalIdempotency ::
    "database \<Rightarrow> int \<Rightarrow> int \<Rightarrow> string \<Rightarrow> string \<Rightarrow> store_error + Operation option" where
  "operationByPrincipalIdempotency db workspaceID principalID idempotencyHash payloadHash =
     (case query_row (\<lambda>o'. o_workspace_id o' = workspaceID \<and> o_requested_by_principal_id o' = principalID
                           \<and> o_idempotency_hash o' = idempotencyHash) (operations db) of
        Inl err \<Rightarrow> Inr None
      | Inr o' \<Rightarrow> if o_payload_hash o' \<noteq> payloadHash then Inl ErrIdempotencyConflict
                 else Inr (Some (scanOperation db o')))"

definition operationByIdempotency ::
    "database \<Rightarrow> int \<Rightarrow> int \<Rightarrow> string \<Rightarrow> string \<Rightarrow> store_error + Operation option" where
  "operationByIdempotency db workspaceID actorID idempotencyHash payloadHash =
     (case principalIDForUser db actorID of
        Inl err \<Rightarrow> Inl err
      | Inr principalID \<Rightarrow>
          operationByPrincipalIdempotency db workspaceID principalID idempotencyHash payloadHash)"

section \<open>Claiming\<close>

definition unexpired :: "time \<Rightarrow> OperationRow \<Rightarrow> bool" where
  "unexpired now o' = (case o_lease_until o' of None \<Rightarrow> False | Some l \<Rightarrow> now \<le> l)"

definition operation_due :: "time \<Rightarrow> OperationRow list \<Rightarrow> OperationRow \<Rightarrow> bool" where
  "operation_due now rows o' \<longleftrightarrow>
     (o_status o' = OperationPending
      \<or> o_status o' = OperationRunning \<and> (case o_lease_until o' of None \<Rightarrow> False | Some l \<Rightarrow> l < now))
     \<and> o_next_attempt_at o' \<le> now
     \<and> \<not> list_ex (\<lambda>active. o_agent_installation_id active \<noteq> None
                    \<and> o_agent_installation_id active = o_agent_installation_id o'
                    \<and> o_status active = OperationRunning \<and> unexpired now active \<and> o_id active \<noteq> o_id o') rows"

definition for_installation :: "database \<Rightarrow> string \<Rightarrow> OperationRow \<Rightarrow> bool" where
  "for_installation db installationID o' \<longleftrightarrow>
     installationID = '''' \<or>
     list_ex (\<lambda>ai. o_agent_installation_id o' = Some (ai_id ai) \<and> ai_public_id ai = installationID)
       (agent_installations db)"

definition claim_operation :: "time \<Rightarrow> duration \<Rightarrow> string \<Rightarrow> OperationRow \<Rightarrow> OperationRow" where
  "claim_operation now lease worker o' =
     o'\<lparr>o_status := OperationRunning, o_attempts := o_attempts o' + 1,
        o_started_at := Some (COALESCE (o_started_at o') now), o_lease_until := Some (now + lease),
        o_worker_id := Some worker, o_fencing_token := o_fencing_token o' + 1, o_updated_at := now\<rparr>"

definition claim_workspace :: "time \<Rightarrow> Operation \<Rightarrow> database \<Rightarrow> database" where
  "claim_workspace now operation db =
     db\<lparr>workspace_clusters :=
          sql_update (\<lambda>wc. wc_workspace_id wc = op_WorkspaceID operation
                         \<and> wc_installation_id wc = op_ClusterID operation)
            (\<lambda>wc. wc\<lparr>wc_state := ''Running'', wc_message := '''', wc_updated_at := now\<rparr>) (workspace_clusters db),
        workspaces :=
          sql_update (\<lambda>w. ws_ID w = op_WorkspaceID operation \<and> ws_BootstrapState w = ''Pending'')
            (\<lambda>w. w\<lparr>ws_BootstrapState := ''Running'', ws_UpdatedAt := now\<rparr>) (workspaces db)\<rparr>"

definition claim_volume :: "time \<Rightarrow> Operation \<Rightarrow> Operation tx" where
  "claim_volume now operation db =
     (if op_AppVolumeID operation = 0 then Inr (operation, db)
      else (case appVolumeByID db (op_AppVolumeID operation) of
              Inl err \<Rightarrow> Inl err
            | Inr volume \<Rightarrow>
                let state = (if op_Kind operation = OperationExpandVolume then ''Expanding'' else ''Provisioning'')
                in Inr (operation\<lparr>op_AppVolumePublicID := av_PublicID volume\<rparr>,
                        db\<lparr>app_volumes := sql_update (\<lambda>av. vol_id av = av_ID volume)
                             (\<lambda>av. av\<lparr>vol_observed_state := state, vol_updated_at := now\<rparr>) (app_volumes db)\<rparr>)))"

definition claim_deployment :: "time \<Rightarrow> Operation \<Rightarrow> (Operation \<times> Deployment) tx" where
  "claim_deployment now operation db =
     (if op_Kind operation \<noteq> OperationApplyDeployment then Inr ((operation, zero_Deployment), db)
      else (case deploymentByID db (op_DeploymentID operation) of
              Inl err \<Rightarrow> Inl err
            | Inr deployment \<Rightarrow>
                Inr ((operation\<lparr>op_DeploymentPublicID := dpl_PublicID deployment\<rparr>, deployment),
                     db\<lparr>deployments := sql_update (\<lambda>d. dr_id d = dpl_ID deployment)
                          (\<lambda>d. d\<lparr>dr_status := StateProgressing,
                                 dr_started_at := Some (COALESCE (dr_started_at d) now),
                                 dr_updated_at := now\<rparr>) (deployments db)\<rparr>)))"

definition claimNext :: "time \<Rightarrow> string \<Rightarrow> string \<Rightarrow> duration \<Rightarrow> (Operation \<times> AppEnvironment \<times> Deployment) option tx" where
  "claimNext now worker installationID lease db =
     (case sql_first o_id (\<lambda>o'. operation_due now (operations db) o' \<and> for_installation db installationID o')
             (operations db) of
        None \<Rightarrow> Inr (None, db)
      | Some candidate \<Rightarrow>
          let operation = claimed_operation (claim_operation now lease worker candidate);
              db1 = db\<lparr>operations := sql_update (\<lambda>q. o_id q = o_id candidate)
                                       (claim_operation now lease worker) (operations db)\<rparr>
          in if op_Kind operation = OperationEnsureWorkspace
             then Inr (Some (operation, zero_AppEnvironment\<lparr>ae_WorkspaceID := op_WorkspaceID operation\<rparr>,
                             zero_Deployment),
                       claim_workspace now operation db1)
             else (case appEnvironmentByID db1 (op_AppEnvironmentID operation) of
                     Inl err \<Rightarrow> Inl err
                   | Inr appEnvironment \<Rightarrow>
                 (case claim_volume now
                         (operation\<lparr>op_AppEnvironmentPublicID := ae_PublicID appEnvironment\<rparr>) db1 of
                     Inl err \<Rightarrow> Inl err
                   | Inr (operation2, db2) \<Rightarrow>
                 (case claim_deployment now operation2 db2 of
                     Inl err \<Rightarrow> Inl err
                   | Inr ((operation3, deployment), db3) \<Rightarrow>
                       Inr (Some (operation3, appEnvironment, deployment), db3)))))"

definition ClaimNext :: "time \<Rightarrow> string \<Rightarrow> duration \<Rightarrow> (Operation \<times> AppEnvironment \<times> Deployment) option tx" where
  "ClaimNext now worker lease = claimNext now worker '''' lease"

definition ClaimNextForAgent :: "time \<Rightarrow> string \<Rightarrow> string \<Rightarrow> duration \<Rightarrow> (Operation \<times> AppEnvironment \<times> Deployment) option tx" where
  "ClaimNextForAgent now worker installationID lease db =
     (if installationID = '''' then Inl ErrAgentUnavailable
      else claimNext now worker installationID lease db)"

definition ClaimedOperationForAgent :: "time \<Rightarrow> string \<Rightarrow> string \<Rightarrow> int \<Rightarrow> database \<Rightarrow> store_error + Operation" where
  "ClaimedOperationForAgent now installationPublicID operationPublicID fencingToken db =
     (case query_row (\<lambda>o'. list_ex (\<lambda>i. o_agent_installation_id o' = Some (ai_id i)
                                        \<and> ai_public_id i = installationPublicID) (agent_installations db)
                         \<and> o_public_id o' = operationPublicID \<and> o_status o' = OperationRunning
                         \<and> o_worker_id o' = Some (''agent:'' @ installationPublicID)
                         \<and> o_fencing_token o' = fencingToken
                         \<and> (case o_lease_until o' of None \<Rightarrow> False | Some l \<Rightarrow> now < l)) (operations db) of
        Inl err \<Rightarrow> Inl ErrLeaseLost
      | Inr o' \<Rightarrow> Inr (claimed_operation o'))"

section \<open>Completion\<close>

definition lease_owned :: "time \<Rightarrow> Operation \<Rightarrow> OperationRow \<Rightarrow> bool" where
  "lease_owned now operation o' \<longleftrightarrow>
     o_id o' = op_ID operation \<and> o_status o' = OperationRunning
     \<and> o_worker_id o' = Some (op_WorkerID operation) \<and> o_fencing_token o' = op_FencingToken operation
     \<and> (case o_lease_until o' of None \<Rightarrow> False | Some l \<Rightarrow> now < l)"

definition succeed_operation :: "time \<Rightarrow> OperationRow \<Rightarrow> OperationRow" where
  "succeed_operation now o' =
     o'\<lparr>o_status := OperationSucceeded, o_completed_at := Some now, o_lease_until := None,
        o_worker_id := None, o_error_code := '''', o_error_message := '''', o_updated_at := now\<rparr>"

definition completeOperationLease :: "time \<Rightarrow> Operation \<Rightarrow> unit tx" where
  "completeOperationLease now operation db =
     (if sql_count (lease_owned now operation) (operations db) \<noteq> 1 then Inl ErrLeaseLost
      else Inr ((), db\<lparr>operations := sql_update (lease_owned now operation) (succeed_operation now)
                                      (operations db)\<rparr>))"

text \<open>The check constraints on the runtime columns of environments and volumes.\<close>

definition spec_hash_valid :: "string \<Rightarrow> bool" where
  "spec_hash_valid h \<longleftrightarrow> length h = 64 \<and> list_all hex_digit h"

definition runtime_state_valid :: "int \<Rightarrow> string \<Rightarrow> bool" where
  "runtime_state_valid version specHash \<longleftrightarrow> 0 < version \<and> spec_hash_valid specHash"

definition mark_current :: "time \<Rightarrow> Operation \<Rightarrow> string \<Rightarrow> string \<Rightarrow> unit tx" where
  "mark_current now operation message specHash db =
     (let p = (\<lambda>ae. aer_id ae = op_AppEnvironmentID operation
                  \<and> aer_desired_deployment_id ae = Some (op_DeploymentID operation))
      in case find (\<lambda>d. dr_id d = op_DeploymentID operation) (deployments db) of
           None \<Rightarrow> Inr ((), db)
         | Some d \<Rightarrow>
             if list_ex p (app_environments db) \<and> \<not> runtime_state_valid (op_DesiredVersion operation) specHash
             then Inl (CheckViolation ''app_environments_runtime_desired_state_valid'')
             else Inr ((), db\<lparr>app_environments :=
                    sql_update p (\<lambda>ae. ae\<lparr>aer_current_deployment_id := Some (dr_id d),
                                        aer_current_release_id := Some (dr_release_id d),
                                        aer_last_state := StateReady, aer_last_message := message,
                                        aer_runtime_desired_version := op_DesiredVersion operation,
                                        aer_runtime_spec_hash := Some specHash,
                                        aer_updated_at := now\<rparr>) (app_environments db)\<rparr>))"

record deploymentVolumeCompletion =
  dvc_message :: string
  dvc_observedSizeGiB :: int

definition complete_attached_volume :: "time \<Rightarrow> Operation \<Rightarrow> deploymentVolumeCompletion option \<Rightarrow> unit tx" where
  "complete_attached_volume now operation volume db =
     (case volume of
        None \<Rightarrow> Inr ((), db)
      | Some v \<Rightarrow>
          let p = (\<lambda>av. vol_app_environment_id av = op_AppEnvironmentID operation
                      \<and> list_ex (\<lambda>d. dr_id d = op_DeploymentID operation
                                     \<and> dr_app_volume_id d = Some (vol_id av)) (deployments db))
          in if sql_count p (app_volumes db) \<noteq> 1
                \<or> list_ex (\<lambda>av. p av \<and> \<not> (0 \<le> dvc_observedSizeGiB v
                                          \<and> dvc_observedSizeGiB v \<le> vol_requested_size_gib av)) (app_volumes db)
             then Inl ErrLeaseLost
             else Inr ((), db\<lparr>app_volumes :=
                    sql_update p (\<lambda>av. av\<lparr>vol_observed_state := ''Ready'', vol_message := dvc_message v,
                                        vol_observed_size_gib := dvc_observedSizeGiB v,
                                        vol_updated_at := now\<rparr>) (app_volumes db)\<rparr>))"

definition completeDeployment ::
    "PublicationPolicy \<Rightarrow> time \<Rightarrow> Operation \<Rightarrow> string \<Rightarrow> string \<Rightarrow> string \<Rightarrow> deploymentVolumeCompletion option \<Rightarrow> unit tx" where
  "completeDeployment policy now operation message observedRelease specHash volume db =
     (case completeOperationLease now operation db of
        Inl err \<Rightarrow> Inl err
      | Inr (_, db1) \<Rightarrow>
      (case deploymentByID db1 (op_DeploymentID operation) of
        Inl err \<Rightarrow> Inl err
      | Inr deployed \<Rightarrow>
      (let p = (\<lambda>d. dr_id d = op_DeploymentID operation \<and> dr_app_environment_id d = op_AppEnvironmentID operation) in
       if sql_count p (deployments db1) \<noteq> 1 then Inl ErrLeaseLost
       else
      (case mark_current now operation message specHash
              (db1\<lparr>deployments := sql_update p
                     (\<lambda>d. d\<lparr>dr_status := StateReady, dr_message := message, dr_observed_release := observedRelease,
                            dr_completed_at := Some now, dr_updated_at := now\<rparr>) (deployments db1)\<rparr>) of
        Inl err \<Rightarrow> Inl err
      | Inr (_, db2) \<Rightarrow>
      (case complete_attached_volume now operation volume db2 of
        Inl err \<Rightarrow> Inl err
      | Inr (_, db3) \<Rightarrow>
          activatePublicationClaims policy now (op_AppEnvironmentID operation)
            (dpl_ConfigurationVersion deployed) (dpl_WorkloadKind deployed) (dpl_Configuration deployed) db3)))))"

definition CompleteDeployment ::
    "PublicationPolicy \<Rightarrow> time \<Rightarrow> Operation \<Rightarrow> string \<Rightarrow> string \<Rightarrow> string \<Rightarrow> unit tx" where
  "CompleteDeployment policy now operation message observedRelease specHash =
     completeDeployment policy now operation message observedRelease specHash None"

definition CompleteStatefulDeployment ::
    "PublicationPolicy \<Rightarrow> time \<Rightarrow> Operation \<Rightarrow> string \<Rightarrow> string \<Rightarrow> string \<Rightarrow> int \<Rightarrow> string \<Rightarrow> unit tx" where
  "CompleteStatefulDeployment policy now operation message observedRelease volumeMessage observedSizeGiB specHash =
     completeDeployment policy now operation message observedRelease specHash
       (Some \<lparr>dvc_message = volumeMessage, dvc_observedSizeGiB = observedSizeGiB\<rparr>)"

definition CompleteAppEnvironmentDeletion :: "time \<Rightarrow> Operation \<Rightarrow> string \<Rightarrow> unit tx" where
  "CompleteAppEnvironmentDeletion now operation message db =
     (case completeOperationLease now operation db of
        Inl err \<Rightarrow> Inl err
      | Inr (_, db1) \<Rightarrow>
          let p = (\<lambda>ae. aer_id ae = op_AppEnvironmentID operation \<and> aer_deletion_requested_at ae \<noteq> None
                      \<and> aer_archived_at ae = None)
          in if sql_count p (app_environments db1) \<noteq> 1 then Inl ErrLeaseLost
             else Inr ((), db1\<lparr>app_environments :=
                      sql_update p (\<lambda>ae. ae\<lparr>aer_archived_at := Some now, aer_last_message := message,
                                          aer_updated_at := now\<rparr>) (app_environments db1),
                    publication_claims :=
                      filter (\<lambda>c. pc_app_environment_id c \<noteq> op_AppEnvironmentID operation)
                        (publication_claims db1)\<rparr>))"

definition CompleteWorkspace :: "time \<Rightarrow> Operation \<Rightarrow> unit tx" where
  "CompleteWorkspace now operation db =
     (case completeOperationLease now operation db of
        Inl err \<Rightarrow> Inl err
      | Inr (_, db1) \<Rightarrow>
          Inr ((), db1\<lparr>workspace_clusters :=
              sql_update (\<lambda>wc. wc_workspace_id wc = op_WorkspaceID operation
                             \<and> wc_installation_id wc = op_ClusterID operation)
                (\<lambda>wc. wc\<lparr>wc_state := ''Ready'', wc_message := '''',
                         wc_observed_generation := max (wc_observed_generation wc) 1,
                         wc_updated_at := now\<rparr>) (workspace_clusters db1),
            workspaces :=
              sql_update (\<lambda>w. ws_ID w = op_WorkspaceID operation)
                (\<lambda>w. w\<lparr>ws_BootstrapState := ''Ready'', ws_UpdatedAt := now\<rparr>) (workspaces db1)\<rparr>))"

definition valid_volume_state :: "string \<Rightarrow> bool" where
  "valid_volume_state state \<longleftrightarrow>
     state \<in> {''Pending'', ''Provisioning'', ''Ready'', ''Expanding'', ''Retained'', ''Degraded''}"

definition CompleteVolume :: "time \<Rightarrow> Operation \<Rightarrow> string \<Rightarrow> string \<Rightarrow> int \<Rightarrow> string \<Rightarrow> unit tx" where
  "CompleteVolume now operation state message observedSizeGiB specHash db =
     (case completeOperationLease now operation db of
        Inl err \<Rightarrow> Inl err
      | Inr (_, db1) \<Rightarrow>
          let p = (\<lambda>av. vol_id av = op_AppVolumeID operation \<and> vol_version av = op_DesiredVersion operation);
              violates = (\<lambda>av. \<not> valid_volume_state state \<or> observedSizeGiB < 0
                              \<or> vol_requested_size_gib av < observedSizeGiB
                              \<or> \<not> runtime_state_valid (op_DesiredVersion operation) specHash);
              db2 = db1\<lparr>app_volumes :=
                       sql_update p (\<lambda>av. av\<lparr>vol_observed_state := state, vol_message := message,
                                           vol_observed_size_gib := observedSizeGiB,
                                           vol_runtime_desired_version := op_DesiredVersion operation,
                                           vol_runtime_spec_hash := Some specHash,
                                           vol_updated_at := now\<rparr>) (app_volumes db1)\<rparr>;
              live = (\<lambda>ae. aer_id ae = op_AppEnvironmentID operation \<and> aer_archived_at ae = None)
          in if sql_count p (app_volumes db1) \<noteq> 1 \<or> list_ex (\<lambda>av. p av \<and> violates av) (app_volumes db1)
             then Inl ErrLeaseLost
             else if state = ''Ready''
             then Inr ((), db2\<lparr>app_environments :=
                    sql_update live
                      (\<lambda>ae. ae\<lparr>aer_last_state := (if aer_current_deployment_id ae = None then StatePending else StateReady),
                               aer_last_message := (if aer_current_deployment_id ae = None
                                 then ''persistent storage is ready; no release is deployed'' else ''''),
                               aer_updated_at := now\<rparr>) (app_environments db2)\<rparr>)
             else if state = ''Provisioning''
             then Inr ((), db2\<lparr>app_environments :=
                    sql_update live
                      (\<lambda>ae. ae\<lparr>aer_last_state := StatePending,
                               aer_last_message := ''persistent storage will bind during the first deployment'',
                               aer_updated_at := now\<rparr>) (app_environments db2)\<rparr>)
             else Inr ((), db2))"

section \<open>Failure\<close>

definition backoff :: "OperationRow \<Rightarrow> duration" where
  "backoff o' = min 300 (2 ^ nat (o_attempts o')) * second"

definition fail_operation :: "time \<Rightarrow> OperationStatus \<Rightarrow> string \<Rightarrow> string \<Rightarrow> OperationRow \<Rightarrow> OperationRow" where
  "fail_operation now status code message o' =
     o'\<lparr>o_status := status,
        o_next_attempt_at := (if status = OperationPending then now + backoff o' else o_next_attempt_at o'),
        o_completed_at := (if status = OperationFailed then Some now else None),
        o_lease_until := None, o_worker_id := None, o_error_code := code, o_error_message := message,
        o_updated_at := now\<rparr>"

definition degrade_environment :: "time \<Rightarrow> string \<Rightarrow> (AppEnvironmentRow \<Rightarrow> bool) \<Rightarrow> database \<Rightarrow> database" where
  "degrade_environment now message p db =
     db\<lparr>app_environments := sql_update p (\<lambda>ae. ae\<lparr>aer_last_state := StateDegraded,
          aer_last_message := message, aer_updated_at := now\<rparr>) (app_environments db)\<rparr>"

definition record_failure :: "time \<Rightarrow> Operation \<Rightarrow> string \<Rightarrow> database \<Rightarrow> database" where
  "record_failure now operation message db =
     (case op_Kind operation of
        OperationEnsureWorkspace \<Rightarrow>
          (let clusters = sql_update (\<lambda>wc. wc_workspace_id wc = op_WorkspaceID operation
                                         \<and> wc_installation_id wc = op_ClusterID operation)
                 (\<lambda>wc. wc\<lparr>wc_state := ''Failed'', wc_message := message, wc_updated_at := now\<rparr>)
                 (workspace_clusters db);
               state = (if list_ex (\<lambda>wc. wc_workspace_id wc = op_WorkspaceID operation
                                        \<and> wc_state wc = ''Ready'') clusters then ''Ready'' else ''Failed'')
           in db\<lparr>workspace_clusters := clusters,
                 workspaces := sql_update (\<lambda>w. ws_ID w = op_WorkspaceID operation)
                   (\<lambda>w. w\<lparr>ws_BootstrapState := state, ws_UpdatedAt := now\<rparr>) (workspaces db)\<rparr>)
      | OperationApplyDeployment \<Rightarrow>
          degrade_environment now message
            (\<lambda>ae. aer_id ae = op_AppEnvironmentID operation
                 \<and> aer_desired_deployment_id ae = Some (op_DeploymentID operation))
            (db\<lparr>deployments := sql_update (\<lambda>d. dr_id d = op_DeploymentID operation)
                 (\<lambda>d. d\<lparr>dr_status := StateDegraded, dr_message := message, dr_completed_at := Some now,
                        dr_updated_at := now\<rparr>) (deployments db)\<rparr>)
      | OperationDeleteAppEnv \<Rightarrow>
          degrade_environment now message (\<lambda>ae. aer_id ae = op_AppEnvironmentID operation) db
      | OtherOperationKind _ \<Rightarrow> db
      | _ \<Rightarrow>
          degrade_environment now message
            (\<lambda>ae. aer_id ae = op_AppEnvironmentID operation \<and> aer_archived_at ae = None)
            (db\<lparr>app_volumes := sql_update (\<lambda>av. vol_id av = op_AppVolumeID operation)
                 (\<lambda>av. av\<lparr>vol_observed_state := ''Degraded'', vol_message := message,
                          vol_updated_at := now\<rparr>) (app_volumes db)\<rparr>))"

definition Fail :: "time \<Rightarrow> Operation \<Rightarrow> string \<Rightarrow> string \<Rightarrow> bool \<Rightarrow> unit tx" where
  "Fail now operation code message retry db =
     (let status = (if retry \<and> op_Attempts operation < 8 then OperationPending else OperationFailed) in
      if sql_count (lease_owned now operation) (operations db) \<noteq> 1 then Inl ErrLeaseLost
      else let db1 = db\<lparr>operations := sql_update (lease_owned now operation)
                                        (fail_operation now status code message) (operations db)\<rparr>
           in Inr ((), if status = OperationFailed then record_failure now operation message db1 else db1))"

definition ReleaseClaims :: "time \<Rightarrow> string \<Rightarrow> unit tx" where
  "ReleaseClaims now workerID db =
     Inr ((), db\<lparr>operations := sql_update
        (\<lambda>o'. o_status o' = OperationRunning \<and> o_worker_id o' = Some workerID)
        (\<lambda>o'. o'\<lparr>o_status := OperationPending, o_next_attempt_at := now, o_lease_until := None,
                 o_worker_id := None, o_updated_at := now\<rparr>) (operations db)\<rparr>)"

section \<open>Inserting\<close>

text \<open>
  A new row with the column defaults. The draws of \<open>NewPublicID\<close> are an argument; a failed insert
  does not use up a value of the identity column here.
\<close>

definition pending_operation :: "time \<Rightarrow> int \<Rightarrow> int \<Rightarrow> OperationKind \<Rightarrow> string \<Rightarrow> string \<Rightarrow> int \<Rightarrow> int \<Rightarrow> OperationRow" where
  "pending_operation now workspaceID principalID kind idempotencyHash payloadHash desiredVersion clusterID =
     \<lparr>o_id = 0, o_public_id = '''', o_workspace_id = workspaceID, o_agent_installation_id = Some clusterID,
      o_app_environment_id = None, o_deployment_id = None, o_app_volume_id = None,
      o_requested_by_user_id = None, o_requested_by_principal_id = principalID, o_kind = kind,
      o_status = OperationPending, o_idempotency_hash = idempotencyHash, o_payload_hash = payloadHash,
      o_desired_version = desiredVersion, o_attempts = 0, o_next_attempt_at = now, o_lease_until = None,
      o_worker_id = None, o_fencing_token = 0, o_error_code = '''', o_error_message = '''',
      o_started_at = None, o_completed_at = None, o_created_at = now, o_updated_at = now\<rparr>"

definition operation_target_valid :: "OperationRow \<Rightarrow> bool" where
  "operation_target_valid o' =
     (case o_kind o' of
        OperationEnsureWorkspace \<Rightarrow>
          o_app_environment_id o' = None \<and> o_deployment_id o' = None \<and> o_app_volume_id o' = None
      | OperationApplyDeployment \<Rightarrow>
          o_app_environment_id o' \<noteq> None \<and> o_deployment_id o' \<noteq> None \<and> o_app_volume_id o' = None
      | OperationDeleteAppEnv \<Rightarrow>
          o_app_environment_id o' \<noteq> None \<and> o_deployment_id o' = None \<and> o_app_volume_id o' = None
      | OtherOperationKind _ \<Rightarrow> False
      | _ \<Rightarrow> o_app_environment_id o' \<noteq> None \<and> o_deployment_id o' = None \<and> o_app_volume_id o' \<noteq> None)"

definition operation_active :: "OperationRow \<Rightarrow> bool" where
  "operation_active o' \<longleftrightarrow> o_status o' = OperationPending \<or> o_status o' = OperationRunning"

definition active_on :: "int \<Rightarrow> OperationRow \<Rightarrow> bool" where
  "active_on appEnvironmentID o' \<longleftrightarrow> o_app_environment_id o' = Some appEnvironmentID \<and> operation_active o'"

definition insert_operation_row :: "OperationRow \<Rightarrow> OperationRow tx" where
  "insert_operation_row row db =
     (let o' = row\<lparr>o_id := operations_seq db\<rparr>; rows = operations db in
      if length (o_idempotency_hash o') \<noteq> 32 \<or> length (o_payload_hash o') \<noteq> 32
      then Inl (CheckViolation ''operations_hashes_valid'')
      else if \<not> operation_target_valid o' then Inl (CheckViolation ''operations_target_valid'')
      else if o_desired_version o' \<le> 0 then Inl (CheckViolation ''operations_versions_valid'')
      else if list_ex (\<lambda>q. o_public_id q = o_public_id o') rows
      then Inl (UniqueViolation ''operations_public_id_key'')
      else if list_ex (\<lambda>q. o_workspace_id q = o_workspace_id o' \<and> o_requested_by_user_id q \<noteq> None
                     \<and> o_requested_by_user_id q = o_requested_by_user_id o'
                     \<and> o_idempotency_hash q = o_idempotency_hash o') rows
      then Inl (UniqueViolation ''operations_workspace_id_actor_id_idempotency_hash_key'')
      else if (case o_app_environment_id o' of None \<Rightarrow> False | Some e \<Rightarrow> list_ex (active_on e) rows)
      then Inl (UniqueViolation ''operations_one_active_per_app_environment'')
      else if o_kind o' = OperationEnsureWorkspace
              \<and> list_ex (\<lambda>q. o_kind q = OperationEnsureWorkspace \<and> operation_active q
                     \<and> o_workspace_id q = o_workspace_id o' \<and> o_agent_installation_id q \<noteq> None
                     \<and> o_agent_installation_id q = o_agent_installation_id o') rows
      then Inl (UniqueViolation ''operations_one_active_workspace_cluster_bootstrap'')
      else if list_ex (\<lambda>q. o_workspace_id q = o_workspace_id o'
                     \<and> o_requested_by_principal_id q = o_requested_by_principal_id o'
                     \<and> o_idempotency_hash q = o_idempotency_hash o') rows
      then Inl (UniqueViolation ''operations_principal_idempotency'')
      else Inr (o', db\<lparr>operations := rows @ [o'], operations_seq := operations_seq db + 1\<rparr>))"

fun allocate_operation :: "nat \<Rightarrow> (nat \<Rightarrow> string go_result) \<Rightarrow> OperationRow \<Rightarrow> OperationRow tx" where
  "allocate_operation 0 draws row db = Inl ErrPublicIDCollision"
| "allocate_operation (Suc n) draws row db =
     (case draws 0 of
        Inl err \<Rightarrow> Inl (Message err)
      | Inr publicID \<Rightarrow>
          (case insert_operation_row (row\<lparr>o_public_id := publicID\<rparr>) db of
             Inl err \<Rightarrow> if uniqueConstraint err = ''operations_public_id_key''
                        then allocate_operation n (\<lambda>i. draws (Suc i)) row db else Inl err
           | Inr r \<Rightarrow> Inr r))"

definition inserted_operation :: "int \<Rightarrow> OperationRow \<Rightarrow> Operation" where
  "inserted_operation actorID o' =
     \<lparr>op_ID = o_id o', op_ClusterID = 0, op_PublicID = o_public_id o',
      op_AppEnvironmentID = COALESCE (o_app_environment_id o') 0, op_AppEnvironmentPublicID = '''',
      op_DeploymentID = COALESCE (o_deployment_id o') 0, op_DeploymentPublicID = '''',
      op_AppVolumeID = COALESCE (o_app_volume_id o') 0, op_AppVolumePublicID = '''',
      op_WorkspaceID = o_workspace_id o', op_ActorID = actorID, op_Kind = o_kind o', op_Status = o_status o',
      op_DesiredVersion = o_desired_version o', op_Attempts = o_attempts o', op_WorkerID = '''',
      op_FencingToken = 0, op_LeaseUntil = None, op_ErrorCode = '''', op_ErrorMessage = '''',
      op_CreatedAt = o_created_at o', op_UpdatedAt = o_updated_at o'\<rparr>"

definition environment_cluster :: "database \<Rightarrow> int \<Rightarrow> int option" where
  "environment_cluster db appEnvironmentID =
     (case find (\<lambda>ae. aer_id ae = appEnvironmentID \<and> aer_cluster_id ae \<noteq> None) (app_environments db) of
        None \<Rightarrow> None
      | Some ae \<Rightarrow> aer_cluster_id ae)"

definition insertOperationForPrincipal ::
    "time \<Rightarrow> (nat \<Rightarrow> string go_result) \<Rightarrow> int \<Rightarrow> int \<Rightarrow> int \<Rightarrow> int option \<Rightarrow> int \<Rightarrow> OperationKind \<Rightarrow> string \<Rightarrow> string \<Rightarrow> int
     \<Rightarrow> Operation tx" where
  "insertOperationForPrincipal now draws workspaceID appEnvironmentID deploymentID actorUserID principalID kind
       idempotencyHash payloadHash desiredVersion db =
     (case environment_cluster db appEnvironmentID of
        None \<Rightarrow> Inl ErrAgentUnavailable
      | Some clusterID \<Rightarrow>
          (case allocate_operation 3 draws
                  ((pending_operation now workspaceID principalID kind idempotencyHash payloadHash
                      desiredVersion clusterID)
                   \<lparr>o_app_environment_id := NULLIF0 appEnvironmentID, o_deployment_id := NULLIF0 deploymentID,
                    o_requested_by_user_id := actorUserID\<rparr>) db of
             Inl err \<Rightarrow> Inl err
           | Inr (row, db') \<Rightarrow> Inr (inserted_operation principalID row, db')))"

definition insertOperation ::
    "time \<Rightarrow> (nat \<Rightarrow> string go_result) \<Rightarrow> int \<Rightarrow> int \<Rightarrow> int \<Rightarrow> int \<Rightarrow> OperationKind \<Rightarrow> string \<Rightarrow> string \<Rightarrow> int
     \<Rightarrow> Operation tx" where
  "insertOperation now draws workspaceID appEnvironmentID deploymentID actorID kind idempotencyHash payloadHash
       desiredVersion db =
     (case principalIDForUser db actorID of
        Inl err \<Rightarrow> Inl err
      | Inr principalID \<Rightarrow>
          insertOperationForPrincipal now draws workspaceID appEnvironmentID deploymentID (Some actorID) principalID
            kind idempotencyHash payloadHash desiredVersion db)"

text \<open>
  Without an explicit principal the trigger \<open>populate_requested_by_principal\<close> takes it from the user;
  an unknown user leaves it \<open>NULL\<close>, which the column refuses.
\<close>

definition insertVolumeOperation ::
    "time \<Rightarrow> (nat \<Rightarrow> string go_result) \<Rightarrow> int \<Rightarrow> int \<Rightarrow> int \<Rightarrow> int \<Rightarrow> OperationKind \<Rightarrow> string \<Rightarrow> string \<Rightarrow> int
     \<Rightarrow> Operation tx" where
  "insertVolumeOperation now draws workspaceID appEnvironmentID volumeID actorID kind idempotencyHash payloadHash
       desiredVersion db =
     (case environment_cluster db appEnvironmentID of
        None \<Rightarrow> Inl ErrAgentUnavailable
      | Some clusterID \<Rightarrow>
          (case draws 0 of
             Inl err \<Rightarrow> Inl (Message err)
           | Inr _ \<Rightarrow>
          (case principalIDForUser db actorID of
             Inl err \<Rightarrow> Inl (Message ''requested_by_principal_id is null'')
           | Inr principalID \<Rightarrow>
          (case allocate_operation 3 draws
                  ((pending_operation now workspaceID principalID kind idempotencyHash payloadHash
                      desiredVersion clusterID)
                   \<lparr>o_app_environment_id := Some appEnvironmentID, o_app_volume_id := Some volumeID,
                    o_requested_by_user_id := Some actorID\<rparr>) db of
             Inl err \<Rightarrow> Inl err
           | Inr (row, db') \<Rightarrow> Inr ((inserted_operation actorID row)\<lparr>op_AppVolumeID := volumeID\<rparr>, db')))))"

section \<open>The queue contract\<close>

interpretation ops: fenced_queue o_id "\<lambda>o'. o_status o' = OperationRunning"
  "\<lambda>o'. o_status o' = OperationSucceeded \<or> o_status o' = OperationFailed"
  o_worker_id o_fencing_token o_lease_until o_agent_installation_id operation_due claim_operation
  by unfold_locales
    (auto simp: claim_operation_def operation_due_def unexpired_def list_ex_iff not_le)

end
