(* ===== verification/Pagination.thy ===== *)
theory Pagination
  imports Identifiers
begin

text \<open>
  Listings of the store: a page is selected in descending order of the row identifier, one row
  more than asked for, and the identifier of its last item is the cursor of the next page
  (\<open>internal/store/hierarchy.go\<close>, \<open>deployment.go\<close>, \<open>app_environment.go\<close>;
  \<open>internal/api/hierarchy_handler.go\<close> reads cursor and limit of a request). The locale states
  what a listing promises and shows that following the cursors enumerates all rows.
\<close>

definition MaxInt64 :: int where "MaxInt64 = 9223372036854775807"

text \<open>\<open>WHERE p AND id < before ORDER BY id DESC LIMIT n\<close>\<close>

definition select_page :: "('r \<Rightarrow> int) \<Rightarrow> ('r \<Rightarrow> bool) \<Rightarrow> int \<Rightarrow> int \<Rightarrow> 'r list \<Rightarrow> 'r list" where
  "select_page key p before n rows =
     take (nat n) (rev (sort_key key (filter (\<lambda>r. p r \<and> key r < before) rows)))"

definition row_cursor :: "int \<Rightarrow> string" where
  "row_cursor i = EncodeCursor (word_of_int i)"

definition int32 :: "int \<Rightarrow> int" where "int32 i = signed_take_bit 31 i"

lemma int32_id: "- (2 ^ 31) \<le> i \<Longrightarrow> i < 2 ^ 31 \<Longrightarrow> int32 i = i"
  unfolding int32_def by (rule signed_take_bit_int_eq_self) simp_all

text \<open>The loop over the selected rows; \<open>None\<close> is the index panic on an empty page.\<close>

fun page_loop :: "('a \<Rightarrow> int) \<Rightarrow> int \<Rightarrow> int \<Rightarrow> 'a list \<Rightarrow> 'a list \<Rightarrow> ('a list \<times> string) option" where
  "page_loop ident limit index items [] = Some (items, '''')"
| "page_loop ident limit index items (row # rows) =
     (if index = limit
      then (if items = [] then None else Some (items, row_cursor (ident (last items))))
      else page_loop ident limit (index + 1) (items @ [row]) rows)"

definition hierarchyPage :: "string option \<Rightarrow> int option \<Rightarrow> string + (int \<times> int)" where
  "hierarchyPage cursor rawLimit =
     (case (case cursor of
              None \<Rightarrow> Inr MaxInt64
            | Some c \<Rightarrow> map_sum (\<lambda>_. ''invalid_cursor'') sint (DecodeCursor c)) of
        Inl err \<Rightarrow> Inl err
      | Inr beforeID \<Rightarrow>
          (case rawLimit of
             None \<Rightarrow> Inr (beforeID, 50)
           | Some limit \<Rightarrow> if limit < 1 \<or> 100 < limit then Inl ''invalid_limit'' else Inr (beforeID, limit)))"

section \<open>One page\<close>

definition page_of :: "('a \<Rightarrow> int) \<Rightarrow> int \<Rightarrow> 'a list \<Rightarrow> 'a list \<times> string" where
  "page_of ident limit xs =
     (take (nat limit) xs,
      if nat limit < length xs then row_cursor (ident (xs ! (nat limit - 1))) else '''')"

lemma page_loop_rows:
  assumes "index = int (length items)" and "length items \<le> nat limit" and "0 < limit"
  shows "page_loop ident limit index items rows = Some (page_of ident limit (items @ rows))"
  using assms
proof (induction rows arbitrary: index items)
  case (Cons row rows)
  show ?case
  proof (cases "index = limit")
    case True
    then have n: "nat limit = length items" "items \<noteq> []" using Cons.prems by auto
    then show ?thesis using True by (simp add: page_of_def nth_append last_conv_nth)
  next
    case False
    then show ?thesis using Cons.prems Cons.IH [of "index + 1" "items @ [row]"] by auto
  qed
qed (simp add: page_of_def)

lemma page_of_take: "0 < limit \<Longrightarrow> page_of ident limit (take (nat (limit + 1)) xs) = page_of ident limit xs"
  by (auto simp: page_of_def min_def nat_add_distrib)

definition listed_before :: "('r \<Rightarrow> int) \<Rightarrow> ('r \<Rightarrow> bool) \<Rightarrow> 'r list \<Rightarrow> 'r list" where
  "listed_before key p rows = rev (sort_key key (filter p rows))"

lemma listed_set [simp]: "set (listed_before key p rows) = {r \<in> set rows. p r}"
  by (simp add: listed_before_def)

lemma filter_listed:
  "filter q (listed_before key p rows) = listed_before key (\<lambda>r. p r \<and> q r) rows"
  by (simp add: listed_before_def rev_filter [symmetric] filter_sort conj_commute)

lemma select_page_listed:
  "select_page key p before n rows = take (nat n) (filter (\<lambda>r. key r < before) (listed_before key p rows))"
  by (simp add: filter_listed) (simp add: select_page_def listed_before_def)

lemma listed_desc:
  assumes "keyed_on key rows"
  shows "sorted_wrt (\<lambda>x y. key y < key x) (listed_before key p rows)"
proof -
  have "distinct (map key (sort_key key (filter p rows)))"
    using assms by (simp add: keyed_on_def distinct_map_filter distinct_map)
      (auto simp: inj_on_def intro: distinct_filter)
  then have "sorted_wrt (<) (map key (sort_key key (filter p rows)))"
    by (simp add: strict_sorted_iff)
  then show ?thesis by (simp add: listed_before_def sorted_wrt_map sorted_wrt_rev)
qed

section \<open>Cursors between pages\<close>

lemma sint_row: "0 < i \<Longrightarrow> i \<le> MaxInt64 \<Longrightarrow> sint (word_of_int i :: int64) = i"
  unfolding MaxInt64_def by transfer (simp add: signed_take_bit_int_eq_self)

lemma row_cursor_nonempty: "0 < i \<Longrightarrow> i \<le> MaxInt64 \<Longrightarrow> row_cursor i \<noteq> ''''"
  using EncodeCursor_nonempty [of "word_of_int i"] sint_row [of i] by (simp add: row_cursor_def)

lemma hierarchyPage_next:
  assumes "hierarchyPage cursor limit = Inr (before, l)" and "0 < i" and "i \<le> MaxInt64"
  shows "hierarchyPage (Some (row_cursor i)) limit = Inr (i, l)"
  using assms sint_row [OF assms(2,3)] decode_encode_cursor [of "word_of_int i"]
  by (auto simp: hierarchyPage_def row_cursor_def split: option.splits sum.splits if_splits)

lemma hierarchyPage_limit: "hierarchyPage cursor limit = Inr (before, l) \<Longrightarrow> 1 \<le> l \<and> l \<le> 100"
  by (auto simp: hierarchyPage_def split: option.splits sum.splits if_splits)

lemma filter_below_nth:
  fixes f :: "'a \<Rightarrow> int"
  assumes "sorted_wrt (\<lambda>x y. f y < f x) xs" and "k < length xs"
  shows "filter (\<lambda>x. f x < f (xs ! k)) xs = drop (Suc k) xs"
  using assms
proof (induction xs arbitrary: k)
  case (Cons x xs)
  show ?case
  proof (cases k)
    case 0
    then show ?thesis using Cons.prems(1) by (auto intro!: filter_True)
  next
    case (Suc j)
    then have "xs ! j \<in> set xs" using Cons.prems(2) by simp
    then have "\<not> f x < f (xs ! j)" using Cons.prems(1) by auto
    then show ?thesis using Suc Cons by simp
  qed
qed simp

lemma filter_below_below:
  "i < before \<Longrightarrow> filter (\<lambda>x. f x < i) (filter (\<lambda>x. f x < before) xs) = filter (\<lambda>x. f x < (i :: int)) xs"
  by (induction xs) auto

section \<open>The contract of a listing\<close>

locale paged_listing =
  fixes wf :: "'db \<Rightarrow> bool"
    and list_page :: "'db \<Rightarrow> int \<Rightarrow> int \<Rightarrow> 'e + ('a list \<times> string)"
    and ident :: "'a \<Rightarrow> int"
    and listed :: "'db \<Rightarrow> 'a list"
  assumes desc: "wf db \<Longrightarrow> sorted_wrt (\<lambda>x y. ident y < ident x) (listed db)"
    and range: "wf db \<Longrightarrow> x \<in> set (listed db) \<Longrightarrow> 0 < ident x \<and> ident x < MaxInt64"
    and page: "wf db \<Longrightarrow> 0 < before \<Longrightarrow> 1 \<le> limit \<Longrightarrow> limit \<le> 100 \<Longrightarrow>
      list_page db before limit = Inr (page_of ident limit (filter (\<lambda>x. ident x < before) (listed db)))"
begin

text \<open>A client that asks for a page, and follows its cursor until there is none.\<close>

fun follow :: "nat \<Rightarrow> 'db \<Rightarrow> string option \<Rightarrow> int option \<Rightarrow> 'a list option" where
  "follow 0 db cursor limit = None"
| "follow (Suc n) db cursor limit =
     (case hierarchyPage cursor limit of
        Inl _ \<Rightarrow> None
      | Inr (before, l) \<Rightarrow>
          (case list_page db before l of
             Inl _ \<Rightarrow> None
           | Inr (items, next) \<Rightarrow>
               if next = '''' then Some items else map_option ((@) items) (follow n db (Some next) limit)))"

lemma follow_from:
  assumes "wf db" and "hierarchyPage cursor limit = Inr (before, l)" and "0 < before"
    and "length (filter (\<lambda>x. ident x < before) (listed db)) < n"
  shows "follow n db cursor limit = Some (filter (\<lambda>x. ident x < before) (listed db))"
  using assms(2-4)
proof (induction n arbitrary: cursor before)
  case (Suc n)
  let ?xs = "filter (\<lambda>x. ident x < before) (listed db)"
  have l: "1 \<le> l" "l \<le> 100" using hierarchyPage_limit [OF Suc.prems(1)] by simp_all
  note pg = page [OF assms(1) Suc.prems(2) l]
  show ?case
  proof (cases "nat l < length ?xs")
    case False
    then show ?thesis using Suc.prems(1) pg by (simp add: page_of_def)
  next
    case True
    let ?k = "nat l - 1"
    let ?i = "ident (?xs ! ?k)"
    have k: "?k < length ?xs" "Suc ?k = nat l" using True l by auto
    then have "?xs ! ?k \<in> set ?xs" by (intro nth_mem)
    then have i: "0 < ?i" "?i < before" "?i \<le> MaxInt64" using range [OF assms(1), of "?xs ! ?k"] by auto
    have "sorted_wrt (\<lambda>x y. ident y < ident x) ?xs" using desc [OF assms(1)] by (rule sorted_wrt_filter)
    from filter_below_nth [OF this k(1)]
    have rest: "filter (\<lambda>x. ident x < ?i) (listed db) = drop (nat l) ?xs"
      using filter_below_below [of ?i before ident "listed db"] i(2) k(2) by simp
    have "length (filter (\<lambda>x. ident x < ?i) (listed db)) < n" using rest k l Suc.prems(3) by simp
    from Suc.IH [OF hierarchyPage_next [OF Suc.prems(1) i(1,3)] i(1) this]
    have "follow n db (Some (row_cursor ?i)) limit = Some (drop (nat l) ?xs)" using rest by simp
    then show ?thesis
      using Suc.prems(1) pg True row_cursor_nonempty [OF i(1,3)] by (simp add: page_of_def)
  qed
qed simp

lemma follow_all:
  assumes "wf db" and "limit = None \<or> (\<exists>l. limit = Some l \<and> 1 \<le> l \<and> l \<le> 100)"
  shows "follow (Suc (length (listed db))) db None limit = Some (listed db)"
proof -
  obtain l where "hierarchyPage None limit = Inr (MaxInt64, l)"
    using assms(2) by (auto simp: hierarchyPage_def)
  moreover have "filter (\<lambda>x. ident x < MaxInt64) (listed db) = listed db"
    using range [OF assms(1)] by (auto intro!: filter_True)
  ultimately show ?thesis
    using follow_from [OF assms(1), of None limit MaxInt64 l "Suc (length (listed db))"]
    by (simp add: MaxInt64_def)
qed

end

end
