(* ===== verification/Versioned_Table.thy ===== *)
theory Versioned_Table
  imports Prelude
begin

text \<open>
  What the tables of the resource hierarchy have in common: a generated key, a public identifier,
  an owner under which the names of active rows are unique, an optimistic version, and archival
  instead of deletion. The operations of a table rename and archive rows; the laws say what they
  may touch.
\<close>

locale versioned_table =
  fixes key :: "'r \<Rightarrow> int"
    and pub :: "'r \<Rightarrow> string"
    and owner :: "'r \<Rightarrow> int"
    and name_key :: "'r \<Rightarrow> string"
    and version :: "'r \<Rightarrow> int"
    and archived :: "'r \<Rightarrow> time option"
    and rename :: "time \<Rightarrow> string \<Rightarrow> string \<Rightarrow> 'r \<Rightarrow> 'r"
    and archive :: "time \<Rightarrow> 'r \<Rightarrow> 'r"
  assumes rename_keeps: "key (rename now n k r) = key r" "pub (rename now n k r) = pub r"
      "owner (rename now n k r) = owner r" "archived (rename now n k r) = archived r"
    and rename_sets: "name_key (rename now n k r) = k" "version (rename now n k r) = version r + 1"
    and archive_keeps: "key (archive now r) = key r" "pub (archive now r) = pub r"
      "owner (archive now r) = owner r" "name_key (archive now r) = name_key r"
    and archive_sets: "archived (archive now r) = Some now" "version (archive now r) = version r + 1"
begin

definition wf :: "int \<Rightarrow> 'r list \<Rightarrow> bool" where
  "wf seq rows \<longleftrightarrow>
     keyed_on key rows \<and> keyed_on pub rows \<and> (\<forall>r\<in>set rows. 0 < key r \<and> key r < seq \<and> 0 < version r)
     \<and> (\<forall>r\<in>set rows. \<forall>q\<in>set rows. archived r = None \<and> archived q = None \<and> owner r = owner q
          \<and> name_key r = name_key q \<longrightarrow> r = q)"

definition name_free :: "'r list \<Rightarrow> int \<Rightarrow> int \<Rightarrow> string \<Rightarrow> bool" where
  "name_free rows i o' k \<longleftrightarrow>
     (\<forall>r\<in>set rows. \<not> (key r \<noteq> i \<and> owner r = o' \<and> name_key r = k \<and> archived r = None))"

lemma wf_keyed: "wf seq rows \<Longrightarrow> keyed_on key rows" "wf seq rows \<Longrightarrow> keyed_on pub rows"
  by (simp_all add: wf_def)

lemma wf_range: "wf seq rows \<Longrightarrow> r \<in> set rows \<Longrightarrow> 0 < key r \<and> key r < seq"
  by (simp add: wf_def)

lemma wf_pub: "wf seq rows \<Longrightarrow> r \<in> set rows \<Longrightarrow> q \<in> set rows \<Longrightarrow> pub r = pub q \<Longrightarrow> r = q"
  using keyed_on_unique wf_keyed(2) by metis

lemma wf_names:
  "wf seq rows \<Longrightarrow> r \<in> set rows \<Longrightarrow> q \<in> set rows \<Longrightarrow> archived r = None \<Longrightarrow> archived q = None \<Longrightarrow>
   owner r = owner q \<Longrightarrow> name_key r = name_key q \<Longrightarrow> r = q"
  by (simp add: wf_def)

lemma wf_insert:
  assumes w: "wf seq rows" and "key r = seq" "0 < seq" "0 < version r" "\<forall>q\<in>set rows. pub q \<noteq> pub r"
    and free: "name_free rows seq (owner r) (name_key r)"
  shows "wf (seq + 1) (rows @ [r])"
proof -
  have lt: "\<forall>q\<in>set rows. 0 < key q \<and> key q < seq \<and> 0 < version q" using w by (simp add: wf_def)
  have "keyed_on key (rows @ [r])" using w lt assms(2) by (auto simp: wf_def keyed_on_def)
  moreover have "keyed_on pub (rows @ [r])" using w assms(5) by (force simp: wf_def keyed_on_def)
  moreover have clash: "\<not> (archived q = None \<and> owner q = owner r \<and> name_key q = name_key r)" if "q \<in> set rows" for q
    using free that lt unfolding name_free_def by fastforce
  have "x = y" if "x \<in> set (rows @ [r])" "y \<in> set (rows @ [r])" "archived x = None" "archived y = None"
      "owner x = owner y" "name_key x = name_key y" for x y
    using that clash [of x] clash [of y] wf_names [OF w] by auto
  ultimately show ?thesis unfolding wf_def using lt assms(2-4) by fastforce
qed

text \<open>An update that hits one row and keeps its key, identifier and owner.\<close>

definition hits :: "('r \<Rightarrow> bool) \<Rightarrow> 'r list \<Rightarrow> 'r \<Rightarrow> bool" where
  "hits p rows x \<longleftrightarrow> x \<in> set rows \<and> p x \<and> (\<forall>y\<in>set rows. p y \<longrightarrow> pub y = pub x)"

lemma hitsI: "x \<in> set rows \<Longrightarrow> p x \<Longrightarrow> (\<And>y. p y \<Longrightarrow> pub y = pub x) \<Longrightarrow> hits p rows x"
  unfolding hits_def by blast

lemma update_set:
  assumes "wf seq rows" and "hits p rows x"
  shows "set (sql_update p f rows) = insert (f x) {y \<in> set rows. y \<noteq> x}"
proof -
  have "p y \<longleftrightarrow> y = x" if "y \<in> set rows" for y
    using that assms(2) wf_pub [OF assms(1) that, of x] unfolding hits_def by blast
  then show ?thesis using assms(2) set_sql_update_one [of x rows p f] unfolding hits_def by auto
qed

lemma wf_update:
  assumes w: "wf seq rows" and hit: "hits p rows x"
    and f: "\<And>r. key (f r) = key r" "\<And>r. pub (f r) = pub r" "version (f x) = version x + 1"
    and names: "archived (f x) = None \<Longrightarrow> name_free rows (key x) (owner (f x)) (name_key (f x))"
  shows "wf seq (sql_update p f rows)"
proof -
  have x: "x \<in> set rows" using hit by (simp add: hits_def)
  note set = update_set [OF w hit]
  have clash: "\<not> (archived (f x) = None \<and> archived y = None \<and> owner y = owner (f x) \<and> name_key y = name_key (f x))"
    if "y \<in> set rows" "y \<noteq> x" for y
  proof -
    have "key y \<noteq> key x" using keyed_on_unique [OF wf_keyed(1) [OF w] that(1) x] that(2) by blast
    then show ?thesis using names that(1) unfolding name_free_def by blast
  qed
  have "a = b" if "a \<in> set (sql_update p f rows)" "b \<in> set (sql_update p f rows)" "archived a = None" "archived b = None"
      "owner a = owner b" "name_key a = name_key b" for a b
    using that clash [of a] clash [of b] wf_names [OF w] unfolding set by auto
  moreover have "0 < key r \<and> key r < seq \<and> 0 < version r" if "r \<in> set (sql_update p f rows)" for r
    using that w x f unfolding set wf_def by fastforce
  ultimately show ?thesis
    using w f unfolding wf_def by (simp add: keyed_on_update)
qed

lemma wf_rename:
  assumes "wf seq rows" and "hits p rows x"
    and "name_free rows (key x) (owner x) k"
  shows "wf seq (sql_update p (rename now n k) rows)"
  using assms by (intro wf_update [of seq rows p x]) (simp_all add: rename_keeps rename_sets)

lemma wf_archive:
  assumes "wf seq rows" and "hits p rows x"
  shows "wf seq (sql_update p (archive now) rows)"
  using assms by (intro wf_update [of seq rows p x]) (simp_all add: archive_keeps archive_sets)

text \<open>After a row has been renamed its old version is gone.\<close>

lemma renamed_version:
  assumes "wf seq rows" and "hits p rows x"
    and "y \<in> set (sql_update p (rename now n k) rows)" and "pub y = pub x"
  shows "y = rename now n k x" and "version y = version x + 1"
proof -
  have "\<not> (y \<in> set rows \<and> y \<noteq> x)" using wf_pub [OF assms(1), of y x] assms(2,4) unfolding hits_def by blast
  then show "y = rename now n k x" using assms(3) unfolding update_set [OF assms(1,2)] by blast
  then show "version y = version x + 1" by (simp add: rename_sets)
qed

end

end
