(* ===== verification/Hierarchy_Queries.thy ===== *)
theory Hierarchy_Queries
  imports Operation_Store Pagination Versioned_Table
begin

text \<open>
  \<open>internal/store/sqlc/control_plane.sql.go\<close>: the generated queries on workspaces, projects,
  environments and apps. A row type of a query holds columns of one table, so the queries return
  rows of the table itself. The checks and unique indexes are those of
  \<open>migrations/005_hierarchy_expand.sql\<close>.
\<close>

definition limit_rows :: "int \<Rightarrow> 'r list \<Rightarrow> store_error + 'r list" where
  "limit_rows n rows = (if n < 0 then Inl (Message ''LIMIT must not be negative'') else Inr rows)"

definition name_valid :: "string \<Rightarrow> bool" where
  "name_valid name \<longleftrightarrow> 1 \<le> RuneCount name \<and> RuneCount name \<le> 80"

section \<open>Workspaces\<close>

definition active_member :: "database \<Rightarrow> int \<Rightarrow> Workspace \<Rightarrow> bool" where
  "active_member db userID w \<longleftrightarrow>
     list_ex (\<lambda>wm. wm_workspace_id wm = ws_ID w \<and> wm_user_id wm = userID \<and> wm_status wm = ''Active'')
       (workspace_memberships db)"

definition queries_GetWorkspaceByID :: "database \<Rightarrow> int \<Rightarrow> store_error + Workspace" where
  "queries_GetWorkspaceByID db i = query_row (\<lambda>w. ws_ID w = i) (workspaces db)"

definition queries_GetWorkspaceForUser :: "database \<Rightarrow> int \<Rightarrow> store_error + Workspace" where
  "queries_GetWorkspaceForUser db userID =
     (case sql_first ws_ID (active_member db userID) (workspaces db) of
        None \<Rightarrow> Inl ErrNoRows
      | Some w \<Rightarrow> Inr w)"

definition queries_FindWorkspaceForUser :: "database \<Rightarrow> int \<Rightarrow> string \<Rightarrow> store_error + Workspace" where
  "queries_FindWorkspaceForUser db userID publicID =
     query_row (\<lambda>w. active_member db userID w \<and> ws_PublicID w = publicID) (workspaces db)"

definition queries_ListWorkspacesForUser :: "database \<Rightarrow> int \<Rightarrow> int \<Rightarrow> int \<Rightarrow> store_error + Workspace list" where
  "queries_ListWorkspacesForUser db userID before n =
     limit_rows n (select_page ws_ID (active_member db userID) before n (workspaces db))"

definition queries_InsertWorkspace :: "time \<Rightarrow> string \<Rightarrow> string \<Rightarrow> string \<Rightarrow> Workspace tx" where
  "queries_InsertWorkspace now publicID name namespaceName db =
     (let w = \<lparr>ws_ID = workspaces_seq db, ws_PublicID = publicID, ws_Name = name, ws_Namespace = namespaceName,
               ws_Version = 1, ws_BootstrapState = ''Pending'', ws_CreatedAt = now, ws_UpdatedAt = now\<rparr> in
      if list_ex (\<lambda>x. ws_PublicID x = publicID) (workspaces db)
      then Inl (UniqueViolation ''workspaces_public_id_key'')
      else if list_ex (\<lambda>x. ws_Namespace x = namespaceName) (workspaces db)
      then Inl (UniqueViolation ''workspaces_namespace_name_key'')
      else Inr (w, db\<lparr>workspaces := workspaces db @ [w], workspaces_seq := workspaces_seq db + 1\<rparr>))"

definition queries_UpdateWorkspaceName :: "time \<Rightarrow> int \<Rightarrow> int \<Rightarrow> string \<Rightarrow> Workspace tx" where
  "queries_UpdateWorkspaceName now i version name db =
     (let p = (\<lambda>w. ws_ID w = i \<and> ws_Version w = version);
          f = (\<lambda>w. w\<lparr>ws_Name := name, ws_Version := ws_Version w + 1, ws_UpdatedAt := now\<rparr>)
      in case query_row p (workspaces db) of
           Inl err \<Rightarrow> Inl err
         | Inr w \<Rightarrow> Inr (f w, db\<lparr>workspaces := sql_update p f (workspaces db)\<rparr>))"

definition queries_UpsertWorkspace :: "time \<Rightarrow> string \<Rightarrow> string \<Rightarrow> string \<Rightarrow> int tx" where
  "queries_UpsertWorkspace now publicID name namespaceName db =
     (case find (\<lambda>w. ws_Namespace w = namespaceName) (workspaces db) of
        Some w \<Rightarrow>
          if list_ex (\<lambda>x. ws_PublicID x = publicID \<and> ws_ID x \<noteq> ws_ID w) (workspaces db)
          then Inl (UniqueViolation ''workspaces_public_id_key'')
          else Inr (ws_ID w, db\<lparr>workspaces := sql_update (\<lambda>x. ws_Namespace x = namespaceName)
                                              (\<lambda>x. x\<lparr>ws_Name := name\<rparr>) (workspaces db)\<rparr>)
      | None \<Rightarrow>
          (case queries_InsertWorkspace now publicID name namespaceName db of
             Inl err \<Rightarrow> Inl err
           | Inr (w, db') \<Rightarrow> Inr (ws_ID w, db')))"

definition queries_FindWorkspaceOperationByIdempotency :: "database \<Rightarrow> int \<Rightarrow> string \<Rightarrow> store_error + OperationRow" where
  "queries_FindWorkspaceOperationByIdempotency db userID idempotencyHash =
     query_row (\<lambda>o'. o_requested_by_user_id o' = Some userID \<and> o_kind o' = OperationEnsureWorkspace
                    \<and> o_app_environment_id o' = None \<and> o_deployment_id o' = None
                    \<and> o_idempotency_hash o' = idempotencyHash) (operations db)"

text \<open>The principal comes from the trigger; see \<open>insertVolumeOperation\<close>.\<close>

definition queries_InsertWorkspaceOperation ::
    "time \<Rightarrow> string \<Rightarrow> int \<Rightarrow> int \<Rightarrow> int \<Rightarrow> string \<Rightarrow> string \<Rightarrow> OperationRow tx" where
  "queries_InsertWorkspaceOperation now publicID workspaceID userID clusterID idempotencyHash payloadHash db =
     (case principalIDForUser db userID of
        Inl err \<Rightarrow> Inl (Message ''requested_by_principal_id is null'')
      | Inr principalID \<Rightarrow>
          insert_operation_row
            ((pending_operation now workspaceID principalID OperationEnsureWorkspace idempotencyHash payloadHash 1
                clusterID)\<lparr>o_public_id := publicID, o_requested_by_user_id := Some userID\<rparr>) db)"

section \<open>Projects\<close>

definition queries_FindProject :: "database \<Rightarrow> int \<Rightarrow> string \<Rightarrow> store_error + ProjectRow" where
  "queries_FindProject db workspaceID publicID =
     query_row (\<lambda>p. prj_workspace_id p = workspaceID \<and> prj_public_id p = publicID) (projects db)"

definition queries_FindActiveProjectForUpdate :: "database \<Rightarrow> int \<Rightarrow> string \<Rightarrow> store_error + ProjectRow" where
  "queries_FindActiveProjectForUpdate db workspaceID publicID =
     query_row (\<lambda>p. prj_workspace_id p = workspaceID \<and> prj_public_id p = publicID \<and> prj_archived_at p = None)
       (projects db)"

definition queries_ListProjects :: "database \<Rightarrow> int \<Rightarrow> int \<Rightarrow> int \<Rightarrow> bool \<Rightarrow> store_error + ProjectRow list" where
  "queries_ListProjects db workspaceID before n includeArchived =
     limit_rows n (select_page prj_id
       (\<lambda>p. prj_workspace_id p = workspaceID \<and> (includeArchived \<or> prj_archived_at p = None)) before n (projects db))"

definition project_name_taken :: "ProjectRow list \<Rightarrow> int \<Rightarrow> int \<Rightarrow> string \<Rightarrow> bool" where
  "project_name_taken rows i workspaceID nameKey \<longleftrightarrow>
     list_ex (\<lambda>p. prj_id p \<noteq> i \<and> prj_workspace_id p = workspaceID \<and> prj_name_key p = nameKey
                \<and> prj_archived_at p = None) rows"

definition queries_CreateProject :: "time \<Rightarrow> string \<Rightarrow> int \<Rightarrow> string \<Rightarrow> string \<Rightarrow> ProjectRow tx" where
  "queries_CreateProject now publicID workspaceID name nameKey db =
     (let p = \<lparr>prj_id = projects_seq db, prj_public_id = publicID, prj_workspace_id = workspaceID,
               prj_name = name, prj_name_key = nameKey, prj_version = 1, prj_created_at = now,
               prj_updated_at = now, prj_archived_at = None\<rparr> in
      if \<not> name_valid name then Inl (CheckViolation ''projects_name_valid'')
      else if \<not> MatchString (id_pattern ''prj-'') publicID then Inl (CheckViolation ''projects_public_id_valid'')
      else if list_ex (\<lambda>x. prj_public_id x = publicID) (projects db)
      then Inl (UniqueViolation ''projects_public_id_key'')
      else if project_name_taken (projects db) (prj_id p) workspaceID nameKey
      then Inl (UniqueViolation ''projects_workspace_name_active'')
      else Inr (p, db\<lparr>projects := projects db @ [p], projects_seq := projects_seq db + 1\<rparr>))"

definition rename_project :: "time \<Rightarrow> string \<Rightarrow> string \<Rightarrow> ProjectRow \<Rightarrow> ProjectRow" where
  "rename_project now name nameKey x =
     x\<lparr>prj_name := name, prj_name_key := nameKey, prj_version := prj_version x + 1, prj_updated_at := now\<rparr>"

definition archive_project :: "time \<Rightarrow> ProjectRow \<Rightarrow> ProjectRow" where
  "archive_project now x =
     x\<lparr>prj_archived_at := Some now, prj_version := prj_version x + 1, prj_updated_at := now\<rparr>"

definition queries_UpdateProject :: "time \<Rightarrow> int \<Rightarrow> string \<Rightarrow> int \<Rightarrow> string \<Rightarrow> string \<Rightarrow> ProjectRow tx" where
  "queries_UpdateProject now workspaceID publicID version name nameKey db =
     (let p = (\<lambda>x. prj_workspace_id x = workspaceID \<and> prj_public_id x = publicID \<and> prj_version x = version
                   \<and> prj_archived_at x = None);
          f = rename_project now name nameKey
      in case query_row p (projects db) of
           Inl err \<Rightarrow> Inl err
         | Inr x \<Rightarrow>
             if \<not> name_valid name then Inl (CheckViolation ''projects_name_valid'')
             else if project_name_taken (projects db) (prj_id x) workspaceID nameKey
             then Inl (UniqueViolation ''projects_workspace_name_active'')
             else Inr (f x, db\<lparr>projects := sql_update p f (projects db)\<rparr>))"

definition queries_ArchiveProject :: "time \<Rightarrow> int \<Rightarrow> string \<Rightarrow> int \<Rightarrow> ProjectRow tx" where
  "queries_ArchiveProject now workspaceID publicID version db =
     (let p = (\<lambda>x. prj_workspace_id x = workspaceID \<and> prj_public_id x = publicID \<and> prj_version x = version
                   \<and> prj_archived_at x = None
                   \<and> \<not> list_ex (\<lambda>e. env_project_id e = prj_id x \<and> env_archived_at e = None) (environments db)
                   \<and> \<not> list_ex (\<lambda>a. app_project_id a = prj_id x \<and> app_archived_at a = None) (apps db));
          f = archive_project now
      in case query_row p (projects db) of
           Inl err \<Rightarrow> Inl err
         | Inr x \<Rightarrow> Inr (f x, db\<lparr>projects := sql_update p f (projects db)\<rparr>))"

text \<open>\<open>JOIN projects p ON p.id = x.project_id WHERE p.workspace_id = $1 AND p.public_id = $2\<close>\<close>

definition in_project :: "database \<Rightarrow> int \<Rightarrow> string \<Rightarrow> int \<Rightarrow> bool" where
  "in_project db workspaceID projectPublicID projectID \<longleftrightarrow>
     list_ex (\<lambda>p. prj_id p = projectID \<and> prj_workspace_id p = workspaceID \<and> prj_public_id p = projectPublicID)
       (projects db)"

section \<open>Environments\<close>

definition queries_FindEnvironment :: "database \<Rightarrow> int \<Rightarrow> string \<Rightarrow> string \<Rightarrow> store_error + EnvironmentRow" where
  "queries_FindEnvironment db workspaceID projectPublicID publicID =
     query_row (\<lambda>e. in_project db workspaceID projectPublicID (env_project_id e) \<and> env_public_id e = publicID)
       (environments db)"

definition queries_FindActiveEnvironmentForUpdate :: "database \<Rightarrow> int \<Rightarrow> string \<Rightarrow> string \<Rightarrow> store_error + EnvironmentRow" where
  "queries_FindActiveEnvironmentForUpdate db workspaceID projectPublicID publicID =
     query_row (\<lambda>e. in_project db workspaceID projectPublicID (env_project_id e) \<and> env_public_id e = publicID
                   \<and> env_archived_at e = None) (environments db)"

definition queries_ListEnvironments :: "database \<Rightarrow> int \<Rightarrow> string \<Rightarrow> int \<Rightarrow> int \<Rightarrow> bool \<Rightarrow> store_error + EnvironmentRow list" where
  "queries_ListEnvironments db workspaceID projectPublicID before n includeArchived =
     limit_rows n (select_page env_id
       (\<lambda>e. in_project db workspaceID projectPublicID (env_project_id e)
            \<and> (includeArchived \<or> env_archived_at e = None)) before n (environments db))"

definition environment_name_taken :: "EnvironmentRow list \<Rightarrow> int \<Rightarrow> int \<Rightarrow> string \<Rightarrow> bool" where
  "environment_name_taken rows i projectID nameKey \<longleftrightarrow>
     list_ex (\<lambda>e. env_id e \<noteq> i \<and> env_project_id e = projectID \<and> env_name_key e = nameKey
                \<and> env_archived_at e = None) rows"

definition queries_CreateEnvironment :: "time \<Rightarrow> string \<Rightarrow> int \<Rightarrow> string \<Rightarrow> string \<Rightarrow> EnvironmentRow tx" where
  "queries_CreateEnvironment now publicID projectID name nameKey db =
     (let e = \<lparr>env_id = environments_seq db, env_public_id = publicID, env_project_id = projectID,
               env_name = name, env_name_key = nameKey, env_version = 1, env_created_at = now,
               env_updated_at = now, env_archived_at = None\<rparr> in
      if \<not> name_valid name then Inl (CheckViolation ''environments_name_valid'')
      else if \<not> MatchString (id_pattern ''env-'') publicID then Inl (CheckViolation ''environments_public_id_valid'')
      else if list_ex (\<lambda>x. env_public_id x = publicID) (environments db)
      then Inl (UniqueViolation ''environments_public_id_key'')
      else if environment_name_taken (environments db) (env_id e) projectID nameKey
      then Inl (UniqueViolation ''environments_project_name_active'')
      else Inr (e, db\<lparr>environments := environments db @ [e], environments_seq := environments_seq db + 1\<rparr>))"

definition rename_environment :: "time \<Rightarrow> string \<Rightarrow> string \<Rightarrow> EnvironmentRow \<Rightarrow> EnvironmentRow" where
  "rename_environment now name nameKey x =
     x\<lparr>env_name := name, env_name_key := nameKey, env_version := env_version x + 1, env_updated_at := now\<rparr>"

definition archive_environment :: "time \<Rightarrow> EnvironmentRow \<Rightarrow> EnvironmentRow" where
  "archive_environment now x =
     x\<lparr>env_archived_at := Some now, env_version := env_version x + 1, env_updated_at := now\<rparr>"

definition queries_UpdateEnvironment ::
    "time \<Rightarrow> int \<Rightarrow> string \<Rightarrow> string \<Rightarrow> int \<Rightarrow> string \<Rightarrow> string \<Rightarrow> EnvironmentRow tx" where
  "queries_UpdateEnvironment now workspaceID projectPublicID publicID version name nameKey db =
     (let p = (\<lambda>x. in_project db workspaceID projectPublicID (env_project_id x) \<and> env_public_id x = publicID
                   \<and> env_version x = version \<and> env_archived_at x = None);
          f = rename_environment now name nameKey
      in case query_row p (environments db) of
           Inl err \<Rightarrow> Inl err
         | Inr x \<Rightarrow>
             if \<not> name_valid name then Inl (CheckViolation ''environments_name_valid'')
             else if environment_name_taken (environments db) (env_id x) (env_project_id x) nameKey
             then Inl (UniqueViolation ''environments_project_name_active'')
             else Inr (f x, db\<lparr>environments := sql_update p f (environments db)\<rparr>))"

definition queries_ArchiveEnvironment :: "time \<Rightarrow> int \<Rightarrow> string \<Rightarrow> string \<Rightarrow> int \<Rightarrow> EnvironmentRow tx" where
  "queries_ArchiveEnvironment now workspaceID projectPublicID publicID version db =
     (let p = (\<lambda>x. in_project db workspaceID projectPublicID (env_project_id x) \<and> env_public_id x = publicID
                   \<and> env_version x = version \<and> env_archived_at x = None
                   \<and> \<not> list_ex (\<lambda>ae. aer_environment_id ae = env_id x \<and> aer_archived_at ae = None)
                         (app_environments db));
          f = archive_environment now
      in case query_row p (environments db) of
           Inl err \<Rightarrow> Inl err
         | Inr x \<Rightarrow> Inr (f x, db\<lparr>environments := sql_update p f (environments db)\<rparr>))"

section \<open>Apps\<close>

definition queries_FindApp :: "database \<Rightarrow> int \<Rightarrow> string \<Rightarrow> string \<Rightarrow> store_error + AppRow" where
  "queries_FindApp db workspaceID projectPublicID publicID =
     query_row (\<lambda>a. in_project db workspaceID projectPublicID (app_project_id a) \<and> app_public_id a = publicID)
       (apps db)"

definition queries_FindActiveAppForUpdate :: "database \<Rightarrow> int \<Rightarrow> string \<Rightarrow> string \<Rightarrow> store_error + AppRow" where
  "queries_FindActiveAppForUpdate db workspaceID projectPublicID publicID =
     query_row (\<lambda>a. in_project db workspaceID projectPublicID (app_project_id a) \<and> app_public_id a = publicID
                   \<and> app_archived_at a = None) (apps db)"

definition queries_ListApps :: "database \<Rightarrow> int \<Rightarrow> string \<Rightarrow> int \<Rightarrow> int \<Rightarrow> bool \<Rightarrow> store_error + AppRow list" where
  "queries_ListApps db workspaceID projectPublicID before n includeArchived =
     limit_rows n (select_page app_id
       (\<lambda>a. in_project db workspaceID projectPublicID (app_project_id a)
            \<and> (includeArchived \<or> app_archived_at a = None)) before n (apps db))"

definition app_name_taken :: "AppRow list \<Rightarrow> int \<Rightarrow> int \<Rightarrow> string \<Rightarrow> bool" where
  "app_name_taken rows i projectID nameKey \<longleftrightarrow>
     list_ex (\<lambda>a. app_id a \<noteq> i \<and> app_project_id a = projectID \<and> app_name_key a = nameKey
                \<and> app_archived_at a = None) rows"

definition queries_CreateApp :: "time \<Rightarrow> string \<Rightarrow> int \<Rightarrow> string \<Rightarrow> string \<Rightarrow> AppRow tx" where
  "queries_CreateApp now publicID projectID name nameKey db =
     (let a = \<lparr>app_id = apps_seq db, app_public_id = publicID, app_project_id = projectID,
               app_name = name, app_name_key = nameKey, app_version = 1, app_created_at = now,
               app_updated_at = now, app_archived_at = None\<rparr> in
      if \<not> name_valid name then Inl (CheckViolation ''apps_name_valid'')
      else if \<not> MatchString (id_pattern ''app-'') publicID then Inl (CheckViolation ''apps_public_id_valid'')
      else if list_ex (\<lambda>x. app_public_id x = publicID) (apps db)
      then Inl (UniqueViolation ''apps_public_id_key'')
      else if app_name_taken (apps db) (app_id a) projectID nameKey
      then Inl (UniqueViolation ''apps_project_name_active'')
      else Inr (a, db\<lparr>apps := apps db @ [a], apps_seq := apps_seq db + 1\<rparr>))"

definition rename_app :: "time \<Rightarrow> string \<Rightarrow> string \<Rightarrow> AppRow \<Rightarrow> AppRow" where
  "rename_app now name nameKey x =
     x\<lparr>app_name := name, app_name_key := nameKey, app_version := app_version x + 1, app_updated_at := now\<rparr>"

definition archive_app :: "time \<Rightarrow> AppRow \<Rightarrow> AppRow" where
  "archive_app now x =
     x\<lparr>app_archived_at := Some now, app_version := app_version x + 1, app_updated_at := now\<rparr>"

definition queries_UpdateApp ::
    "time \<Rightarrow> int \<Rightarrow> string \<Rightarrow> string \<Rightarrow> int \<Rightarrow> string \<Rightarrow> string \<Rightarrow> AppRow tx" where
  "queries_UpdateApp now workspaceID projectPublicID publicID version name nameKey db =
     (let p = (\<lambda>x. in_project db workspaceID projectPublicID (app_project_id x) \<and> app_public_id x = publicID
                   \<and> app_version x = version \<and> app_archived_at x = None);
          f = rename_app now name nameKey
      in case query_row p (apps db) of
           Inl err \<Rightarrow> Inl err
         | Inr x \<Rightarrow>
             if \<not> name_valid name then Inl (CheckViolation ''apps_name_valid'')
             else if app_name_taken (apps db) (app_id x) (app_project_id x) nameKey
             then Inl (UniqueViolation ''apps_project_name_active'')
             else Inr (f x, db\<lparr>apps := sql_update p f (apps db)\<rparr>))"

definition queries_ArchiveApp :: "time \<Rightarrow> int \<Rightarrow> string \<Rightarrow> string \<Rightarrow> int \<Rightarrow> AppRow tx" where
  "queries_ArchiveApp now workspaceID projectPublicID publicID version db =
     (let p = (\<lambda>x. in_project db workspaceID projectPublicID (app_project_id x) \<and> app_public_id x = publicID
                   \<and> app_version x = version \<and> app_archived_at x = None
                   \<and> \<not> list_ex (\<lambda>ae. aer_app_id ae = app_id x \<and> aer_archived_at ae = None)
                         (app_environments db));
          f = archive_app now
      in case query_row p (apps db) of
           Inl err \<Rightarrow> Inl err
         | Inr x \<Rightarrow> Inr (f x, db\<lparr>apps := sql_update p f (apps db)\<rparr>))"

section \<open>The three tables as versioned tables\<close>

interpretation prj_table: versioned_table prj_id prj_public_id prj_workspace_id prj_name_key prj_version
  prj_archived_at rename_project archive_project
  by unfold_locales (simp_all add: rename_project_def archive_project_def)

interpretation env_table: versioned_table env_id env_public_id env_project_id env_name_key env_version
  env_archived_at rename_environment archive_environment
  by unfold_locales (simp_all add: rename_environment_def archive_environment_def)

interpretation app_table: versioned_table app_id app_public_id app_project_id app_name_key app_version
  app_archived_at rename_app archive_app
  by unfold_locales (simp_all add: rename_app_def archive_app_def)

lemma names_taken:
  "\<not> project_name_taken ps i o' k \<longleftrightarrow> prj_table.name_free ps i o' k"
  "\<not> environment_name_taken es i o' k \<longleftrightarrow> env_table.name_free es i o' k"
  "\<not> app_name_taken as i o' k \<longleftrightarrow> app_table.name_free as i o' k"
  by (auto simp: project_name_taken_def prj_table.name_free_def environment_name_taken_def
      env_table.name_free_def app_name_taken_def app_table.name_free_def list_ex_iff)

text \<open>What a successful write of a table does to it.\<close>

lemma CreateProject_row:
  assumes "queries_CreateProject now pid w n k db = Inr (r, db')"
  shows "db' = db\<lparr>projects := projects db @ [r], projects_seq := projects_seq db + 1\<rparr>"
    and "prj_archived_at r = None" and "prj_version r = 1" and "prj_id r = projects_seq db" and "prj_workspace_id r = w"
    and "0 < projects_seq db \<Longrightarrow> prj_table.wf (projects_seq db) (projects db) \<Longrightarrow> prj_table.wf (projects_seq db') (projects db')"
  using assms
  by (auto simp: queries_CreateProject_def Let_def names_taken list_ex_iff split: if_splits intro!: prj_table.wf_insert)

lemma CreateEnvironment_row:
  assumes "queries_CreateEnvironment now pid w n k db = Inr (r, db')"
  shows "db' = db\<lparr>environments := environments db @ [r], environments_seq := environments_seq db + 1\<rparr>"
    and "env_archived_at r = None" and "env_version r = 1" and "env_id r = environments_seq db" and "env_project_id r = w"
    and "0 < environments_seq db \<Longrightarrow> env_table.wf (environments_seq db) (environments db) \<Longrightarrow>
         env_table.wf (environments_seq db') (environments db')"
  using assms
  by (auto simp: queries_CreateEnvironment_def Let_def names_taken list_ex_iff split: if_splits intro!: env_table.wf_insert)

lemma CreateApp_row:
  assumes "queries_CreateApp now pid w n k db = Inr (r, db')"
  shows "db' = db\<lparr>apps := apps db @ [r], apps_seq := apps_seq db + 1\<rparr>"
    and "app_archived_at r = None" and "app_version r = 1" and "app_id r = apps_seq db" and "app_project_id r = w"
    and "0 < apps_seq db \<Longrightarrow> app_table.wf (apps_seq db) (apps db) \<Longrightarrow> app_table.wf (apps_seq db') (apps db')"
  using assms
  by (auto simp: queries_CreateApp_def Let_def names_taken list_ex_iff split: if_splits intro!: app_table.wf_insert)

lemma UpdateProject_row:
  assumes "queries_UpdateProject now w pid v n k db = Inr (r, db')"
  obtains x p where "prj_table.hits p (projects db) x" and "prj_public_id x = pid" and "prj_workspace_id x = w" and "prj_version x = v"
    and "prj_archived_at x = None" and "r = rename_project now n k x"
    and "db' = db\<lparr>projects := sql_update p (rename_project now n k) (projects db)\<rparr>"
    and "prj_table.name_free (projects db) (prj_id x) (prj_workspace_id x) k"
proof -
  let ?p = "\<lambda>x. prj_workspace_id x = w \<and> prj_public_id x = pid \<and> prj_version x = v \<and> prj_archived_at x = None"
  obtain x where x: "query_row ?p (projects db) = Inr x" and "r = rename_project now n k x"
    and "db' = db\<lparr>projects := sql_update ?p (rename_project now n k) (projects db)\<rparr>"
    and "prj_table.name_free (projects db) (prj_id x) w k"
    using assms by (auto simp: queries_UpdateProject_def Let_def names_taken split: sum.splits if_splits)
  moreover have "?p x" "prj_table.hits ?p (projects db) x"
    using query_row_Inr [OF x] by (simp_all add: prj_table.hits_def)
  ultimately show thesis by (intro that [of ?p x]) simp_all
qed

lemma ArchiveProject_row:
  assumes "queries_ArchiveProject now w pid v db = Inr (r, db')"
  obtains x p where "prj_table.hits p (projects db) x" and "prj_archived_at x = None"
    and "(\<forall>e\<in>set (environments db). env_project_id e = prj_id x \<longrightarrow> env_archived_at e \<noteq> None) \<and> (\<forall>a\<in>set (apps db). app_project_id a = prj_id x \<longrightarrow> app_archived_at a \<noteq> None)"
    and "r = archive_project now x" and "db' = db\<lparr>projects := sql_update p (archive_project now) (projects db)\<rparr>"
proof -
  let ?p = "\<lambda>x. prj_workspace_id x = w \<and> prj_public_id x = pid \<and> prj_version x = v \<and> prj_archived_at x = None \<and> \<not> list_ex (\<lambda>e. env_project_id e = prj_id x \<and> env_archived_at e = None) (environments db) \<and> \<not> list_ex (\<lambda>a. app_project_id a = prj_id x \<and> app_archived_at a = None) (apps db)"
  obtain x where x: "query_row ?p (projects db) = Inr x" and "r = archive_project now x"
    and "db' = db\<lparr>projects := sql_update ?p (archive_project now) (projects db)\<rparr>"
    using assms by (auto simp: queries_ArchiveProject_def Let_def split: sum.splits)
  moreover have "?p x" "prj_table.hits ?p (projects db) x"
    using query_row_Inr [OF x] by (simp_all add: prj_table.hits_def)
  ultimately show thesis using that [of ?p x] by (simp add: list_ex_iff)
qed


lemma UpdateEnvironment_row:
  assumes "queries_UpdateEnvironment now w prj pid v n k db = Inr (r, db')"
  obtains x p where "env_table.hits p (environments db) x" and "env_public_id x = pid"
    and "in_project db w prj (env_project_id x)" and "env_version x = v"
    and "env_archived_at x = None" and "r = rename_environment now n k x"
    and "db' = db\<lparr>environments := sql_update p (rename_environment now n k) (environments db)\<rparr>"
    and "env_table.name_free (environments db) (env_id x) (env_project_id x) k"
proof -
  let ?p = "\<lambda>x. in_project db w prj (env_project_id x) \<and> env_public_id x = pid \<and> env_version x = v \<and> env_archived_at x = None"
  obtain x where x: "query_row ?p (environments db) = Inr x" and "r = rename_environment now n k x"
    and "db' = db\<lparr>environments := sql_update ?p (rename_environment now n k) (environments db)\<rparr>"
    and "env_table.name_free (environments db) (env_id x) (env_project_id x) k"
    using assms by (auto simp: queries_UpdateEnvironment_def Let_def names_taken split: sum.splits if_splits)
  moreover have "?p x" "env_table.hits ?p (environments db) x"
    using query_row_Inr [OF x] by (simp_all add: env_table.hits_def)
  ultimately show thesis by (intro that [of ?p x]) simp_all
qed

lemma ArchiveEnvironment_row:
  assumes "queries_ArchiveEnvironment now w prj pid v db = Inr (r, db')"
  obtains x p where "env_table.hits p (environments db) x" and "env_archived_at x = None"
    and "\<forall>ae\<in>set (app_environments db). aer_environment_id ae = env_id x \<longrightarrow> aer_archived_at ae \<noteq> None"
    and "r = archive_environment now x" and "db' = db\<lparr>environments := sql_update p (archive_environment now) (environments db)\<rparr>"
proof -
  let ?p = "\<lambda>x. in_project db w prj (env_project_id x) \<and> env_public_id x = pid \<and> env_version x = v \<and> env_archived_at x = None \<and> \<not> list_ex (\<lambda>ae. aer_environment_id ae = env_id x \<and> aer_archived_at ae = None) (app_environments db)"
  obtain x where x: "query_row ?p (environments db) = Inr x" and "r = archive_environment now x"
    and "db' = db\<lparr>environments := sql_update ?p (archive_environment now) (environments db)\<rparr>"
    using assms by (auto simp: queries_ArchiveEnvironment_def Let_def split: sum.splits)
  moreover have "?p x" "env_table.hits ?p (environments db) x"
    using query_row_Inr [OF x] by (simp_all add: env_table.hits_def)
  ultimately show thesis using that [of ?p x] by (simp add: list_ex_iff)
qed


lemma UpdateApp_row:
  assumes "queries_UpdateApp now w prj pid v n k db = Inr (r, db')"
  obtains x p where "app_table.hits p (apps db) x" and "app_public_id x = pid"
    and "in_project db w prj (app_project_id x)" and "app_version x = v"
    and "app_archived_at x = None" and "r = rename_app now n k x"
    and "db' = db\<lparr>apps := sql_update p (rename_app now n k) (apps db)\<rparr>"
    and "app_table.name_free (apps db) (app_id x) (app_project_id x) k"
proof -
  let ?p = "\<lambda>x. in_project db w prj (app_project_id x) \<and> app_public_id x = pid \<and> app_version x = v \<and> app_archived_at x = None"
  obtain x where x: "query_row ?p (apps db) = Inr x" and "r = rename_app now n k x"
    and "db' = db\<lparr>apps := sql_update ?p (rename_app now n k) (apps db)\<rparr>"
    and "app_table.name_free (apps db) (app_id x) (app_project_id x) k"
    using assms by (auto simp: queries_UpdateApp_def Let_def names_taken split: sum.splits if_splits)
  moreover have "?p x" "app_table.hits ?p (apps db) x"
    using query_row_Inr [OF x] by (simp_all add: app_table.hits_def)
  ultimately show thesis by (intro that [of ?p x]) simp_all
qed

lemma ArchiveApp_row:
  assumes "queries_ArchiveApp now w prj pid v db = Inr (r, db')"
  obtains x p where "app_table.hits p (apps db) x" and "app_archived_at x = None"
    and "\<forall>ae\<in>set (app_environments db). aer_app_id ae = app_id x \<longrightarrow> aer_archived_at ae \<noteq> None"
    and "r = archive_app now x" and "db' = db\<lparr>apps := sql_update p (archive_app now) (apps db)\<rparr>"
proof -
  let ?p = "\<lambda>x. in_project db w prj (app_project_id x) \<and> app_public_id x = pid \<and> app_version x = v \<and> app_archived_at x = None \<and> \<not> list_ex (\<lambda>ae. aer_app_id ae = app_id x \<and> aer_archived_at ae = None) (app_environments db)"
  obtain x where x: "query_row ?p (apps db) = Inr x" and "r = archive_app now x"
    and "db' = db\<lparr>apps := sql_update ?p (archive_app now) (apps db)\<rparr>"
    using assms by (auto simp: queries_ArchiveApp_def Let_def split: sum.splits)
  moreover have "?p x" "app_table.hits ?p (apps db) x"
    using query_row_Inr [OF x] by (simp_all add: app_table.hits_def)
  ultimately show thesis using that [of ?p x] by (simp add: list_ex_iff)
qed

end
