(* ===== verification/Operation_Queue.thy ===== *)
theory Operation_Queue
  imports Operation_Store
begin

text \<open>
  The operations of \<open>operation.go\<close> as steps of the fenced queue: every transaction that touches
  \<open>operations\<close> is a sequence of claims, plain updates and inserts of the queue contract. The
  lemmas \<open>queue_steps\<close> say so for each transaction.
\<close>

named_theorems queue_steps \<open>transactions refine the queue contract\<close>

definition operations_wf :: "database \<Rightarrow> bool" where
  "operations_wf db \<longleftrightarrow> keyed_on o_id (operations db) \<and> list_all (\<lambda>o'. o_id o' < operations_seq db) (operations db)"

definition same_queue :: "database \<Rightarrow> database \<Rightarrow> bool" where
  "same_queue db db' \<longleftrightarrow> operations db' = operations db \<and> operations_seq db' = operations_seq db"

definition queue_step :: "time \<Rightarrow> database \<Rightarrow> database \<Rightarrow> bool" where
  "queue_step now db db' \<longleftrightarrow>
     (operations_wf db \<longrightarrow> operations_wf db' \<and> ops.qsteps (now, operations db) (now, operations db'))"

lemma same_queueI [intro]: "operations db' = operations db \<Longrightarrow> operations_seq db' = operations_seq db \<Longrightarrow> same_queue db db'"
  by (simp add: same_queue_def)

lemma same_queue_trans [trans]: "same_queue a b \<Longrightarrow> same_queue b c \<Longrightarrow> same_queue a c"
  by (simp add: same_queue_def)

lemma queue_step_same: "same_queue db db' \<Longrightarrow> queue_step now db db'"
  by (simp add: queue_step_def operations_wf_def same_queue_def)

lemma queue_step_refl [simp]: "queue_step now db db"
  by (simp add: queue_step_def)

lemma queue_step_trans [trans]: "queue_step now a b \<Longrightarrow> queue_step now b c \<Longrightarrow> queue_step now a c"
  unfolding queue_step_def by (meson rtranclp_trans)

lemma queue_step_then_same [trans]: "queue_step now a b \<Longrightarrow> same_queue b c \<Longrightarrow> queue_step now a c"
  using queue_step_trans queue_step_same by blast

lemma same_then_queue_step [trans]: "same_queue a b \<Longrightarrow> queue_step now b c \<Longrightarrow> queue_step now a c"
  using queue_step_trans queue_step_same by blast

lemma same_queue_ops: "same_queue db db' \<Longrightarrow> operations db' = operations db"
  by (simp add: same_queue_def)

lemma queue_step_update:
  assumes "ops.plain_update p f" and "operations db' = sql_update p f (operations db)"
    and "operations_seq db' = operations_seq db"
  shows "queue_step now db db'"
proof -
  have key: "p r \<Longrightarrow> o_id (f r) = o_id r" for r using assms(1) by (simp add: ops.plain_update_def)
  have "operations_wf db \<Longrightarrow> operations_wf db'"
    unfolding operations_wf_def assms(2,3)
    using key by (auto intro!: keyed_on_update simp: list_all_iff in_sql_update)
  then show ?thesis
    using ops.update [OF assms(1), of now "operations db"] assms(2) by (auto simp: queue_step_def)
qed

lemma queue_step_claim:
  assumes "r \<in> set (operations db)" and "operation_due now (operations db) r"
    and "operations db' = sql_update (\<lambda>q. o_id q = o_id r) (claim_operation now d w) (operations db)"
    and "operations_seq db' = operations_seq db"
  shows "queue_step now db db'"
proof -
  have "operations_wf db \<Longrightarrow> operations_wf db'"
    unfolding operations_wf_def assms(3,4)
    using assms(1) by (auto intro!: keyed_on_update simp: ops.claim_key list_all_iff in_sql_update)
  then show ?thesis
    using ops.claim [OF assms(1,2), of d w] assms(3) by (auto simp: queue_step_def)
qed

lemma queue_step_insert:
  assumes "operations db' = operations db @ [r]" and "operations_seq db' = operations_seq db + 1"
    and "o_id r = operations_seq db" and "o_status r = OperationPending"
  shows "queue_step now db db'"
proof -
  have "ops.qstep (now, operations db) (now, operations db @ [r]) \<and> operations_wf db'" if wf: "operations_wf db"
  proof
    have fresh: "o_id r \<notin> o_id ` set (operations db)"
      using wf assms(3) by (auto simp: operations_wf_def list_all_iff)
    then show "ops.qstep (now, operations db) (now, operations db @ [r])"
      using assms(4) by (intro ops.insert) simp_all
    show "operations_wf db'"
      using wf fresh assms(1-3) by (auto simp: operations_wf_def keyed_on_def list_all_iff)
  qed
  then show ?thesis using assms(1) by (auto simp: queue_step_def)
qed

section \<open>Claims\<close>

definition claimed_row :: "time \<Rightarrow> string \<Rightarrow> duration \<Rightarrow> Operation \<Rightarrow> database \<Rightarrow> database \<Rightarrow> OperationRow \<Rightarrow> bool" where
  "claimed_row now worker lease operation db db' r \<longleftrightarrow>
     r \<in> set (operations db) \<and> operation_due now (operations db) r
     \<and> operations db' = sql_update (\<lambda>q. o_id q = o_id r) (claim_operation now lease worker) (operations db)
     \<and> operations_seq db' = operations_seq db
     \<and> op_ID operation = o_id r \<and> op_WorkerID operation = worker
     \<and> op_FencingToken operation = o_fencing_token r + 1 \<and> op_Attempts operation = o_attempts r + 1"

lemma claim_volume_keeps:
  "claim_volume now operation db = Inr (operation', db') \<Longrightarrow>
   same_queue db db' \<and> (\<exists>v. operation' = operation\<lparr>op_AppVolumePublicID := v\<rparr>)"
  by (auto simp: claim_volume_def same_queue_def Let_def split: if_splits sum.splits
      intro: exI [of _ "op_AppVolumePublicID operation"])

lemma claim_deployment_keeps:
  "claim_deployment now operation db = Inr ((operation', d), db') \<Longrightarrow>
   same_queue db db' \<and> (\<exists>v. operation' = operation\<lparr>op_DeploymentPublicID := v\<rparr>)"
  by (auto simp: claim_deployment_def same_queue_def split: if_splits sum.splits
      intro: exI [of _ "op_DeploymentPublicID operation"])

lemma claimNext_row:
  assumes "claimNext now worker inst lease db = Inr (Some (operation, ae, d), db')"
  obtains r where "claimed_row now worker lease operation db db' r" and "for_installation db inst r"
    and "\<forall>q\<in>set (operations db). operation_due now (operations db) q \<and> for_installation db inst q
           \<longrightarrow> o_id r \<le> o_id q"
proof -
  let ?due = "\<lambda>o'. operation_due now (operations db) o' \<and> for_installation db inst o'"
  from assms obtain r where r: "sql_first o_id ?due (operations db) = Some r"
    by (auto simp: claimNext_def split: option.splits)
  note first = sql_first_Some [OF r]
  let ?op = "claimed_operation (claim_operation now lease worker r)"
  let ?db = "db\<lparr>operations := sql_update (\<lambda>q. o_id q = o_id r) (claim_operation now lease worker) (operations db)\<rparr>"
  have base: "same_queue ?db db' \<and> op_ID operation = op_ID ?op \<and> op_WorkerID operation = op_WorkerID ?op
      \<and> op_FencingToken operation = op_FencingToken ?op \<and> op_Attempts operation = op_Attempts ?op"
  proof (cases "op_Kind ?op = OperationEnsureWorkspace")
    case True
    then show ?thesis using assms r
      by (auto simp: claimNext_def Let_def claim_workspace_def same_queue_def)
  next
    case False
    obtain op2 db2 where
      v: "claim_volume now (?op\<lparr>op_AppEnvironmentPublicID := ae_PublicID ae\<rparr>) ?db = Inr (op2, db2)" and
      dp: "claim_deployment now op2 db2 = Inr ((operation, d), db')"
      using False assms r by (fastforce simp: claimNext_def Let_def split: sum.splits)
    show ?thesis
      using claim_volume_keeps [OF v] claim_deployment_keeps [OF dp] by (auto simp: same_queue_def)
  qed
  have "claimed_row now worker lease operation db db' r"
    unfolding claimed_row_def using first base
    by (auto simp: same_queue_def claimed_operation_def claim_operation_def)
  then show thesis using that [of r] first by blast
qed

lemma claimNext_none: "claimNext now worker inst lease db = Inr (None, db') \<Longrightarrow> db' = db"
  by (auto simp: claimNext_def Let_def split: option.splits if_splits sum.splits)

lemma claimNext_queue [queue_steps]:
  assumes "claimNext now worker inst lease db = Inr (res, db')"
  shows "queue_step now db db'"
proof (cases res)
  case None
  then show ?thesis using claimNext_none [of now worker inst lease db db'] assms by simp
next
  case (Some x)
  obtain operation ae d where "x = (operation, ae, d)" by (cases x)
  with assms Some obtain r where "claimed_row now worker lease operation db db' r"
    using claimNext_row by blast
  then show ?thesis unfolding claimed_row_def by (blast intro: queue_step_claim)
qed

lemma ClaimNextForAgent_queue [queue_steps]:
  "ClaimNextForAgent now worker inst lease db = Inr (res, db') \<Longrightarrow> queue_step now db db'"
  by (auto simp: ClaimNextForAgent_def split: if_splits intro: claimNext_queue)

lemma ClaimNext_queue [queue_steps]:
  "ClaimNext now worker lease db = Inr (res, db') \<Longrightarrow> queue_step now db db'"
  by (auto simp: ClaimNext_def intro: claimNext_queue)

section \<open>Completions and failures\<close>

lemma plain_lease_update:
  assumes "\<And>r. o_id (f r) = o_id r" "\<And>r. o_fencing_token (f r) = o_fencing_token r"
    and "\<And>r. o_status (f r) \<noteq> OperationRunning"
  shows "ops.plain_update (lease_owned now operation) f"
  using assms by (auto simp: ops.plain_update_def lease_owned_def)

lemma completeOperationLease_queue [queue_steps]:
  assumes "completeOperationLease now operation db = Inr (u, db')"
  shows "queue_step now db db'"
proof (rule queue_step_update)
  show "ops.plain_update (lease_owned now operation) (succeed_operation now)"
    by (rule plain_lease_update) (simp_all add: succeed_operation_def)
qed (use assms in \<open>auto simp: completeOperationLease_def split: if_splits\<close>)

lemma mark_current_queue: "mark_current now operation m h db = Inr (u, db') \<Longrightarrow> same_queue db db'"
  by (auto simp: mark_current_def Let_def split: option.splits if_splits)

lemma complete_attached_volume_queue:
  "complete_attached_volume now operation v db = Inr (u, db') \<Longrightarrow> same_queue db db'"
  by (auto simp: complete_attached_volume_def Let_def split: option.splits if_splits)

lemma activatePublicationClaims_queue:
  "activatePublicationClaims p now i v k c db = Inr (u, db') \<Longrightarrow> same_queue db db'"
  using activatePublicationClaims_frame by (fastforce simp: claims_only_def same_queue_def)

lemma completeDeployment_queue [queue_steps]:
  assumes "completeDeployment policy now operation m r h v db = Inr (u, db')"
  shows "queue_step now db db'"
proof -
  obtain w1 db1 d w2 db2 w3 db3 where
    lease: "completeOperationLease now operation db = Inr (w1, db1)" and
    mark: "mark_current now operation m h
       (db1\<lparr>deployments := d\<rparr>) = Inr (w2, db2)" and
    volume: "complete_attached_volume now operation v db2 = Inr (w3, db3)" and
    activate: "\<exists>i c k e. activatePublicationClaims policy now i c k e db3 = Inr (u, db')"
    using assms unfolding completeDeployment_def Let_def
    by (auto split: sum.splits if_splits) blast
  note completeOperationLease_queue [OF lease]
  also have "same_queue db1 (db1\<lparr>deployments := d\<rparr>)" by (simp add: same_queue_def)
  also note mark_current_queue [OF mark]
  also note complete_attached_volume_queue [OF volume]
  also have "same_queue db3 db'" using activate activatePublicationClaims_queue by blast
  finally show ?thesis .
qed

lemma CompleteDeployment_queue [queue_steps]:
  "CompleteDeployment policy now operation m r h db = Inr (u, db') \<Longrightarrow> queue_step now db db'"
  by (simp add: CompleteDeployment_def completeDeployment_queue)

lemma CompleteStatefulDeployment_queue [queue_steps]:
  "CompleteStatefulDeployment policy now operation m r vm s h db = Inr (u, db') \<Longrightarrow> queue_step now db db'"
  by (simp add: CompleteStatefulDeployment_def completeDeployment_queue)

lemma completion_queue:
  assumes "completeOperationLease now operation db = Inr (u, db1)"
    and "operations db' = operations db1" and "operations_seq db' = operations_seq db1"
  shows "queue_step now db db'"
  using completeOperationLease_queue [OF assms(1)] queue_step_then_same [of now db db1 db'] assms(2,3)
  by (simp add: same_queue_def)

lemma CompleteAppEnvironmentDeletion_queue [queue_steps]:
  "CompleteAppEnvironmentDeletion now operation m db = Inr (u, db') \<Longrightarrow> queue_step now db db'"
  by (auto simp: CompleteAppEnvironmentDeletion_def Let_def split: sum.splits if_splits elim!: completion_queue)

lemma CompleteWorkspace_queue [queue_steps]:
  "CompleteWorkspace now operation db = Inr (u, db') \<Longrightarrow> queue_step now db db'"
  by (auto simp: CompleteWorkspace_def split: sum.splits elim!: completion_queue)

lemma CompleteVolume_queue [queue_steps]:
  "CompleteVolume now operation s m g h db = Inr (u, db') \<Longrightarrow> queue_step now db db'"
  by (auto simp: CompleteVolume_def Let_def split: sum.splits if_splits elim!: completion_queue)

lemma record_failure_queue [simp]:
  "operations (record_failure now operation m db) = operations db"
  "operations_seq (record_failure now operation m db) = operations_seq db"
  by (auto simp: record_failure_def degrade_environment_def Let_def split: OperationKind.splits)

lemma Fail_queue [queue_steps]:
  assumes "Fail now operation c m retry db = Inr (u, db')"
  shows "queue_step now db db'"
proof -
  let ?s = "if retry \<and> op_Attempts operation < 8 then OperationPending else OperationFailed"
  let ?db = "db\<lparr>operations := sql_update (lease_owned now operation) (fail_operation now ?s c m) (operations db)\<rparr>"
  have "queue_step now db ?db"
    by (rule queue_step_update [OF plain_lease_update [where f = "fail_operation now ?s c m" and now = now]])
       (simp_all add: fail_operation_def)
  also have "same_queue ?db db'"
    using assms by (auto simp: Fail_def Let_def same_queue_def split: if_splits)
  finally show ?thesis .
qed

lemma ReleaseClaims_queue [queue_steps]:
  assumes "ReleaseClaims now worker db = Inr (u, db')"
  shows "queue_step now db db'"
proof (rule queue_step_update)
  show "ops.plain_update (\<lambda>o'. o_status o' = OperationRunning \<and> o_worker_id o' = Some worker)
     (\<lambda>o'. o'\<lparr>o_status := OperationPending, o_next_attempt_at := now, o_lease_until := None,
              o_worker_id := None, o_updated_at := now\<rparr>)"
    by (auto simp: ops.plain_update_def)
qed (use assms in \<open>auto simp: ReleaseClaims_def\<close>)

section \<open>Inserts\<close>

lemma insert_operation_row_Inr:
  assumes "insert_operation_row row db = Inr (r, db')"
  shows "r = row\<lparr>o_id := operations_seq db\<rparr>"
    and "db' = db\<lparr>operations := operations db @ [r], operations_seq := operations_seq db + 1\<rparr>"
  using assms by (auto simp: insert_operation_row_def Let_def split: if_splits)

lemma allocate_operation_Inr:
  assumes "allocate_operation n draws row db = Inr (r, db')"
  obtains pid where "insert_operation_row (row\<lparr>o_public_id := pid\<rparr>) db = Inr (r, db')"
  using assms
  by (induction n draws row db rule: allocate_operation.induct) (auto split: sum.splits if_splits)

lemma allocate_operation_queue [queue_steps]:
  assumes "allocate_operation n draws row db = Inr (r, db')" and "o_status row = OperationPending"
  shows "queue_step now db db'"
proof -
  obtain pid where "insert_operation_row (row\<lparr>o_public_id := pid\<rparr>) db = Inr (r, db')"
    using assms(1) by (rule allocate_operation_Inr)
  note insert_operation_row_Inr [OF this]
  then show ?thesis using assms(2) by (intro queue_step_insert [of db' db r]) simp_all
qed

lemma insertOperationForPrincipal_queue [queue_steps]:
  "insertOperationForPrincipal now draws w e d u p k ih ph v db = Inr (operation, db') \<Longrightarrow> queue_step now db db'"
  by (auto simp: insertOperationForPrincipal_def pending_operation_def split: option.splits sum.splits
      elim!: allocate_operation_queue)

lemma insertOperation_queue [queue_steps]:
  "insertOperation now draws w e d u k ih ph v db = Inr (operation, db') \<Longrightarrow> queue_step now db db'"
  by (auto simp: insertOperation_def split: sum.splits elim!: insertOperationForPrincipal_queue)

lemma insertVolumeOperation_queue [queue_steps]:
  "insertVolumeOperation now draws w e vol u k ih ph v db = Inr (operation, db') \<Longrightarrow> queue_step now db db'"
  by (auto simp: insertVolumeOperation_def pending_operation_def split: option.splits sum.splits
      elim!: allocate_operation_queue)

section \<open>Ownership\<close>

lemma lease_owned_iff:
  "(\<exists>r\<in>set rows. lease_owned now operation r)
     \<longleftrightarrow> ops.owns now rows (op_ID operation) (op_WorkerID operation) (op_FencingToken operation)"
  by (auto simp: lease_owned_def ops.owns_def split: option.splits)

lemma not_owned_count:
  "\<not> ops.owns now (operations db) (op_ID operation) (op_WorkerID operation) (op_FencingToken operation)
   \<Longrightarrow> sql_count (lease_owned now operation) (operations db) = 0"
  unfolding sql_count_0 using lease_owned_iff by blast

text \<open>What a holder of a stale claim gets from every call that would finish its operation.\<close>

definition refused :: "PublicationPolicy \<Rightarrow> time \<Rightarrow> Operation \<Rightarrow> database \<Rightarrow> bool" where
  "refused policy now operation db \<longleftrightarrow>
     (\<forall>m r h. CompleteDeployment policy now operation m r h db = Inl ErrLeaseLost)
     \<and> (\<forall>m r vm s h. CompleteStatefulDeployment policy now operation m r vm s h db = Inl ErrLeaseLost)
     \<and> (\<forall>m. CompleteAppEnvironmentDeletion now operation m db = Inl ErrLeaseLost)
     \<and> CompleteWorkspace now operation db = Inl ErrLeaseLost
     \<and> (\<forall>s m g h. CompleteVolume now operation s m g h db = Inl ErrLeaseLost)
     \<and> (\<forall>c m retry. Fail now operation c m retry db = Inl ErrLeaseLost)"

lemma not_owned_refused:
  assumes "\<not> ops.owns now (operations db) (op_ID operation) (op_WorkerID operation) (op_FencingToken operation)"
  shows "refused policy now operation db"
proof -
  have count: "sql_count (lease_owned now operation) (operations db) = 0"
    using assms by (rule not_owned_count)
  then have "completeOperationLease now operation db = Inl ErrLeaseLost"
    by (simp add: completeOperationLease_def)
  then show ?thesis
    using count by (simp add: refused_def CompleteDeployment_def CompleteStatefulDeployment_def completeDeployment_def
      CompleteAppEnvironmentDeletion_def CompleteWorkspace_def CompleteVolume_def Fail_def)
qed

lemma claimed_row_owned:
  assumes c: "claimed_row now worker lease operation db db' r" and wf: "operations_wf db"
    and "now' < now + lease"
  shows "claim_operation now lease worker r \<in> set (operations db')"
    and "lease_owned now' operation (claim_operation now lease worker r)"
    and "sql_count (lease_owned now' operation) (operations db') = 1"
proof -
  let ?r = "claim_operation now lease worker r"
  show mem: "?r \<in> set (operations db')"
    using c unfolding claimed_row_def by (auto simp: in_sql_update)
  show own: "lease_owned now' operation ?r"
    using c assms(3) by (auto simp: claimed_row_def lease_owned_def claim_operation_def)
  have "keyed_on o_id (operations db')"
    using c wf by (auto simp: claimed_row_def operations_wf_def ops.claim_key intro!: keyed_on_update)
  then show "sql_count (lease_owned now' operation) (operations db') = 1"
    using mem own by (intro keyed_on_count_1 [where key = o_id and i = "op_ID operation"]) (auto simp: lease_owned_def)
qed

lemma backoff_bounds:
  assumes "1 \<le> o_attempts o'"
  shows "2 * second \<le> backoff o'" and "backoff o' \<le> 300 * second"
proof -
  have "(2::int) ^ 1 \<le> 2 ^ nat (o_attempts o')" using assms by (intro power_increasing) auto
  then show "2 * second \<le> backoff o'" by (simp add: backoff_def)
  show "backoff o' \<le> 300 * second" by (simp add: backoff_def)
qed

definition retried :: "time \<Rightarrow> OperationRow \<Rightarrow> OperationRow \<Rightarrow> bool" where
  "retried now r r' \<longleftrightarrow>
     o_id r' = o_id r \<and> o_attempts r' = o_attempts r + 1 \<and> o_worker_id r' = None \<and> o_lease_until r' = None
     \<and> (if o_attempts r' < 8
        then o_status r' = OperationPending \<and> now + 2 * second \<le> o_next_attempt_at r'
             \<and> o_next_attempt_at r' \<le> now + 300 * second
        else o_status r' = OperationFailed \<and> o_completed_at r' = Some now)"

lemma failed_row_retried:
  assumes c: "claimed_row now worker lease operation db db' r" and "0 \<le> o_attempts r"
    and s: "s = (if op_Attempts operation < 8 then OperationPending else OperationFailed)"
  shows "retried now' r (fail_operation now' s code m (claim_operation now lease worker r))"
proof -
  let ?q = "claim_operation now lease worker r"
  have a: "o_attempts ?q = o_attempts r + 1" "op_Attempts operation = o_attempts r + 1"
    using c by (simp_all add: claimed_row_def claim_operation_def)
  have "1 \<le> o_attempts ?q" using a assms(2) by simp
  from backoff_bounds [OF this] show ?thesis
    using a s by (simp add: retried_def fail_operation_def ops.claim_key)
qed

section \<open>Properties\<close>

text \<open>
  C10: A worker that claimed an operation can report a retryable failure at any time before its
  lease ends. The report succeeds, counts one attempt, and gives the claim up. Until the eighth
  attempt the operation becomes pending again, due between 2 and 300 seconds later; the eighth
  failure makes it fail for good.
\<close>

theorem claim_then_fail:
  assumes "operations_wf db" and "\<forall>o'\<in>set (operations db). 0 \<le> o_attempts o'"
    and "claimNext now worker inst lease db = Inr (Some (operation, ae, d), db1)"
    and "now' < now + lease"
  shows "\<exists>r\<in>set (operations db). op_ID operation = o_id r \<and> operation_due now (operations db) r
    \<and> (\<exists>db2. commit (Fail now' operation code m True) db1 = (Inr (), db2)
         \<and> (\<exists>r'\<in>set (operations db2). retried now' r r'))"
proof -
  obtain r where r: "claimed_row now worker lease operation db db1 r"
    using assms(3) by (rule claimNext_row)
  let ?q = "claim_operation now lease worker r"
  let ?s = "if op_Attempts operation < 8 then OperationPending else OperationFailed"
  let ?db = "db1\<lparr>operations := sql_update (lease_owned now' operation) (fail_operation now' ?s code m) (operations db1)\<rparr>"
  let ?db2 = "if ?s = OperationFailed then record_failure now' operation m ?db else ?db"
  note owned = claimed_row_owned [OF r assms(1,4)]
  have fail: "Fail now' operation code m True db1 = Inr ((), ?db2)"
    using owned(3) by (simp add: Fail_def Let_def)
  have ops: "operations ?db2 = operations ?db" by simp
  have "fail_operation now' ?s code m ?q \<in> set (operations ?db2)"
    unfolding ops using owned(1,2) by (auto simp: in_sql_update)
  moreover have "retried now' r (fail_operation now' ?s code m ?q)"
    using r assms(2) by (intro failed_row_retried [OF r _ refl]) (simp add: claimed_row_def)
  ultimately have "\<exists>r'\<in>set (operations ?db2). retried now' r r'" by blast
  with fail have "\<exists>db2. commit (Fail now' operation code m True) db1 = (Inr (), db2)
         \<and> (\<exists>r'\<in>set (operations db2). retried now' r r')"
    unfolding commit_Inr by blast
  then show ?thesis using r unfolding claimed_row_def by blast
qed

definition sample_hash :: string where
  "sample_hash = replicate 32 CHR ''h''"

definition sample_operation :: "int \<Rightarrow> OperationRow" where
  "sample_operation i =
     (pending_operation 0 1 1 OperationEnsureWorkspace sample_hash sample_hash 1 1)\<lparr>o_id := i, o_public_id := ''op-1''\<rparr>"

definition sample_queue :: database where
  "sample_queue = empty_database\<lparr>operations := [sample_operation 1], operations_seq := 2\<rparr>"

lemmas sample_queue_simps = sample_queue_def sample_operation_def pending_operation_def empty_database_def

theorem claim_then_fail_witness:
  "\<exists>r\<in>set (operations sample_queue). operation_due 0 (operations sample_queue) r
    \<and> (\<exists>db2. commit (Fail 5 (claimed_operation (claim_operation 0 10 ''agent'' (sample_operation 1))) ''c'' ''m'' True)
              (claim_workspace 0 (claimed_operation (claim_operation 0 10 ''agent'' (sample_operation 1)))
                (sample_queue\<lparr>operations := [claim_operation 0 10 ''agent'' (sample_operation 1)]\<rparr>)) = (Inr (), db2)
         \<and> (\<exists>r'\<in>set (operations db2). retried 5 r r'))"
proof -
  let ?op = "claimed_operation (claim_operation 0 10 ''agent'' (sample_operation 1))"
  have "claimNext 0 ''agent'' '''' 10 sample_queue
      = Inr (Some (?op, zero_AppEnvironment\<lparr>ae_WorkspaceID := op_WorkspaceID ?op\<rparr>, zero_Deployment),
          claim_workspace 0 ?op (sample_queue\<lparr>operations := [claim_operation 0 10 ''agent'' (sample_operation 1)]\<rparr>))"
    by (simp add: claimNext_def Let_def sample_queue_simps sql_first_def operation_due_def for_installation_def
        claimed_operation_def claim_operation_def)
  from claim_then_fail [OF _ _ this, where now' = 5 and code = "''c''" and m = "''m''"]
  show ?thesis by (fastforce simp: sample_queue_simps operations_wf_def keyed_on_def)
qed

text \<open>What a claim reads besides the queue: the environment, and the volume or deployment of the operation.\<close>

definition claim_readable :: "database \<Rightarrow> OperationRow \<Rightarrow> bool" where
  "claim_readable db o' \<longleftrightarrow>
     operation_target_valid o'
     \<and> (o_kind o' = OperationEnsureWorkspace
        \<or> is_ok (appEnvironmentByID db (COALESCE (o_app_environment_id o') 0))
          \<and> (o_app_volume_id o' \<noteq> None \<longrightarrow> is_ok (appVolumeByID db (COALESCE (o_app_volume_id o') 0)))
          \<and> (o_deployment_id o' \<noteq> None \<longrightarrow> is_ok (deploymentByID db (COALESCE (o_deployment_id o') 0))))"

lemma claimed_operation_fields [simp]:
  "op_Kind (claimed_operation o') = o_kind o'"
  "op_AppEnvironmentID (claimed_operation o') = COALESCE (o_app_environment_id o') 0"
  "op_AppVolumeID (claimed_operation o') = COALESCE (o_app_volume_id o') 0"
  "op_DeploymentID (claimed_operation o') = COALESCE (o_deployment_id o') 0"
  by (simp_all add: claimed_operation_def)

lemma claim_operation_fields [simp]:
  "o_kind (claim_operation now lease worker o') = o_kind o'"
  "o_app_environment_id (claim_operation now lease worker o') = o_app_environment_id o'"
  "o_app_volume_id (claim_operation now lease worker o') = o_app_volume_id o'"
  "o_deployment_id (claim_operation now lease worker o') = o_deployment_id o'"
  by (simp_all add: claim_operation_def)

lemma claimNext_succeeds:
  assumes r: "sql_first o_id (\<lambda>o'. operation_due now (operations db) o' \<and> for_installation db inst o')
      (operations db) = Some r" and ok: "claim_readable db r"
  shows "\<exists>res db'. claimNext now worker inst lease db = Inr (Some res, db')"
proof (cases "o_kind r = OperationEnsureWorkspace")
  case True
  then show ?thesis using r by (simp add: claimNext_def Let_def)
next
  case False
  let ?op = "claimed_operation (claim_operation now lease worker r)"
  let ?db = "db\<lparr>operations := sql_update (\<lambda>q. o_id q = o_id r) (claim_operation now lease worker) (operations db)\<rparr>"
  obtain e where e: "appEnvironmentByID db (COALESCE (o_app_environment_id r) 0) = Inr e"
    using ok False by (auto simp: claim_readable_def is_ok_iff)
  let ?op1 = "?op\<lparr>op_AppEnvironmentPublicID := ae_PublicID e\<rparr>"
  have "\<exists>op2 db2. claim_volume now ?op1 ?db = Inr (op2, db2)"
    using ok False by (cases "o_app_volume_id r") (auto simp: claim_volume_def claim_readable_def is_ok_iff Let_def)
  then obtain op2 db2 where v: "claim_volume now ?op1 ?db = Inr (op2, db2)" by blast
  have "\<exists>res db3. claim_deployment now op2 db2 = Inr (res, db3)"
  proof (cases "o_kind r = OperationApplyDeployment")
    case True
    then have "o_app_volume_id r = None" "o_deployment_id r \<noteq> None"
      using ok by (auto simp: claim_readable_def operation_target_valid_def)
    then show ?thesis
      using v True ok False by (auto simp: claim_volume_def claim_deployment_def claim_readable_def is_ok_iff)
  next
    case other: False
    then show ?thesis using claim_volume_keeps [OF v] by (auto simp: claim_deployment_def)
  qed
  then show ?thesis using r e v False by (auto simp: claimNext_def Let_def)
qed


definition sample_installation :: AgentInstallationRow where
  "sample_installation =
     \<lparr>ai_id = 1, ai_public_id = ''cls-1'', ai_name = ''cluster'', ai_status = ''Active'', ai_cluster_uid = Some ''uid'',
      ai_agent_version = ''1'', ai_kubernetes_version = ''1'', ai_capabilities = [],
      ai_workspace_provisioning_mode = ''Namespaced'', ai_trust_bundle_id = '''', ai_control_session_id = None,
      ai_control_session_sequence = 0, ai_last_seen_at = None, ai_revoked_at = None, ai_revocation_reason = '''',
      ai_enrollment_attempt_id = None, ai_csr_fingerprint = None, ai_certificate_pem = None, ai_ca_certificate_pem = None,
      ai_certificate_serial = None, ai_certificate_fingerprint = None, ai_certificate_not_after = None,
      ai_created_by = 1, ai_created_at = 0, ai_updated_at = 0\<rparr>"


section \<open>Completing a deployment\<close>

definition takes_over :: "Operation \<Rightarrow> string \<Rightarrow> AppEnvironmentRow list \<Rightarrow> AppEnvironmentRow \<Rightarrow> bool" where
  "takes_over operation specHash old ae \<longleftrightarrow>
     (if aer_id ae = op_AppEnvironmentID operation \<and> aer_desired_deployment_id ae = Some (op_DeploymentID operation)
      then aer_current_deployment_id ae = Some (op_DeploymentID operation) \<and> aer_last_state ae = StateReady
        \<and> aer_runtime_desired_version ae = op_DesiredVersion operation \<and> aer_runtime_spec_hash ae = Some specHash
      else ae \<in> set old)"

lemma mark_current_rows:
  assumes "mark_current now operation m h db = Inr (u, db')"
    and "\<exists>d\<in>set (deployments db). dr_id d = op_DeploymentID operation"
  shows "\<exists>es. db' = db\<lparr>app_environments := es\<rparr> \<and> (\<forall>ae\<in>set es. takes_over operation h (app_environments db) ae)"
proof -
  obtain d where d: "find (\<lambda>d. dr_id d = op_DeploymentID operation) (deployments db) = Some d"
    using assms(2) by (cases "find (\<lambda>d. dr_id d = op_DeploymentID operation) (deployments db)") (auto simp: find_None_iff)
  have [simp]: "dr_id d = op_DeploymentID operation" using find_SomeD [OF d] by simp
  let ?p = "\<lambda>ae. aer_id ae = op_AppEnvironmentID operation
                 \<and> aer_desired_deployment_id ae = Some (op_DeploymentID operation)"
  obtain es where db': "db' = db\<lparr>app_environments := es\<rparr>" and
    es: "es = sql_update ?p (\<lambda>ae. ae\<lparr>aer_current_deployment_id := Some (dr_id d),
                                        aer_current_release_id := Some (dr_release_id d),
                                        aer_last_state := StateReady, aer_last_message := m,
                                        aer_runtime_desired_version := op_DesiredVersion operation,
                                        aer_runtime_spec_hash := Some h,
                                        aer_updated_at := now\<rparr>) (app_environments db)"
    using assms(1) d by (auto simp: mark_current_def Let_def split: if_splits)
  have "takes_over operation h (app_environments db) ae" if "ae \<in> set es" for ae
    using that unfolding es in_sql_update takes_over_def by (elim bexE) (simp split: if_splits, blast)
  then show ?thesis using db' by blast
qed

lemma complete_attached_volume_frame:
  "complete_attached_volume now operation v db = Inr (u, db') \<Longrightarrow> \<exists>vs. db' = db\<lparr>app_volumes := vs\<rparr>"
  by (auto simp: complete_attached_volume_def Let_def split: option.splits if_splits
      intro: exI [of _ "app_volumes db"])

definition completes_deployment :: "PublicationPolicy \<Rightarrow> Operation \<Rightarrow> string \<Rightarrow> string \<Rightarrow> database \<Rightarrow> database \<Rightarrow> bool" where
  "completes_deployment policy operation observedRelease specHash db db' \<longleftrightarrow>
     (\<forall>d\<in>set (deployments db').
        dr_id d = op_DeploymentID operation \<and> dr_app_environment_id d = op_AppEnvironmentID operation \<longrightarrow>
        dr_status d = StateReady \<and> dr_observed_release d = observedRelease)
     \<and> (\<forall>ae\<in>set (app_environments db'). takes_over operation specHash (app_environments db) ae)
     \<and> (\<exists>deployed. deploymentByID db (op_DeploymentID operation) = Inr deployed
        \<and> (\<forall>e\<in>set (elems (rc_PublicEndpoints (dpl_Configuration deployed))). \<exists>h.
             Resolve policy (dpl_WorkloadKind deployed) e = Inr h
             \<and> active_for (op_AppEnvironmentID operation) (dpl_ConfigurationVersion deployed)
                 (publication_claims db') h))"

text \<open>
  C12: Completing a deployment operation has all of its effects or none. The caller owned the
  lease, and the operation has succeeded; the deployment is ready with the observed release; the
  environment takes it over as current, unless another deployment has become its desired one,
  and no other environment changes; and every public hostname of the deployed configuration is
  active at its version. Without success the database is what it was.
\<close>

theorem deployment_completion:
  "case commit (completeDeployment policy now operation m observedRelease specHash volume) db of
     (Inl _, db') \<Rightarrow> db' = db
   | (Inr _, db') \<Rightarrow>
       (\<exists>r\<in>set (operations db). lease_owned now operation r)
       \<and> operations db' = sql_update (lease_owned now operation) (succeed_operation now) (operations db)
       \<and> completes_deployment policy operation observedRelease specHash db db'"
proof (cases "completeDeployment policy now operation m observedRelease specHash volume db")
  case (Inr x)
  obtain db' where x: "x = ((), db')" by (cases x) simp
  let ?p = "\<lambda>d. dr_id d = op_DeploymentID operation \<and> dr_app_environment_id d = op_AppEnvironmentID operation"
  let ?f = "\<lambda>d. d\<lparr>dr_status := StateReady, dr_message := m, dr_observed_release := observedRelease,
                 dr_completed_at := Some now, dr_updated_at := now\<rparr>"
  obtain db1 where lease: "completeOperationLease now operation db = Inr ((), db1)"
    using Inr by (auto simp: completeDeployment_def split: sum.splits)
  have count: "sql_count (lease_owned now operation) (operations db) = 1" and
    db1: "db1 = db\<lparr>operations := sql_update (lease_owned now operation) (succeed_operation now) (operations db)\<rparr>"
    using lease by (auto simp: completeOperationLease_def split: if_splits)
  let ?db = "db1\<lparr>deployments := sql_update ?p ?f (deployments db1)\<rparr>"
  obtain deployed db2 db3 where
    dep: "deploymentByID db (op_DeploymentID operation) = Inr deployed" and
    one: "sql_count ?p (deployments db1) = 1" and
    mark: "mark_current now operation m specHash ?db = Inr ((), db2)" and
    vol: "complete_attached_volume now operation volume db2 = Inr ((), db3)" and
    act: "activatePublicationClaims policy now (op_AppEnvironmentID operation) (dpl_ConfigurationVersion deployed)
            (dpl_WorkloadKind deployed) (dpl_Configuration deployed) db3 = Inr ((), db')"
    using Inr lease x db1 by (auto simp: completeDeployment_def Let_def split: sum.splits if_splits)
  have ready: "\<forall>d\<in>set (deployments ?db). ?p d \<longrightarrow> dr_status d = StateReady \<and> dr_observed_release d = observedRelease"
    by (auto simp: in_sql_update)
  obtain d where "d \<in> set (deployments db1)" "?p d"
    using one sql_count_pos [of ?p "deployments db1"] by auto
  then have "\<exists>d\<in>set (deployments ?db). dr_id d = op_DeploymentID operation"
    by (auto intro!: sql_update_bex)
  from mark_current_rows [OF mark this] obtain es where
    db2: "db2 = ?db\<lparr>app_environments := es\<rparr>" and es: "\<forall>ae\<in>set es. takes_over operation specHash (app_environments ?db) ae"
    by blast
  obtain vs cs n where "db3 = db2\<lparr>app_volumes := vs\<rparr>" "db' = db3\<lparr>publication_claims := cs, publication_claims_seq := n\<rparr>"
    using complete_attached_volume_frame [OF vol] activatePublicationClaims_frame [OF act] unfolding claims_only_def by blast
  then have frame: "operations db' = operations db1" "deployments db' = deployments ?db" "app_environments db' = es"
    unfolding db2 by simp_all
  have "app_environments ?db = app_environments db" unfolding db1 by simp
  then have "completes_deployment policy operation observedRelease specHash db db'"
    unfolding completes_deployment_def frame
    using ready es dep activatePublicationClaims_active [OF act] by (intro conjI exI [of _ deployed]) simp_all
  moreover have "\<exists>r\<in>set (operations db). lease_owned now operation r"
    using count sql_count_pos [of "lease_owned now operation" "operations db"] by simp
  ultimately show ?thesis
    unfolding commit_def Inr x using frame(1) unfolding db1 by simp
qed (simp add: commit_def)

end
