(* ===== verification/Hierarchy_Store.thy ===== *)
theory Hierarchy_Store
  imports Hierarchy_Queries Operation_Queue
begin

text \<open>
  \<open>internal/store/hierarchy.go\<close> and \<open>cluster_routing.go\<close>: workspaces and their placement on
  clusters, projects, environments and apps, with optimistic versions, soft deletion and
  cursor pagination. Identifiers of new rows are arguments, as in the source.
\<close>

section \<open>Values and errors\<close>

definition projectValue :: "ProjectRow \<Rightarrow> Project" where
  "projectValue r =
     \<lparr>pj_ID = prj_id r, pj_PublicID = prj_public_id r, pj_WorkspaceID = prj_workspace_id r, pj_Name = prj_name r,
      pj_Version = prj_version r, pj_CreatedAt = prj_created_at r, pj_UpdatedAt = prj_updated_at r,
      pj_ArchivedAt = prj_archived_at r\<rparr>"

definition environmentValue :: "EnvironmentRow \<Rightarrow> Environment" where
  "environmentValue r =
     \<lparr>en_ID = env_id r, en_PublicID = env_public_id r, en_ProjectID = env_project_id r, en_Name = env_name r,
      en_Version = env_version r, en_CreatedAt = env_created_at r, en_UpdatedAt = env_updated_at r,
      en_ArchivedAt = env_archived_at r\<rparr>"

definition appValue :: "AppRow \<Rightarrow> App" where
  "appValue r =
     \<lparr>ap_ID = app_id r, ap_PublicID = app_public_id r, ap_ProjectID = app_project_id r, ap_Name = app_name r,
      ap_Version = app_version r, ap_CreatedAt = app_created_at r, ap_UpdatedAt = app_updated_at r,
      ap_ArchivedAt = app_archived_at r\<rparr>"

definition operationValue :: "OperationRow \<Rightarrow> Operation" where
  "operationValue o' =
     \<lparr>op_ID = o_id o', op_ClusterID = 0, op_PublicID = o_public_id o', op_AppEnvironmentID = 0,
      op_AppEnvironmentPublicID = '''', op_DeploymentID = 0, op_DeploymentPublicID = '''', op_AppVolumeID = 0,
      op_AppVolumePublicID = '''', op_WorkspaceID = o_workspace_id o',
      op_ActorID = COALESCE (o_requested_by_user_id o') 0, op_Kind = o_kind o', op_Status = o_status o',
      op_DesiredVersion = o_desired_version o', op_Attempts = o_attempts o', op_WorkerID = '''',
      op_FencingToken = 0, op_LeaseUntil = None, op_ErrorCode = o_error_code o',
      op_ErrorMessage = o_error_message o', op_CreatedAt = o_created_at o', op_UpdatedAt = o_updated_at o'\<rparr>"

definition hierarchyWriteError :: "store_error \<Rightarrow> store_error" where
  "hierarchyWriteError err =
     (case err of
        UniqueViolation name \<Rightarrow>
          if name \<in> {''projects_public_id_key'', ''environments_public_id_key'', ''apps_public_id_key'',
                     ''workspaces_public_id_key'', ''operations_public_id_key'', ''github_installations_public_id_key''}
          then ErrPublicIDCollision else ErrNameConflict
      | _ \<Rightarrow> err)"

text \<open>The loop of a listing; a negative limit panics when the result slice is made.\<close>

definition list_result :: "('a \<Rightarrow> int) \<Rightarrow> int \<Rightarrow> (store_error + 'a list) \<Rightarrow> store_error + ('a list \<times> string)" where
  "list_result ident limit rows =
     (case rows of
        Inl err \<Rightarrow> Inl err
      | Inr items \<Rightarrow>
          if limit < 0 then Inl Panic
          else (case page_loop ident limit 0 [] items of None \<Rightarrow> Inl Panic | Some r \<Rightarrow> Inr r))"

definition before_or_max :: "int \<Rightarrow> int" where
  "before_or_max beforeID = (if beforeID = 0 then MaxInt64 else beforeID)"

section \<open>Workspaces\<close>

datatype ProvisioningMode = ProvisioningDisabled | ProvisioningNamespaced

definition ParseProvisioningMode :: "string \<Rightarrow> ProvisioningMode option" where
  "ParseProvisioningMode value =
     (let v = TrimSpace value in
      if v = '''' \<or> v = ''Disabled'' then Some ProvisioningDisabled
      else if v = ''Namespaced'' then Some ProvisioningNamespaced
      else None)"

record WorkspaceProvisioningFacts =
  wpf_ClusterAttached :: bool
  wpf_CapabilityAvailable :: bool
  wpf_Consent :: "ProvisioningMode option"

definition WorkspaceProvisioningFacts_of :: "database \<Rightarrow> string \<Rightarrow> store_error + WorkspaceProvisioningFacts" where
  "WorkspaceProvisioningFacts_of db clusterPublicID =
     (case query_row (\<lambda>i. ai_public_id i = clusterPublicID \<and> ai_status i = ''Active'') (agent_installations db) of
        Inl err \<Rightarrow> Inr \<lparr>wpf_ClusterAttached = False, wpf_CapabilityAvailable = False, wpf_Consent = None\<rparr>
      | Inr i \<Rightarrow>
          (case ParseProvisioningMode (ai_workspace_provisioning_mode i) of
             None \<Rightarrow> Inl (Message ''stored workspace provisioning mode is invalid'')
           | Some consent \<Rightarrow> Inr
               \<lparr>wpf_ClusterAttached = True,
                wpf_CapabilityAvailable = (''workspace-provisioning.v1alpha1'' \<in> set (ai_capabilities i)),
                wpf_Consent = Some consent\<rparr>))"

definition ListWorkspaces :: "database \<Rightarrow> int \<Rightarrow> int \<Rightarrow> int \<Rightarrow> store_error + (Workspace list \<times> string)" where
  "ListWorkspaces db userID beforeID limit =
     list_result ws_ID limit
       (queries_ListWorkspacesForUser db userID (before_or_max beforeID) (int32 (limit + 1)))"

definition FindWorkspaceForUser :: "database \<Rightarrow> int \<Rightarrow> string \<Rightarrow> store_error + Workspace" where
  "FindWorkspaceForUser db userID publicID =
     (case queries_FindWorkspaceForUser db userID publicID of Inl ErrNoRows \<Rightarrow> Inl ErrNotFound | r \<Rightarrow> r)"

definition activeAgentInstallationID :: "database \<Rightarrow> store_error + int" where
  "activeAgentInstallationID db =
     (case filter (\<lambda>i. ai_status i = ''Active'') (agent_installations db) of
        [i] \<Rightarrow> if ai_id i = 0 then Inl ErrAgentUnavailable else Inr (ai_id i)
      | _ \<Rightarrow> Inl ErrAgentUnavailable)"

definition clusterByPublicID :: "database \<Rightarrow> string \<Rightarrow> store_error + int" where
  "clusterByPublicID db publicID =
     (case query_row (\<lambda>i. ai_public_id i = publicID \<and> ai_status i = ''Active'') (agent_installations db) of
        Inl err \<Rightarrow> Inl ErrAgentUnavailable
      | Inr i \<Rightarrow> Inr (ai_id i))"

definition namespace_pattern :: regexp where "namespace_pattern = label_pattern"

definition insert_workspace_cluster :: "time \<Rightarrow> int \<Rightarrow> int \<Rightarrow> string \<Rightarrow> WorkspaceClusterRow tx" where
  "insert_workspace_cluster now workspaceID clusterID namespaceName db =
     (let wc = \<lparr>wc_workspace_id = workspaceID, wc_installation_id = clusterID, wc_namespace_name = namespaceName,
                wc_state = ''Pending'', wc_message = '''', wc_observed_generation = 0, wc_created_at = now,
                wc_updated_at = now\<rparr> in
      if \<not> MatchString namespace_pattern namespaceName \<or> 63 < RuneCount namespaceName
      then Inl (CheckViolation ''workspace_clusters_namespace_valid'')
      else if list_ex (\<lambda>x. wc_workspace_id x = workspaceID \<and> wc_installation_id x = clusterID) (workspace_clusters db)
      then Inl (UniqueViolation ''workspace_clusters_pkey'')
      else if list_ex (\<lambda>x. wc_installation_id x = clusterID \<and> wc_namespace_name x = namespaceName)
                (workspace_clusters db)
      then Inl (UniqueViolation ''workspace_clusters_installation_id_namespace_name_key'')
      else Inr (wc, db\<lparr>workspace_clusters := workspace_clusters db @ [wc]\<rparr>))"

definition insert_membership :: "time \<Rightarrow> int \<Rightarrow> int \<Rightarrow> string \<Rightarrow> unit tx" where
  "insert_membership now workspaceID userID role db =
     (if list_ex (\<lambda>m. wm_workspace_id m = workspaceID \<and> wm_user_id m = userID) (workspace_memberships db)
      then Inl (UniqueViolation ''workspace_memberships_workspace_user_unique'')
      else Inr ((), db\<lparr>workspace_memberships := workspace_memberships db @
             [\<lparr>wm_workspace_id = workspaceID, wm_user_id = userID, wm_role = role, wm_status = ''Active'',
               wm_version = 1, wm_created_at = now, wm_updated_at = now\<rparr>]\<rparr>))"

definition createWorkspaceForCluster ::
    "time \<Rightarrow> int \<Rightarrow> int \<Rightarrow> string \<Rightarrow> string \<Rightarrow> string \<Rightarrow> string \<Rightarrow> string \<Rightarrow> (Workspace \<times> Operation \<times> bool) tx" where
  "createWorkspaceForCluster now userID clusterID publicID operationID name idempotencyHash payloadHash db =
     (case queries_FindWorkspaceOperationByIdempotency db userID idempotencyHash of
        Inr existing \<Rightarrow>
          if o_payload_hash existing \<noteq> payloadHash then Inl ErrConflict
          else (case queries_GetWorkspaceByID db (o_workspace_id existing) of
                  Inl err \<Rightarrow> Inl err
                | Inr workspace \<Rightarrow> Inr ((workspace, operationValue existing, True), db))
      | Inl _ \<Rightarrow>
     (case queries_InsertWorkspace now publicID name publicID db of
        Inl err \<Rightarrow> Inl (hierarchyWriteError err)
      | Inr (workspace, db1) \<Rightarrow>
     (case insert_membership now (ws_ID workspace) userID ''Owner'' db1 of
        Inl err \<Rightarrow> Inl err
      | Inr (_, db2) \<Rightarrow>
     (case insert_workspace_cluster now (ws_ID workspace) clusterID (ws_Namespace workspace) db2 of
        Inl err \<Rightarrow> Inl err
      | Inr (_, db3) \<Rightarrow>
     (case queries_InsertWorkspaceOperation now operationID (ws_ID workspace) userID clusterID
             idempotencyHash payloadHash db3 of
        Inl err \<Rightarrow> Inl (hierarchyWriteError err)
      | Inr (operation, db4) \<Rightarrow> Inr ((workspace, operationValue operation, False), db4))))))"

definition CreateWorkspace ::
    "time \<Rightarrow> int \<Rightarrow> string \<Rightarrow> string \<Rightarrow> string \<Rightarrow> string \<Rightarrow> string \<Rightarrow> (Workspace \<times> Operation \<times> bool) tx" where
  "CreateWorkspace now userID publicID operationID name idempotencyHash payloadHash db =
     (case activeAgentInstallationID db of
        Inl err \<Rightarrow> Inl err
      | Inr clusterID \<Rightarrow>
          createWorkspaceForCluster now userID clusterID publicID operationID name idempotencyHash payloadHash db)"

definition CreateWorkspaceOnCluster ::
    "time \<Rightarrow> int \<Rightarrow> string \<Rightarrow> string \<Rightarrow> string \<Rightarrow> string \<Rightarrow> string \<Rightarrow> string \<Rightarrow> (Workspace \<times> Operation \<times> bool) tx" where
  "CreateWorkspaceOnCluster now userID clusterPublicID publicID operationID name idempotencyHash payloadHash db =
     (case clusterByPublicID db clusterPublicID of
        Inl err \<Rightarrow> Inl err
      | Inr clusterID \<Rightarrow>
          createWorkspaceForCluster now userID clusterID publicID operationID name idempotencyHash payloadHash db)"

definition UpdateWorkspace :: "time \<Rightarrow> int \<Rightarrow> int \<Rightarrow> string \<Rightarrow> Workspace tx" where
  "UpdateWorkspace now workspaceID version name db =
     (case queries_UpdateWorkspaceName now workspaceID version name db of
        Inl ErrNoRows \<Rightarrow> Inl ErrVersionConflict
      | r \<Rightarrow> r)"

definition WorkspaceForUser :: "database \<Rightarrow> int \<Rightarrow> store_error + Workspace" where
  "WorkspaceForUser db userID = queries_GetWorkspaceForUser db userID"

section \<open>Placement of a workspace on a cluster\<close>

record WorkspaceCluster =
  wcl_ClusterID :: string
  wcl_ClusterName :: string
  wcl_Namespace :: string
  wcl_State :: string
  wcl_Message :: string
  wcl_ObservedGeneration :: int
  wcl_CreatedAt :: time
  wcl_UpdatedAt :: time

definition scanWorkspaceCluster :: "AgentInstallationRow \<Rightarrow> WorkspaceClusterRow \<Rightarrow> WorkspaceCluster" where
  "scanWorkspaceCluster i wc =
     \<lparr>wcl_ClusterID = ai_public_id i, wcl_ClusterName = ai_name i, wcl_Namespace = wc_namespace_name wc,
      wcl_State = wc_state wc, wcl_Message = wc_message wc, wcl_ObservedGeneration = wc_observed_generation wc,
      wcl_CreatedAt = wc_created_at wc, wcl_UpdatedAt = wc_updated_at wc\<rparr>"

definition ListWorkspaceClusters :: "database \<Rightarrow> int \<Rightarrow> WorkspaceCluster list" where
  "ListWorkspaceClusters db workspaceID =
     map (\<lambda>(i, wc). scanWorkspaceCluster i wc)
       (sort_key (\<lambda>(i, wc). ai_id i)
         [(i, wc). wc \<leftarrow> workspace_clusters db, i \<leftarrow> agent_installations db,
                   wc_workspace_id wc = workspaceID \<and> ai_id i = wc_installation_id wc])"

definition workspaceClusterByOperation :: "database \<Rightarrow> int \<Rightarrow> store_error + WorkspaceCluster" where
  "workspaceClusterByOperation db operationID =
     (case [(i, wc). o' \<leftarrow> operations db, wc \<leftarrow> workspace_clusters db, i \<leftarrow> agent_installations db,
              o_id o' = operationID \<and> wc_workspace_id wc = o_workspace_id o'
              \<and> o_agent_installation_id o' = Some (wc_installation_id wc) \<and> ai_id i = wc_installation_id wc] of
        [] \<Rightarrow> Inl ErrNoRows
      | (i, wc) # _ \<Rightarrow> Inr (scanWorkspaceCluster i wc))"

definition AttachWorkspaceCluster ::
    "time \<Rightarrow> int \<Rightarrow> int \<Rightarrow> string \<Rightarrow> string \<Rightarrow> string \<Rightarrow> string \<Rightarrow> (WorkspaceCluster \<times> Operation \<times> bool) tx" where
  "AttachWorkspaceCluster now workspaceID actorID clusterPublicID operationPublicID idempotencyHash payloadHash db =
     (case operationByIdempotency db workspaceID actorID idempotencyHash payloadHash of
        Inl err \<Rightarrow> Inl err
      | Inr (Some existing) \<Rightarrow>
          (case workspaceClusterByOperation db (op_ID existing) of
             Inl err \<Rightarrow> Inl err
           | Inr binding \<Rightarrow> Inr ((binding, existing, True), db))
      | Inr None \<Rightarrow>
     (case (query_row (\<lambda>i. ai_public_id i = clusterPublicID \<and> ai_status i = ''Active'') (agent_installations db),
            query_row (\<lambda>w. ws_ID w = workspaceID) (workspaces db)) of
        (Inr i, Inr w) \<Rightarrow>
          (case insert_workspace_cluster now workspaceID (ai_id i) (ws_Namespace w) db of
             Inl err \<Rightarrow> if uniqueConstraint err \<noteq> '''' then Inl ErrConflict else Inl err
           | Inr (wc, db1) \<Rightarrow>
          (case queries_InsertWorkspaceOperation now operationPublicID workspaceID actorID (ai_id i)
                  idempotencyHash payloadHash db1 of
             Inl err \<Rightarrow> Inl (translateDBError err)
           | Inr (operation, db2) \<Rightarrow>
               Inr ((scanWorkspaceCluster i wc,
                     (inserted_operation actorID operation)\<lparr>op_ClusterID := ai_id i\<rparr>, False), db2)))
      | _ \<Rightarrow> Inl ErrAgentUnavailable))"

section \<open>Projects\<close>

definition CreateProject :: "time \<Rightarrow> int \<Rightarrow> string \<Rightarrow> string \<Rightarrow> string \<Rightarrow> Project tx" where
  "CreateProject now workspaceID publicID name nameKey db =
     (case queries_CreateProject now publicID workspaceID name nameKey db of
        Inl err \<Rightarrow> Inl (hierarchyWriteError err)
      | Inr (row, db') \<Rightarrow> Inr (projectValue row, db'))"

definition FindProject :: "database \<Rightarrow> int \<Rightarrow> string \<Rightarrow> store_error + Project" where
  "FindProject db workspaceID publicID =
     (case queries_FindProject db workspaceID publicID of
        Inl ErrNoRows \<Rightarrow> Inl ErrNotFound
      | Inl err \<Rightarrow> Inl err
      | Inr row \<Rightarrow> Inr (projectValue row))"

definition ListProjects :: "database \<Rightarrow> int \<Rightarrow> int \<Rightarrow> int \<Rightarrow> bool \<Rightarrow> store_error + (Project list \<times> string)" where
  "ListProjects db workspaceID beforeID limit includeArchived =
     list_result pj_ID limit
       (map_sum id (map projectValue)
         (queries_ListProjects db workspaceID (before_or_max beforeID) (int32 (limit + 1)) includeArchived))"

definition UpdateProject :: "time \<Rightarrow> int \<Rightarrow> string \<Rightarrow> int \<Rightarrow> string \<Rightarrow> string \<Rightarrow> Project tx" where
  "UpdateProject now workspaceID publicID version name nameKey db =
     (case FindProject db workspaceID publicID of
        Inl err \<Rightarrow> Inl err
      | Inr _ \<Rightarrow>
          (case queries_UpdateProject now workspaceID publicID version name nameKey db of
             Inl ErrNoRows \<Rightarrow> Inl ErrVersionConflict
           | Inl err \<Rightarrow> Inl (hierarchyWriteError err)
           | Inr (row, db') \<Rightarrow> Inr (projectValue row, db')))"

definition ArchiveProject :: "time \<Rightarrow> int \<Rightarrow> string \<Rightarrow> int \<Rightarrow> Project tx" where
  "ArchiveProject now workspaceID publicID version db =
     (case queries_FindActiveProjectForUpdate db workspaceID publicID of
        Inl ErrNoRows \<Rightarrow>
          (case queries_FindProject db workspaceID publicID of
             Inl ErrNoRows \<Rightarrow> Inl ErrNotFound
           | _ \<Rightarrow> Inl ErrVersionConflict)
      | Inl err \<Rightarrow> Inl err
      | Inr current \<Rightarrow>
          if prj_version current \<noteq> version then Inl ErrVersionConflict
          else (case queries_ArchiveProject now workspaceID publicID version db of
                  Inl ErrNoRows \<Rightarrow> Inl ErrDependencyConflict
                | Inl err \<Rightarrow> Inl err
                | Inr (row, db') \<Rightarrow> Inr (projectValue row, db')))"

section \<open>Environments\<close>

definition CreateEnvironment :: "time \<Rightarrow> int \<Rightarrow> string \<Rightarrow> string \<Rightarrow> string \<Rightarrow> string \<Rightarrow> Environment tx" where
  "CreateEnvironment now workspaceID projectPublicID publicID name nameKey db =
     (case queries_FindActiveProjectForUpdate db workspaceID projectPublicID of
        Inl ErrNoRows \<Rightarrow> Inl ErrNotFound
      | Inl err \<Rightarrow> Inl err
      | Inr project \<Rightarrow>
          (case queries_CreateEnvironment now publicID (prj_id project) name nameKey db of
             Inl err \<Rightarrow> Inl (hierarchyWriteError err)
           | Inr (row, db') \<Rightarrow> Inr (environmentValue row, db')))"

definition FindEnvironment :: "database \<Rightarrow> int \<Rightarrow> string \<Rightarrow> string \<Rightarrow> store_error + Environment" where
  "FindEnvironment db workspaceID projectPublicID publicID =
     (case queries_FindEnvironment db workspaceID projectPublicID publicID of
        Inl ErrNoRows \<Rightarrow> Inl ErrNotFound
      | Inl err \<Rightarrow> Inl err
      | Inr row \<Rightarrow> Inr (environmentValue row))"

definition ListEnvironments ::
    "database \<Rightarrow> int \<Rightarrow> string \<Rightarrow> int \<Rightarrow> int \<Rightarrow> bool \<Rightarrow> store_error + (Environment list \<times> string)" where
  "ListEnvironments db workspaceID projectPublicID beforeID limit includeArchived =
     list_result en_ID limit
       (map_sum id (map environmentValue)
         (queries_ListEnvironments db workspaceID projectPublicID (before_or_max beforeID) (int32 (limit + 1))
            includeArchived))"

definition UpdateEnvironment ::
    "time \<Rightarrow> int \<Rightarrow> string \<Rightarrow> string \<Rightarrow> int \<Rightarrow> string \<Rightarrow> string \<Rightarrow> Environment tx" where
  "UpdateEnvironment now workspaceID projectPublicID publicID version name nameKey db =
     (case FindEnvironment db workspaceID projectPublicID publicID of
        Inl err \<Rightarrow> Inl err
      | Inr _ \<Rightarrow>
          (case queries_UpdateEnvironment now workspaceID projectPublicID publicID version name nameKey db of
             Inl ErrNoRows \<Rightarrow> Inl ErrVersionConflict
           | Inl err \<Rightarrow> Inl (hierarchyWriteError err)
           | Inr (row, db') \<Rightarrow> Inr (environmentValue row, db')))"

definition ArchiveEnvironment :: "time \<Rightarrow> int \<Rightarrow> string \<Rightarrow> string \<Rightarrow> int \<Rightarrow> Environment tx" where
  "ArchiveEnvironment now workspaceID projectPublicID publicID version db =
     (case queries_FindActiveEnvironmentForUpdate db workspaceID projectPublicID publicID of
        Inl ErrNoRows \<Rightarrow>
          (case queries_FindEnvironment db workspaceID projectPublicID publicID of
             Inl ErrNoRows \<Rightarrow> Inl ErrNotFound
           | _ \<Rightarrow> Inl ErrVersionConflict)
      | Inl err \<Rightarrow> Inl err
      | Inr current \<Rightarrow>
          if env_version current \<noteq> version then Inl ErrVersionConflict
          else (case queries_ArchiveEnvironment now workspaceID projectPublicID publicID version db of
                  Inl ErrNoRows \<Rightarrow> Inl ErrDependencyConflict
                | Inl err \<Rightarrow> Inl err
                | Inr (row, db') \<Rightarrow> Inr (environmentValue row, db')))"

section \<open>Apps\<close>

definition CreateApp :: "time \<Rightarrow> int \<Rightarrow> string \<Rightarrow> string \<Rightarrow> string \<Rightarrow> string \<Rightarrow> App tx" where
  "CreateApp now workspaceID projectPublicID publicID name nameKey db =
     (case queries_FindActiveProjectForUpdate db workspaceID projectPublicID of
        Inl ErrNoRows \<Rightarrow> Inl ErrNotFound
      | Inl err \<Rightarrow> Inl err
      | Inr project \<Rightarrow>
          (case queries_CreateApp now publicID (prj_id project) name nameKey db of
             Inl err \<Rightarrow> Inl (hierarchyWriteError err)
           | Inr (row, db') \<Rightarrow> Inr (appValue row, db')))"

definition FindApp :: "database \<Rightarrow> int \<Rightarrow> string \<Rightarrow> string \<Rightarrow> store_error + App" where
  "FindApp db workspaceID projectPublicID publicID =
     (case queries_FindApp db workspaceID projectPublicID publicID of
        Inl ErrNoRows \<Rightarrow> Inl ErrNotFound
      | Inl err \<Rightarrow> Inl err
      | Inr row \<Rightarrow> Inr (appValue row))"

definition ListApps ::
    "database \<Rightarrow> int \<Rightarrow> string \<Rightarrow> int \<Rightarrow> int \<Rightarrow> bool \<Rightarrow> store_error + (App list \<times> string)" where
  "ListApps db workspaceID projectPublicID beforeID limit includeArchived =
     list_result ap_ID limit
       (map_sum id (map appValue)
         (queries_ListApps db workspaceID projectPublicID (before_or_max beforeID) (int32 (limit + 1)) includeArchived))"

definition UpdateApp :: "time \<Rightarrow> int \<Rightarrow> string \<Rightarrow> string \<Rightarrow> int \<Rightarrow> string \<Rightarrow> string \<Rightarrow> App tx" where
  "UpdateApp now workspaceID projectPublicID publicID version name nameKey db =
     (case FindApp db workspaceID projectPublicID publicID of
        Inl err \<Rightarrow> Inl err
      | Inr _ \<Rightarrow>
          (case queries_UpdateApp now workspaceID projectPublicID publicID version name nameKey db of
             Inl ErrNoRows \<Rightarrow> Inl ErrVersionConflict
           | Inl err \<Rightarrow> Inl (hierarchyWriteError err)
           | Inr (row, db') \<Rightarrow> Inr (appValue row, db')))"

definition ArchiveApp :: "time \<Rightarrow> int \<Rightarrow> string \<Rightarrow> string \<Rightarrow> int \<Rightarrow> App tx" where
  "ArchiveApp now workspaceID projectPublicID publicID version db =
     (case queries_FindActiveAppForUpdate db workspaceID projectPublicID publicID of
        Inl ErrNoRows \<Rightarrow>
          (case queries_FindApp db workspaceID projectPublicID publicID of
             Inl ErrNoRows \<Rightarrow> Inl ErrNotFound
           | _ \<Rightarrow> Inl ErrVersionConflict)
      | Inl err \<Rightarrow> Inl err
      | Inr current \<Rightarrow>
          if app_version current \<noteq> version then Inl ErrVersionConflict
          else (case queries_ArchiveApp now workspaceID projectPublicID publicID version db of
                  Inl ErrNoRows \<Rightarrow> Inl ErrDependencyConflict
                | Inl err \<Rightarrow> Inl err
                | Inr (row, db') \<Rightarrow> Inr (appValue row, db')))"

section \<open>Active resources have active owners\<close>

named_theorems hierarchy_steps \<open>operations that keep the hierarchy well-formed\<close>

definition children_active ::
    "('p \<Rightarrow> int) \<Rightarrow> ('p \<Rightarrow> time option) \<Rightarrow> ('c \<Rightarrow> int) \<Rightarrow> ('c \<Rightarrow> time option) \<Rightarrow> 'p list \<Rightarrow> 'c list \<Rightarrow> bool" where
  "children_active pk pa own ca ps cs \<longleftrightarrow> (\<forall>c\<in>set cs. ca c = None \<longrightarrow> (\<exists>p\<in>set ps. pk p = own c \<and> pa p = None))"

lemma children_parent_append: "children_active pk pa own ca ps cs \<Longrightarrow> children_active pk pa own ca (ps @ [p]) cs"
  by (fastforce simp: children_active_def)

lemma children_parent_update:
  assumes "children_active pk pa own ca ps cs" and "\<And>p. pk (f p) = pk p" "\<And>p. pa (f p) = pa p"
  shows "children_active pk pa own ca (sql_update q f ps) cs"
  using assms unfolding children_active_def by (auto intro!: sql_update_bex)

lemma children_parent_archive:
  assumes "children_active pk pa own ca ps cs" and "set ps' = insert p' {y \<in> set ps. y \<noteq> x}"
    and "\<forall>c\<in>set cs. own c = pk x \<longrightarrow> ca c \<noteq> None"
  shows "children_active pk pa own ca ps' cs"
  using assms unfolding children_active_def by (metis (mono_tags, lifting) insert_iff mem_Collect_eq)

lemma children_append:
  "children_active pk pa own ca ps cs \<Longrightarrow> p \<in> set ps \<Longrightarrow> pk p = own c \<Longrightarrow> pa p = None \<Longrightarrow>
   children_active pk pa own ca ps (cs @ [c])"
  by (fastforce simp: children_active_def)

lemma children_update:
  assumes "children_active pk pa own ca ps cs" and "\<And>c. own (f c) = own c" and "\<forall>c. ca (f c) = None \<longrightarrow> ca c = None"
  shows "children_active pk pa own ca ps (sql_update q f cs)"
  using assms(1,3) by (auto simp: children_active_def in_sql_update assms(2) split: if_splits)

definition hierarchy_wf :: "database \<Rightarrow> bool" where
  "hierarchy_wf db \<longleftrightarrow>
     0 < projects_seq db \<and> 0 < environments_seq db \<and> 0 < apps_seq db
     \<and> prj_table.wf (projects_seq db) (projects db)
     \<and> env_table.wf (environments_seq db) (environments db)
     \<and> app_table.wf (apps_seq db) (apps db)
     \<and> children_active prj_id prj_archived_at env_project_id env_archived_at (projects db) (environments db)
     \<and> children_active prj_id prj_archived_at app_project_id app_archived_at (projects db) (apps db)
     \<and> children_active env_id env_archived_at aer_environment_id aer_archived_at (environments db) (app_environments db)
     \<and> children_active app_id app_archived_at aer_app_id aer_archived_at (apps db) (app_environments db)"

lemma CreateProject_hierarchy [hierarchy_steps]:
  assumes "CreateProject now w pid n k db = Inr (r, db')" and "hierarchy_wf db"
  shows "hierarchy_wf db'"
proof -
  obtain row where row: "queries_CreateProject now pid w n k db = Inr (row, db')"
    using assms(1) by (auto simp: CreateProject_def split: sum.splits)
  have "prj_table.wf (projects_seq db') (projects db')"
    using assms(2) CreateProject_row(6) [OF row] by (simp add: hierarchy_wf_def)
  then show ?thesis
    using assms(2) unfolding CreateProject_row(1) [OF row]
    by (simp add: hierarchy_wf_def children_parent_append)
qed

lemma UpdateProject_hierarchy [hierarchy_steps]:
  assumes "UpdateProject now w pid v n k db = Inr (r, db')" and "hierarchy_wf db"
  shows "hierarchy_wf db'"
proof -
  obtain row where "queries_UpdateProject now w pid v n k db = Inr (row, db')"
    using assms(1) by (auto simp: UpdateProject_def split: sum.splits store_error.splits)
  then obtain x p where x: "prj_table.hits p (projects db) x" "prj_table.name_free (projects db) (prj_id x) (prj_workspace_id x) k"
    and db': "db' = db\<lparr>projects := sql_update p (rename_project now n k) (projects db)\<rparr>"
    by (rule UpdateProject_row) blast
  show ?thesis
    using assms(2) x unfolding db' hierarchy_wf_def
    by (simp add: prj_table.wf_rename children_parent_update prj_table.rename_keeps)
qed

lemma ArchiveProject_hierarchy [hierarchy_steps]:
  assumes "ArchiveProject now w pid v db = Inr (r, db')" and "hierarchy_wf db"
  shows "hierarchy_wf db'"
proof -
  obtain row where "queries_ArchiveProject now w pid v db = Inr (row, db')"
    using assms(1) by (auto simp: ArchiveProject_def split: sum.splits store_error.splits if_splits)
  then obtain x p where x: "prj_table.hits p (projects db) x"
    and free: "\<forall>e\<in>set (environments db). env_project_id e = prj_id x \<longrightarrow> env_archived_at e \<noteq> None"
      "\<forall>a\<in>set (apps db). app_project_id a = prj_id x \<longrightarrow> app_archived_at a \<noteq> None"
    and db': "db' = db\<lparr>projects := sql_update p (archive_project now) (projects db)\<rparr>"
    by (rule ArchiveProject_row) blast
  have w: "prj_table.wf (projects_seq db) (projects db)" using assms(2) by (simp add: hierarchy_wf_def)
  note set = prj_table.update_set [OF w x, of "archive_project now"]
  show ?thesis
    using assms(2) prj_table.wf_archive [OF w x] unfolding db' hierarchy_wf_def
    by (simp add: children_parent_archive [OF _ set] free)
qed

lemma active_project_found:
  assumes "queries_FindActiveProjectForUpdate db w prj = Inr p"
  shows "p \<in> set (projects db)" and "prj_archived_at p = None"
  using query_row_Inr [OF assms [unfolded queries_FindActiveProjectForUpdate_def]] by simp_all

lemma CreateEnvironment_hierarchy [hierarchy_steps]:
  assumes "CreateEnvironment now w prj pid n k db = Inr (r, db')" and "hierarchy_wf db"
  shows "hierarchy_wf db'"
proof -
  obtain p row where p: "queries_FindActiveProjectForUpdate db w prj = Inr p"
    and row: "queries_CreateEnvironment now pid (prj_id p) n k db = Inr (row, db')"
    using assms(1) by (auto simp: CreateEnvironment_def split: sum.splits store_error.splits)
  have "env_table.wf (environments_seq db') (environments db')"
    using assms(2) CreateEnvironment_row(6) [OF row] by (simp add: hierarchy_wf_def)
  then show ?thesis
    using assms(2) active_project_found [OF p] CreateEnvironment_row(5) [OF row] unfolding CreateEnvironment_row(1) [OF row]
    by (simp add: hierarchy_wf_def children_parent_append children_append)
qed

lemma UpdateEnvironment_hierarchy [hierarchy_steps]:
  assumes "UpdateEnvironment now w prj pid v n k db = Inr (r, db')" and "hierarchy_wf db"
  shows "hierarchy_wf db'"
proof -
  obtain row where "queries_UpdateEnvironment now w prj pid v n k db = Inr (row, db')"
    using assms(1) by (auto simp: UpdateEnvironment_def split: sum.splits store_error.splits)
  then obtain x p where x: "env_table.hits p (environments db) x"
      "env_table.name_free (environments db) (env_id x) (env_project_id x) k"
    and db': "db' = db\<lparr>environments := sql_update p (rename_environment now n k) (environments db)\<rparr>"
    by (rule UpdateEnvironment_row) blast
  show ?thesis
    using assms(2) x unfolding db' hierarchy_wf_def
    by (simp add: env_table.wf_rename children_parent_update children_update env_table.rename_keeps)
qed

lemma ArchiveEnvironment_hierarchy [hierarchy_steps]:
  assumes "ArchiveEnvironment now w prj pid v db = Inr (r, db')" and "hierarchy_wf db"
  shows "hierarchy_wf db'"
proof -
  obtain row where "queries_ArchiveEnvironment now w prj pid v db = Inr (row, db')"
    using assms(1) by (auto simp: ArchiveEnvironment_def split: sum.splits store_error.splits if_splits)
  then obtain x p where x: "env_table.hits p (environments db) x"
    and free: "\<forall>ae\<in>set (app_environments db). aer_environment_id ae = env_id x \<longrightarrow> aer_archived_at ae \<noteq> None"
    and db': "db' = db\<lparr>environments := sql_update p (archive_environment now) (environments db)\<rparr>"
    by (rule ArchiveEnvironment_row) blast
  have w: "env_table.wf (environments_seq db) (environments db)" using assms(2) by (simp add: hierarchy_wf_def)
  note set = env_table.update_set [OF w x, of "archive_environment now"]
  show ?thesis
    using assms(2) env_table.wf_archive [OF w x] unfolding db' hierarchy_wf_def
    by (simp add: children_parent_archive [OF _ set] free children_update env_table.archive_keeps env_table.archive_sets)
qed

lemma CreateApp_hierarchy [hierarchy_steps]:
  assumes "CreateApp now w prj pid n k db = Inr (r, db')" and "hierarchy_wf db"
  shows "hierarchy_wf db'"
proof -
  obtain p row where p: "queries_FindActiveProjectForUpdate db w prj = Inr p"
    and row: "queries_CreateApp now pid (prj_id p) n k db = Inr (row, db')"
    using assms(1) by (auto simp: CreateApp_def split: sum.splits store_error.splits)
  have "app_table.wf (apps_seq db') (apps db')"
    using assms(2) CreateApp_row(6) [OF row] by (simp add: hierarchy_wf_def)
  then show ?thesis
    using assms(2) active_project_found [OF p] CreateApp_row(5) [OF row] unfolding CreateApp_row(1) [OF row]
    by (simp add: hierarchy_wf_def children_parent_append children_append)
qed

lemma UpdateApp_hierarchy [hierarchy_steps]:
  assumes "UpdateApp now w prj pid v n k db = Inr (r, db')" and "hierarchy_wf db"
  shows "hierarchy_wf db'"
proof -
  obtain row where "queries_UpdateApp now w prj pid v n k db = Inr (row, db')"
    using assms(1) by (auto simp: UpdateApp_def split: sum.splits store_error.splits)
  then obtain x p where x: "app_table.hits p (apps db) x"
      "app_table.name_free (apps db) (app_id x) (app_project_id x) k"
    and db': "db' = db\<lparr>apps := sql_update p (rename_app now n k) (apps db)\<rparr>"
    by (rule UpdateApp_row) blast
  show ?thesis
    using assms(2) x unfolding db' hierarchy_wf_def
    by (simp add: app_table.wf_rename children_parent_update children_update app_table.rename_keeps)
qed

lemma ArchiveApp_hierarchy [hierarchy_steps]:
  assumes "ArchiveApp now w prj pid v db = Inr (r, db')" and "hierarchy_wf db"
  shows "hierarchy_wf db'"
proof -
  obtain row where "queries_ArchiveApp now w prj pid v db = Inr (row, db')"
    using assms(1) by (auto simp: ArchiveApp_def split: sum.splits store_error.splits if_splits)
  then obtain x p where x: "app_table.hits p (apps db) x"
    and free: "\<forall>ae\<in>set (app_environments db). aer_app_id ae = app_id x \<longrightarrow> aer_archived_at ae \<noteq> None"
    and db': "db' = db\<lparr>apps := sql_update p (archive_app now) (apps db)\<rparr>"
    by (rule ArchiveApp_row) blast
  have w: "app_table.wf (apps_seq db) (apps db)" using assms(2) by (simp add: hierarchy_wf_def)
  note set = app_table.update_set [OF w x, of "archive_app now"]
  show ?thesis
    using assms(2) app_table.wf_archive [OF w x] unfolding db' hierarchy_wf_def
    by (simp add: children_parent_archive [OF _ set] free children_update app_table.archive_keeps app_table.archive_sets)
qed

section \<open>Effects on the operation queue\<close>

lemma insert_workspace_frame:
  "queries_InsertWorkspace now pid n ns db = Inr (w, db') \<Longrightarrow>
     db' = db\<lparr>workspaces := workspaces db @ [w], workspaces_seq := workspaces_seq db + 1\<rparr>
     \<and> ws_ID w = workspaces_seq db \<and> ws_PublicID w = pid \<and> ws_Name w = n \<and> ws_Namespace w = ns"
  "insert_membership now i u r db = Inr (x, db') \<Longrightarrow> \<exists>m. db' = db\<lparr>workspace_memberships := workspace_memberships db @ [m]\<rparr>"
  "insert_workspace_cluster now i c ns db = Inr (wc, db') \<Longrightarrow> db' = db\<lparr>workspace_clusters := workspace_clusters db @ [wc]\<rparr>"
  by (auto simp: queries_InsertWorkspace_def insert_membership_def insert_workspace_cluster_def Let_def split: if_splits)

lemma InsertWorkspaceOperation_row:
  assumes "queries_InsertWorkspaceOperation now pid w u c ih ph db = Inr (r, db')"
  shows "db' = db\<lparr>operations := operations db @ [r], operations_seq := operations_seq db + 1\<rparr>"
    and "o_id r = operations_seq db" and "o_status r = OperationPending" and "o_kind r = OperationEnsureWorkspace"
    and "o_requested_by_user_id r = Some u" and "o_idempotency_hash r = ih" and "o_payload_hash r = ph"
    and "o_workspace_id r = w" and "o_app_environment_id r = None" and "o_deployment_id r = None"
proof -
  obtain p where "insert_operation_row ((pending_operation now w p OperationEnsureWorkspace ih ph 1 c)
      \<lparr>o_public_id := pid, o_requested_by_user_id := Some u\<rparr>) db = Inr (r, db')"
    using assms by (auto simp: queries_InsertWorkspaceOperation_def split: sum.splits)
  note row = insert_operation_row_Inr [OF this]
  show "db' = db\<lparr>operations := operations db @ [r], operations_seq := operations_seq db + 1\<rparr>" by (rule row(2))
  show "o_id r = operations_seq db" "o_status r = OperationPending" "o_kind r = OperationEnsureWorkspace"
    "o_requested_by_user_id r = Some u" "o_idempotency_hash r = ih" "o_payload_hash r = ph"
    "o_workspace_id r = w" "o_app_environment_id r = None" "o_deployment_id r = None"
    unfolding row(1) by (simp_all add: pending_operation_def)
qed

lemma InsertWorkspaceOperation_queue [queue_steps]:
  assumes "queries_InsertWorkspaceOperation now pid w u c ih ph db = Inr (r, db')"
  shows "queue_step now db db'"
  using InsertWorkspaceOperation_row [OF assms] by (intro queue_step_insert [of db' db r]) simp_all

definition created_workspace :: "time \<Rightarrow> int \<Rightarrow> string \<Rightarrow> string \<Rightarrow> Workspace \<Rightarrow> OperationRow \<Rightarrow> database \<Rightarrow> database \<Rightarrow> bool" where
  "created_workspace now userID ih ph w r db db' \<longleftrightarrow>
     (\<exists>db3 m wc. db3 = db\<lparr>workspaces := workspaces db @ [w], workspaces_seq := workspaces_seq db + 1,
           workspace_memberships := workspace_memberships db @ [m], workspace_clusters := workspace_clusters db @ [wc]\<rparr>
        \<and> ws_ID w = workspaces_seq db
        \<and> (\<exists>pid c. queries_InsertWorkspaceOperation now pid (ws_ID w) userID c ih ph db3 = Inr (r, db')))"

lemma createWorkspace_new:
  assumes "createWorkspaceForCluster now u c pid oid n ih ph db = Inr ((w, operation, False), db')"
  obtains r where "created_workspace now u ih ph w r db db'" and "operation = operationValue r"
    and "queries_FindWorkspaceOperationByIdempotency db u ih = Inl ErrNoRows"
proof -
  obtain w' db1 db2 wc db3 r where
    none: "\<exists>e. queries_FindWorkspaceOperationByIdempotency db u ih = Inl e" and
    1: "queries_InsertWorkspace now pid n pid db = Inr (w', db1)" and
    2: "insert_membership now (ws_ID w') u ''Owner'' db1 = Inr ((), db2)" and
    3: "insert_workspace_cluster now (ws_ID w') c (ws_Namespace w') db2 = Inr (wc, db3)" and
    4: "queries_InsertWorkspaceOperation now oid (ws_ID w') u c ih ph db3 = Inr (r, db')" and
    eq: "w = w'" "operation = operationValue r"
    using assms by (auto simp: createWorkspaceForCluster_def split: sum.splits if_splits)
  obtain m where "db3 = db\<lparr>workspaces := workspaces db @ [w], workspaces_seq := workspaces_seq db + 1,
           workspace_memberships := workspace_memberships db @ [m], workspace_clusters := workspace_clusters db @ [wc]\<rparr>"
    "ws_ID w = workspaces_seq db"
    using insert_workspace_frame(1) [OF 1] insert_workspace_frame(2) [OF 2] insert_workspace_frame(3) [OF 3] eq(1)
    by auto
  then have "created_workspace now u ih ph w r db db'"
    using 4 eq(1) unfolding created_workspace_def by blast
  moreover have "queries_FindWorkspaceOperationByIdempotency db u ih = Inl ErrNoRows"
    using none by (auto simp: queries_FindWorkspaceOperationByIdempotency_def query_row_Inl)
  ultimately show thesis using that eq(2) by blast
qed

lemma createWorkspace_replay:
  "createWorkspaceForCluster now u c pid oid n ih ph db = Inr ((w, operation, True), db') \<Longrightarrow> db' = db"
  by (auto simp: createWorkspaceForCluster_def split: sum.splits if_splits)

lemma createWorkspaceForCluster_queue [queue_steps]:
  assumes "createWorkspaceForCluster now u c pid oid n ih ph db = Inr (res, db')"
  shows "queue_step now db db'"
proof -
  obtain w operation b where res: "res = (w, operation, b)" by (cases res)
  show ?thesis
  proof (cases b)
    case True
    then show ?thesis using createWorkspace_replay assms res by (metis queue_step_refl)
  next
    case False
    then obtain r where "created_workspace now u ih ph w r db db'"
      using createWorkspace_new assms res by metis
    then obtain db3 m wc pid c where db3: "db3 = db\<lparr>workspaces := workspaces db @ [w], workspaces_seq := workspaces_seq db + 1,
           workspace_memberships := workspace_memberships db @ [m], workspace_clusters := workspace_clusters db @ [wc]\<rparr>"
      and op: "queries_InsertWorkspaceOperation now pid (ws_ID w) u c ih ph db3 = Inr (r, db')"
      unfolding created_workspace_def by blast
    have "same_queue db db3" unfolding db3 by (simp add: same_queue_def)
    also note InsertWorkspaceOperation_queue [OF op]
    finally show ?thesis .
  qed
qed

lemma CreateWorkspace_queue [queue_steps]:
  "CreateWorkspace now u pid oid n ih ph db = Inr (res, db') \<Longrightarrow> queue_step now db db'"
  "CreateWorkspaceOnCluster now u cpid pid oid n ih ph db = Inr (res, db') \<Longrightarrow> queue_step now db db'"
  by (auto simp: CreateWorkspace_def CreateWorkspaceOnCluster_def split: sum.splits elim: createWorkspaceForCluster_queue)

lemma AttachWorkspaceCluster_queue [queue_steps]:
  assumes "AttachWorkspaceCluster now w u cpid oid ih ph db = Inr (res, db')"
  shows "queue_step now db db'"
proof (cases "operationByIdempotency db w u ih ph")
  case (Inr found)
  show ?thesis
  proof (cases found)
    case (Some existing)
    then show ?thesis using assms Inr by (auto simp: AttachWorkspaceCluster_def split: sum.splits)
  next
    case None
    then obtain c ns wc db1 r where
      wc: "insert_workspace_cluster now w c ns db = Inr (wc, db1)" and
      op: "queries_InsertWorkspaceOperation now oid w u c ih ph db1 = Inr (r, db')"
      using assms Inr by (auto simp: AttachWorkspaceCluster_def split: sum.splits if_splits)
    have "same_queue db db1" using insert_workspace_frame(3) [OF wc] by (simp add: same_queue_def)
    also note InsertWorkspaceOperation_queue [OF op]
    finally show ?thesis .
  qed
qed (use assms in \<open>simp add: AttachWorkspaceCluster_def\<close>)

section \<open>Listings\<close>

lemma page_of_map: "page_of ident limit (map f rows) = map_prod (map f) id (page_of (ident \<circ> f) limit rows)"
  by (auto simp: page_of_def take_map)

lemma list_result_page:
  assumes "0 < before" and "1 \<le> limit" "limit \<le> 100"
  shows "list_result ident limit (map_sum id (map f) (limit_rows (int32 (limit + 1))
           (select_page key p (before_or_max before) (int32 (limit + 1)) rows)))
         = Inr (page_of ident limit (map f (filter (\<lambda>r. key r < before) (listed_before key p rows))))"
proof -
  have n: "int32 (limit + 1) = limit + 1" using assms by (intro int32_id) simp_all
  let ?xs = "filter (\<lambda>r. key r < before) (listed_before key p rows)"
  have "page_loop ident limit 0 [] (map f (take (nat (limit + 1)) ?xs))
      = Some (page_of ident limit (map f (take (nat (limit + 1)) ?xs)))"
    using page_loop_rows [of 0 "[]" limit ident "map f (take (nat (limit + 1)) ?xs)"] assms by simp
  also have "\<dots> = Some (page_of ident limit (map f ?xs))"
    using page_of_take [of limit ident "map f ?xs"] assms by (simp add: take_map)
  finally show ?thesis
    using assms by (simp add: list_result_def limit_rows_def n select_page_listed before_or_max_def)
qed

lemma filter_map_ident: "filter (\<lambda>x. ident x < (b::int)) (map f rows) = map f (filter (\<lambda>r. ident (f r) < b) rows)"
  by (simp add: filter_map comp_def)

lemma sorted_map_ident: "sorted_wrt (\<lambda>x y. ident y < (ident x::int)) (map f rows) = sorted_wrt (\<lambda>r q. ident (f q) < ident (f r)) rows"
  by (simp add: sorted_wrt_map)

lemmas value_ids = projectValue_def environmentValue_def appValue_def

text \<open>Identifiers in the range of a cursor.\<close>

definition ids_in_range :: "database \<Rightarrow> bool" where
  "ids_in_range db \<longleftrightarrow> hierarchy_wf db \<and> projects_seq db < MaxInt64 \<and> environments_seq db < MaxInt64 \<and> apps_seq db < MaxInt64"

definition visible_projects :: "int \<Rightarrow> bool \<Rightarrow> database \<Rightarrow> Project list" where
  "visible_projects workspaceID includeArchived db =
     map projectValue (listed_before prj_id
       (\<lambda>p. prj_workspace_id p = workspaceID \<and> (includeArchived \<or> prj_archived_at p = None)) (projects db))"

definition visible_environments :: "int \<Rightarrow> string \<Rightarrow> bool \<Rightarrow> database \<Rightarrow> Environment list" where
  "visible_environments workspaceID projectPublicID includeArchived db =
     map environmentValue (listed_before env_id
       (\<lambda>e. in_project db workspaceID projectPublicID (env_project_id e)
            \<and> (includeArchived \<or> env_archived_at e = None)) (environments db))"

definition visible_apps :: "int \<Rightarrow> string \<Rightarrow> bool \<Rightarrow> database \<Rightarrow> App list" where
  "visible_apps workspaceID projectPublicID includeArchived db =
     map appValue (listed_before app_id
       (\<lambda>a. in_project db workspaceID projectPublicID (app_project_id a)
            \<and> (includeArchived \<or> app_archived_at a = None)) (apps db))"

interpretation project_pages: paged_listing ids_in_range
  "\<lambda>db before limit. ListProjects db w before limit inc" pj_ID "visible_projects w inc" for w inc
proof
  fix db assume wf: "ids_in_range db"
  have keyed: "keyed_on prj_id (projects db)" using wf prj_table.wf_keyed(1) by (auto simp: ids_in_range_def hierarchy_wf_def)
  show "sorted_wrt (\<lambda>x y. pj_ID y < pj_ID x) (visible_projects w inc db)"
    using listed_desc [OF keyed] by (simp add: visible_projects_def sorted_map_ident projectValue_def)
  show "0 < pj_ID x \<and> pj_ID x < MaxInt64" if "x \<in> set (visible_projects w inc db)" for x
    using that wf prj_table.wf_range by (fastforce simp: visible_projects_def projectValue_def ids_in_range_def hierarchy_wf_def)
  show "ListProjects db w before limit inc
      = Inr (page_of pj_ID limit (filter (\<lambda>x. pj_ID x < before) (visible_projects w inc db)))"
    if "0 < before" "1 \<le> limit" "limit \<le> 100" for before limit
    using list_result_page [OF that, of pj_ID projectValue prj_id]
    by (simp add: ListProjects_def queries_ListProjects_def visible_projects_def filter_map_ident) (simp add: projectValue_def)
qed

interpretation environment_pages: paged_listing ids_in_range
  "\<lambda>db before limit. ListEnvironments db w prj before limit inc" en_ID "visible_environments w prj inc" for w prj inc
proof
  fix db assume wf: "ids_in_range db"
  have keyed: "keyed_on env_id (environments db)" using wf env_table.wf_keyed(1) by (auto simp: ids_in_range_def hierarchy_wf_def)
  show "sorted_wrt (\<lambda>x y. en_ID y < en_ID x) (visible_environments w prj inc db)"
    using listed_desc [OF keyed] by (simp add: visible_environments_def sorted_map_ident environmentValue_def)
  show "0 < en_ID x \<and> en_ID x < MaxInt64" if "x \<in> set (visible_environments w prj inc db)" for x
    using that wf env_table.wf_range by (fastforce simp: visible_environments_def environmentValue_def ids_in_range_def hierarchy_wf_def)
  show "ListEnvironments db w prj before limit inc
      = Inr (page_of en_ID limit (filter (\<lambda>x. en_ID x < before) (visible_environments w prj inc db)))"
    if "0 < before" "1 \<le> limit" "limit \<le> 100" for before limit
    using list_result_page [OF that, of en_ID environmentValue env_id]
    by (simp add: ListEnvironments_def queries_ListEnvironments_def visible_environments_def filter_map_ident)
       (simp add: environmentValue_def)
qed

interpretation app_pages: paged_listing ids_in_range
  "\<lambda>db before limit. ListApps db w prj before limit inc" ap_ID "visible_apps w prj inc" for w prj inc
proof
  fix db assume wf: "ids_in_range db"
  have keyed: "keyed_on app_id (apps db)" using wf app_table.wf_keyed(1) by (auto simp: ids_in_range_def hierarchy_wf_def)
  show "sorted_wrt (\<lambda>x y. ap_ID y < ap_ID x) (visible_apps w prj inc db)"
    using listed_desc [OF keyed] by (simp add: visible_apps_def sorted_map_ident appValue_def)
  show "0 < ap_ID x \<and> ap_ID x < MaxInt64" if "x \<in> set (visible_apps w prj inc db)" for x
    using that wf app_table.wf_range by (fastforce simp: visible_apps_def appValue_def ids_in_range_def hierarchy_wf_def)
  show "ListApps db w prj before limit inc
      = Inr (page_of ap_ID limit (filter (\<lambda>x. ap_ID x < before) (visible_apps w prj inc db)))"
    if "0 < before" "1 \<le> limit" "limit \<le> 100" for before limit
    using list_result_page [OF that, of ap_ID appValue app_id]
    by (simp add: ListApps_def queries_ListApps_def visible_apps_def filter_map_ident) (simp add: appValue_def)
qed

end
