(* ===== verification/Hierarchy_Properties.thy ===== *)
theory Hierarchy_Properties
  imports Hierarchy_Store
begin

text \<open>
  What clients of the resource hierarchy rely on: listings that end and are complete, writes
  against the current version only, and repeatable creation of workspaces.
\<close>

section \<open>Properties\<close>

text \<open>
  C15: A client that lists projects, environments or apps page by page, with any page size the
  API accepts and following each returned cursor, comes to an end and has then seen exactly the
  rows the listing is about, newest first and each once.
\<close>

theorem pages_enumerate_resources:
  assumes "ids_in_range db" and "limit = None \<or> (\<exists>l. limit = Some l \<and> 1 \<le> l \<and> l \<le> 100)"
  shows "project_pages.follow w inc (Suc (length (visible_projects w inc db))) db None limit
           = Some (visible_projects w inc db)
    \<and> environment_pages.follow w prj inc (Suc (length (visible_environments w prj inc db))) db None limit
           = Some (visible_environments w prj inc db)
    \<and> app_pages.follow w prj inc (Suc (length (visible_apps w prj inc db))) db None limit
           = Some (visible_apps w prj inc db)"
  using project_pages.follow_all [OF assms] environment_pages.follow_all [OF assms] app_pages.follow_all [OF assms]
  by simp

definition sample_id :: "string \<Rightarrow> string" where
  "sample_id prefix = prefix @ ''-aaaaaaaaaaaaaaaaaaaa''"

definition sample_projects :: database where
  "sample_projects = snd (commit (CreateProject 2 1 ''prj-bbbbbbbbbbbbbbbbbbbb'' ''Two'' ''two'')
     (snd (commit (CreateProject 1 1 (sample_id ''prj'') ''One'' ''one'') empty_database)))"

lemma empty_hierarchy: "hierarchy_wf empty_database"
  by (simp add: hierarchy_wf_def empty_database_def prj_table.wf_def env_table.wf_def app_table.wf_def
      keyed_on_def children_active_def)

lemma sample_projects_created:
  "is_ok (CreateProject 1 1 (sample_id ''prj'') ''One'' ''one'' empty_database)"
  "map pj_ID (visible_projects 1 False sample_projects) = [2, 1]"
  "projects_seq sample_projects = 3" "environments_seq sample_projects = 1" "apps_seq sample_projects = 1"
  by code_simp+

lemma commit_hierarchy:
  assumes "\<And>r db'. t db = Inr (r, db') \<Longrightarrow> hierarchy_wf db \<Longrightarrow> hierarchy_wf db'" and "hierarchy_wf db"
  shows "hierarchy_wf (snd (commit t db))"
  using assms by (cases "t db") (auto simp: commit_def)

lemma sample_projects_wf: "ids_in_range sample_projects"
proof -
  have "hierarchy_wf sample_projects" unfolding sample_projects_def
    by (intro commit_hierarchy empty_hierarchy) (auto elim: CreateProject_hierarchy)
  then show ?thesis by (simp add: ids_in_range_def sample_projects_created MaxInt64_def)
qed

theorem pages_enumerate_resources_witness:
  "project_pages.follow 1 False (Suc (length (visible_projects 1 False sample_projects))) sample_projects None (Some 1)
     = Some (visible_projects 1 False sample_projects)
   \<and> map pj_ID (visible_projects 1 False sample_projects) = [2, 1]"
  using pages_enumerate_resources [OF sample_projects_wf, of "Some 1" 1 False] sample_projects_created(2) by simp

lemma UpdateProject_stale:
  assumes "hierarchy_wf db" and "UpdateProject now w pid v n k db = Inr (r, db')"
  shows "pj_Version r = v + 1 \<and> UpdateProject now' w pid v n' k' db' = Inl ErrVersionConflict
    \<and> ArchiveProject now' w pid v db' = Inl ErrVersionConflict"
proof -
  obtain row where row: "queries_UpdateProject now w pid v n k db = Inr (row, db')" and r: "r = projectValue row"
    using assms(2) by (auto simp: UpdateProject_def split: sum.splits store_error.splits)
  from row obtain x p where x: "prj_table.hits p (projects db) x" "prj_public_id x = pid" "prj_workspace_id x = w"
      "prj_version x = v" "prj_archived_at x = None" and row: "row = rename_project now n k x"
    and db': "db' = db\<lparr>projects := sql_update p (rename_project now n k) (projects db)\<rparr>"
    by (rule UpdateProject_row)
  let ?y = "rename_project now n k x"
  have w: "prj_table.wf (projects_seq db) (projects db)" using assms(1) by (simp add: hierarchy_wf_def)
  have y: "?y \<in> set (projects db')" unfolding db' by (simp add: prj_table.update_set [OF w x(1)])
  have only: "z = ?y" if "z \<in> set (projects db')" "prj_public_id z = pid" for z
    using prj_table.renamed_version(1) [OF w x(1)] that x(2) unfolding db' by simp
  have f: "prj_public_id ?y = pid" "prj_workspace_id ?y = w" "prj_version ?y = v + 1" "prj_archived_at ?y = None"
    using x by (simp_all add: prj_table.rename_keeps prj_table.rename_sets)
  have y_only: "query_row q (projects db') = Inr ?y" if "q ?y" "\<And>z. q z \<Longrightarrow> prj_public_id z = pid" for q
    by (rule query_row_unique [where q = q]) (fact y, fact that(1), rule only, assumption, erule that(2))
  have "queries_FindProject db' w pid = Inr ?y" "queries_FindActiveProjectForUpdate db' w pid = Inr ?y"
    unfolding queries_FindProject_def queries_FindActiveProjectForUpdate_def
    using f by (rule_tac y_only; simp)+
  moreover have "queries_UpdateProject now' w pid v n' k' db' = Inl ErrNoRows"
    using only f(3) by (auto simp: queries_UpdateProject_def Let_def query_row_Inl split: sum.splits dest!: query_row_Inr)
  ultimately show ?thesis
    using f(3) r row by (simp add: UpdateProject_def ArchiveProject_def FindProject_def projectValue_def)
qed

lemma UpdateEnvironment_stale:
  assumes "hierarchy_wf db" and "UpdateEnvironment now w prj pid v n k db = Inr (r, db')"
  shows "en_Version r = v + 1 \<and> UpdateEnvironment now' w prj pid v n' k' db' = Inl ErrVersionConflict
    \<and> ArchiveEnvironment now' w prj pid v db' = Inl ErrVersionConflict"
proof -
  obtain row where row: "queries_UpdateEnvironment now w prj pid v n k db = Inr (row, db')" and r: "r = environmentValue row"
    using assms(2) by (auto simp: UpdateEnvironment_def split: sum.splits store_error.splits)
  from row obtain x p where x: "env_table.hits p (environments db) x" "env_public_id x = pid"
      "in_project db w prj (env_project_id x)" "env_version x = v" "env_archived_at x = None"
      and row: "row = rename_environment now n k x"
    and db': "db' = db\<lparr>environments := sql_update p (rename_environment now n k) (environments db)\<rparr>"
    by (rule UpdateEnvironment_row)
  let ?y = "rename_environment now n k x"
  have w: "env_table.wf (environments_seq db) (environments db)" using assms(1) by (simp add: hierarchy_wf_def)
  have y: "?y \<in> set (environments db')" unfolding db' by (simp add: env_table.update_set [OF w x(1)])
  have only: "z = ?y" if "z \<in> set (environments db')" "env_public_id z = pid" for z
    using env_table.renamed_version(1) [OF w x(1)] that x(2) unfolding db' by simp
  have f: "env_public_id ?y = pid" "in_project db' w prj (env_project_id ?y)" "env_version ?y = v + 1" "env_archived_at ?y = None"
    using x unfolding db' by (simp_all add: env_table.rename_keeps env_table.rename_sets in_project_def)
  have y_only: "query_row q (environments db') = Inr ?y" if "q ?y" "\<And>z. q z \<Longrightarrow> env_public_id z = pid" for q
    by (rule query_row_unique [where q = q]) (fact y, fact that(1), rule only, assumption, erule that(2))
  have "queries_FindEnvironment db' w prj pid = Inr ?y" "queries_FindActiveEnvironmentForUpdate db' w prj pid = Inr ?y"
    unfolding queries_FindEnvironment_def queries_FindActiveEnvironmentForUpdate_def
    using f by (rule_tac y_only; simp)+
  moreover have "queries_UpdateEnvironment now' w prj pid v n' k' db' = Inl ErrNoRows"
    using only f(3) by (auto simp: queries_UpdateEnvironment_def Let_def query_row_Inl split: sum.splits dest!: query_row_Inr)
  ultimately show ?thesis
    using f(3) r row by (simp add: UpdateEnvironment_def ArchiveEnvironment_def FindEnvironment_def environmentValue_def)
qed

lemma UpdateApp_stale:
  assumes "hierarchy_wf db" and "UpdateApp now w prj pid v n k db = Inr (r, db')"
  shows "ap_Version r = v + 1 \<and> UpdateApp now' w prj pid v n' k' db' = Inl ErrVersionConflict
    \<and> ArchiveApp now' w prj pid v db' = Inl ErrVersionConflict"
proof -
  obtain row where row: "queries_UpdateApp now w prj pid v n k db = Inr (row, db')" and r: "r = appValue row"
    using assms(2) by (auto simp: UpdateApp_def split: sum.splits store_error.splits)
  from row obtain x p where x: "app_table.hits p (apps db) x" "app_public_id x = pid"
      "in_project db w prj (app_project_id x)" "app_version x = v" "app_archived_at x = None"
      and row: "row = rename_app now n k x"
    and db': "db' = db\<lparr>apps := sql_update p (rename_app now n k) (apps db)\<rparr>"
    by (rule UpdateApp_row)
  let ?y = "rename_app now n k x"
  have w: "app_table.wf (apps_seq db) (apps db)" using assms(1) by (simp add: hierarchy_wf_def)
  have y: "?y \<in> set (apps db')" unfolding db' by (simp add: app_table.update_set [OF w x(1)])
  have only: "z = ?y" if "z \<in> set (apps db')" "app_public_id z = pid" for z
    using app_table.renamed_version(1) [OF w x(1)] that x(2) unfolding db' by simp
  have f: "app_public_id ?y = pid" "in_project db' w prj (app_project_id ?y)" "app_version ?y = v + 1" "app_archived_at ?y = None"
    using x unfolding db' by (simp_all add: app_table.rename_keeps app_table.rename_sets in_project_def)
  have y_only: "query_row q (apps db') = Inr ?y" if "q ?y" "\<And>z. q z \<Longrightarrow> app_public_id z = pid" for q
    by (rule query_row_unique [where q = q]) (fact y, fact that(1), rule only, assumption, erule that(2))
  have "queries_FindApp db' w prj pid = Inr ?y" "queries_FindActiveAppForUpdate db' w prj pid = Inr ?y"
    unfolding queries_FindApp_def queries_FindActiveAppForUpdate_def
    using f by (rule_tac y_only; simp)+
  moreover have "queries_UpdateApp now' w prj pid v n' k' db' = Inl ErrNoRows"
    using only f(3) by (auto simp: queries_UpdateApp_def Let_def query_row_Inl split: sum.splits dest!: query_row_Inr)
  ultimately show ?thesis
    using f(3) r row by (simp add: UpdateApp_def ArchiveApp_def FindApp_def appValue_def)
qed

text \<open>
  C14: Optimistic concurrency: an accepted rename of a project, environment or app was made
  against its current version and raises the version by one. A second writer that still holds
  the old version is refused with a version conflict, whether it renames or archives.
\<close>

theorem stale_version_refused:
  assumes "hierarchy_wf db"
  shows "(UpdateProject now w pid v n k db = Inr (r, db') \<longrightarrow> pj_Version r = v + 1
       \<and> UpdateProject now' w pid v n' k' db' = Inl ErrVersionConflict
       \<and> ArchiveProject now' w pid v db' = Inl ErrVersionConflict)
    \<and> (UpdateEnvironment now w prj pid v n k db = Inr (r2, db') \<longrightarrow> en_Version r2 = v + 1
       \<and> UpdateEnvironment now' w prj pid v n' k' db' = Inl ErrVersionConflict
       \<and> ArchiveEnvironment now' w prj pid v db' = Inl ErrVersionConflict)
    \<and> (UpdateApp now w prj pid v n k db = Inr (r3, db') \<longrightarrow> ap_Version r3 = v + 1
       \<and> UpdateApp now' w prj pid v n' k' db' = Inl ErrVersionConflict
       \<and> ArchiveApp now' w prj pid v db' = Inl ErrVersionConflict)"
  by (rule conjI, rule impI, erule UpdateProject_stale [OF assms],
      rule conjI, rule impI, erule UpdateEnvironment_stale [OF assms], rule impI, erule UpdateApp_stale [OF assms])

theorem stale_version_refused_witness:
  "\<exists>r db'. UpdateProject 3 1 (sample_id ''prj'') 1 ''Uno'' ''uno'' sample_projects = Inr (r, db')
     \<and> hierarchy_wf sample_projects \<and> pj_Version r = 1 + 1
     \<and> UpdateProject 4 1 (sample_id ''prj'') 1 ''Un'' ''un'' db' = Inl ErrVersionConflict
     \<and> ArchiveProject 4 1 (sample_id ''prj'') 1 db' = Inl ErrVersionConflict"
proof -
  have wf: "hierarchy_wf sample_projects" using sample_projects_wf by (simp add: ids_in_range_def)
  have "is_ok (UpdateProject 3 1 (sample_id ''prj'') 1 ''Uno'' ''uno'' sample_projects)" by code_simp
  then obtain r db' where "UpdateProject 3 1 (sample_id ''prj'') 1 ''Uno'' ''uno'' sample_projects = Inr (r, db')"
    by (auto simp: is_ok_iff)
  with stale_version_refused [OF wf, where now = 3 and w = 1 and pid = "sample_id ''prj''" and v = 1
      and n = "''Uno''" and k = "''uno''" and r = r and db' = db' and now' = 4 and n' = "''Un''" and k' = "''un''"] wf
  show ?thesis by blast
qed

end
