(* ===== verification/Store_Transaction.thy ===== *)
theory Store_Transaction
  imports Store_Schema
begin

text \<open>
  Composition of the statements of a transaction. The first failing statement ends it with its
  error, as the early returns of the source do. A relation that every statement keeps between the
  database before and after is kept by the composition; the locale \<open>tx_frame\<close> has the rules, and
  the components interpret it for what they leave unchanged.
\<close>

definition return_tx :: "'a \<Rightarrow> 'a tx" where
  "return_tx x db = Inr (x, db)"

definition fail_tx :: "store_error \<Rightarrow> 'a tx" where
  "fail_tx err db = Inl err"

definition bind_tx :: "'a tx \<Rightarrow> ('a \<Rightarrow> 'b tx) \<Rightarrow> 'b tx" where
  "bind_tx t k db = (case t db of Inl err \<Rightarrow> Inl err | Inr (x, db') \<Rightarrow> k x db')"

definition read_tx :: "(database \<Rightarrow> store_error + 'a) \<Rightarrow> 'a tx" where
  "read_tx f db = (case f db of Inl err \<Rightarrow> Inl err | Inr x \<Rightarrow> Inr (x, db))"

definition check_tx :: "(database \<Rightarrow> bool) \<Rightarrow> store_error \<Rightarrow> unit tx" where
  "check_tx p err db = (if p db then Inr ((), db) else Inl err)"

definition modify_tx :: "(database \<Rightarrow> database) \<Rightarrow> unit tx" where
  "modify_tx f db = Inr ((), f db)"

text \<open>The error of a statement is translated before it is returned.\<close>

definition translate_tx :: "(store_error \<Rightarrow> store_error) \<Rightarrow> 'a tx \<Rightarrow> 'a tx" where
  "translate_tx f t db = (case t db of Inl err \<Rightarrow> Inl (f err) | Inr r \<Rightarrow> Inr r)"

definition no_rows_is :: "store_error \<Rightarrow> store_error \<Rightarrow> store_error" where
  "no_rows_is err e = (if e = ErrNoRows then err else e)"

lemma return_tx_Inr [simp]: "return_tx x db = Inr (y, db') \<longleftrightarrow> y = x \<and> db' = db"
  by (auto simp: return_tx_def)

lemma fail_tx_Inr [simp]: "fail_tx err db \<noteq> Inr r"
  by (simp add: fail_tx_def)

lemma bind_tx_Inr:
  "bind_tx t k db = Inr r \<longleftrightarrow> (\<exists>x db1. t db = Inr (x, db1) \<and> k x db1 = Inr r)"
  by (auto simp: bind_tx_def split: sum.splits)

lemma bind_txE:
  assumes "bind_tx t k db = Inr r"
  obtains x db1 where "t db = Inr (x, db1)" and "k x db1 = Inr r"
  using assms by (auto simp: bind_tx_Inr)

lemma read_tx_Inr [simp]: "read_tx f db = Inr (x, db') \<longleftrightarrow> f db = Inr x \<and> db' = db"
  by (auto simp: read_tx_def split: sum.splits)

lemma check_tx_Inr [simp]: "check_tx p err db = Inr (u, db') \<longleftrightarrow> p db \<and> db' = db"
  by (auto simp: check_tx_def)

lemma modify_tx_Inr [simp]: "modify_tx f db = Inr (u, db') \<longleftrightarrow> db' = f db"
  by (auto simp: modify_tx_def)

lemma translate_tx_Inr [simp]: "translate_tx f t db = Inr r \<longleftrightarrow> t db = Inr r"
  by (simp add: translate_tx_def split: sum.splits)

lemma read_txE: "read_tx f db = Inr (x, db') \<Longrightarrow> (f db = Inr x \<Longrightarrow> db' = db \<Longrightarrow> P) \<Longrightarrow> P"
  by simp

lemma check_txE: "check_tx p err db = Inr (u, db') \<Longrightarrow> (p db \<Longrightarrow> db' = db \<Longrightarrow> P) \<Longrightarrow> P"
  by simp

lemma modify_txE: "modify_tx f db = Inr (u, db') \<Longrightarrow> (db' = f db \<Longrightarrow> P) \<Longrightarrow> P"
  by simp

lemma translate_txE: "translate_tx f t db = Inr r \<Longrightarrow> (t db = Inr r \<Longrightarrow> P) \<Longrightarrow> P"
  by simp

lemma return_txE: "return_tx x db = Inr (y, db') \<Longrightarrow> (y = x \<Longrightarrow> db' = db \<Longrightarrow> P) \<Longrightarrow> P"
  by simp

lemma fail_txE: "fail_tx err db = Inr r \<Longrightarrow> P"
  by simp

text \<open>Elimination rules that lay out the statements of a successful transaction.\<close>

lemmas tx_elims = bind_txE read_txE check_txE modify_txE translate_txE return_txE fail_txE

text \<open>
  Requests with an idempotency key: a recorded operation is answered again, only a new request is
  carried out.
\<close>

definition with_replay :: "(database \<Rightarrow> store_error + 'k option) \<Rightarrow> ('k \<Rightarrow> 'a tx) \<Rightarrow> 'a tx \<Rightarrow> 'a tx" where
  "with_replay lookup replay fresh =
     bind_tx (read_tx lookup) (\<lambda>existing. case existing of Some x \<Rightarrow> replay x | None \<Rightarrow> fresh)"

lemma with_replayE:
  assumes "with_replay lookup replay fresh db = Inr r"
  obtains (replay) x where "lookup db = Inr (Some x)" and "replay x db = Inr r"
    | (fresh) "lookup db = Inr None" and "fresh db = Inr r"
  using assms unfolding with_replay_def by (elim bind_txE read_txE) (auto split: option.splits)

lemmas tx_simps = return_tx_def fail_tx_def bind_tx_def read_tx_def check_tx_def modify_tx_def translate_tx_def

section \<open>Relations that transactions keep\<close>

definition keeps :: "(database \<Rightarrow> database \<Rightarrow> bool) \<Rightarrow> 'a tx \<Rightarrow> bool" where
  "keeps R t \<longleftrightarrow> (\<forall>db x db'. t db = Inr (x, db') \<longrightarrow> R db db')"

lemma keepsI [intro?]: "(\<And>db x db'. t db = Inr (x, db') \<Longrightarrow> R db db') \<Longrightarrow> keeps R t"
  by (simp add: keeps_def)

lemma keepsD: "keeps R t \<Longrightarrow> t db = Inr (x, db') \<Longrightarrow> R db db'"
  by (simp add: keeps_def)

lemma keeps_mono: "keeps R t \<Longrightarrow> (\<And>db db'. R db db' \<Longrightarrow> S db db') \<Longrightarrow> keeps S t"
  by (auto simp: keeps_def)

lemma keeps_modify: "(\<And>db. R db (f db)) \<Longrightarrow> keeps R (modify_tx f)"
  by (simp add: keeps_def)

lemma keeps_translate: "keeps R t \<Longrightarrow> keeps R (translate_tx f t)"
  by (simp add: keeps_def)

lemma keeps_if: "(b \<Longrightarrow> keeps R s) \<Longrightarrow> (\<not> b \<Longrightarrow> keeps R t) \<Longrightarrow> keeps R (if b then s else t)"
  by simp

lemma keeps_case_option:
  "keeps R s \<Longrightarrow> (\<And>x. keeps R (t x)) \<Longrightarrow> keeps R (case v of None \<Rightarrow> s | Some x \<Rightarrow> t x)"
  by (cases v) simp_all

lemma keeps_case_prod: "(\<And>x y. keeps R (t x y)) \<Longrightarrow> keeps R (case v of (x, y) \<Rightarrow> t x y)"
  by (cases v) simp

lemma keeps_fail: "keeps R (fail_tx err)"
  by (simp add: keeps_def)

locale tx_frame =
  fixes R :: "database \<Rightarrow> database \<Rightarrow> bool"
  assumes frame_refl: "R db db" and frame_trans: "R a b \<Longrightarrow> R b c \<Longrightarrow> R a c"
begin

lemma keeps_return: "keeps R (return_tx x)"
  by (simp add: keeps_def frame_refl)

lemma keeps_read: "keeps R (read_tx f)"
  by (simp add: keeps_def frame_refl)

lemma keeps_check: "keeps R (check_tx p err)"
  by (simp add: keeps_def frame_refl)

lemma keeps_bind: "keeps R t \<Longrightarrow> (\<And>x. keeps R (k x)) \<Longrightarrow> keeps R (bind_tx t k)"
  unfolding keeps_def bind_tx_Inr using frame_trans by blast

lemma keeps_replay: "(\<And>x. keeps R (replay x)) \<Longrightarrow> keeps R fresh \<Longrightarrow> keeps R (with_replay lookup replay fresh)"
  unfolding with_replay_def by (intro keeps_bind keeps_read keeps_case_option)

lemmas keeps_rules = keeps_replay keeps_return keeps_read keeps_check keeps_fail keeps_bind keeps_translate
  keeps_if keeps_case_option keeps_case_prod

end

text \<open>An invariant is the relation that it survives.\<close>

definition preserves :: "(database \<Rightarrow> bool) \<Rightarrow> database \<Rightarrow> database \<Rightarrow> bool" where
  "preserves I db db' \<longleftrightarrow> (I db \<longrightarrow> I db')"

lemma preserves_frame: "tx_frame (preserves I)"
  by unfold_locales (simp_all add: preserves_def)

end
