(* ===== verification/Go_Hash.thy ===== *)
theory Go_Hash
  imports Go_Strings "HOL-Library.Word"
begin

text \<open>
  The hash function \<open>crypto/sha256\<close> on byte strings: padding, message schedule, compression of
  each 64-byte block and the digest as 32 bytes. \<open>SHA256\<close> of the package \<open>domain\<close> is this function.
\<close>

unbundle bit_operations_syntax

type_synonym hash_word = "32 word"

text \<open>
  The constants are not tabulated: the round constants are the first 32 bits of the fractional
  parts of the cube roots of the first 64 primes, the initial state those of the square roots of
  the first eight.
\<close>

definition small_primes :: "int list" where
  "small_primes = filter (\<lambda>p. list_all (\<lambda>d. d < p \<longrightarrow> p mod d \<noteq> 0) [2..17]) [2..311]"

fun root_digits :: "nat \<Rightarrow> int \<Rightarrow> nat \<Rightarrow> int \<Rightarrow> int" where
  "root_digits k n 0 r = r"
| "root_digits k n (Suc b) r = root_digits k n b (if (r + 2 ^ b) ^ k \<le> n then r + 2 ^ b else r)"

definition root_fraction :: "nat \<Rightarrow> int \<Rightarrow> hash_word" where
  "root_fraction k p = of_int (root_digits k (p * 2 ^ (32 * k)) 40 0)"

definition sha_constants :: "hash_word list" where
  "sha_constants = map (root_fraction 3) small_primes"

section \<open>Words and bytes\<close>

definition char_byte :: "nat \<Rightarrow> char" where
  "char_byte n = char_of (n mod 256)"

text \<open>The big-endian bytes of a number, and the big-endian number of some bytes.\<close>

fun to_bytes :: "nat \<Rightarrow> nat \<Rightarrow> string" where
  "to_bytes 0 n = []"
| "to_bytes (Suc k) n = to_bytes k (n div 256) @ [char_byte n]"

definition from_bytes :: "string \<Rightarrow> nat" where
  "from_bytes cs = foldl (\<lambda>n c. n * 256 + of_char c) 0 cs"

fun words_of :: "string \<Rightarrow> hash_word list" where
  "words_of (a # b # c # d # rest) = of_nat (from_bytes [a, b, c, d]) # words_of rest"
| "words_of _ = []"

section \<open>Padding\<close>

definition sha_padding :: "nat \<Rightarrow> string" where
  "sha_padding len =
     [char_byte 128] @ replicate ((119 - len mod 64) mod 64) (char_byte 0) @ to_bytes 8 (len * 8 mod 2 ^ 64)"

fun sha_blocks :: "nat \<Rightarrow> string \<Rightarrow> string list" where
  "sha_blocks 0 cs = []"
| "sha_blocks (Suc n) cs = take 64 cs # sha_blocks n (drop 64 cs)"

section \<open>Compression\<close>

text \<open>The schedule is kept newest first: the word sixteen places back is at index 15.\<close>

definition schedule_word :: "hash_word list \<Rightarrow> hash_word" where
  "schedule_word ws =
     (let w15 = ws ! 14; w2 = ws ! 1;
          s0 = word_rotr 7 w15 XOR word_rotr 18 w15 XOR drop_bit 3 w15;
          s1 = word_rotr 17 w2 XOR word_rotr 19 w2 XOR drop_bit 10 w2
      in ws ! 15 + s0 + ws ! 6 + s1)"

fun extend_schedule :: "nat \<Rightarrow> hash_word list \<Rightarrow> hash_word list" where
  "extend_schedule 0 ws = ws"
| "extend_schedule (Suc n) ws = extend_schedule n (schedule_word ws # ws)"

definition message_schedule :: "string \<Rightarrow> hash_word list" where
  "message_schedule block = rev (extend_schedule 48 (rev (words_of block)))"

type_synonym sha_state =
  "hash_word \<times> hash_word \<times> hash_word \<times> hash_word \<times> hash_word \<times> hash_word \<times> hash_word \<times> hash_word"

definition sha_initial :: sha_state where
  "sha_initial =
     (root_fraction 2 2, root_fraction 2 3, root_fraction 2 5, root_fraction 2 7, root_fraction 2 11,
      root_fraction 2 13, root_fraction 2 17, root_fraction 2 19)"

definition sha_round :: "sha_state \<Rightarrow> hash_word \<times> hash_word \<Rightarrow> sha_state" where
  "sha_round = (\<lambda>(a, b, c, d, e, f, g, h) (k, w).
     let s1 = word_rotr 6 e XOR word_rotr 11 e XOR word_rotr 25 e;
         ch = (e AND f) XOR (NOT e AND g);
         temp1 = h + s1 + ch + k + w;
         s0 = word_rotr 2 a XOR word_rotr 13 a XOR word_rotr 22 a;
         maj = (a AND b) XOR (a AND c) XOR (b AND c)
     in (temp1 + (s0 + maj), a, b, c, d + temp1, e, f, g))"

definition sha_compress :: "sha_state \<Rightarrow> string \<Rightarrow> sha_state" where
  "sha_compress state block =
     (let (a, b, c, d, e, f, g, h) = state;
          (a', b', c', d', e', f', g', h') =
            foldl sha_round state (zip sha_constants (message_schedule block))
      in (a + a', b + b', c + c', d + d', e + e', f + f', g + g', h + h'))"

definition SHA256 :: "string \<Rightarrow> string" where
  "SHA256 value =
     (let padded = value @ sha_padding (length value);
          (a, b, c, d, e, f, g, h) =
            foldl sha_compress sha_initial (sha_blocks (length padded div 64) padded)
      in concat (map (\<lambda>w. to_bytes 4 (unat w)) [a, b, c, d, e, f, g, h]))"

section \<open>The digest\<close>

text \<open>The digit-by-digit root is the integer root, so the constants are the digits they should be.\<close>

lemma root_digits_bounds:
  assumes "r ^ k \<le> n" and "n < (r + 2 ^ b) ^ k"
  shows "root_digits k n b r ^ k \<le> n \<and> n < (root_digits k n b r + 1) ^ k"
  using assms by (induction k n b r rule: root_digits.induct) (simp_all add: add.assoc mult_2 [symmetric])

lemma length_sha_constants: "length sha_constants = 64"
  unfolding sha_constants_def length_map by code_simp

lemma length_to_bytes [simp]: "length (to_bytes k n) = k"
  by (induction k n rule: to_bytes.induct) simp_all

text \<open>The padded message is a whole number of blocks, and the digest has 32 bytes.\<close>

lemma sha_padding_fills:
  fixes r :: nat
  assumes "r < 64"
  shows "r + 9 + (119 - r) mod 64 = 64 \<or> r + 9 + (119 - r) mod 64 = 128"
proof (cases "r < 56")
  case True
  then have "119 - r = (55 - r) + 64" by simp
  then have "(119 - r) mod 64 = (55 - r) mod 64" by (simp only: mod_add_self2)
  also have "\<dots> = 55 - r" by simp
  finally show ?thesis using True by simp
next
  case False
  then have "(119 - r) mod 64 = 119 - r" by (intro mod_less) simp
  then show ?thesis using assms by simp
qed

lemma sha_padding_aligned: "64 dvd length (value @ sha_padding (length value))"
proof -
  let ?r = "length value mod 64"
  have "length (value @ sha_padding (length value)) = length value div 64 * 64 + (?r + 9 + (119 - ?r) mod 64)"
    unfolding sha_padding_def length_append length_replicate length_to_bytes list.size
    using div_mult_mod_eq [of "length value" 64] by linarith
  moreover have "64 dvd ?r + 9 + (119 - ?r) mod 64"
  proof -
    have "?r < 64" by simp
    from sha_padding_fills [OF this] show ?thesis by (elim disjE; simp only:) simp_all
  qed
  ultimately show ?thesis by (simp only: dvd_add dvd_triv_right)
qed

lemma length_SHA256 [simp]: "length (SHA256 value) = 32"
  by (simp add: SHA256_def Let_def split: prod.split)

end
