(* ===== verification/Go_JSON.thy ===== *)
theory Go_JSON
  imports Go_Strings Go_Strconv
begin

text \<open>
  \<open>encoding/json\<close>: the text \<open>Marshal\<close> writes for strings, integers and structs. Strings are quoted
  with HTML escaping, as \<open>Marshal\<close> does by default, and bytes that are no UTF-8 become the escape of U+FFFD.
\<close>

definition hex_char :: "nat \<Rightarrow> char" where
  "hex_char n = ''0123456789abcdef'' ! n"

definition unicode_escape :: "nat \<Rightarrow> string" where
  "unicode_escape n =
     CHR 0x5C # ''u'' @ map (\<lambda>k. hex_char (n div 16 ^ k mod 16)) [3, 2, 1, 0]"

definition escape_ascii :: "char \<Rightarrow> string" where
  "escape_ascii c =
     (let n = byte_of c in
      if c = CHR 0x5C \<or> c = CHR 0x22 then [CHR 0x5C, c]
      else if n = 8 then CHR 0x5C # ''b''
      else if n = 12 then CHR 0x5C # ''f''
      else if n = 10 then CHR 0x5C # ''n''
      else if n = 13 then CHR 0x5C # ''r''
      else if n = 9 then CHR 0x5C # ''t''
      else if n < 32 \<or> c = CHR ''<'' \<or> c = CHR ''>'' \<or> c = CHR ''&'' then unicode_escape n
      else [c])"

definition escape_rune :: "string \<Rightarrow> string" where
  "escape_rune s =
     (if s = [] then ''''
      else if byte_of (hd s) < 0x80 then escape_ascii (hd s)
      else if well_formed_width s = None then unicode_escape 0xFFFD
      else if rune_value s \<in> {0x2028, 0x2029} then unicode_escape (rune_value s)
      else take (rune_width s) s)"

function escape_string :: "string \<Rightarrow> string" where
  "escape_string [] = []"
| "escape_string (c # s) = escape_rune (c # s) @ escape_string (drop (rune_width (c # s)) (c # s))"
  by pat_completeness auto
termination
  by (relation "measure length") (simp_all add: rune_width_pos)

definition json_string :: "string \<Rightarrow> string" where
  "json_string s = CHR 0x22 # escape_string s @ [CHR 0x22]"

definition json_object :: "(string \<times> string) list \<Rightarrow> string" where
  "json_object fields = ''{'' @ Join (map (\<lambda>(k, v). json_string k @ '':'' @ v) fields) '','' @ ''}''"

end
