(* ===== verification/Volume_Store.thy ===== *)
theory Volume_Store
  imports Operation_Queue Store_Transaction Go_Hash Go_JSON
begin

text \<open>
  \<open>internal/store/volume.go\<close>: storage profiles with their capacity and quotas, and the volumes of
  stateful app environments. Creation, expansion and removal of a volume record the wanted state
  and queue the operation that carries it out.
\<close>

section \<open>Storage profiles\<close>

definition storage_profile_checks :: "StorageProfileInstallation \<Rightarrow> bool" where
  "storage_profile_checks profile \<longleftrightarrow>
     MatchString storageProfilePattern (sp_ID profile) \<and> RuneCount (sp_ID profile) \<le> 63
     \<and> sp_Durability profile \<in> {''NodeLocal'', ''Replicated'', ''ProviderManaged''}"

definition profile_row :: "time \<Rightarrow> StorageProfileInstallation \<Rightarrow> StorageProfileRow" where
  "profile_row now profile =
     \<lparr>sp_ID = sp_ID profile, sp_Name = sp_Name profile, sp_MinimumSizeGiB = sp_MinimumSizeGiB profile,
      sp_MaximumSizeGiB = sp_MaximumSizeGiB profile, sp_TotalCapacityGiB = sp_TotalCapacityGiB profile,
      sp_WorkspaceQuotaGiB = sp_WorkspaceQuotaGiB profile, sp_Expandable = sp_Expandable profile,
      sp_Snapshots = sp_Snapshots profile, sp_AutomaticBackup = sp_AutomaticBackup profile,
      sp_Durability = sp_Durability profile, sp_RuntimeBinding = sp_RuntimeBinding profile,
      sp_Enabled = sp_Enabled profile, spr_version = 1, spr_created_at = now, spr_updated_at = now\<rparr>"

text \<open>\<open>ON CONFLICT(id) DO UPDATE\<close> of a row that differs from the configured values.\<close>

definition reconfigure_profile :: "time \<Rightarrow> StorageProfileInstallation \<Rightarrow> StorageProfileRow \<Rightarrow> StorageProfileRow" where
  "reconfigure_profile now profile row =
     (let new = (profile_row now profile)\<lparr>spr_version := spr_version row, spr_created_at := spr_created_at row,
                                          spr_updated_at := spr_updated_at row\<rparr>
      in if new = row then row else new\<lparr>spr_version := spr_version row + 1, spr_updated_at := now\<rparr>)"

definition ConfigureStorageProfile :: "time \<Rightarrow> StorageProfileInstallation \<Rightarrow> unit tx" where
  "ConfigureStorageProfile now profile =
     bind_tx (check_tx (\<lambda>_. \<not> (sp_ID profile = '''' \<or> sp_MinimumSizeGiB profile < 1
                               \<or> sp_MaximumSizeGiB profile < sp_MinimumSizeGiB profile
                               \<or> sp_TotalCapacityGiB profile < sp_MaximumSizeGiB profile
                               \<or> sp_WorkspaceQuotaGiB profile < sp_MinimumSizeGiB profile))
                (Message ''invalid storage profile installation''))
     (\<lambda>_. bind_tx (check_tx (\<lambda>_. storage_profile_checks profile) (CheckViolation ''storage_profiles''))
     (\<lambda>_. modify_tx (\<lambda>db.
        if list_ex (\<lambda>sp. sp_ID sp = sp_ID profile) (storage_profiles db)
        then db\<lparr>storage_profiles := sql_update (\<lambda>sp. sp_ID sp = sp_ID profile)
                  (reconfigure_profile now profile) (storage_profiles db)\<rparr>
        else db\<lparr>storage_profiles := storage_profiles db @ [profile_row now profile]\<rparr>)))"

text \<open>\<open>SUM(requested_size_gib)\<close> of a profile, over all volumes or those of a workspace.\<close>

definition global_used :: "database \<Rightarrow> string \<Rightarrow> int" where
  "global_used db profileID =
     (\<Sum>v\<leftarrow>filter (\<lambda>v. vol_storage_profile_id v = profileID) (app_volumes db). vol_requested_size_gib v)"

definition workspace_used :: "database \<Rightarrow> int \<Rightarrow> string \<Rightarrow> int" where
  "workspace_used db workspaceID profileID =
     (\<Sum>v\<leftarrow>filter (\<lambda>v. vol_workspace_id v = workspaceID \<and> vol_storage_profile_id v = profileID)
        (app_volumes db). vol_requested_size_gib v)"

definition storageAvailable :: "int \<Rightarrow> int \<Rightarrow> int \<Rightarrow> int \<Rightarrow> int" where
  "storageAvailable globalCapacity globalUsed workspaceQuota workspaceUsed =
     max 0 (min (globalCapacity - globalUsed) (workspaceQuota - workspaceUsed))"

definition binding_healthy :: "time \<Rightarrow> StorageBindingRow \<Rightarrow> bool" where
  "binding_healthy now csb \<longleftrightarrow>
     csb_health csb = ''Healthy'' \<and> (case csb_expires_at csb of None \<Rightarrow> False | Some t \<Rightarrow> now < t)"

definition workspace_cluster_ready :: "database \<Rightarrow> int \<Rightarrow> AgentInstallationRow \<Rightarrow> bool" where
  "workspace_cluster_ready db workspaceID i \<longleftrightarrow>
     list_ex (\<lambda>wc. wc_installation_id wc = ai_id i \<and> wc_workspace_id wc = workspaceID \<and> wc_state wc = ''Ready'')
       (workspace_clusters db)"

definition ListStorageProfiles :: "time \<Rightarrow> database \<Rightarrow> int \<Rightarrow> string \<Rightarrow> StorageProfile list" where
  "ListStorageProfiles now db workspaceID clusterPublicID =
     map (\<lambda>sp. \<lparr>stp_ID = sp_ID sp, stp_Name = sp_Name sp, stp_MinimumSizeGiB = sp_MinimumSizeGiB sp,
                 stp_MaximumSizeGiB = sp_MaximumSizeGiB sp, stp_Expandable = sp_Expandable sp,
                 stp_Snapshots = sp_Snapshots sp, stp_AutomaticBackup = sp_AutomaticBackup sp,
                 stp_Durability = sp_Durability sp,
                 stp_AvailableGiB = max 0 (min (sp_TotalCapacityGiB sp - global_used db (sp_ID sp))
                   (sp_WorkspaceQuotaGiB sp - workspace_used db workspaceID (sp_ID sp)))\<rparr>)
       (order_by_text sp_ID (filter (\<lambda>sp. sp_Enabled sp
          \<and> list_ex (\<lambda>csb. csb_storage_profile_id csb = sp_ID sp \<and> binding_healthy now csb
              \<and> list_ex (\<lambda>i. ai_id i = csb_cluster_id csb \<and> ai_public_id i = clusterPublicID
                             \<and> ai_status i = ''Active'' \<and> workspace_cluster_ready db workspaceID i)
                  (agent_installations db)) (cluster_storage_bindings db)) (storage_profiles db)))"

section \<open>Creating a volume\<close>

text \<open>The draw of \<open>NewPublicID\<close> as a statement.\<close>

definition drawn :: "string go_result \<Rightarrow> string tx" where
  "drawn draw = (case draw of Inl err \<Rightarrow> fail_tx (Message err) | Inr publicID \<Rightarrow> return_tx publicID)"

definition volume_request_json :: "VolumeRequest \<Rightarrow> string" where
  "volume_request_json request =
     json_object [(''storageProfileId'', json_string (vr_StorageProfileID request)),
                  (''sizeGiB'', FormatInt (vr_SizeGiB request)),
                  (''mountPath'', json_string (vr_MountPath request))]"

definition volume_id_pattern :: regexp where "volume_id_pattern = id_pattern ''vol-''"

definition volume_checks :: "AppVolumeRow \<Rightarrow> bool" where
  "volume_checks v \<longleftrightarrow>
     MatchString volume_id_pattern (vol_public_id v) \<and> 0 < vol_requested_size_gib v
     \<and> HasPrefix (vol_mount_path v) ''/'' \<and> vol_mount_path v \<noteq> ''/'' \<and> RuneCount (vol_mount_path v) \<le> 255
     \<and> \<not> HasControl (vol_mount_path v)"

definition insert_volume :: "AppVolumeRow \<Rightarrow> AppVolumeRow tx" where
  "insert_volume row db =
     (let v = row\<lparr>vol_id := app_volumes_seq db\<rparr>; rows = app_volumes db in
      if \<not> volume_checks v then Inl (CheckViolation ''app_volumes'')
      else if list_ex (\<lambda>q. vol_public_id q = vol_public_id v) rows
      then Inl (UniqueViolation ''app_volumes_public_id_key'')
      else if list_ex (\<lambda>q. vol_app_environment_id q = vol_app_environment_id v
                     \<and> vol_deletion_requested_at q = None) rows
      then Inl (UniqueViolation ''app_volumes_one_active_per_environment'')
      else Inr (v, db\<lparr>app_volumes := rows @ [v], app_volumes_seq := app_volumes_seq db + 1\<rparr>))"

definition new_volume ::
    "time \<Rightarrow> int \<Rightarrow> AppEnvironment \<Rightarrow> VolumeRequest \<Rightarrow> StorageBindingRow \<Rightarrow> string \<Rightarrow> AppVolumeRow" where
  "new_volume now workspaceID appEnvironment request binding publicID =
     \<lparr>vol_id = 0, vol_public_id = publicID, vol_workspace_id = workspaceID,
      vol_app_environment_id = ae_ID appEnvironment, vol_storage_profile_id = vr_StorageProfileID request,
      vol_requested_size_gib = vr_SizeGiB request, vol_observed_size_gib = 0,
      vol_mount_path = vr_MountPath request, vol_retention_policy = ''Preserve'',
      vol_desired_state = ''Ready'', vol_observed_state = ''Pending'', vol_message = '''', vol_version = 1,
      vol_runtime_storage_class_name = csb_storage_class_name binding,
      vol_storage_binding_version = csb_version binding, vol_runtime_desired_version = 0,
      vol_runtime_spec_hash = None, vol_runtime_reconciliation_generation = 0,
      vol_deletion_requested_at = None, vol_created_at = now, vol_updated_at = now\<rparr>"

definition created_volume :: "AppEnvironment \<Rightarrow> AppVolumeRow \<Rightarrow> AppVolume" where
  "created_volume appEnvironment v =
     \<lparr>av_ID = vol_id v, av_PublicID = vol_public_id v, av_WorkspaceID = vol_workspace_id v,
      av_AppEnvironmentID = vol_app_environment_id v, av_AppEnvironmentPublicID = ae_PublicID appEnvironment,
      av_StorageProfileID = vol_storage_profile_id v, av_RuntimeStorageClass = '''',
      av_StorageBindingVersion = 0, av_SizeGiB = vol_requested_size_gib v, av_MountPath = vol_mount_path v,
      av_RetentionPolicy = vol_retention_policy v, av_DesiredState = vol_desired_state v,
      av_State = vol_observed_state v, av_Message = vol_message v, av_Attached = False,
      av_Version = vol_version v, av_CreatedAt = vol_created_at v, av_UpdatedAt = vol_updated_at v,
      av_DeletionRequestedAt = vol_deletion_requested_at v\<rparr>"

definition environment_progress :: "time \<Rightarrow> (AppEnvironmentRow \<Rightarrow> bool) \<Rightarrow> string \<Rightarrow> database \<Rightarrow> database" where
  "environment_progress now p message db =
     db\<lparr>app_environments := sql_update p
          (\<lambda>ae. ae\<lparr>aer_last_state := StateProgressing, aer_last_message := message, aer_updated_at := now\<rparr>)
          (app_environments db)\<rparr>"

definition createAppVolume ::
    "time \<Rightarrow> string go_result \<Rightarrow> (nat \<Rightarrow> string go_result) \<Rightarrow> int \<Rightarrow> int \<Rightarrow> AppEnvironment \<Rightarrow> VolumeRequest
     \<Rightarrow> AppVolume tx" where
  "createAppVolume now draw draws workspaceID actorID appEnvironment request =
     bind_tx (translate_tx (no_rows_is ErrStorageProfileUnavailable)
       (read_tx (\<lambda>db. query_row (\<lambda>sp. sp_ID sp = vr_StorageProfileID request) (storage_profiles db))))
     (\<lambda>profile. bind_tx (check_tx (\<lambda>_. \<not> (\<not> sp_Enabled profile
          \<or> vr_SizeGiB request < sp_MinimumSizeGiB profile \<or> sp_MaximumSizeGiB profile < vr_SizeGiB request))
        ErrStorageProfileUnavailable)
     (\<lambda>_. bind_tx (translate_tx (no_rows_is ErrStorageProfileUnavailable)
       (read_tx (\<lambda>db. query_row (\<lambda>csb. csb_cluster_id csb = ae_ClusterID appEnvironment
          \<and> csb_storage_profile_id csb = sp_ID profile \<and> binding_healthy now csb) (cluster_storage_bindings db))))
     (\<lambda>binding. bind_tx (check_tx (\<lambda>db. \<not> (
            sp_TotalCapacityGiB profile < global_used db (sp_ID profile) + vr_SizeGiB request
          \<or> sp_WorkspaceQuotaGiB profile < workspace_used db workspaceID (sp_ID profile) + vr_SizeGiB request))
        ErrStorageQuotaExceeded)
     (\<lambda>_. bind_tx (drawn draw)
     (\<lambda>publicID. bind_tx (translate_tx translateDBError
       (insert_volume (new_volume now workspaceID appEnvironment request binding publicID)))
     (\<lambda>row. bind_tx (insertVolumeOperation now draws workspaceID (ae_ID appEnvironment) (vol_id row) actorID
         OperationEnsureVolume (SHA256 (''ensure-volume:'' @ publicID)) (SHA256 (volume_request_json request))
         (vol_version row))
     (\<lambda>_. bind_tx (modify_tx (environment_progress now (\<lambda>ae. aer_id ae = ae_ID appEnvironment)
         ''persistent storage is being prepared''))
     (\<lambda>_. return_tx (created_volume appEnvironment row)))))))))"

section \<open>Expanding and deleting a volume\<close>

definition find_volume :: "int \<Rightarrow> string \<Rightarrow> AppVolume tx" where
  "find_volume workspaceID appEnvironmentPublicID =
     translate_tx (no_rows_is ErrNotFound)
       (read_tx (\<lambda>db. case query_row (volume_of_environment db workspaceID appEnvironmentPublicID) (app_volumes db) of
                       Inl err \<Rightarrow> Inl err
                     | Inr row \<Rightarrow> scanAppVolume db row))"

text \<open>\<open>UPDATE \<dots> WHERE id RETURNING\<close>.\<close>

definition update_volume :: "int \<Rightarrow> (AppVolumeRow \<Rightarrow> AppVolumeRow) \<Rightarrow> AppVolumeRow tx" where
  "update_volume i f db =
     (case query_row (\<lambda>v. vol_id v = i) (app_volumes db) of
        Inl err \<Rightarrow> Inl err
      | Inr v \<Rightarrow> Inr (f v, db\<lparr>app_volumes := sql_update (\<lambda>v. vol_id v = i) f (app_volumes db)\<rparr>))"

text \<open>The answer to a repeated request: the volume of the operation that the first one queued.\<close>

definition replayed_volume :: "Operation \<Rightarrow> (AppVolume \<times> Operation \<times> bool) tx" where
  "replayed_volume existing =
     bind_tx (read_tx (\<lambda>db. appVolumeByID db (op_AppVolumeID existing)))
     (\<lambda>volume. return_tx (volume, existing, True))"

definition ExpandAppVolume ::
    "time \<Rightarrow> (nat \<Rightarrow> string go_result) \<Rightarrow> int \<Rightarrow> int \<Rightarrow> string \<Rightarrow> int \<Rightarrow> int \<Rightarrow> string \<Rightarrow> string
     \<Rightarrow> (AppVolume \<times> Operation \<times> bool) tx" where
  "ExpandAppVolume now draws workspaceID actorID appEnvironmentPublicID requestedSizeGiB expectedVersion
       idempotencyHash payloadHash =
     with_replay (\<lambda>db. operationByIdempotency db workspaceID actorID idempotencyHash payloadHash) replayed_volume
     (bind_tx (find_volume workspaceID appEnvironmentPublicID)
     (\<lambda>volume. bind_tx (check_tx (\<lambda>_. \<not> (av_Version volume \<noteq> expectedVersion \<or> av_DeletionRequestedAt volume \<noteq> None))
        ErrVersionConflict)
     (\<lambda>_. bind_tx (translate_tx (no_rows_is ErrStorageProfileUnavailable)
       (read_tx (\<lambda>db. query_row (\<lambda>sp. sp_ID sp = av_StorageProfileID volume \<and> sp_Enabled sp) (storage_profiles db))))
     (\<lambda>profile. bind_tx (check_tx (\<lambda>_. \<not> (\<not> sp_Expandable profile
          \<or> ValidateVolumeExpansion (av_SizeGiB volume) requestedSizeGiB (sp_MaximumSizeGiB profile) \<noteq> None))
        ErrConflict)
     (\<lambda>_. bind_tx (check_tx (\<lambda>db. let delta = requestedSizeGiB - av_SizeGiB volume in \<not> (
            sp_TotalCapacityGiB profile < global_used db (av_StorageProfileID volume) + delta
          \<or> sp_WorkspaceQuotaGiB profile < workspace_used db workspaceID (av_StorageProfileID volume) + delta))
        ErrStorageQuotaExceeded)
     (\<lambda>_. bind_tx (update_volume (av_ID volume) (\<lambda>v. v\<lparr>vol_requested_size_gib := requestedSizeGiB,
          vol_observed_state := ''Expanding'', vol_message := '''', vol_version := vol_version v + 1,
          vol_updated_at := now\<rparr>))
     (\<lambda>row. bind_tx (translate_tx translateDBError
       (insertVolumeOperation now draws workspaceID (av_AppEnvironmentID volume) (av_ID volume) actorID
          OperationExpandVolume idempotencyHash payloadHash (vol_version row)))
     (\<lambda>operation. bind_tx (modify_tx (environment_progress now (\<lambda>ae. aer_id ae = av_AppEnvironmentID volume)
         ''persistent storage is being expanded''))
     (\<lambda>_. return_tx
        (volume\<lparr>av_SizeGiB := vol_requested_size_gib row, av_State := vol_observed_state row,
               av_Version := vol_version row, av_UpdatedAt := vol_updated_at row\<rparr>,
         operation\<lparr>op_AppVolumePublicID := av_PublicID volume\<rparr>, False))))))))))"

definition DeleteAppVolume ::
    "time \<Rightarrow> (nat \<Rightarrow> string go_result) \<Rightarrow> int \<Rightarrow> int \<Rightarrow> string \<Rightarrow> int \<Rightarrow> string \<Rightarrow> string
     \<Rightarrow> (AppVolume \<times> Operation \<times> bool) tx" where
  "DeleteAppVolume now draws workspaceID actorID appEnvironmentPublicID expectedVersion idempotencyHash payloadHash =
     with_replay (\<lambda>db. operationByIdempotency db workspaceID actorID idempotencyHash payloadHash) replayed_volume
     (bind_tx (find_volume workspaceID appEnvironmentPublicID)
     (\<lambda>volume. bind_tx (check_tx (\<lambda>_. \<not> (av_Version volume \<noteq> expectedVersion \<or> av_DeletionRequestedAt volume \<noteq> None))
        ErrVersionConflict)
     (\<lambda>_. bind_tx (check_tx (\<lambda>_. \<not> av_Attached volume) ErrVolumeAttached)
     (\<lambda>_. bind_tx (update_volume (av_ID volume) (\<lambda>v. v\<lparr>vol_desired_state := ''Deleted'',
          vol_deletion_requested_at := Some now, vol_version := vol_version v + 1, vol_updated_at := now\<rparr>))
     (\<lambda>row. bind_tx (translate_tx translateDBError
       (insertVolumeOperation now draws workspaceID (av_AppEnvironmentID volume) (av_ID volume) actorID
          OperationDeleteVolume idempotencyHash payloadHash (vol_version row)))
     (\<lambda>operation. bind_tx (modify_tx (environment_progress now
         (\<lambda>ae. aer_id ae = av_AppEnvironmentID volume \<and> aer_archived_at ae = None)
         ''persistent storage removal is in progress''))
     (\<lambda>_. return_tx
        (volume\<lparr>av_DesiredState := vol_desired_state row, av_DeletionRequestedAt := vol_deletion_requested_at row,
               av_Version := vol_version row, av_UpdatedAt := vol_updated_at row\<rparr>,
         operation\<lparr>op_AppVolumePublicID := av_PublicID volume\<rparr>, False))))))))"

section \<open>Effect on the queue of operations\<close>

interpretation queue_frame: tx_frame "queue_step now" for now
  by unfold_locales (simp, rule queue_step_trans)

lemma drawn_Inr [simp]: "drawn draw db = Inr (x, db') \<longleftrightarrow> draw = Inr x \<and> db' = db"
  by (auto simp: drawn_def split: sum.splits)

lemma drawnE: "drawn draw db = Inr (x, db') \<Longrightarrow> (draw = Inr x \<Longrightarrow> db' = db \<Longrightarrow> P) \<Longrightarrow> P"
  by simp

lemma keeps_drawn: "(\<And>db. R db db) \<Longrightarrow> keeps R (drawn draw)"
  by (simp add: keeps_def)

lemma insert_volume_queue: "keeps (queue_step now) (insert_volume row)"
  by (rule keepsI, rule queue_step_same)
    (auto simp: insert_volume_def Let_def same_queue_def split: if_splits)

lemma update_volume_queue: "keeps (queue_step now) (update_volume i f)"
  by (rule keepsI, rule queue_step_same) (auto simp: update_volume_def same_queue_def split: sum.splits)

lemma environment_progress_queue: "keeps (queue_step now) (modify_tx (environment_progress now' p m))"
  by (rule keeps_modify, rule queue_step_same) (simp add: environment_progress_def same_queue_def)

lemma insertVolumeOperation_keeps:
  "keeps (queue_step now) (insertVolumeOperation now draws w e v u k ih ph version)"
  by (rule keepsI, rule insertVolumeOperation_queue)

lemma find_volume_keeps: "(\<And>db. R db db) \<Longrightarrow> keeps R (find_volume w e)"
  unfolding find_volume_def by (intro keeps_translate) (simp add: keeps_def)

lemma replayed_volume_keeps: "(\<And>db. R db db) \<Longrightarrow> keeps R (replayed_volume operation)"
  by (auto simp: keeps_def replayed_volume_def bind_tx_Inr)

lemmas volume_queue_rules = queue_frame.keeps_rules keeps_drawn insert_volume_queue update_volume_queue
  environment_progress_queue insertVolumeOperation_keeps find_volume_keeps replayed_volume_keeps queue_step_refl

lemma createAppVolume_queue:
  "keeps (queue_step now) (createAppVolume now draw draws w u ae request)"
  unfolding createAppVolume_def by (intro volume_queue_rules)

lemma ExpandAppVolume_queue:
  "keeps (queue_step now) (ExpandAppVolume now draws w u e n version ih ph)"
  unfolding ExpandAppVolume_def by (intro volume_queue_rules)

lemma DeleteAppVolume_queue:
  "keeps (queue_step now) (DeleteAppVolume now draws w u e version ih ph)"
  unfolding DeleteAppVolume_def by (intro volume_queue_rules)

section \<open>Capacity and quotas\<close>

definition volumes_wf :: "database \<Rightarrow> bool" where
  "volumes_wf db \<longleftrightarrow>
     keyed_on sp_ID (storage_profiles db) \<and> keyed_on vol_id (app_volumes db)
     \<and> list_all (\<lambda>v. vol_id v < app_volumes_seq db) (app_volumes db)"

definition within_quota :: "database \<Rightarrow> bool" where
  "within_quota db \<longleftrightarrow>
     (\<forall>sp\<in>set (storage_profiles db). global_used db (sp_ID sp) \<le> sp_TotalCapacityGiB sp
        \<and> (\<forall>w. workspace_used db w (sp_ID sp) \<le> sp_WorkspaceQuotaGiB sp))"

definition storage_inv :: "database \<Rightarrow> bool" where
  "storage_inv db \<longleftrightarrow> volumes_wf db \<and> within_quota db"

definition profile_share :: "string \<Rightarrow> AppVolumeRow \<Rightarrow> int" where
  "profile_share profileID v = (if vol_storage_profile_id v = profileID then vol_requested_size_gib v else 0)"

definition workspace_share :: "int \<Rightarrow> string \<Rightarrow> AppVolumeRow \<Rightarrow> int" where
  "workspace_share w profileID v =
     (if vol_workspace_id v = w \<and> vol_storage_profile_id v = profileID then vol_requested_size_gib v else 0)"

lemma used_as_shares:
  "global_used db profileID = (\<Sum>v\<leftarrow>app_volumes db. profile_share profileID v)"
  "workspace_used db w profileID = (\<Sum>v\<leftarrow>app_volumes db. workspace_share w profileID v)"
  unfolding global_used_def workspace_used_def sum_list_map_filter'
  by (simp_all add: profile_share_def workspace_share_def)

lemma sum_list_update_one:
  fixes g :: "'r \<Rightarrow> int"
  assumes "keyed_on key rows" and "r \<in> set rows"
  shows "(\<Sum>q\<leftarrow>sql_update (\<lambda>q. key q = key r) f rows. g q) = (\<Sum>q\<leftarrow>rows. g q) - g r + g (f r)"
  using assms
proof (induction rows)
  case (Cons a rows)
  show ?case
  proof (cases "r = a")
    case True
    then have "\<forall>q\<in>set rows. key q \<noteq> key r" using Cons.prems(1) by (simp add: keyed_on_def) (metis imageI)
    then show ?thesis using True by (simp add: sql_update_none)
  next
    case False
    then have "r \<in> set rows" "keyed_on key rows" "key a \<noteq> key r"
      using Cons.prems by (auto simp: keyed_on_def)
    then show ?thesis using Cons.IH by simp
  qed
qed simp

text \<open>Statements that leave the profiles and the shares of the volumes alone.\<close>

definition same_storage :: "database \<Rightarrow> database \<Rightarrow> bool" where
  "same_storage db db' \<longleftrightarrow>
     storage_profiles db' = storage_profiles db \<and> app_volumes_seq db' = app_volumes_seq db
     \<and> map (\<lambda>v. (vol_id v, vol_workspace_id v, vol_storage_profile_id v, vol_requested_size_gib v)) (app_volumes db')
       = map (\<lambda>v. (vol_id v, vol_workspace_id v, vol_storage_profile_id v, vol_requested_size_gib v)) (app_volumes db)"

interpretation storage_frame: tx_frame same_storage
  by unfold_locales (simp_all add: same_storage_def)

lemma same_storage_shares:
  assumes "same_storage db db'"
  shows "map vol_id (app_volumes db') = map vol_id (app_volumes db)"
    and "map (profile_share p) (app_volumes db') = map (profile_share p) (app_volumes db)"
    and "map (workspace_share w p) (app_volumes db') = map (workspace_share w p) (app_volumes db)"
proof -
  let ?c = "\<lambda>v. (vol_id v, vol_workspace_id v, vol_storage_profile_id v, vol_requested_size_gib v)"
  have eq: "map ?c (app_volumes db') = map ?c (app_volumes db)" using assms by (simp add: same_storage_def)
  have via: "map (h \<circ> ?c) (app_volumes db') = map (h \<circ> ?c) (app_volumes db)" for h :: "_ \<Rightarrow> int"
    unfolding map_map [symmetric] eq ..
  from via [of fst] show "map vol_id (app_volumes db') = map vol_id (app_volumes db)" by (simp add: o_def)
  from via [of "\<lambda>(_, _, q, n). if q = p then n else 0"]
  show "map (profile_share p) (app_volumes db') = map (profile_share p) (app_volumes db)"
    by (simp add: o_def profile_share_def [abs_def])
  from via [of "\<lambda>(_, u, q, n). if u = w \<and> q = p then n else 0"]
  show "map (workspace_share w p) (app_volumes db') = map (workspace_share w p) (app_volumes db)"
    by (simp add: o_def workspace_share_def [abs_def])
qed

lemma same_storage_inv: "same_storage db db' \<Longrightarrow> storage_inv db \<Longrightarrow> storage_inv db'"
proof -
  assume s: "same_storage db db'" and inv: "storage_inv db"
  have ids: "(\<forall>v\<in>set (app_volumes db). vol_id v < n) \<longleftrightarrow> (\<forall>i\<in>set (map vol_id (app_volumes db)). i < n)" for db n
    by simp
  have "volumes_wf db'" using inv s same_storage_shares(1) [OF s]
    unfolding storage_inv_def volumes_wf_def keyed_on_def list_all_iff ids by (simp add: same_storage_def)
  moreover have "within_quota db'" using inv s
    unfolding storage_inv_def within_quota_def used_as_shares same_storage_shares(2,3) [OF s]
    by (simp add: same_storage_def)
  ultimately show ?thesis by (simp add: storage_inv_def)
qed

lemma same_storage_preserves: "same_storage db db' \<Longrightarrow> preserves storage_inv db db'"
  unfolding preserves_def by (blast intro: same_storage_inv)

interpretation quota_frame: tx_frame "preserves storage_inv"
  by (rule preserves_frame)

lemma quota_same: "keeps same_storage t \<Longrightarrow> keeps (preserves storage_inv) t"
  by (erule keeps_mono) (rule same_storage_preserves)

lemma insert_volume_quota:
  assumes "keyed_on sp_ID (storage_profiles db)" and "sp \<in> set (storage_profiles db)"
    and "vol_storage_profile_id row = sp_ID sp" and "vol_workspace_id row = w"
    and "global_used db (sp_ID sp) + vol_requested_size_gib row \<le> sp_TotalCapacityGiB sp"
    and "workspace_used db w (sp_ID sp) + vol_requested_size_gib row \<le> sp_WorkspaceQuotaGiB sp"
    and "insert_volume row db = Inr (v, db')" and "storage_inv db"
  shows "storage_inv db'"
proof -
  have db': "db' = db\<lparr>app_volumes := app_volumes db @ [row\<lparr>vol_id := app_volumes_seq db\<rparr>],
      app_volumes_seq := app_volumes_seq db + 1\<rparr>"
    using assms(7) by (auto simp: insert_volume_def Let_def split: if_splits)
  have only: "q = sp" if "q \<in> set (storage_profiles db)" "sp_ID q = sp_ID sp" for q
    using keyed_on_unique [OF assms(1) that(1) assms(2)] that(2) by simp
  have "volumes_wf db'" using assms(8)
    by (auto simp: storage_inv_def volumes_wf_def db' keyed_on_def list_all_iff)
  moreover have "within_quota db'"
    unfolding within_quota_def
  proof (intro ballI conjI allI)
    fix q u assume q: "q \<in> set (storage_profiles db')"
    then have old: "global_used db (sp_ID q) \<le> sp_TotalCapacityGiB q" "workspace_used db u (sp_ID q) \<le> sp_WorkspaceQuotaGiB q"
      using assms(8) by (simp_all add: storage_inv_def within_quota_def db')
    show "global_used db' (sp_ID q) \<le> sp_TotalCapacityGiB q"
      using old(1) assms(3,5) only [of q] q
      by (cases "sp_ID q = sp_ID sp") (simp_all add: used_as_shares db' profile_share_def)
    show "workspace_used db' u (sp_ID q) \<le> sp_WorkspaceQuotaGiB q"
      using old(2) assms(3,4,6) only [of q] q
      by (cases "sp_ID q = sp_ID sp \<and> u = w") (auto simp: used_as_shares db' workspace_share_def)
  qed
  ultimately show ?thesis by (simp add: storage_inv_def)
qed

lemma resize_volume_quota:
  assumes "v \<in> set (app_volumes db)" and "sp \<in> set (storage_profiles db)" and "vol_storage_profile_id v = sp_ID sp"
    and "global_used db (sp_ID sp) + (n - vol_requested_size_gib v) \<le> sp_TotalCapacityGiB sp"
    and "workspace_used db (vol_workspace_id v) (sp_ID sp) + (n - vol_requested_size_gib v) \<le> sp_WorkspaceQuotaGiB sp"
    and f: "\<And>q. vol_id (f q) = vol_id q \<and> vol_workspace_id (f q) = vol_workspace_id q
      \<and> vol_storage_profile_id (f q) = vol_storage_profile_id q \<and> vol_requested_size_gib (f q) = n"
    and "update_volume (vol_id v) f db = Inr (row, db')" and inv: "storage_inv db"
  shows "storage_inv db'"
proof -
  have wf: "keyed_on sp_ID (storage_profiles db)" "keyed_on vol_id (app_volumes db)"
    using inv by (simp_all add: storage_inv_def volumes_wf_def)
  have db': "db' = db\<lparr>app_volumes := sql_update (\<lambda>q. vol_id q = vol_id v) f (app_volumes db)\<rparr>"
    using assms(7) by (auto simp: update_volume_def split: sum.splits)
  have only: "q = sp" if "q \<in> set (storage_profiles db)" "sp_ID q = sp_ID sp" for q
    using keyed_on_unique [OF wf(1) that(1) assms(2)] that(2) by simp
  note sums = sum_list_update_one [OF wf(2) assms(1)]
  have "volumes_wf db'" using inv f assms(1)
    by (auto simp: storage_inv_def volumes_wf_def db' list_all_iff in_sql_update intro!: keyed_on_update)
  moreover have "within_quota db'"
    unfolding within_quota_def
  proof (intro ballI conjI allI)
    fix q u assume q: "q \<in> set (storage_profiles db')"
    then have old: "global_used db (sp_ID q) \<le> sp_TotalCapacityGiB q" "workspace_used db u (sp_ID q) \<le> sp_WorkspaceQuotaGiB q"
      using inv by (simp_all add: storage_inv_def within_quota_def db')
    have new: "global_used db' (sp_ID q) = global_used db (sp_ID q) - profile_share (sp_ID q) v + profile_share (sp_ID q) (f v)"
        "workspace_used db' u (sp_ID q) = workspace_used db u (sp_ID q) - workspace_share u (sp_ID q) v + workspace_share u (sp_ID q) (f v)"
      unfolding used_as_shares db' by (simp_all add: sums)
    have shares: "profile_share (sp_ID q) (f v) = (if sp_ID sp = sp_ID q then n else profile_share (sp_ID q) v)"
        "profile_share (sp_ID q) v = (if sp_ID sp = sp_ID q then vol_requested_size_gib v else 0)"
        "workspace_share u (sp_ID q) (f v) = (if vol_workspace_id v = u \<and> sp_ID sp = sp_ID q then n else workspace_share u (sp_ID q) v)"
        "workspace_share u (sp_ID q) v = (if vol_workspace_id v = u \<and> sp_ID sp = sp_ID q then vol_requested_size_gib v else 0)"
      using f [of v] assms(3) by (simp_all add: profile_share_def workspace_share_def)
    have is_sp: "sp_ID sp = sp_ID q \<Longrightarrow> q = sp" using only [of q] q by (simp add: db')
    show "global_used db' (sp_ID q) \<le> sp_TotalCapacityGiB q"
      using old(1) assms(4) is_sp unfolding new(1) shares(1,2) by (cases "sp_ID sp = sp_ID q") simp_all
    show "workspace_used db' u (sp_ID q) \<le> sp_WorkspaceQuotaGiB q"
      using old(2) assms(5) is_sp unfolding new(2) shares(3,4)
      by (cases "vol_workspace_id v = u"; cases "sp_ID sp = sp_ID q") simp_all
  qed
  ultimately show ?thesis by (simp add: storage_inv_def)
qed

lemma allocate_operation_frame:
  assumes "allocate_operation n draws row db = Inr (r, db')"
  shows "\<exists>rows m. db' = db\<lparr>operations := rows, operations_seq := m\<rparr>"
proof -
  obtain pid where "insert_operation_row (row\<lparr>o_public_id := pid\<rparr>) db = Inr (r, db')"
    using assms by (rule allocate_operation_Inr)
  then show ?thesis using insert_operation_row_Inr(2) by blast
qed

lemma insertVolumeOperation_frame:
  assumes "insertVolumeOperation now draws w e v u k ih ph version db = Inr (operation, db')"
  shows "\<exists>rows m. db' = db\<lparr>operations := rows, operations_seq := m\<rparr>"
proof -
  obtain row r where "allocate_operation 3 draws row db = Inr (r, db')"
    using assms by (auto simp: insertVolumeOperation_def split: sum.splits option.splits)
  then show ?thesis by (rule allocate_operation_frame)
qed

lemma insertVolumeOperation_storage: "keeps same_storage (insertVolumeOperation now draws w e v u k ih ph version)"
  by (rule keepsI, drule insertVolumeOperation_frame) (auto simp: same_storage_def)

lemma environment_progress_storage: "same_storage db (environment_progress now p m db)"
  by (simp add: same_storage_def environment_progress_def)

lemma update_volume_storage:
  assumes "\<And>q. vol_id (f q) = vol_id q \<and> vol_workspace_id (f q) = vol_workspace_id q
      \<and> vol_storage_profile_id (f q) = vol_storage_profile_id q \<and> vol_requested_size_gib (f q) = vol_requested_size_gib q"
  shows "keeps same_storage (update_volume i f)"
proof (rule keepsI)
  fix db row db' assume "update_volume i f db = Inr (row, db')"
  then have "db' = db\<lparr>app_volumes := sql_update (\<lambda>v. vol_id v = i) f (app_volumes db)\<rparr>"
    by (auto simp: update_volume_def split: sum.splits)
  then show "same_storage db db'" using assms by (simp add: same_storage_def sql_update_def)
qed

lemma createAppVolume_quota: "keeps (preserves storage_inv) (createAppVolume now draw draws w u ae request)"
proof (rule keepsI, unfold preserves_def, rule impI)
  fix db volume db' assume inv: "storage_inv db"
    and ok: "createAppVolume now draw draws w u ae request db = Inr (volume, db')"
  from ok obtain sp binding publicID v db1 ih ph operation db2 m where
      sp: "query_row (\<lambda>sp. sp_ID sp = vr_StorageProfileID request) (storage_profiles db) = Inr sp"
    and quota: "\<not> (sp_TotalCapacityGiB sp < global_used db (sp_ID sp) + vr_SizeGiB request
      \<or> sp_WorkspaceQuotaGiB sp < workspace_used db w (sp_ID sp) + vr_SizeGiB request)"
    and ins: "insert_volume (new_volume now w ae request binding publicID) db = Inr (v, db1)"
    and queued: "insertVolumeOperation now draws w (ae_ID ae) (vol_id v) u OperationEnsureVolume ih ph
        (vol_version v) db1 = Inr (operation, db2)"
    and db': "db' = environment_progress now (\<lambda>e. aer_id e = ae_ID ae) m db2"
    unfolding createAppVolume_def by (elim tx_elims drawnE, hypsubst) (rule that, (assumption | rule refl)+)
  have "keyed_on sp_ID (storage_profiles db)" using inv by (simp add: storage_inv_def volumes_wf_def)
  then have "storage_inv db1"
    by (rule insert_volume_quota [OF _ _ _ _ _ _ ins inv, where sp = sp and w = w])
      (use query_row_Inr [OF sp] quota in \<open>simp_all add: new_volume_def\<close>)
  then show "storage_inv db'"
    using same_storage_inv keepsD [OF insertVolumeOperation_storage queued] environment_progress_storage unfolding db'
    by blast
qed

lemma find_volumeE:
  assumes "find_volume w e db = Inr (volume, db')"
  obtains v where "v \<in> set (app_volumes db)" and "db' = db" and "av_ID volume = vol_id v"
    and "vol_workspace_id v = w" and "av_StorageProfileID volume = vol_storage_profile_id v"
    and "av_SizeGiB volume = vol_requested_size_gib v" and "av_Version volume = vol_version v"
    and "av_AppEnvironmentID volume = vol_app_environment_id v"
proof -
  from assms obtain v where db': "db' = db" and v: "query_row (volume_of_environment db w e) (app_volumes db) = Inr v"
    and scan: "scanAppVolume db v = Inr volume"
    unfolding find_volume_def by (elim translate_txE read_txE) (auto split: sum.splits)
  note row = query_row_Inr [OF v]
  show thesis
    by (rule that [OF conjunct1 [OF row] db'])
      (use row scan in \<open>auto simp: volume_of_environment_def scanAppVolume_def split: sum.splits\<close>)
qed

lemma replayed_volumeE:
  assumes "replayed_volume operation db = Inr (r, db')"
  shows "db' = db"
  using assms unfolding replayed_volume_def by (elim tx_elims) simp

lemma ExpandAppVolume_quota: "keeps (preserves storage_inv) (ExpandAppVolume now draws w u e n version ih ph)"
proof (rule keepsI, unfold preserves_def, rule impI)
  fix db r db' assume inv: "storage_inv db"
    and ok: "ExpandAppVolume now draws w u e n version ih ph db = Inr (r, db')"
  from ok show "storage_inv db'" unfolding ExpandAppVolume_def
  proof (cases rule: with_replayE)
    case (replay operation)
    then show ?thesis using inv replayed_volumeE [OF replay(2)] by simp
  next
    case fresh
    from fresh(2) obtain volume db0 sp row db1 operation db2 m where
        vol: "find_volume w e db = Inr (volume, db0)"
      and sp: "query_row (\<lambda>sp. sp_ID sp = av_StorageProfileID volume \<and> sp_Enabled sp) (storage_profiles db0) = Inr sp"
      and quota: "let delta = n - av_SizeGiB volume in \<not> (sp_TotalCapacityGiB sp < global_used db0 (av_StorageProfileID volume) + delta
        \<or> sp_WorkspaceQuotaGiB sp < workspace_used db0 w (av_StorageProfileID volume) + delta)"
      and upd: "update_volume (av_ID volume) (\<lambda>v. v\<lparr>vol_requested_size_gib := n, vol_observed_state := ''Expanding'',
         vol_message := [], vol_version := vol_version v + 1, vol_updated_at := now\<rparr>) db0 = Inr (row, db1)"
      and queued: "insertVolumeOperation now draws w (av_AppEnvironmentID volume) (av_ID volume) u OperationExpandVolume ih ph
        (vol_version row) db1 = Inr (operation, db2)"
      and db': "db' = environment_progress now (\<lambda>ae. aer_id ae = av_AppEnvironmentID volume) m db2"
      by (elim tx_elims, hypsubst) (rule that, (assumption | rule refl)+)
    from vol obtain v where v: "v \<in> set (app_volumes db)" and eqs: "db0 = db" "av_ID volume = vol_id v"
        "vol_workspace_id v = w" "av_StorageProfileID volume = vol_storage_profile_id v"
        "av_SizeGiB volume = vol_requested_size_gib v"
      by (rule find_volumeE)
    note sp = query_row_Inr [OF sp, unfolded eqs]
    have "storage_inv db1"
      using upd unfolding eqs
      by (rule resize_volume_quota [OF v conjunct1 [OF sp] _ _ _ _ _ inv, rotated 4])
        (use sp quota eqs in \<open>simp_all add: Let_def not_less\<close>)
    then show ?thesis
      using same_storage_inv keepsD [OF insertVolumeOperation_storage queued] environment_progress_storage unfolding db'
      by blast
  qed
qed

lemma DeleteAppVolume_storage: "keeps same_storage (DeleteAppVolume now draws w u e version ih ph)"
  unfolding DeleteAppVolume_def
  by (intro storage_frame.keeps_rules find_volume_keeps replayed_volume_keeps update_volume_storage
      insertVolumeOperation_storage keeps_modify environment_progress_storage storage_frame.frame_refl) simp_all

section \<open>What the listing of profiles promises\<close>

lemma storage_listing_available:
  assumes "p \<in> set (ListStorageProfiles now db w cls)"
  obtains sp csb i where "sp \<in> set (storage_profiles db)" and "stp_ID p = sp_ID sp" and "sp_Enabled sp"
    and "stp_MinimumSizeGiB p = sp_MinimumSizeGiB sp" and "stp_MaximumSizeGiB p = sp_MaximumSizeGiB sp"
    and "stp_AvailableGiB p = storageAvailable (sp_TotalCapacityGiB sp) (global_used db (sp_ID sp))
           (sp_WorkspaceQuotaGiB sp) (workspace_used db w (sp_ID sp))"
    and "csb \<in> set (cluster_storage_bindings db)" and "csb_storage_profile_id csb = sp_ID sp"
    and "binding_healthy now csb" and "i \<in> set (agent_installations db)" and "ai_id i = csb_cluster_id csb"
    and "ai_public_id i = cls"
  using assms by (auto simp: ListStorageProfiles_def storageAvailable_def list_ex_iff)

lemma insertVolumeOperation_errors:
  "insertVolumeOperation now draws w e v u k ih ph version db \<noteq> Inl ErrStorageQuotaExceeded"
proof -
  have "allocate_operation n draws row db \<noteq> Inl ErrStorageQuotaExceeded" for n draws row
    by (induction n arbitrary: draws) (auto simp: insert_operation_row_def Let_def uniqueConstraint_def split: sum.splits)
  then show ?thesis by (auto simp: insertVolumeOperation_def split: sum.splits option.splits)
qed

lemma insert_volume_errors: "translateDBError err \<noteq> ErrStorageQuotaExceeded" if "insert_volume row db = Inl err"
  using that by (auto simp: insert_volume_def Let_def translateDBError_def split: if_splits)


definition sample_profile :: StorageProfileInstallation where
  "sample_profile =
     \<lparr>sp_ID = ''fast'', sp_Name = ''Fast'', sp_MinimumSizeGiB = 1, sp_MaximumSizeGiB = 10, sp_TotalCapacityGiB = 10,
      sp_WorkspaceQuotaGiB = 8, sp_Expandable = True, sp_Snapshots = False, sp_AutomaticBackup = False,
      sp_Durability = ''NodeLocal'', sp_RuntimeBinding = '''', sp_Enabled = True\<rparr>"

definition sample_binding :: StorageBindingRow where
  "sample_binding =
     \<lparr>csb_cluster_id = ai_id sample_installation, csb_storage_profile_id = ''fast'', csb_storage_class_name = ''standard'',
      csb_provisioner = '''', csb_access_modes = [], csb_allow_expansion = True, csb_volume_binding_mode = '''',
      csb_health = ''Healthy'', csb_reason_code = '''', csb_observed_at = None, csb_expires_at = Some 100,
      csb_observed_session_id = '''', csb_observed_sequence = 0, csb_version = 1, csb_created_by = 1,
      csb_updated_by = 1, csb_created_at = 0, csb_updated_at = 0\<rparr>"

definition sample_storage :: database where
  "sample_storage = empty_database
     \<lparr>storage_profiles := [profile_row 0 sample_profile], cluster_storage_bindings := [sample_binding],
      agent_installations := [sample_installation\<lparr>ai_status := ''Active''\<rparr>],
      workspace_clusters := [\<lparr>wc_workspace_id = 1, wc_installation_id = ai_id sample_installation, wc_namespace_name = ''ws'',
        wc_state = ''Ready'', wc_message = '''', wc_observed_generation = 0, wc_created_at = 0, wc_updated_at = 0\<rparr>]\<rparr>"

definition sample_request :: VolumeRequest where
  "sample_request = \<lparr>vr_StorageProfileID = ''fast'', vr_SizeGiB = 9, vr_MountPath = ''/data''\<rparr>"


end
