(* ===== verification/Environment_Store.thy ===== *)
theory Environment_Store
  imports Volume_Store Publication Hierarchy_Store
begin

text \<open>
  \<open>internal/store/app_environment.go\<close>: app environments with their configuration, its revisions, its
  parameter bindings and its publication claims. The policy of the store's publication settings is
  an argument.
\<close>

section \<open>Parameter bindings\<close>

definition normalized :: "RuntimeConfig \<Rightarrow> RuntimeConfig tx" where
  "normalized configuration =
     (case NormalizeRuntimeConfig configuration of None \<Rightarrow> fail_tx Panic | Some c \<Rightarrow> return_tx c)"

definition bindable :: "database \<Rightarrow> int \<Rightarrow> ParameterBinding \<Rightarrow> ParameterRow list" where
  "bindable db workspaceID binding =
     filter (\<lambda>p. pm_workspace_id p = workspaceID \<and> pm_public_id p = pb_ParameterPublicID binding
               \<and> pm_archived_at p = None
               \<and> list_ex (\<lambda>pv. pv_parameter_id pv = pm_id p \<and> pv_version pv = pb_ParameterVersion binding)
                   (parameter_versions db)) (parameters db)"

definition insert_binding :: "time \<Rightarrow> int \<Rightarrow> int \<Rightarrow> ParameterBinding \<Rightarrow> unit tx" where
  "insert_binding now appEnvironmentID workspaceID binding db =
     (case bindable db workspaceID binding of
        [p] \<Rightarrow>
          if \<not> MatchString variableNamePattern (pb_Name binding) \<or> 253 < RuneCount (pb_Name binding)
          then Inl (CheckViolation ''app_environment_parameter_binding_name_valid'')
          else if list_ex (\<lambda>b. apb_app_environment_id b = appEnvironmentID \<and> apb_environment_name b = pb_Name binding)
                    (parameter_bindings db)
          then Inl ErrConflict
          else Inr ((), db\<lparr>parameter_bindings := parameter_bindings db @
                 [\<lparr>apb_app_environment_id = appEnvironmentID, apb_environment_name = pb_Name binding,
                   apb_parameter_id = pm_id p, apb_parameter_version = pb_ParameterVersion binding,
                   apb_created_at = now\<rparr>]\<rparr>)
      | _ \<Rightarrow> Inl ErrParameterBinding)"

fun insert_bindings :: "time \<Rightarrow> int \<Rightarrow> int \<Rightarrow> ParameterBinding list \<Rightarrow> unit tx" where
  "insert_bindings now appEnvironmentID workspaceID [] = return_tx ()"
| "insert_bindings now appEnvironmentID workspaceID (binding # rest) =
     bind_tx (insert_binding now appEnvironmentID workspaceID binding)
     (\<lambda>_. insert_bindings now appEnvironmentID workspaceID rest)"

definition replaceParameterBindings :: "time \<Rightarrow> int \<Rightarrow> int \<Rightarrow> ParameterBinding list \<Rightarrow> unit tx" where
  "replaceParameterBindings now appEnvironmentID workspaceID bindings =
     bind_tx (modify_tx (\<lambda>db. db\<lparr>parameter_bindings :=
       filter (\<lambda>b. apb_app_environment_id b \<noteq> appEnvironmentID) (parameter_bindings db)\<rparr>))
     (\<lambda>_. insert_bindings now appEnvironmentID workspaceID bindings)"

fun ResolveParameterBindings :: "database \<Rightarrow> int \<Rightarrow> ParameterBinding list \<Rightarrow> store_error + ResolvedParameter list" where
  "ResolveParameterBindings db workspaceID [] = Inr []"
| "ResolveParameterBindings db workspaceID (binding # rest) =
     (case [(p, pv). p \<leftarrow> parameters db, pv \<leftarrow> parameter_versions db,
              pm_workspace_id p = workspaceID \<and> pm_public_id p = pb_ParameterPublicID binding
              \<and> pv_parameter_id pv = pm_id p \<and> pv_version pv = pb_ParameterVersion binding] of
        [] \<Rightarrow> Inl ErrNotFound
      | (p, pv) # _ \<Rightarrow>
          (case ResolveParameterBindings db workspaceID rest of
             Inl err \<Rightarrow> Inl err
           | Inr resolved \<Rightarrow> Inr
               (\<lparr>rpar_Binding = binding, rpar_Kind = pm_kind p, rpar_PlainTextValue = COALESCE (pv_plaintext_value pv) '''',
                 rpar_SecretReference = COALESCE (pv_secret_reference pv) '''',
                 rpar_SecretBackendVersion = COALESCE (pv_secret_backend_version pv) 0\<rparr> # resolved)))"

section \<open>Creation\<close>

definition environment_id_pattern :: regexp where "environment_id_pattern = id_pattern ''aev-''"

definition runtime_name_pattern :: regexp where
  "runtime_name_pattern = Seq (Lit ''ap-'') label_pattern"

definition new_environment ::
    "time \<Rightarrow> string \<Rightarrow> int \<Rightarrow> int \<Rightarrow> int \<Rightarrow> int \<Rightarrow> int \<Rightarrow> string \<Rightarrow> string \<Rightarrow> RuntimeConfig \<Rightarrow> AppEnvironmentRow" where
  "new_environment now publicID workspaceID projectID appID environmentID clusterID branch workloadKind configuration =
     \<lparr>aer_id = 0, aer_public_id = publicID, aer_workspace_id = workspaceID, aer_cluster_id = Some clusterID,
      aer_project_id = projectID, aer_app_id = appID, aer_environment_id = environmentID,
      aer_source_branch = branch, aer_runtime_name = RuntimeName publicID, aer_workload_kind = workloadKind,
      aer_configuration_json = stored_configuration configuration, aer_configuration_version = 1,
      aer_version = 1, aer_desired_deployment_id = None, aer_current_deployment_id = None,
      aer_current_release_id = None, aer_runtime_observed_generation = 0, aer_runtime_observed_at = None,
      aer_reconciliation_generation = 0, aer_runtime_desired_version = 0, aer_runtime_spec_hash = None,
      aer_last_state = StatePending, aer_last_message = '''', aer_deletion_requested_at = None,
      aer_archived_at = None, aer_created_at = now, aer_updated_at = now\<rparr>"

definition insert_environment :: "AppEnvironmentRow \<Rightarrow> AppEnvironmentRow tx" where
  "insert_environment row db =
     (let ae = row\<lparr>aer_id := app_environments_seq db\<rparr>; rows = app_environments db in
      if \<not> MatchString environment_id_pattern (aer_public_id ae)
         \<or> \<not> MatchString runtime_name_pattern (aer_runtime_name ae) \<or> 63 < RuneCount (aer_runtime_name ae)
         \<or> aer_workload_kind ae \<notin> {WorkloadStateless, WorkloadStateful}
      then Inl (CheckViolation ''app_environments'')
      else if list_ex (\<lambda>q. aer_public_id q = aer_public_id ae) rows
      then Inl (UniqueViolation ''app_environments_public_id_key'')
      else if list_ex (\<lambda>q. aer_workspace_id q = aer_workspace_id ae \<and> aer_runtime_name q = aer_runtime_name ae) rows
      then Inl (UniqueViolation ''app_environments_workspace_id_runtime_name_key'')
      else if list_ex (\<lambda>q. aer_app_id q = aer_app_id ae \<and> aer_environment_id q = aer_environment_id ae
                     \<and> aer_archived_at q = None) rows
      then Inl (UniqueViolation ''app_environments_app_environment_active'')
      else Inr (ae, db\<lparr>app_environments := rows @ [ae], app_environments_seq := app_environments_seq db + 1\<rparr>))"

text \<open>The joined selection that the insert takes its keys from: project, app, environment, cluster.\<close>

definition environment_parents ::
    "database \<Rightarrow> int \<Rightarrow> string \<Rightarrow> string \<Rightarrow> string \<Rightarrow> string \<Rightarrow> (ProjectRow \<times> AppRow \<times> EnvironmentRow \<times> AgentInstallationRow) list" where
  "environment_parents db workspaceID projectPublicID appPublicID environmentPublicID clusterPublicID =
     [(p, a, e, i). p \<leftarrow> projects db, a \<leftarrow> apps db, e \<leftarrow> environments db, i \<leftarrow> agent_installations db,
        prj_workspace_id p = workspaceID \<and> prj_public_id p = projectPublicID \<and> prj_archived_at p = None
        \<and> app_project_id a = prj_id p \<and> app_public_id a = appPublicID \<and> app_archived_at a = None
        \<and> env_project_id e = prj_id p \<and> env_public_id e = environmentPublicID \<and> env_archived_at e = None
        \<and> ai_public_id i = clusterPublicID \<and> ai_status i = ''Active''
        \<and> workspace_cluster_ready db (prj_workspace_id p) i]"

definition insert_selected ::
    "time \<Rightarrow> string \<Rightarrow> string \<Rightarrow> string \<Rightarrow> RuntimeConfig \<Rightarrow> (ProjectRow \<times> AppRow \<times> EnvironmentRow \<times> AgentInstallationRow) list
     \<Rightarrow> AppEnvironment tx" where
  "insert_selected now publicID branch workloadKind configuration parents =
     (case parents of
        [] \<Rightarrow> fail_tx ErrNotFound
      | (p, a, e, i) # _ \<Rightarrow>
          bind_tx (translate_tx (\<lambda>err. if uniqueConstraint err = ''app_environments_public_id_key''
                                      then ErrPublicIDCollision else translateDBError err)
            (insert_environment (new_environment now publicID (prj_workspace_id p) (prj_id p) (app_id a) (env_id e)
               (ai_id i) branch workloadKind configuration)))
          (\<lambda>row. translate_tx (no_rows_is ErrNotFound) (read_tx (\<lambda>db. scanAppEnvironment db row))))"

definition store_configuration :: "int \<Rightarrow> RuntimeConfig \<Rightarrow> database \<Rightarrow> database" where
  "store_configuration i configuration db =
     db\<lparr>app_environments := sql_update (\<lambda>ae. aer_id ae = i)
          (\<lambda>ae. ae\<lparr>aer_configuration_json := stored_configuration configuration\<rparr>) (app_environments db)\<rparr>"

definition insert_revision :: "time \<Rightarrow> int \<Rightarrow> int \<Rightarrow> RuntimeConfig \<Rightarrow> int \<Rightarrow> unit tx" where
  "insert_revision now appEnvironmentID version configuration actorID db =
     (if version \<le> 0 then Inl (CheckViolation ''app_environment_configuration_revision_version_valid'')
      else if list_ex (\<lambda>r. cr_app_environment_id r = appEnvironmentID \<and> cr_version r = version) (configuration_revisions db)
      then Inl (UniqueViolation ''app_environment_configuration_revisions_pkey'')
      else Inr ((), db\<lparr>configuration_revisions := configuration_revisions db @
             [\<lparr>cr_app_environment_id = appEnvironmentID, cr_version = version,
               cr_configuration_json = stored_configuration configuration, cr_created_by_user_id = Some actorID,
               cr_created_at = now\<rparr>]\<rparr>))"

text \<open>
  The part that creation and update of a configuration share: claim the public endpoints, store the
  configuration with the allocated ports, bind the parameters, record the revision.
\<close>

definition publish_configuration ::
    "PublicationPolicy \<Rightarrow> time \<Rightarrow> int \<Rightarrow> int \<Rightarrow> AppEnvironment \<Rightarrow> RuntimeConfig \<Rightarrow> AppEnvironment tx" where
  "publish_configuration policy now workspaceID actorID item configuration =
     bind_tx (reservePublicationClaims policy now (ae_ID item) (ae_ConfigurationVersion item) (ae_WorkloadKind item) configuration)
     (\<lambda>configuration. bind_tx (modify_tx (store_configuration (ae_ID item) configuration))
     (\<lambda>_. bind_tx (replaceParameterBindings now (ae_ID item) workspaceID (elems (rc_Parameters configuration)))
     (\<lambda>_. bind_tx (insert_revision now (ae_ID item) (ae_ConfigurationVersion item) configuration actorID)
     (\<lambda>_. return_tx (item\<lparr>ae_Configuration := configuration\<rparr>)))))"

definition createAppEnvironmentOnCluster ::
    "PublicationPolicy \<Rightarrow> time \<Rightarrow> string go_result \<Rightarrow> (nat \<Rightarrow> string go_result) \<Rightarrow> int \<Rightarrow> int \<Rightarrow> string \<Rightarrow> string \<Rightarrow> string
     \<Rightarrow> string \<Rightarrow> string \<Rightarrow> string \<Rightarrow> string \<Rightarrow> RuntimeConfig \<Rightarrow> VolumeRequest option
     \<Rightarrow> (AppEnvironment \<times> AppVolume option) tx" where
  "createAppEnvironmentOnCluster policy now draw draws workspaceID actorID publicID projectPublicID appPublicID
       environmentPublicID clusterPublicID branch workloadKind configuration volumeRequest =
     bind_tx (normalized configuration)
     (\<lambda>configuration. bind_tx (case ValidateWorkloadConfiguration workloadKind configuration volumeRequest of
          Some err \<Rightarrow> fail_tx (Message err) | None \<Rightarrow> return_tx ())
     (\<lambda>_. bind_tx (check_tx (\<lambda>db. list_ex (\<lambda>i. ai_public_id i = clusterPublicID \<and> ai_status i = ''Active''
          \<and> workspace_cluster_ready db workspaceID i) (agent_installations db)) ErrAgentUnavailable)
     (\<lambda>_. bind_tx (read_tx (\<lambda>db. Inr (environment_parents db workspaceID projectPublicID appPublicID
          environmentPublicID clusterPublicID)))
     (\<lambda>parents. bind_tx (insert_selected now publicID branch workloadKind configuration parents)
     (\<lambda>item. bind_tx (publish_configuration policy now workspaceID actorID item configuration)
     (\<lambda>item. if workloadKind = WorkloadStateful
        then (case volumeRequest of
                None \<Rightarrow> fail_tx Panic
              | Some request \<Rightarrow>
                  bind_tx (createAppVolume now draw draws workspaceID actorID item request)
                  (\<lambda>created. return_tx
                     (item\<lparr>ae_State := StateProgressing, ae_Message := ''persistent storage is being prepared''\<rparr>,
                      Some created)))
        else return_tx (item, None)))))))"

definition CreateAppEnvironmentOnCluster ::
    "PublicationPolicy \<Rightarrow> time \<Rightarrow> string go_result \<Rightarrow> (nat \<Rightarrow> string go_result) \<Rightarrow> int \<Rightarrow> int \<Rightarrow> string \<Rightarrow> string \<Rightarrow> string
     \<Rightarrow> string \<Rightarrow> string \<Rightarrow> string \<Rightarrow> string \<Rightarrow> RuntimeConfig \<Rightarrow> VolumeRequest option
     \<Rightarrow> (AppEnvironment \<times> AppVolume option) tx" where
  "CreateAppEnvironmentOnCluster = createAppEnvironmentOnCluster"

definition CreateAppEnvironmentWithWorkload ::
    "PublicationPolicy \<Rightarrow> time \<Rightarrow> string go_result \<Rightarrow> (nat \<Rightarrow> string go_result) \<Rightarrow> int \<Rightarrow> int \<Rightarrow> string \<Rightarrow> string \<Rightarrow> string
     \<Rightarrow> string \<Rightarrow> string \<Rightarrow> string \<Rightarrow> RuntimeConfig \<Rightarrow> VolumeRequest option \<Rightarrow> (AppEnvironment \<times> AppVolume option) tx" where
  "CreateAppEnvironmentWithWorkload policy now draw draws workspaceID actorID publicID projectPublicID appPublicID
       environmentPublicID branch workloadKind configuration volumeRequest =
     bind_tx (read_tx activeAgentInstallationID)
     (\<lambda>clusterID. bind_tx (read_tx (\<lambda>db. query_row (\<lambda>i. ai_id i = clusterID) (agent_installations db)))
     (\<lambda>i. CreateAppEnvironmentOnCluster policy now draw draws workspaceID actorID publicID projectPublicID appPublicID
            environmentPublicID (ai_public_id i) branch workloadKind configuration volumeRequest))"

definition CreateAppEnvironment ::
    "PublicationPolicy \<Rightarrow> time \<Rightarrow> string go_result \<Rightarrow> (nat \<Rightarrow> string go_result) \<Rightarrow> int \<Rightarrow> int \<Rightarrow> string \<Rightarrow> string \<Rightarrow> string
     \<Rightarrow> string \<Rightarrow> string \<Rightarrow> RuntimeConfig \<Rightarrow> AppEnvironment tx" where
  "CreateAppEnvironment policy now draw draws workspaceID actorID publicID projectPublicID appPublicID
       environmentPublicID branch configuration =
     bind_tx (CreateAppEnvironmentWithWorkload policy now draw draws workspaceID actorID publicID projectPublicID appPublicID
       environmentPublicID branch WorkloadStateless configuration None)
     (\<lambda>(item, _). return_tx item)"

section \<open>Update\<close>

definition environment_for_update :: "int \<Rightarrow> string \<Rightarrow> AppEnvironment tx" where
  "environment_for_update workspaceID publicID = read_tx (\<lambda>db. appEnvironmentForUpdate db workspaceID publicID)"

definition updatable :: "int \<Rightarrow> string \<Rightarrow> int \<Rightarrow> AppEnvironmentRow \<Rightarrow> bool" where
  "updatable workspaceID publicID version ae \<longleftrightarrow>
     aer_workspace_id ae = workspaceID \<and> aer_public_id ae = publicID \<and> aer_version ae = version
     \<and> aer_archived_at ae = None \<and> aer_deletion_requested_at ae = None"

definition update_environment_row ::
    "time \<Rightarrow> int \<Rightarrow> string \<Rightarrow> int \<Rightarrow> string \<Rightarrow> RuntimeConfig \<Rightarrow> int \<Rightarrow> AppEnvironment tx" where
  "update_environment_row now workspaceID publicID version branch configuration increment db =
     (let f = (\<lambda>ae. ae\<lparr>aer_source_branch := branch, aer_configuration_json := stored_configuration configuration,
                 aer_configuration_version := aer_configuration_version ae + increment,
                 aer_version := aer_version ae + 1, aer_updated_at := now\<rparr>)
      in case query_row (updatable workspaceID publicID version) (app_environments db) of
           Inl _ \<Rightarrow>
             if list_ex (\<lambda>ae. aer_workspace_id ae = workspaceID \<and> aer_public_id ae = publicID \<and> aer_archived_at ae = None)
                  (app_environments db)
             then Inl ErrVersionConflict else Inl ErrNotFound
         | Inr row \<Rightarrow>
             (case scanAppEnvironment db (f row) of
                Inl err \<Rightarrow> Inl (translateDBError err)
              | Inr item \<Rightarrow> Inr (item, db\<lparr>app_environments :=
                    sql_update (updatable workspaceID publicID version) f (app_environments db)\<rparr>)))"

definition UpdateAppEnvironment ::
    "PublicationPolicy \<Rightarrow> time \<Rightarrow> int \<Rightarrow> int \<Rightarrow> string \<Rightarrow> string \<Rightarrow> RuntimeConfig \<Rightarrow> int \<Rightarrow> AppEnvironment tx" where
  "UpdateAppEnvironment policy now workspaceID actorID publicID branch configuration version =
     bind_tx (normalized configuration)
     (\<lambda>configuration. bind_tx (environment_for_update workspaceID publicID)
     (\<lambda>current. bind_tx (check_tx (\<lambda>_. \<not> (ae_Version current \<noteq> version \<or> ae_DeletionRequestedAt current \<noteq> None))
        ErrVersionConflict)
     (\<lambda>_. let configuration = inheritAllocatedPorts configuration (ae_Configuration current);
              configurationChanged = (stored_configuration (ae_Configuration current) \<noteq> stored_configuration configuration);
              branchChanged = (ae_SourceBranch current \<noteq> branch)
          in if \<not> configurationChanged \<and> \<not> branchChanged then return_tx current
             else bind_tx (update_environment_row now workspaceID publicID version branch configuration
                    (if configurationChanged then 1 else 0))
             (\<lambda>item. if configurationChanged
                then publish_configuration policy now workspaceID actorID item configuration
                else return_tx item))))"

section \<open>Deletion\<close>

definition DeleteAppEnvironment ::
    "time \<Rightarrow> (nat \<Rightarrow> string go_result) \<Rightarrow> int \<Rightarrow> int \<Rightarrow> string \<Rightarrow> int \<Rightarrow> string \<Rightarrow> string \<Rightarrow> Operation tx" where
  "DeleteAppEnvironment now draws workspaceID actorID appEnvironmentPublicID version idempotencyHash payloadHash =
     with_replay (\<lambda>db. operationByIdempotency db workspaceID actorID idempotencyHash payloadHash) return_tx
     (bind_tx (environment_for_update workspaceID appEnvironmentPublicID)
     (\<lambda>appEnvironment. bind_tx (check_tx (\<lambda>_. \<not> (ae_Version appEnvironment \<noteq> version
          \<or> ae_DeletionRequestedAt appEnvironment \<noteq> None)) ErrVersionConflict)
     (\<lambda>_. bind_tx (check_tx (\<lambda>db. \<not> list_ex (active_on (ae_ID appEnvironment)) (operations db)) ErrConflict)
     (\<lambda>_. bind_tx (read_tx (\<lambda>db. query_row (\<lambda>ae. aer_id ae = ae_ID appEnvironment) (app_environments db)))
     (\<lambda>row. bind_tx (modify_tx (\<lambda>db. db\<lparr>app_environments := sql_update (\<lambda>ae. aer_id ae = ae_ID appEnvironment)
          (\<lambda>ae. ae\<lparr>aer_deletion_requested_at := Some now, aer_version := aer_version ae + 1, aer_updated_at := now\<rparr>)
          (app_environments db)\<rparr>))
     (\<lambda>_. bind_tx (translate_tx translateDBError (insertOperation now draws workspaceID (ae_ID appEnvironment) 0 actorID
          OperationDeleteAppEnv idempotencyHash payloadHash (aer_version row + 1)))
     (\<lambda>operation. return_tx (operation\<lparr>op_AppEnvironmentPublicID := ae_PublicID appEnvironment\<rparr>))))))))"

section \<open>Listings\<close>

fun scan_rows :: "('r \<Rightarrow> store_error + 'a) \<Rightarrow> 'r list \<Rightarrow> store_error + 'a list" where
  "scan_rows scan [] = Inr []"
| "scan_rows scan (row # rows) =
     (case scan row of
        Inl err \<Rightarrow> Inl err
      | Inr item \<Rightarrow> map_sum id ((#) item) (scan_rows scan rows))"

text \<open>The page is cut after all selected rows are scanned; a limit below one panics on an index.\<close>

definition cut_page :: "('a \<Rightarrow> int) \<Rightarrow> int \<Rightarrow> 'a list \<Rightarrow> store_error + ('a list \<times> string)" where
  "cut_page ident limit items =
     (if limit < int (length items)
      then if limit < 1 then Inl Panic
           else let page = take (nat limit) items in Inr (page, row_cursor (ident (last page)))
      else Inr (items, ''''))"

definition scanned_page :: "('a \<Rightarrow> int) \<Rightarrow> int \<Rightarrow> ('r \<Rightarrow> store_error + 'a) \<Rightarrow> (store_error + 'r list) \<Rightarrow> store_error + ('a list \<times> string)" where
  "scanned_page ident limit scan rows =
     (case rows of
        Inl err \<Rightarrow> Inl err
      | Inr rows \<Rightarrow> (case scan_rows scan rows of Inl err \<Rightarrow> Inl err | Inr items \<Rightarrow> cut_page ident limit items))"

definition ListConfigurationRevisions :: "database \<Rightarrow> int \<Rightarrow> int \<Rightarrow> int \<Rightarrow> int \<Rightarrow> store_error + (ConfigurationRevision list \<times> string)" where
  "ListConfigurationRevisions db workspaceID appEnvironmentID beforeVersion limit =
     (case find (\<lambda>ae. aer_id ae = appEnvironmentID \<and> aer_workspace_id ae = workspaceID) (app_environments db) of
        None \<Rightarrow> scanned_page crv_Version limit Inr (limit_rows (limit + 1) [])
      | Some ae \<Rightarrow> scanned_page crv_Version limit (scanConfigurationRevision db ae)
          (limit_rows (limit + 1) (select_page cr_version (\<lambda>r. cr_app_environment_id r = appEnvironmentID)
             (before_or_max beforeVersion) (limit + 1) (configuration_revisions db))))"

definition has_project :: "database \<Rightarrow> string \<Rightarrow> AppEnvironmentRow \<Rightarrow> bool" where
  "has_project db publicID ae \<longleftrightarrow> list_ex (\<lambda>p. prj_id p = aer_project_id ae \<and> prj_public_id p = publicID) (projects db)"

definition has_app :: "database \<Rightarrow> string \<Rightarrow> AppEnvironmentRow \<Rightarrow> bool" where
  "has_app db publicID ae \<longleftrightarrow> list_ex (\<lambda>a. app_id a = aer_app_id ae \<and> app_public_id a = publicID) (apps db)"

definition has_environment :: "database \<Rightarrow> string \<Rightarrow> AppEnvironmentRow \<Rightarrow> bool" where
  "has_environment db publicID ae \<longleftrightarrow>
     list_ex (\<lambda>e. env_id e = aer_environment_id ae \<and> env_public_id e = publicID) (environments db)"

definition ListAppEnvironments :: "database \<Rightarrow> int \<Rightarrow> string \<Rightarrow> string \<Rightarrow> int \<Rightarrow> int \<Rightarrow> store_error + (AppEnvironment list \<times> string)" where
  "ListAppEnvironments db workspaceID projectPublicID appPublicID beforeID limit =
     scanned_page ae_ID limit (scanAppEnvironment db)
       (limit_rows (limit + 1) (select_page aer_id (\<lambda>ae. aer_workspace_id ae = workspaceID
          \<and> has_project db projectPublicID ae \<and> has_app db appPublicID ae \<and> aer_archived_at ae = None)
          (before_or_max beforeID) (limit + 1) (app_environments db)))"

definition ListEnvironmentApps :: "database \<Rightarrow> int \<Rightarrow> string \<Rightarrow> string \<Rightarrow> int \<Rightarrow> int \<Rightarrow> store_error + (AppEnvironment list \<times> string)" where
  "ListEnvironmentApps db workspaceID projectPublicID environmentPublicID beforeID limit =
     scanned_page ae_ID limit (scanAppEnvironment db)
       (limit_rows (limit + 1) (select_page aer_id (\<lambda>ae. aer_workspace_id ae = workspaceID
          \<and> has_project db projectPublicID ae \<and> has_environment db environmentPublicID ae \<and> aer_archived_at ae = None)
          (before_or_max beforeID) (limit + 1) (app_environments db)))"

definition FindAppEnvironmentForApp :: "database \<Rightarrow> int \<Rightarrow> string \<Rightarrow> string \<Rightarrow> string \<Rightarrow> store_error + AppEnvironment" where
  "FindAppEnvironmentForApp db workspaceID projectPublicID appPublicID publicID =
     (case select_app_environment db (\<lambda>ae. aer_workspace_id ae = workspaceID \<and> has_project db projectPublicID ae
             \<and> has_app db appPublicID ae \<and> aer_public_id ae = publicID \<and> aer_archived_at ae = None) of
        Inl ErrNoRows \<Rightarrow> Inl ErrNotFound
      | r \<Rightarrow> r)"

section \<open>Which tables are written\<close>

text \<open>
  A relation between databases that reservations keep and that does not look at bindings,
  revisions, new environments and edits that leave the desired deployment alone is kept by every
  transaction of this component, provided it is kept by the statements that queue operations and
  create volumes.
\<close>

lemma upsert_claim_frame: "upsert_claim now i name typ h port v db = Inr (u, db') \<Longrightarrow> claims_only db db'"
  by (auto simp: upsert_claim_def Let_def split: option.splits if_splits) (auto simp: claims_only_def)

lemma reserve_endpoint_frame: "reserve_endpoint policy now i v k e db = Inr (e', db') \<Longrightarrow> claims_only db db'"
  by (auto simp: reserve_endpoint_def split: sum.splits if_splits elim: upsert_claim_frame)

lemma reserve_endpoints_frame: "reserve_endpoints policy now i v k es db = Inr (es', db') \<Longrightarrow> claims_only db db'"
proof (induction es arbitrary: db es')
  case (Cons e es)
  then obtain e1 db1 es1 where one: "reserve_endpoint policy now i v k e db = Inr (e1, db1)"
    and rest: "reserve_endpoints policy now i v k es db1 = Inr (es1, db')"
    by (auto split: sum.splits)
  from claims_only_trans [OF reserve_endpoint_frame [OF one] Cons.IH [OF rest]] show ?case .
qed simp

lemma reservation_frame:
  assumes "reservePublicationClaims policy now i v k c db = Inr (c', db')"
  shows "claims_only db db'"
proof -
  obtain es db1 where "reserve_endpoints policy now i v k (elems (rc_PublicEndpoints c)) db = Inr (es, db1)"
    and db': "db' = db1\<lparr>publication_claims := release_superseded now i v (publication_claims db1)\<rparr>"
    using assms by (auto simp: reservePublicationClaims_def split: sum.splits)
  from claims_only_trans [OF reserve_endpoints_frame [OF this(1)] claims_only_update] show ?thesis
    unfolding db' .
qed

locale environment_writes = tx_frame R for R +
  assumes keeps_reservation: "keeps R (reservePublicationClaims policy now i v k c)"
    and ignores_bindings: "R db (db\<lparr>parameter_bindings := bs\<rparr>)"
    and ignores_revisions: "R db (db\<lparr>configuration_revisions := rs\<rparr>)"
    and ignores_new_environment: "R db (db\<lparr>app_environments := app_environments db @ [ae\<lparr>aer_id := app_environments_seq db\<rparr>],
      app_environments_seq := app_environments_seq db + 1\<rparr>)"
    and ignores_environment_edit: "(\<And>ae. p ae \<Longrightarrow> aer_id (f ae) = aer_id ae
        \<and> aer_desired_deployment_id (f ae) = aer_desired_deployment_id ae) \<Longrightarrow>
      R db (db\<lparr>app_environments := sql_update p f (app_environments db)\<rparr>)"
begin

lemma keeps_replaceParameterBindings: "keeps R (replaceParameterBindings now i w bs)"
proof -
  have one: "keeps R (insert_binding now i w b)" for b
    by (rule keepsI) (auto simp: insert_binding_def ignores_bindings split: list.splits if_splits)
  have "keeps R (insert_bindings now i w bs)"
    by (induction bs) (simp_all add: keeps_return keeps_bind one)
  then show ?thesis unfolding replaceParameterBindings_def
    by (intro keeps_bind keeps_modify ignores_bindings)
qed

lemma keeps_insert_revision: "keeps R (insert_revision now i v c u)"
  by (rule keepsI) (auto simp: insert_revision_def ignores_revisions split: if_splits)

lemma keeps_insert_environment: "keeps R (insert_environment row)"
  by (rule keepsI) (auto simp: insert_environment_def Let_def ignores_new_environment split: if_splits)

lemma keeps_insert_selected: "keeps R (insert_selected now pid b k c parents)"
proof (cases parents)
  case Nil
  then show ?thesis by (simp add: insert_selected_def keeps_fail)
next
  case (Cons r rs)
  then show ?thesis unfolding insert_selected_def
    by (cases r) (auto intro!: keeps_rules keeps_insert_environment)
qed

lemma keeps_publish: "keeps R (publish_configuration policy now w u item c)"
  unfolding publish_configuration_def store_configuration_def
  by (intro keeps_rules keeps_reservation keeps_replaceParameterBindings keeps_insert_revision keeps_modify
      ignores_environment_edit) simp

lemma keeps_normalized: "keeps R (normalized c)"
  unfolding normalized_def by (intro keeps_rules)

lemma keeps_createAppEnvironment:
  assumes "\<And>item request. keeps R (createAppVolume now draw draws w u item request)"
  shows "keeps R (createAppEnvironmentOnCluster policy now draw draws w u pid prj app env cls b k c vr)"
  unfolding createAppEnvironmentOnCluster_def
  by (intro keeps_rules keeps_normalized keeps_insert_selected keeps_publish assms)

lemma keeps_update_environment_row: "keeps R (update_environment_row now w pid v b c n)"
  by (rule keepsI) (auto simp: update_environment_row_def Let_def intro!: ignores_environment_edit split: sum.splits if_splits)

lemma keeps_UpdateAppEnvironment: "keeps R (UpdateAppEnvironment policy now w u pid b c v)"
  unfolding UpdateAppEnvironment_def Let_def environment_for_update_def
  by (intro keeps_rules keeps_normalized keeps_update_environment_row keeps_publish)

lemma keeps_DeleteAppEnvironment:
  assumes "\<And>e v. keeps R (insertOperation now draws w e 0 u OperationDeleteAppEnv ih ph v)"
  shows "keeps R (DeleteAppEnvironment now draws w u pid v ih ph)"
  unfolding DeleteAppEnvironment_def environment_for_update_def
  by (intro keeps_rules keeps_modify ignores_environment_edit assms) simp_all

end

lemma insertOperation_frame:
  assumes "insertOperationForPrincipal now draws w e d u p k ih ph v db = Inr (operation, db')"
  shows "\<exists>rows m. db' = db\<lparr>operations := rows, operations_seq := m\<rparr>"
proof -
  obtain row r where "allocate_operation 3 draws row db = Inr (r, db')"
    using assms by (auto simp: insertOperationForPrincipal_def split: sum.splits option.splits)
  then show ?thesis by (rule allocate_operation_frame)
qed

lemma insertOperation_is_frame:
  assumes "insertOperation now draws w e d u k ih ph v db = Inr (operation, db')"
  shows "\<exists>rows m. db' = db\<lparr>operations := rows, operations_seq := m\<rparr>"
  using assms insertOperation_frame by (auto simp: insertOperation_def split: sum.splits)

lemma keeps_claims_only:
  "(\<And>db cs n. R db (db\<lparr>publication_claims := cs, publication_claims_seq := n\<rparr>)) \<Longrightarrow>
    keeps R (reservePublicationClaims policy now i v k c)"
  by (rule keepsI, drule reservation_frame) (auto simp: claims_only_def)

interpretation queue_writes: environment_writes "queue_step now" for now
  by unfold_locales ((rule keeps_claims_only)?, rule queue_step_same, simp add: same_queue_def)+

interpretation storage_writes: environment_writes same_storage
  by unfold_locales ((rule keeps_claims_only)?, simp add: same_storage_def)+

interpretation quota_writes: environment_writes "preserves storage_inv"
  by unfold_locales ((rule keeps_claims_only)?, rule same_storage_preserves, simp add: same_storage_def)+

lemma insertOperation_keeps: "keeps (queue_step now) (insertOperation now draws w e d u k ih ph v)"
  by (rule keepsI, rule insertOperation_queue)

lemma insertOperation_storage: "keeps same_storage (insertOperation now draws w e d u k ih ph v)"
  by (rule keepsI, drule insertOperation_is_frame) (auto simp: same_storage_def)

lemma createAppEnvironment_queue:
  "keeps (queue_step now) (createAppEnvironmentOnCluster policy now draw draws w u pid prj app env cls b k c vr)"
  by (rule queue_writes.keeps_createAppEnvironment) (rule createAppVolume_queue)

lemma createAppEnvironment_quota:
  "keeps (preserves storage_inv) (createAppEnvironmentOnCluster policy now draw draws w u pid prj app env cls b k c vr)"
  by (rule quota_writes.keeps_createAppEnvironment) (rule createAppVolume_quota)

lemma DeleteAppEnvironment_queue: "keeps (queue_step now) (DeleteAppEnvironment now draws w u pid v ih ph)"
  by (rule queue_writes.keeps_DeleteAppEnvironment) (rule insertOperation_keeps)

lemma DeleteAppEnvironment_storage: "keeps same_storage (DeleteAppEnvironment now draws w u pid v ih ph)"
  by (rule storage_writes.keeps_DeleteAppEnvironment) (rule insertOperation_storage)

end
