(* ===== verification/Deployment_Store.thy ===== *)
theory Deployment_Store
  imports Environment_Store
begin

text \<open>
  \<open>internal/store/deployment.go\<close>: requesting a deployment of a release with a configuration revision,
  previewing it and listing deployments. The advisory lock on the idempotency key is implicit: a
  transaction is one step.
\<close>

record Principal =
  prin_ID :: int
  prin_PublicID :: string
  prin_Kind :: string
  prin_DisplayName :: string
  prin_WorkspaceID :: int
  prin_ProjectID :: int
  prin_AppID :: int

definition principalForUser :: "database \<Rightarrow> int \<Rightarrow> store_error + Principal" where
  "principalForUser db userID =
     (case query_row (\<lambda>u. u_id u = userID) (users db) of
        Inl err \<Rightarrow> Inl err
      | Inr u \<Rightarrow>
          (case query_row (\<lambda>p. p_id p = u_principal_id u) (principals db) of
             Inl err \<Rightarrow> Inl err
           | Inr p \<Rightarrow> Inr \<lparr>prin_ID = p_id p, prin_PublicID = p_public_id p, prin_Kind = p_kind p,
                            prin_DisplayName = p_display_name p, prin_WorkspaceID = 0, prin_ProjectID = 0,
                            prin_AppID = 0\<rparr>))"

section \<open>Requesting a deployment\<close>

definition deployment_id_pattern :: regexp where "deployment_id_pattern = id_pattern ''dpl-''"

definition deployment_checks :: "DeploymentRow \<Rightarrow> bool" where
  "deployment_checks d \<longleftrightarrow>
     MatchString deployment_id_pattern (dr_public_id d) \<and> 0 < dr_configuration_version d
     \<and> (dr_workload_kind d = WorkloadStateless \<and> dr_app_volume_id d = None
        \<or> dr_workload_kind d = WorkloadStateful \<and> dr_app_volume_id d \<noteq> None)"

definition insert_deployment :: "DeploymentRow \<Rightarrow> DeploymentRow tx" where
  "insert_deployment row db =
     (let d = row\<lparr>dr_id := deployments_seq db\<rparr>; rows = deployments db in
      if \<not> deployment_checks d then Inl (CheckViolation ''deployments'')
      else if list_ex (\<lambda>q. dr_public_id q = dr_public_id d) rows
      then Inl (UniqueViolation ''deployments_public_id_key'')
      else Inr (d, db\<lparr>deployments := rows @ [d], deployments_seq := deployments_seq db + 1\<rparr>))"

definition new_deployment ::
    "time \<Rightarrow> int option \<Rightarrow> Principal \<Rightarrow> DeploymentRequest \<Rightarrow> AppEnvironment \<Rightarrow> int \<Rightarrow> ConfigurationRevision
     \<Rightarrow> RuntimeConfig \<Rightarrow> int \<Rightarrow> DeploymentRow" where
  "new_deployment now actorUserID actor request appEnvironment releaseID revision configuration appVolumeID =
     \<lparr>dr_id = 0, dr_public_id = drq_DeploymentPublicID request, dr_workspace_id = drq_WorkspaceID request,
      dr_app_environment_id = ae_ID appEnvironment, dr_app_id = ae_AppID appEnvironment,
      dr_release_id = releaseID, dr_requested_by_user_id = actorUserID,
      dr_requested_by_principal_id = prin_ID actor, dr_configuration_version = crv_Version revision,
      dr_configuration_json = stored_configuration configuration,
      dr_workload_kind = ae_WorkloadKind appEnvironment, dr_app_volume_id = NULLIF0 appVolumeID,
      dr_status = StatePending, dr_message = '''', dr_observed_release = '''', dr_started_at = None,
      dr_completed_at = None, dr_created_at = now, dr_updated_at = now\<rparr>"

definition created_deployment ::
    "Principal \<Rightarrow> DeploymentRequest \<Rightarrow> AppEnvironment \<Rightarrow> RuntimeConfig \<Rightarrow> string \<Rightarrow> DeploymentRow \<Rightarrow> Deployment" where
  "created_deployment actor request appEnvironment configuration appVolumePublicID d =
     \<lparr>dpl_ID = dr_id d, dpl_PublicID = dr_public_id d, dpl_WorkspaceID = dr_workspace_id d,
      dpl_AppEnvironmentID = dr_app_environment_id d, dpl_AppID = dr_app_id d,
      dpl_AppEnvironmentPublicID = ae_PublicID appEnvironment, dpl_ReleasePublicID = drq_ReleasePublicID request,
      dpl_Image = '''', dpl_ConfigurationVersion = dr_configuration_version d,
      dpl_Configuration = configuration, dpl_WorkloadKind = dr_workload_kind d,
      dpl_AppVolumePublicID = appVolumePublicID,
      dpl_RequestedBy = \<lparr>act_ID = prin_PublicID actor, act_Kind = prin_Kind actor,
                         act_DisplayName = prin_DisplayName actor\<rparr>,
      dpl_State = dr_status d, dpl_Message = dr_message d, dpl_ObservedRelease = dr_observed_release d,
      dpl_CreatedAt = dr_created_at d, dpl_UpdatedAt = dr_updated_at d\<rparr>"

text \<open>The volume a stateful environment deploys with; a stateless one has none.\<close>

definition deployment_volume :: "AppEnvironment \<Rightarrow> (int \<times> string) tx" where
  "deployment_volume appEnvironment =
     (if ae_WorkloadKind appEnvironment = WorkloadStateful
      then translate_tx (no_rows_is ErrConflict) (read_tx (\<lambda>db.
             case query_row (\<lambda>v. vol_app_environment_id v = ae_ID appEnvironment \<and> vol_desired_state v = ''Ready''
                    \<and> vol_observed_state v \<in> {''Provisioning'', ''Ready''} \<and> vol_deletion_requested_at v = None)
                    (app_volumes db) of
               Inl err \<Rightarrow> Inl err
             | Inr v \<Rightarrow> Inr (vol_id v, vol_public_id v)))
      else return_tx (0, ''''))"

definition replayed_deployment :: "Operation \<Rightarrow> (Deployment \<times> Operation \<times> bool) tx" where
  "replayed_deployment existing =
     bind_tx (read_tx (\<lambda>db. deploymentByID db (op_DeploymentID existing)))
     (\<lambda>deployment. return_tx (deployment, existing, True))"

definition desire_deployment :: "time \<Rightarrow> int \<Rightarrow> int \<Rightarrow> int tx" where
  "desire_deployment now deploymentID appEnvironmentID db =
     (case query_row (\<lambda>ae. aer_id ae = appEnvironmentID) (app_environments db) of
        Inl err \<Rightarrow> Inl err
      | Inr ae \<Rightarrow> Inr (aer_version ae + 1, db\<lparr>app_environments := sql_update (\<lambda>ae. aer_id ae = appEnvironmentID)
            (\<lambda>ae. ae\<lparr>aer_desired_deployment_id := Some deploymentID, aer_last_state := StateProgressing,
                    aer_last_message := '''', aer_version := aer_version ae + 1, aer_updated_at := now\<rparr>)
            (app_environments db)\<rparr>))"

definition createDeployment ::
    "PublicationPolicy \<Rightarrow> time \<Rightarrow> (nat \<Rightarrow> string go_result) \<Rightarrow> int option \<Rightarrow> Principal \<Rightarrow> DeploymentRequest \<Rightarrow> Event
     \<Rightarrow> (Deployment \<times> Operation \<times> bool) tx" where
  "createDeployment policy now draws actorUserID actor request event =
     with_replay (\<lambda>db. operationByPrincipalIdempotency db (drq_WorkspaceID request) (prin_ID actor)
        (drq_IdempotencyHash request) (drq_PayloadHash request)) replayed_deployment
     (bind_tx (environment_for_update (drq_WorkspaceID request) (drq_AppEnvironmentPublicID request))
     (\<lambda>appEnvironment. bind_tx (check_tx (\<lambda>_. \<not> (ae_Version appEnvironment \<noteq> drq_ExpectedVersion request
          \<or> ae_CurrentDeploymentPublicID appEnvironment \<noteq> drq_ExpectedCurrentDeploymentPublicID request)) ErrVersionConflict)
     (\<lambda>_. bind_tx (translate_tx (no_rows_is ErrNotFound) (read_tx (\<lambda>db.
          query_row (\<lambda>r. rr_public_id r = drq_ReleasePublicID request \<and> rr_workspace_id r = drq_WorkspaceID request
            \<and> rr_app_id r = ae_AppID appEnvironment \<and> rr_availability_status r = ''Available'') (releases db))))
     (\<lambda>release. bind_tx (check_tx (\<lambda>db. \<not> (list_ex (active_on (ae_ID appEnvironment)) (operations db)
          \<or> ae_DeletionRequestedAt appEnvironment \<noteq> None)) ErrConflict)
     (\<lambda>_. bind_tx (read_tx (\<lambda>db. configurationRevision db (drq_WorkspaceID request) (ae_ID appEnvironment)
          (drq_ConfigurationVersion request)))
     (\<lambda>revision. bind_tx (reservePublicationClaims policy now (ae_ID appEnvironment) (crv_Version revision)
          (ae_WorkloadKind appEnvironment)
          (inheritAllocatedPorts (crv_Configuration revision) (ae_Configuration appEnvironment)))
     (\<lambda>configuration. bind_tx (deployment_volume appEnvironment)
     (\<lambda>volume. bind_tx (translate_tx
          (\<lambda>err. if uniqueConstraint err = ''deployments_public_id_key'' then ErrPublicIDCollision else translateDBError err)
          (insert_deployment (new_deployment now actorUserID actor request appEnvironment (rr_id release) revision
             configuration (fst volume))))
     (\<lambda>row. bind_tx (desire_deployment now (dr_id row) (ae_ID appEnvironment))
     (\<lambda>desiredVersion. bind_tx (translate_tx translateDBError
          (insertOperationForPrincipal now draws (drq_WorkspaceID request) (ae_ID appEnvironment) (dr_id row) actorUserID
             (prin_ID actor) OperationApplyDeployment (drq_IdempotencyHash request) (drq_PayloadHash request) desiredVersion))
     (\<lambda>operation. bind_tx (insertAudit (event\<lparr>aud_ActorUserID := actorUserID, aud_ActorPrincipalID := Some (prin_ID actor),
          aud_WorkspaceID := Some (drq_WorkspaceID request), aud_TargetPublicID := drq_DeploymentPublicID request\<rparr>))
     (\<lambda>_. return_tx
        (created_deployment actor request appEnvironment configuration (snd volume) row,
         operation\<lparr>op_AppEnvironmentPublicID := ae_PublicID appEnvironment, op_DeploymentPublicID := dr_public_id row\<rparr>,
         False)))))))))))))"

definition CreateDeployment ::
    "PublicationPolicy \<Rightarrow> time \<Rightarrow> (nat \<Rightarrow> string go_result) \<Rightarrow> int \<Rightarrow> DeploymentRequest \<Rightarrow> Event
     \<Rightarrow> (Deployment \<times> Operation \<times> bool) tx" where
  "CreateDeployment policy now draws userID request event =
     bind_tx (read_tx (\<lambda>db. principalForUser db userID))
     (\<lambda>actor. createDeployment policy now draws (Some userID) actor request event)"

definition CreateDeploymentForPrincipal ::
    "PublicationPolicy \<Rightarrow> time \<Rightarrow> (nat \<Rightarrow> string go_result) \<Rightarrow> Principal \<Rightarrow> DeploymentRequest \<Rightarrow> Event
     \<Rightarrow> (Deployment \<times> Operation \<times> bool) tx" where
  "CreateDeploymentForPrincipal policy now draws actor request event =
     createDeployment policy now draws None actor request event"

section \<open>Preview and listing\<close>

definition PreviewDeployment_of :: "database \<Rightarrow> int \<Rightarrow> int \<Rightarrow> string \<Rightarrow> int \<Rightarrow> store_error + DeploymentPreview" where
  "PreviewDeployment_of db workspaceID appEnvironmentID releasePublicID configurationVersion =
     (case query_row (\<lambda>r. rr_workspace_id r = workspaceID \<and> rr_public_id r = releasePublicID) (releases db) of
        Inl err \<Rightarrow> Inl ErrNotFound
      | Inr release \<Rightarrow>
          (case query_row (\<lambda>ae. aer_workspace_id ae = workspaceID \<and> aer_id ae = appEnvironmentID
                               \<and> aer_archived_at ae = None) (app_environments db) of
             Inl err \<Rightarrow> Inl ErrNotFound
           | Inr ae \<Rightarrow>
               if rr_app_id release \<noteq> aer_app_id ae then Inl ErrNotFound
               else (case configurationRevision db workspaceID appEnvironmentID configurationVersion of
                       Inl err \<Rightarrow> Inl err
                     | Inr revision \<Rightarrow>
                         (case (case aer_current_deployment_id ae of
                                  None \<Rightarrow> Inr None
                                | Some i \<Rightarrow> if i = 0 then Inr None else map_sum id Some (deploymentByID db i)) of
                            Inl err \<Rightarrow> Inl err
                          | Inr current \<Rightarrow>
                              (case PreviewDeployment current releasePublicID revision of
                                 None \<Rightarrow> Inl Panic
                               | Some preview \<Rightarrow> Inr preview)))))"

definition ListDeployments :: "database \<Rightarrow> int \<Rightarrow> int \<Rightarrow> int \<Rightarrow> int \<Rightarrow> store_error + (Deployment list \<times> string)" where
  "ListDeployments db workspaceID appEnvironmentID beforeID limit =
     scanned_page dpl_ID limit (scanDeployment db)
       (limit_rows (limit + 1) (select_page dr_id (\<lambda>d. dr_workspace_id d = workspaceID
          \<and> dr_app_environment_id d = appEnvironmentID
          \<and> list_ex (\<lambda>ae. aer_id ae = appEnvironmentID) (app_environments db)
          \<and> list_ex (\<lambda>r. rr_id r = dr_release_id d) (releases db)
          \<and> list_ex (\<lambda>p. p_id p = dr_requested_by_principal_id d) (principals db))
          (before_or_max beforeID) (limit + 1) (deployments db)))"

section \<open>Which tables are written\<close>

locale deployment_writes = environment_writes R for R +
  assumes ignores_deployments: "R db (db\<lparr>deployments := ds, deployments_seq := n\<rparr>)"
    and ignores_audit: "R db (db\<lparr>audit_events := es\<rparr>)"
    and ignores_environment_rows: "R db (db\<lparr>app_environments := aes\<rparr>)"
begin

lemma keeps_insert_deployment: "keeps R (insert_deployment row)"
  by (rule keepsI) (auto simp: insert_deployment_def Let_def ignores_deployments split: if_splits)

lemma keeps_desire_deployment: "keeps R (desire_deployment now d e)"
  by (rule keepsI) (auto simp: desire_deployment_def ignores_environment_rows split: sum.splits)

lemma keeps_insertAudit: "keeps R (insertAudit event)"
  by (rule keepsI) (auto simp: insertAudit_def Let_def ignores_audit split: if_splits)

lemma keeps_deployment_volume: "keeps R (deployment_volume ae)"
  unfolding deployment_volume_def by (intro keeps_rules)

lemma keeps_replayed_deployment: "keeps R (replayed_deployment operation)"
  unfolding replayed_deployment_def by (intro keeps_rules)

lemma keeps_createDeployment:
  assumes "\<And>w e d u p ih ph v. keeps R (insertOperationForPrincipal now draws w e d u p OperationApplyDeployment ih ph v)"
  shows "keeps R (createDeployment policy now draws u actor request event)"
  unfolding createDeployment_def environment_for_update_def
  by (intro keeps_rules keeps_replayed_deployment keeps_reservation keeps_deployment_volume keeps_insert_deployment
      keeps_desire_deployment keeps_insertAudit assms)

end

interpretation queue_deployments: deployment_writes "queue_step now" for now
  by unfold_locales (rule queue_step_same, simp add: same_queue_def)+

interpretation storage_deployments: deployment_writes same_storage
  by unfold_locales (simp_all add: same_storage_def)

lemma insertOperationForPrincipal_keeps:
  "keeps (queue_step now) (insertOperationForPrincipal now draws w e d u p k ih ph v)"
  by (rule keepsI, rule insertOperationForPrincipal_queue)

lemma insertOperationForPrincipal_storage:
  "keeps same_storage (insertOperationForPrincipal now draws w e d u p k ih ph v)"
  by (rule keepsI, drule insertOperation_frame) (auto simp: same_storage_def)

lemma createDeployment_queue: "keeps (queue_step now) (createDeployment policy now draws u actor request event)"
  by (rule queue_deployments.keeps_createDeployment) (rule insertOperationForPrincipal_keeps)

lemma createDeployment_storage: "keeps same_storage (createDeployment policy now draws u actor request event)"
  by (rule storage_deployments.keeps_createDeployment) (rule insertOperationForPrincipal_storage)

lemma CreateDeployment_queue: "keeps (queue_step now) (CreateDeployment policy now draws userID request event)"
  unfolding CreateDeployment_def by (intro queue_frame.keeps_rules createDeployment_queue)

lemma CreateDeployment_storage: "keeps same_storage (CreateDeployment policy now draws userID request event)"
  unfolding CreateDeployment_def by (intro storage_frame.keeps_rules createDeployment_storage)

section \<open>A requested deployment\<close>

text \<open>The statements of a new request, laid out.\<close>

lemma createDeployment_new:
  assumes "createDeployment policy now draws u actor request event db = Inr ((d, operation, False), db')"
  obtains ae release revision configuration db1 vol volPublic row db2 version db3 op0 db4 where
    "operationByPrincipalIdempotency db (drq_WorkspaceID request) (prin_ID actor) (drq_IdempotencyHash request)
       (drq_PayloadHash request) = Inr None"
    and "appEnvironmentForUpdate db (drq_WorkspaceID request) (drq_AppEnvironmentPublicID request) = Inr ae"
    and "ae_Version ae = drq_ExpectedVersion request"
    and "release \<in> set (releases db)" and "rr_app_id release = ae_AppID ae"
    and "\<not> list_ex (active_on (ae_ID ae)) (operations db)"
    and "configurationRevision db (drq_WorkspaceID request) (ae_ID ae) (drq_ConfigurationVersion request) = Inr revision"
    and "reservePublicationClaims policy now (ae_ID ae) (crv_Version revision) (ae_WorkloadKind ae)
       (inheritAllocatedPorts (crv_Configuration revision) (ae_Configuration ae)) db = Inr (configuration, db1)"
    and "insert_deployment (new_deployment now u actor request ae (rr_id release) revision configuration vol) db1 = Inr (row, db2)"
    and "desire_deployment now (dr_id row) (ae_ID ae) db2 = Inr (version, db3)"
    and "insertOperationForPrincipal now draws (drq_WorkspaceID request) (ae_ID ae) (dr_id row) u (prin_ID actor)
       OperationApplyDeployment (drq_IdempotencyHash request) (drq_PayloadHash request) version db3 = Inr (op0, db4)"
    and "\<exists>events. db' = db4\<lparr>audit_events := events\<rparr>"
    and "d = created_deployment actor request ae configuration volPublic row"
    and "operation = op0\<lparr>op_AppEnvironmentPublicID := ae_PublicID ae, op_DeploymentPublicID := dr_public_id row\<rparr>"
  using assms unfolding createDeployment_def
proof (cases rule: with_replayE)
  case (replay x)
  then show thesis unfolding replayed_deployment_def by (elim tx_elims) simp
next
  case fresh
  have audit: "insertAudit e db = Inr (x, db') \<Longrightarrow> \<exists>events. db' = db\<lparr>audit_events := events\<rparr>" for e db x db'
    by (auto simp: insertAudit_def Let_def split: if_splits)
  have same: "deployment_volume ae db = Inr (x, db') \<Longrightarrow> db' = db" for ae db x db'
    unfolding deployment_volume_def by (auto split: if_splits)
  from fresh(2) obtain ae release revision configuration db1 volume db1' row db2 version db3 op0 db4 event' x where
      env: "appEnvironmentForUpdate db (drq_WorkspaceID request) (drq_AppEnvironmentPublicID request) = Inr ae"
    and expected: "\<not> (ae_Version ae \<noteq> drq_ExpectedVersion request
       \<or> ae_CurrentDeploymentPublicID ae \<noteq> drq_ExpectedCurrentDeploymentPublicID request)"
    and release: "query_row (\<lambda>r. rr_public_id r = drq_ReleasePublicID request \<and> rr_workspace_id r = drq_WorkspaceID request
       \<and> rr_app_id r = ae_AppID ae \<and> rr_availability_status r = ''Available'') (releases db) = Inr release"
    and idle: "\<not> (list_ex (active_on (ae_ID ae)) (operations db) \<or> ae_DeletionRequestedAt ae \<noteq> None)"
    and revision: "configurationRevision db (drq_WorkspaceID request) (ae_ID ae) (drq_ConfigurationVersion request) = Inr revision"
    and claims: "reservePublicationClaims policy now (ae_ID ae) (crv_Version revision) (ae_WorkloadKind ae)
       (inheritAllocatedPorts (crv_Configuration revision) (ae_Configuration ae)) db = Inr (configuration, db1)"
    and volume: "deployment_volume ae db1 = Inr (volume, db1')"
    and row: "insert_deployment (new_deployment now u actor request ae (rr_id release) revision configuration (fst volume)) db1' = Inr (row, db2)"
    and desired: "desire_deployment now (dr_id row) (ae_ID ae) db2 = Inr (version, db3)"
    and queued: "insertOperationForPrincipal now draws (drq_WorkspaceID request) (ae_ID ae) (dr_id row) u (prin_ID actor)
       OperationApplyDeployment (drq_IdempotencyHash request) (drq_PayloadHash request) version db3 = Inr (op0, db4)"
    and logged: "insertAudit event' db4 = Inr (x, db')"
    and result: "(d, operation, False) = (created_deployment actor request ae configuration (snd volume) row,
       op0\<lparr>op_AppEnvironmentPublicID := ae_PublicID ae, op_DeploymentPublicID := dr_public_id row\<rparr>, False)"
    unfolding environment_for_update_def
    by (elim tx_elims, hypsubst) (rule that, (assumption | rule refl)+)
  note release = query_row_Inr [OF release]
  show thesis
    by (rule that [OF fresh(1) env _ conjunct1 [OF release] _ _ revision claims row [unfolded same [OF volume]] desired queued
          audit [OF logged], where volPublic = "snd volume"])
      (use expected release idle result in simp_all)
qed

end
