(* ===== verification/Runtime_Work.thy ===== *)
theory Runtime_Work
  imports Deployment_Store
begin

text \<open>
  The work queued for environments: at most one operation is active on an environment, and a
  deployment that is being applied is the desired one. The transactions of users and of workers
  keep this; the statements of the workers' transactions are described once, by a locale, for all
  the invariants of the store.
\<close>

section \<open>Work on environments\<close>

text \<open>
  At most one operation is active on an environment, an active operation that applies a
  deployment applies the desired deployment of its environment, and an idempotency key of a
  principal in a workspace belongs to one operation.
\<close>

definition environments_wf :: "database \<Rightarrow> bool" where
  "environments_wf db \<longleftrightarrow> keyed_on aer_id (app_environments db)
     \<and> list_all (\<lambda>ae. aer_id ae < app_environments_seq db) (app_environments db)"

definition sole_active :: "OperationRow list \<Rightarrow> bool" where
  "sole_active rows \<longleftrightarrow> (\<forall>q\<in>set rows. \<forall>r\<in>set rows. \<forall>e. active_on e q \<and> active_on e r \<longrightarrow> o_id q = o_id r)"

definition applies_desired :: "AppEnvironmentRow list \<Rightarrow> OperationRow \<Rightarrow> bool" where
  "applies_desired aes q \<longleftrightarrow>
     (\<exists>ae\<in>set aes. o_app_environment_id q = Some (aer_id ae) \<and> o_deployment_id q \<noteq> None
        \<and> aer_desired_deployment_id ae = o_deployment_id q)"

definition same_request :: "OperationRow \<Rightarrow> OperationRow \<Rightarrow> bool" where
  "same_request q r \<longleftrightarrow> o_workspace_id r = o_workspace_id q
     \<and> o_requested_by_principal_id r = o_requested_by_principal_id q \<and> o_idempotency_hash r = o_idempotency_hash q"

definition sole_request :: "OperationRow list \<Rightarrow> bool" where
  "sole_request rows \<longleftrightarrow> (\<forall>q\<in>set rows. \<forall>r\<in>set rows. same_request q r \<longrightarrow> o_id q = o_id r)"

definition work_inv :: "database \<Rightarrow> bool" where
  "work_inv db \<longleftrightarrow> operations_wf db \<and> environments_wf db \<and> sole_active (operations db)
     \<and> sole_request (operations db)
     \<and> (\<forall>q\<in>set (operations db). operation_active q \<and> o_kind q = OperationApplyDeployment
          \<longrightarrow> applies_desired (app_environments db) q)"

text \<open>
  A calm change starts no work: every operation it leaves was there with the same target and
  request, active if it still is, and environments keep their desired deployments.
\<close>

definition same_target :: "OperationRow \<Rightarrow> OperationRow \<Rightarrow> bool" where
  "same_target q r \<longleftrightarrow> o_id r = o_id q \<and> o_kind r = o_kind q \<and> o_app_environment_id r = o_app_environment_id q
     \<and> o_deployment_id r = o_deployment_id q \<and> o_workspace_id r = o_workspace_id q
     \<and> o_requested_by_principal_id r = o_requested_by_principal_id q
     \<and> o_idempotency_hash r = o_idempotency_hash q \<and> o_payload_hash r = o_payload_hash q"

definition calm :: "database \<Rightarrow> database \<Rightarrow> bool" where
  "calm db db' \<longleftrightarrow>
     (environments_wf db \<longrightarrow> environments_wf db')
     \<and> (operations_wf db \<longrightarrow> operations_wf db' \<and> (\<forall>q'\<in>set (operations db').
          \<exists>q\<in>set (operations db). (operation_active q' \<longrightarrow> operation_active q) \<and> same_target q q'))
     \<and> (\<forall>ae\<in>set (app_environments db). \<exists>ae'\<in>set (app_environments db').
          aer_id ae' = aer_id ae \<and> aer_desired_deployment_id ae' = aer_desired_deployment_id ae)"

lemma same_target_refl [simp]: "same_target q q"
  by (simp add: same_target_def)

lemma calm_refl [simp]: "calm db db"
  unfolding calm_def by auto

lemma calm_trans: "calm a b \<Longrightarrow> calm b c \<Longrightarrow> calm a c"
  unfolding calm_def same_target_def by (intro conjI; metis)

interpretation calm_frame: tx_frame calm
  by unfold_locales (auto intro: calm_trans)

lemma calm_same:
  "operations db' = operations db \<Longrightarrow> operations_seq db' = operations_seq db \<Longrightarrow>
   app_environments db' = app_environments db \<Longrightarrow> app_environments_seq db' = app_environments_seq db \<Longrightarrow> calm db db'"
  unfolding calm_def operations_wf_def environments_wf_def by auto

lemma environments_wf_edit:
  assumes "\<And>ae. p ae \<Longrightarrow> aer_id (f ae) = aer_id ae"
    and "app_environments db' = sql_update p f (app_environments db)" "app_environments_seq db' = app_environments_seq db"
    and "environments_wf db"
  shows "environments_wf db'"
  using assms unfolding environments_wf_def by (auto intro!: keyed_on_update simp: list_all_iff in_sql_update)

lemma calm_environment_edit:
  assumes f: "\<And>ae. p ae \<Longrightarrow> aer_id (f ae) = aer_id ae \<and> aer_desired_deployment_id (f ae) = aer_desired_deployment_id ae"
  shows "calm db (db\<lparr>app_environments := sql_update p f (app_environments db)\<rparr>)"
proof -
  let ?db' = "db\<lparr>app_environments := sql_update p f (app_environments db)\<rparr>"
  have "\<exists>ae'\<in>set (app_environments ?db'). aer_id ae' = aer_id ae
      \<and> aer_desired_deployment_id ae' = aer_desired_deployment_id ae" if "ae \<in> set (app_environments db)" for ae
    using that f by (intro bexI [of _ "if p ae then f ae else ae"]) (auto simp: in_sql_update)
  moreover have "environments_wf db \<Longrightarrow> environments_wf ?db'"
    by (rule environments_wf_edit [where p = p and f = f]) (use f in simp_all)
  ultimately show ?thesis unfolding calm_def by (auto simp: operations_wf_def intro!: bexI)
qed

lemma calm_new_environment:
  "calm db (db\<lparr>app_environments := app_environments db @ [ae\<lparr>aer_id := app_environments_seq db\<rparr>],
     app_environments_seq := app_environments_seq db + 1\<rparr>)"
  unfolding calm_def operations_wf_def environments_wf_def
  by (auto simp: keyed_on_def list_all_iff intro!: bexI)

lemma keyed_on_update_rows:
  assumes "keyed_on k rows" and "\<And>r. r \<in> set rows \<Longrightarrow> p r \<Longrightarrow> k (f r) = k r"
  shows "keyed_on k (sql_update p f rows)"
proof -
  have "map k (sql_update p f rows) = map k rows" using assms(2) by (simp add: sql_update_def)
  then show ?thesis using assms(1) by (simp add: keyed_on_def)
qed

lemma calm_operations:
  assumes f: "\<And>q. operations_wf db \<Longrightarrow> q \<in> set (operations db) \<Longrightarrow> p q \<Longrightarrow>
    same_target q (f q) \<and> (operation_active (f q) \<longrightarrow> operation_active q)"
  shows "calm db (db\<lparr>operations := sql_update p f (operations db)\<rparr>)"
proof -
  let ?db' = "db\<lparr>operations := sql_update p f (operations db)\<rparr>"
  have "\<exists>q\<in>set (operations db). (operation_active q' \<longrightarrow> operation_active q) \<and> same_target q q'"
    if "operations_wf db" "q' \<in> set (operations ?db')" for q'
  proof -
    from that(2) obtain q where "q \<in> set (operations db)" "q' = (if p q then f q else q)" by (auto simp: in_sql_update)
    then show ?thesis using f that(1) by (intro bexI [of _ q]) (auto split: if_splits)
  qed
  moreover have "operations_wf db \<Longrightarrow> operations_wf ?db'"
    using f by (auto simp: operations_wf_def same_target_def list_all_iff in_sql_update intro!: keyed_on_update_rows)
  ultimately show ?thesis unfolding calm_def by (simp add: environments_wf_def) blast
qed

lemma calm_work:
  assumes "calm db db'"
  shows "preserves work_inv db db'"
proof -
  have "work_inv db'" if inv: "work_inv db"
  proof -
    have before: "\<exists>q\<in>set (operations db). (operation_active q' \<longrightarrow> operation_active q) \<and> same_target q q'"
      if "q' \<in> set (operations db')" for q'
      using assms inv that by (simp add: calm_def work_inv_def)
    then have prior: "\<exists>q\<in>set (operations db). operation_active q \<and> same_target q q'"
      if "q' \<in> set (operations db')" "operation_active q'" for q'
      using that by blast
    have "o_id q' = o_id r'" if in': "q' \<in> set (operations db')" "r' \<in> set (operations db')" and req: "same_request q' r'" for q' r'
    proof -
      obtain q r where qr: "q \<in> set (operations db)" "same_target q q'" "r \<in> set (operations db)" "same_target r r'"
        using before [OF in'(1)] before [OF in'(2)] by blast
      then have "same_request q r" using req by (simp add: same_target_def same_request_def)
      then show ?thesis using inv qr by (simp add: work_inv_def sole_request_def same_target_def)
    qed
    then have "sole_request (operations db')" by (simp add: sole_request_def)
    moreover
    have "o_id q' = o_id r'" if in': "q' \<in> set (operations db')" "r' \<in> set (operations db')" and on: "active_on e q'" "active_on e r'" for q' r' e
    proof -
      obtain q r where "q \<in> set (operations db)" "operation_active q" "same_target q q'"
        and "r \<in> set (operations db)" "operation_active r" "same_target r r'"
        using prior [OF in'(1)] prior [OF in'(2)] on by (auto simp: active_on_def)
      moreover from this have "active_on e q" "active_on e r"
        using on by (simp_all add: active_on_def same_target_def)
      ultimately show ?thesis using inv by (auto simp: work_inv_def sole_active_def same_target_def)
    qed
    moreover have "applies_desired (app_environments db') q'"
      if in': "q' \<in> set (operations db')" "operation_active q'" and kind: "o_kind q' = OperationApplyDeployment" for q'
    proof -
      obtain q where q: "q \<in> set (operations db)" "operation_active q" "same_target q q'" using prior [OF in'] by blast
      then have "applies_desired (app_environments db) q" using inv kind by (simp add: work_inv_def same_target_def)
      then show ?thesis using assms q(3) unfolding applies_desired_def calm_def same_target_def by metis
    qed
    ultimately show ?thesis
      using assms inv by (auto simp: work_inv_def sole_active_def calm_def)
  qed
  then show ?thesis by (simp add: preserves_def)
qed

section \<open>Statements of workers\<close>

locale worker_writes = tx_frame R for R +
  assumes ignores_leases: "(\<And>q. operations_wf db \<Longrightarrow> q \<in> set (operations db) \<Longrightarrow> p q \<Longrightarrow>
        same_target q (f q) \<and> (operation_active (f q) \<longrightarrow> operation_active q)) \<Longrightarrow>
      R db (db\<lparr>operations := sql_update p f (operations db)\<rparr>)"
    and ignores_edit: "(\<And>ae. s ae \<Longrightarrow> aer_id (g ae) = aer_id ae
        \<and> aer_desired_deployment_id (g ae) = aer_desired_deployment_id ae) \<Longrightarrow>
      R db (db\<lparr>app_environments := sql_update s g (app_environments db)\<rparr>)"
    and ignores_volume_state: "(\<And>v. t v \<Longrightarrow> vol_id (h v) = vol_id v \<and> vol_workspace_id (h v) = vol_workspace_id v
        \<and> vol_storage_profile_id (h v) = vol_storage_profile_id v
        \<and> vol_requested_size_gib (h v) = vol_requested_size_gib v) \<Longrightarrow>
      R db (db\<lparr>app_volumes := sql_update t h (app_volumes db)\<rparr>)"
    and ignores_deployment_rows: "R db (db\<lparr>deployments := ds\<rparr>)"
    and ignores_clusters: "R db (db\<lparr>workspace_clusters := wcs, workspaces := ws\<rparr>)"
    and keeps_activation: "keeps R (activatePublicationClaims policy now i v k c)"
    and ignores_claim_removal: "R db (db\<lparr>publication_claims := filter u (publication_claims db)\<rparr>)"
begin

lemma claim_volume_R: "claim_volume now operation db = Inr (x, db') \<Longrightarrow> R db db'"
  by (auto simp: claim_volume_def Let_def intro!: frame_refl ignores_volume_state split: if_splits sum.splits)

lemma claim_deployment_R: "claim_deployment now operation db = Inr (x, db') \<Longrightarrow> R db db'"
  by (auto simp: claim_deployment_def intro!: frame_refl ignores_deployment_rows split: if_splits sum.splits)

lemma claim_workspace_R: "R db (claim_workspace now operation db)"
  unfolding claim_workspace_def by (rule ignores_clusters)

lemma keeps_claimNext: "keeps R (claimNext now worker inst lease)"
proof (rule keepsI)
  fix db x db'
  assume ok: "claimNext now worker inst lease db = Inr (x, db')"
  show "R db db'"
  proof (cases "sql_first o_id (\<lambda>o'. operation_due now (operations db) o' \<and> for_installation db inst o') (operations db)")
    case None
    then show ?thesis using ok by (simp add: claimNext_def frame_refl)
  next
    case (Some r)
    let ?op = "claimed_operation (claim_operation now lease worker r)"
    let ?db = "db\<lparr>operations := sql_update (\<lambda>q. o_id q = o_id r) (claim_operation now lease worker) (operations db)\<rparr>"
    note first = sql_first_Some [OF Some]
    have "R db ?db"
    proof (rule ignores_leases)
      fix q assume "operations_wf db" "q \<in> set (operations db)" "o_id q = o_id r"
      then have "q = r" using first by (auto simp: operations_wf_def dest: keyed_on_unique)
      then show "same_target q (claim_operation now lease worker q)
          \<and> (operation_active (claim_operation now lease worker q) \<longrightarrow> operation_active q)"
        using first by (auto simp: same_target_def claim_operation_def operation_due_def operation_active_def)
    qed
    moreover have "R ?db db'"
    proof (cases "op_Kind ?op = OperationEnsureWorkspace")
      case True
      then show ?thesis using ok Some claim_workspace_R by (auto simp: claimNext_def Let_def)
    next
      case False
      then obtain operation operation' db1 x' where "claim_volume now operation ?db = Inr (operation', db1)"
          "claim_deployment now operation' db1 = Inr (x', db')"
        using ok Some by (auto simp: claimNext_def Let_def split: sum.splits)
      then show ?thesis by (blast intro: frame_trans claim_volume_R claim_deployment_R)
    qed
    ultimately show ?thesis by (rule frame_trans)
  qed
qed

lemma completeOperationLease_R: "completeOperationLease now operation db = Inr (x, db') \<Longrightarrow> R db db'"
  by (auto simp: completeOperationLease_def same_target_def succeed_operation_def operation_active_def
      intro!: ignores_leases split: if_splits)

lemma mark_current_R: "mark_current now operation m sh db = Inr (x, db') \<Longrightarrow> R db db'"
  by (auto simp: mark_current_def Let_def intro!: frame_refl ignores_edit split: option.splits if_splits)

lemma complete_attached_volume_R: "complete_attached_volume now operation v db = Inr (x, db') \<Longrightarrow> R db db'"
  by (auto simp: complete_attached_volume_def Let_def intro!: frame_refl ignores_volume_state
      split: option.splits if_splits)

lemma keeps_completeDeployment: "keeps R (completeDeployment policy now operation m rel sh v)"
proof (rule keepsI)
  fix db x db'
  assume "completeDeployment policy now operation m rel sh v db = Inr (x, db')"
  then obtain u1 db1 ds u2 db2 u3 db3 k c ver where
    1: "completeOperationLease now operation db = Inr (u1, db1)" and
    2: "mark_current now operation m sh (db1\<lparr>deployments := ds\<rparr>) = Inr (u2, db2)" and
    3: "complete_attached_volume now operation v db2 = Inr (u3, db3)" and
    4: "activatePublicationClaims policy now (op_AppEnvironmentID operation) ver k c db3 = Inr (x, db')"
    by (auto simp: completeDeployment_def Let_def split: sum.splits if_splits)
  note completeOperationLease_R [OF 1] ignores_deployment_rows [of db1 ds] mark_current_R [OF 2]
    complete_attached_volume_R [OF 3] keepsD [OF keeps_activation 4]
  then show "R db db'" by (blast intro: frame_trans)
qed

lemma keeps_CompleteDeployment:
  "keeps R (CompleteDeployment policy now operation m rel sh)"
  "keeps R (CompleteStatefulDeployment policy now operation m rel vm n sh)"
  unfolding CompleteDeployment_def CompleteStatefulDeployment_def by (rule keeps_completeDeployment)+

lemma keeps_CompleteAppEnvironmentDeletion: "keeps R (CompleteAppEnvironmentDeletion now operation m)"
proof (rule keepsI)
  fix db x db'
  assume "CompleteAppEnvironmentDeletion now operation m db = Inr (x, db')"
  then obtain u db1 db2 s g where 1: "completeOperationLease now operation db = Inr (u, db1)"
    and 2: "db2 = db1\<lparr>app_environments := sql_update s (\<lambda>ae. ae\<lparr>aer_archived_at := Some now, aer_last_message := m,
        aer_updated_at := now\<rparr>) (app_environments db1)\<rparr>"
    and 3: "db' = db2\<lparr>publication_claims := filter g (publication_claims db2)\<rparr>"
    by (auto simp: CompleteAppEnvironmentDeletion_def Let_def split: sum.splits if_splits)
  have "R db1 db2" unfolding 2 by (rule ignores_edit) simp
  moreover have "R db2 db'" unfolding 3 by (rule ignores_claim_removal)
  ultimately show "R db db'" using completeOperationLease_R [OF 1] by (blast intro: frame_trans)
qed

lemma keeps_CompleteWorkspace: "keeps R (CompleteWorkspace now operation)"
  by (rule keepsI) (auto simp: CompleteWorkspace_def split: sum.splits
      intro: frame_trans [OF completeOperationLease_R ignores_clusters])

lemma edit_R:
  assumes "es = app_environments db" and "\<And>ae. s ae \<Longrightarrow> aer_id (g ae) = aer_id ae
    \<and> aer_desired_deployment_id (g ae) = aer_desired_deployment_id ae"
  shows "R db (db\<lparr>app_environments := sql_update s g es\<rparr>)"
  unfolding assms(1) by (rule ignores_edit) (rule assms(2))

lemma keeps_CompleteVolume: "keeps R (CompleteVolume now operation state m n sh)"
proof (rule keepsI)
  fix db x db'
  let ?p = "\<lambda>av. vol_id av = op_AppVolumeID operation \<and> vol_version av = op_DesiredVersion operation"
  let ?f = "\<lambda>av. av\<lparr>vol_observed_state := state, vol_message := m, vol_observed_size_gib := n,
    vol_runtime_desired_version := op_DesiredVersion operation, vol_runtime_spec_hash := Some sh, vol_updated_at := now\<rparr>"
  assume ok: "CompleteVolume now operation state m n sh db = Inr (x, db')"
  then obtain u db1 where one: "completeOperationLease now operation db = Inr (u, db1)"
    by (auto simp: CompleteVolume_def split: sum.splits)
  let ?db2 = "db1\<lparr>app_volumes := sql_update ?p ?f (app_volumes db1)\<rparr>"
  have "R db1 ?db2" by (rule ignores_volume_state) simp
  moreover have "R ?db2 db'"
    using ok one by (auto simp: CompleteVolume_def Let_def intro!: edit_R frame_refl split: if_splits)
  ultimately show "R db db'" using completeOperationLease_R [OF one] frame_trans by blast
qed

lemma degrade_environment_R: "R db (degrade_environment now m p db)"
  unfolding degrade_environment_def by (rule ignores_edit) simp

lemma record_failure_R: "R db (record_failure now operation m db)"
proof (cases "op_Kind operation")
  case OperationApplyDeployment
  then show ?thesis
    using frame_trans [OF ignores_deployment_rows degrade_environment_R] by (simp add: record_failure_def)
qed (auto simp: record_failure_def Let_def intro: frame_refl ignores_clusters degrade_environment_R
      frame_trans [OF ignores_volume_state degrade_environment_R])

lemma keeps_Fail: "keeps R (Fail now operation code m retry)"
proof (rule keepsI)
  fix db x db'
  assume "Fail now operation code m retry db = Inr (x, db')"
  then obtain db1 status where
    1: "db1 = db\<lparr>operations := sql_update (lease_owned now operation) (fail_operation now status code m) (operations db)\<rparr>"
    and 2: "db' = record_failure now operation m db1 \<or> db' = db1"
    by (auto simp: Fail_def Let_def split: if_splits)
  have "R db db1" unfolding 1
    by (rule ignores_leases) (auto simp: same_target_def fail_operation_def operation_active_def lease_owned_def)
  then show "R db db'" using 2 record_failure_R frame_trans by blast
qed

lemma keeps_ReleaseClaims: "keeps R (ReleaseClaims now w)"
  by (rule keepsI) (auto simp: ReleaseClaims_def same_target_def operation_active_def intro!: ignores_leases)

lemma keeps_ClaimNext: "keeps R (ClaimNext now w d)" "keeps R (ClaimNextForAgent now w inst d)"
  using keeps_claimNext by (auto simp: ClaimNext_def ClaimNextForAgent_def keeps_def split: if_splits)

lemmas keeps_worker = keeps_ClaimNext keeps_CompleteDeployment keeps_CompleteAppEnvironmentDeletion
  keeps_CompleteWorkspace keeps_CompleteVolume keeps_Fail keeps_ReleaseClaims

end

section \<open>Instances\<close>

lemma calm_claims: "claims_only db db' \<Longrightarrow> calm db db'"
  by (rule calm_same) (auto simp: claims_only_def)

interpretation calm_worker: worker_writes calm
proof unfold_locales
  fix policy now i v k c
  show "keeps calm (activatePublicationClaims policy now i v k c)"
    by (rule keepsI, drule activatePublicationClaims_frame, erule calm_claims)
qed (auto intro!: calm_operations calm_environment_edit calm_same)

interpretation storage_worker: worker_writes same_storage
proof unfold_locales
  fix policy now i v k c
  show "keeps same_storage (activatePublicationClaims policy now i v k c)"
    by (rule keepsI, drule activatePublicationClaims_frame) (auto simp: claims_only_def same_storage_def)
qed (auto simp: same_storage_def sql_update_def)

text \<open>Hostnames and external ports stay unique.\<close>

definition claims_inv :: "database \<Rightarrow> bool" where
  "claims_inv db \<longleftrightarrow> claims_wf (publication_claims db)"

lemma claims_inv_same: "publication_claims db' = publication_claims db \<Longrightarrow> preserves claims_inv db db'"
  by (simp add: preserves_def claims_inv_def)

interpretation claims_frame: tx_frame "preserves claims_inv"
  by (rule preserves_frame)

lemma activation_claims: "keeps (preserves claims_inv) (activatePublicationClaims policy now i v k c)"
proof (rule keepsI)
  fix db x db'
  have endpoints: "claims_wf (publication_claims db) \<Longrightarrow> activate_endpoints policy now i v k es db = Inr (u, db1) \<Longrightarrow>
      claims_wf (publication_claims db1)" for es db u db1
  proof (induction es arbitrary: db)
    case (Cons e es)
    then obtain h where h: "activate_endpoints policy now i v k es
        (db\<lparr>publication_claims := sql_update (\<lambda>c. pc_app_environment_id c = i \<and> pc_hostname c = h)
          (\<lambda>c. c\<lparr>pc_current_configuration_version := Some v, pc_updated_at := now\<rparr>) (publication_claims db)\<rparr>) = Inr (u, db1)"
      by (auto simp: Let_def split: sum.splits if_splits)
    show ?case by (rule Cons.IH [OF _ h]) (simp, rule claims_wf_update [OF Cons.prems(1)], simp_all)
  qed simp
  assume "activatePublicationClaims policy now i v k c db = Inr (x, db')"
  then show "preserves claims_inv db db'"
    using endpoints by (auto simp: activatePublicationClaims_def preserves_def claims_inv_def
        intro!: claims_wf_filter split: sum.splits)
qed

lemma claims_inv_filter: "preserves claims_inv db (db\<lparr>publication_claims := filter p (publication_claims db)\<rparr>)"
  by (simp add: preserves_def claims_inv_def claims_wf_filter)

interpretation claims_worker: worker_writes "preserves claims_inv"
  by unfold_locales (simp_all add: claims_inv_same activation_claims claims_inv_filter)

interpretation claims_writes: environment_writes "preserves claims_inv"
proof unfold_locales
  fix policy now i v k c
  show "keeps (preserves claims_inv) (reservePublicationClaims policy now i v k c)"
    by (rule keepsI) (auto simp: preserves_def claims_inv_def dest: reservation_rows(1))
qed (rule claims_inv_same, simp)+

interpretation claims_deployments: deployment_writes "preserves claims_inv"
  by unfold_locales (rule claims_inv_same, simp)+

interpretation work_frame: tx_frame "preserves work_inv"
  by (rule preserves_frame)

interpretation work_writes: environment_writes "preserves work_inv"
  by unfold_locales
    (rule keeps_claims_only, (rule calm_work, rule calm_same calm_new_environment calm_environment_edit; simp)+)

section \<open>Queued operations\<close>

lemma operation_target_valid_update [simp]:
  "operation_target_valid (row\<lparr>o_id := i\<rparr>) = operation_target_valid row"
  "operation_target_valid (row\<lparr>o_public_id := pid\<rparr>) = operation_target_valid row"
  by (cases "o_kind row"; simp add: operation_target_valid_def)+

lemma insert_operation_work:
  assumes ok: "insert_operation_row row db = Inr (r, db')" and "o_status row = OperationPending"
    and desired: "o_kind row = OperationApplyDeployment \<Longrightarrow> work_inv db \<Longrightarrow> operation_target_valid row \<Longrightarrow>
      applies_desired (app_environments db) row"
  shows "preserves work_inv db db'"
proof -
  note row = insert_operation_row_Inr [OF ok]
  have idle: "\<not> list_ex (active_on e) (operations db)" if "o_app_environment_id r = Some e" for e
    using ok that by (auto simp: insert_operation_row_def Let_def split: if_splits option.splits)
  have valid: "operation_target_valid row"
    using ok by (auto simp: insert_operation_row_def Let_def split: if_splits)
  have fresh: "\<not> same_request r q" if "q \<in> set (operations db)" for q
    using ok that unfolding row(1)
    by (simp add: insert_operation_row_def Let_def list_ex_iff same_request_def split: if_splits)
  have "work_inv db'" if inv: "work_inv db"
  proof -
    have "queue_step 0 db db'" using row assms(2) by (intro queue_step_insert [of db' db r]) simp_all
    then have wf: "operations_wf db'" using inv by (simp add: queue_step_def work_inv_def)
    have "sole_active (operations db')"
      using inv idle unfolding row(2) work_inv_def sole_active_def
      by (auto simp: list_ex_iff active_on_def)
    moreover have "sole_request (operations db')"
    proof -
      have "sole_request (operations db)" using inv by (simp add: work_inv_def)
      moreover have "\<not> same_request q r" if "q \<in> set (operations db)" for q
        using fresh [OF that] unfolding same_request_def by metis
      moreover have "operations db' = operations db @ [r]" using row(2) by simp
      ultimately show ?thesis using fresh by (simp add: sole_request_def)
    qed
    moreover have "applies_desired (app_environments db') r" if "o_kind r = OperationApplyDeployment"
      using desired [OF _ inv valid] that unfolding row by (simp add: applies_desired_def)
    ultimately show ?thesis
      using inv wf unfolding work_inv_def row(2) by (auto simp: environments_wf_def)
  qed
  then show ?thesis by (simp add: preserves_def)
qed

lemma allocate_operation_work:
  assumes "allocate_operation n draws row db = Inr (r, db')" and "o_status row = OperationPending"
    and "o_kind row = OperationApplyDeployment \<Longrightarrow> work_inv db \<Longrightarrow> operation_target_valid row \<Longrightarrow>
      applies_desired (app_environments db) row"
  shows "preserves work_inv db db'"
proof -
  obtain pid where "insert_operation_row (row\<lparr>o_public_id := pid\<rparr>) db = Inr (r, db')"
    using assms(1) by (rule allocate_operation_Inr)
  then show ?thesis
    by (rule insert_operation_work) (use assms(2,3) in \<open>simp_all add: applies_desired_def\<close>)
qed

lemma insertOperation_work:
  assumes "k \<noteq> OperationApplyDeployment"
  shows "keeps (preserves work_inv) (insertOperation now draws w e d u k ih ph v)"
    and "keeps (preserves work_inv) (insertVolumeOperation now draws w e d u k ih ph v)"
  using assms
  by (auto simp: keeps_def insertOperation_def insertOperationForPrincipal_def insertVolumeOperation_def
      pending_operation_def split: sum.splits option.splits elim!: allocate_operation_work)

section \<open>Requests of users\<close>

locale request_writes = environment_writes R for R +
  assumes ignores_volumes: "R db (db\<lparr>app_volumes := vs, app_volumes_seq := n\<rparr>)"
    and keeps_operation: "k \<noteq> OperationApplyDeployment \<Longrightarrow> keeps R (insertOperation now draws w e d u k ih ph v)"
    and keeps_volume_operation: "k \<noteq> OperationApplyDeployment \<Longrightarrow>
      keeps R (insertVolumeOperation now draws w e d u k ih ph v)"
begin

lemma keeps_volume_rows: "keeps R (insert_volume row)" "keeps R (update_volume i f)"
proof -
  have edit: "R db (db\<lparr>app_volumes := vs\<rparr>)" for db vs
    using ignores_volumes [where db = db and vs = vs and n = "app_volumes_seq db"] by simp
  show "keeps R (insert_volume row)" "keeps R (update_volume i f)"
    by (auto simp: keeps_def insert_volume_def update_volume_def Let_def ignores_volumes edit split: if_splits sum.splits)
qed

lemma keeps_progress: "keeps R (modify_tx (environment_progress now p m))"
  unfolding environment_progress_def by (rule keeps_modify, rule ignores_environment_edit) simp

lemmas volume_rules = keeps_rules keeps_drawn keeps_volume_rows keeps_progress find_volume_keeps replayed_volume_keeps
  frame_refl keeps_volume_operation

lemma keeps_createAppVolume: "keeps R (createAppVolume now draw draws w u ae request)"
  unfolding createAppVolume_def by (intro volume_rules) simp_all

lemma keeps_volume_requests:
  "keeps R (ExpandAppVolume now draws w u e n version ih ph)"
  "keeps R (DeleteAppVolume now draws w u e version ih ph)"
  unfolding ExpandAppVolume_def DeleteAppVolume_def by (intro volume_rules; simp)+

lemma keeps_environment_requests:
  "keeps R (CreateAppEnvironmentOnCluster policy now draw draws w u pid prj app env cls b k c vr)"
  "keeps R (CreateAppEnvironmentWithWorkload policy now draw draws w u pid prj app env b k c vr)"
  "keeps R (CreateAppEnvironment policy now draw draws w u pid prj app env b c)"
  "keeps R (UpdateAppEnvironment policy now w u pid b c v)"
  "keeps R (DeleteAppEnvironment now draws w u pid v ih ph)"
proof -
  show cluster: "keeps R (CreateAppEnvironmentOnCluster policy now draw draws w u pid prj app env cls b k c vr)"
    for policy now draw draws w u pid prj app env cls b k c vr
    unfolding CreateAppEnvironmentOnCluster_def by (intro keeps_createAppEnvironment keeps_createAppVolume)
  show workload: "keeps R (CreateAppEnvironmentWithWorkload policy now draw draws w u pid prj app env b k c vr)"
    for policy now draw draws w u pid prj app env b k c vr
    unfolding CreateAppEnvironmentWithWorkload_def by (intro keeps_rules cluster)
  show "keeps R (CreateAppEnvironment policy now draw draws w u pid prj app env b c)"
    unfolding CreateAppEnvironment_def by (intro keeps_rules workload)
  show "keeps R (UpdateAppEnvironment policy now w u pid b c v)" by (rule keeps_UpdateAppEnvironment)
  show "keeps R (DeleteAppEnvironment now draws w u pid v ih ph)"
    by (intro keeps_DeleteAppEnvironment keeps_operation) simp
qed

lemmas keeps_requests = keeps_volume_requests keeps_environment_requests

end

interpretation work_requests: request_writes "preserves work_inv"
  by unfold_locales (rule calm_work, rule calm_same, simp_all add: insertOperation_work)

interpretation claims_requests: request_writes "preserves claims_inv"
proof unfold_locales
  fix now draws w e d u k ih ph v
  show "keeps (preserves claims_inv) (insertOperation now draws w e d u k ih ph v)"
    by (rule keepsI, drule insertOperation_is_frame) (auto intro: claims_inv_same)
  show "keeps (preserves claims_inv) (insertVolumeOperation now draws w e d u k ih ph v)"
    by (rule keepsI, drule insertVolumeOperation_frame) (auto intro: claims_inv_same)
qed (rule claims_inv_same, simp)

lemma insertOperation_any_time:
  "keeps (queue_step t) (insertOperation now draws w e d u k ih ph v)"
  "keeps (queue_step t) (insertVolumeOperation now draws w e d u k ih ph v)"
  by (auto simp: keeps_def insertOperation_def insertOperationForPrincipal_def insertVolumeOperation_def
      pending_operation_def split: sum.splits option.splits elim!: allocate_operation_queue)

interpretation queue_requests: request_writes "queue_step now" for now
  by unfold_locales (rule queue_step_same, simp_all add: same_queue_def insertOperation_any_time)

section \<open>Requested deployments\<close>

lemma desire_deployment_work:
  assumes ok: "desire_deployment now d e db = Inr (version, db')"
    and inv: "work_inv db" and idle: "\<not> list_ex (active_on e) (operations db)"
  shows "work_inv db'" and "\<exists>ae\<in>set (app_environments db'). aer_id ae = e \<and> aer_desired_deployment_id ae = Some d"
proof -
  let ?f = "\<lambda>ae. ae\<lparr>aer_desired_deployment_id := Some d, aer_last_state := StateProgressing, aer_last_message := '''',
    aer_version := aer_version ae + 1, aer_updated_at := now\<rparr>"
  obtain ae where ae: "ae \<in> set (app_environments db)" "aer_id ae = e"
    and db': "db' = db\<lparr>app_environments := sql_update (\<lambda>ae. aer_id ae = e) ?f (app_environments db)\<rparr>"
    using ok by (auto simp: desire_deployment_def split: sum.splits dest: query_row_Inr)
  have env: "(if aer_id ae = e then ?f ae else ae) \<in> set (app_environments db')"
    if "ae \<in> set (app_environments db)" for ae
    using that unfolding db' by (auto simp: in_sql_update)
  show "\<exists>ae\<in>set (app_environments db'). aer_id ae = e \<and> aer_desired_deployment_id ae = Some d"
    using env [OF ae(1)] ae(2) by (intro bexI [of _ "?f ae"]) simp_all
  have "environments_wf db'"
    by (rule environments_wf_edit [where p = "\<lambda>ae. aer_id ae = e" and f = ?f and db = db])
      (use inv in \<open>simp_all add: db' work_inv_def\<close>)
  moreover have "applies_desired (app_environments db') q"
    if q: "q \<in> set (operations db)" "operation_active q" "o_kind q = OperationApplyDeployment" for q
  proof -
    obtain x where x: "x \<in> set (app_environments db)" "o_app_environment_id q = Some (aer_id x)"
        "o_deployment_id q \<noteq> None" "aer_desired_deployment_id x = o_deployment_id q"
      using inv q by (auto simp: work_inv_def applies_desired_def)
    have "aer_id x \<noteq> e" using idle q x(2) by (auto simp: list_ex_iff active_on_def)
    then show ?thesis using env [OF x(1)] x by (auto simp: applies_desired_def)
  qed
  ultimately show "work_inv db'" using inv unfolding work_inv_def db' by (simp add: operations_wf_def)
qed

lemma queue_deployment_work:
  assumes ok: "insertOperationForPrincipal now draws w e d u p OperationApplyDeployment ih ph v db = Inr (operation, db')"
    and desired: "\<exists>ae\<in>set (app_environments db). aer_id ae = e \<and> aer_desired_deployment_id ae = Some d"
  shows "preserves work_inv db db'"
proof -
  obtain c r where "allocate_operation 3 draws ((pending_operation now w p OperationApplyDeployment ih ph v c)
      \<lparr>o_app_environment_id := NULLIF0 e, o_deployment_id := NULLIF0 d, o_requested_by_user_id := u\<rparr>) db = Inr (r, db')"
    using ok by (auto simp: insertOperationForPrincipal_def split: sum.splits option.splits)
  then show ?thesis
    by (rule allocate_operation_work)
      (use desired in \<open>auto simp: pending_operation_def operation_target_valid_def applies_desired_def NULLIF0_def
         split: if_splits\<close>)
qed

lemma createDeployment_replay:
  assumes "createDeployment policy now draws u actor request event db = Inr ((d, operation, True), db')"
  shows "db' = db" and "deploymentByID db (op_DeploymentID operation) = Inr d"
    and "operationByPrincipalIdempotency db (drq_WorkspaceID request) (prin_ID actor) (drq_IdempotencyHash request)
      (drq_PayloadHash request) = Inr (Some operation)"
proof -
  from assms [unfolded createDeployment_def]
  have "db' = db \<and> deploymentByID db (op_DeploymentID operation) = Inr d
    \<and> operationByPrincipalIdempotency db (drq_WorkspaceID request) (prin_ID actor) (drq_IdempotencyHash request)
      (drq_PayloadHash request) = Inr (Some operation)"
  proof (cases rule: with_replayE)
    case (replay x)
    from replay(2) show ?thesis unfolding replayed_deployment_def by (elim tx_elims) (use replay(1) in simp)
  next
    case fresh
    from fresh(2) show ?thesis by (elim tx_elims) simp
  qed
  then show "db' = db" and "deploymentByID db (op_DeploymentID operation) = Inr d"
    and "operationByPrincipalIdempotency db (drq_WorkspaceID request) (prin_ID actor) (drq_IdempotencyHash request)
      (drq_PayloadHash request) = Inr (Some operation)" by blast+
qed

lemma createDeployment_fresh_work:
  assumes "createDeployment policy now draws u actor request event db = Inr ((d, operation, False), db')"
  shows "preserves work_inv db db'"
  using assms
proof (rule createDeployment_new)
  fix ae release revision configuration db1 vol volPublic row db2 version db3 op0 db4
  assume idle: "\<not> list_ex (active_on (ae_ID ae)) (operations db)"
    and claims: "reservePublicationClaims policy now (ae_ID ae) (crv_Version revision) (ae_WorkloadKind ae)
       (inheritAllocatedPorts (crv_Configuration revision) (ae_Configuration ae)) db = Inr (configuration, db1)"
    and row: "insert_deployment (new_deployment now u actor request ae (rr_id release) revision configuration vol) db1
       = Inr (row, db2)"
    and desired: "desire_deployment now (dr_id row) (ae_ID ae) db2 = Inr (version, db3)"
    and queued: "insertOperationForPrincipal now draws (drq_WorkspaceID request) (ae_ID ae) (dr_id row) u (prin_ID actor)
       OperationApplyDeployment (drq_IdempotencyHash request) (drq_PayloadHash request) version db3 = Inr (op0, db4)"
    and "\<exists>events. db' = db4\<lparr>audit_events := events\<rparr>"
  then obtain events where db': "db' = db4\<lparr>audit_events := events\<rparr>" by blast
  have calm: "calm db db2" and ops: "operations db2 = operations db"
    using reservation_frame [OF claims] row
    by (auto simp: claims_only_def insert_deployment_def Let_def intro!: calm_same split: if_splits)
  have "work_inv db'" if "work_inv db"
  proof -
    have "work_inv db2" using calm_work [OF calm] that by (simp add: preserves_def)
    note two = desire_deployment_work [OF desired this idle [folded ops]]
    have "work_inv db4" using queue_deployment_work [OF queued two(2)] two(1) by (simp add: preserves_def)
    then show ?thesis unfolding db' work_inv_def operations_wf_def environments_wf_def by simp
  qed
  then show ?thesis by (simp add: preserves_def)
qed

lemma createDeployment_work:
  "keeps (preserves work_inv) (createDeployment policy now draws u actor request event)"
proof (rule keepsI)
  fix db res db'
  assume ok: "createDeployment policy now draws u actor request event db = Inr (res, db')"
  obtain d operation b where res: "res = (d, operation, b)" by (cases res)
  show "preserves work_inv db db'"
  proof (cases b)
    case True
    then show ?thesis using createDeployment_replay(1) ok res by (metis work_frame.frame_refl)
  next
    case False
    then show ?thesis using createDeployment_fresh_work ok res by (metis (full_types))
  qed
qed

lemma CreateDeployment_work:
  "keeps (preserves work_inv) (CreateDeployment policy now draws userID request event)"
  "keeps (preserves work_inv) (CreateDeploymentForPrincipal policy now draws actor request event)"
  unfolding CreateDeployment_def CreateDeploymentForPrincipal_def by (intro work_frame.keeps_rules createDeployment_work)+

lemma createDeployment_claims: "keeps (preserves claims_inv) (createDeployment policy now draws u actor request event)"
  by (rule claims_deployments.keeps_createDeployment, rule keepsI, drule insertOperation_frame)
    (auto intro: claims_inv_same)

lemma CreateDeployment_claims:
  "keeps (preserves claims_inv) (CreateDeployment policy now draws userID request event)"
  "keeps (preserves claims_inv) (CreateDeploymentForPrincipal policy now draws actor request event)"
  unfolding CreateDeployment_def CreateDeploymentForPrincipal_def
  by (intro claims_frame.keeps_rules createDeployment_claims)+

section \<open>The hierarchy\<close>

text \<open>
  Changes of projects, environments, apps and workspaces touch none of the runtime tables; a
  workspace that is attached to a cluster queues one operation.
\<close>

definition same_runtime :: "database \<Rightarrow> database \<Rightarrow> bool" where
  "same_runtime db db' \<longleftrightarrow>
     app_environments db' = app_environments db \<and> app_environments_seq db' = app_environments_seq db
     \<and> deployments db' = deployments db \<and> app_volumes db' = app_volumes db
     \<and> app_volumes_seq db' = app_volumes_seq db \<and> publication_claims db' = publication_claims db
     \<and> storage_profiles db' = storage_profiles db"

definition hierarchy_step :: "database \<Rightarrow> database \<Rightarrow> bool" where
  "hierarchy_step db db' \<longleftrightarrow> (\<exists>db1. same_runtime db db1 \<and> same_queue db db1 \<and> (db' = db1
     \<or> (\<exists>now pid w u c ih ph r. queries_InsertWorkspaceOperation now pid w u c ih ph db1 = Inr (r, db'))))"

lemma project_steps:
  "CreateProject now w pid n k db = Inr (r, db') \<Longrightarrow> same_runtime db db' \<and> same_queue db db'"
  "UpdateProject now w pid v n k db = Inr (r, db') \<Longrightarrow> same_runtime db db' \<and> same_queue db db'"
  "ArchiveProject now w pid v db = Inr (r, db') \<Longrightarrow> same_runtime db db' \<and> same_queue db db'"
  by (auto simp: CreateProject_def UpdateProject_def ArchiveProject_def queries_CreateProject_def
      queries_UpdateProject_def queries_ArchiveProject_def Let_def same_runtime_def same_queue_def
      split: sum.splits if_splits store_error.splits)

lemma environment_steps:
  "CreateEnvironment now w prj pid n k db = Inr (r2, db') \<Longrightarrow> same_runtime db db' \<and> same_queue db db'"
  "UpdateEnvironment now w prj pid v n k db = Inr (r2, db') \<Longrightarrow> same_runtime db db' \<and> same_queue db db'"
  "ArchiveEnvironment now w prj pid v db = Inr (r2, db') \<Longrightarrow> same_runtime db db' \<and> same_queue db db'"
  by (auto simp: CreateEnvironment_def UpdateEnvironment_def ArchiveEnvironment_def queries_CreateEnvironment_def
      queries_UpdateEnvironment_def queries_ArchiveEnvironment_def Let_def same_runtime_def same_queue_def
      split: sum.splits if_splits store_error.splits)

lemma app_steps:
  "CreateApp now w prj pid n k db = Inr (r3, db') \<Longrightarrow> same_runtime db db' \<and> same_queue db db'"
  "UpdateApp now w prj pid v n k db = Inr (r3, db') \<Longrightarrow> same_runtime db db' \<and> same_queue db db'"
  "ArchiveApp now w prj pid v db = Inr (r3, db') \<Longrightarrow> same_runtime db db' \<and> same_queue db db'"
  by (auto simp: CreateApp_def UpdateApp_def ArchiveApp_def queries_CreateApp_def
      queries_UpdateApp_def queries_ArchiveApp_def Let_def same_runtime_def same_queue_def
      split: sum.splits if_splits store_error.splits)

lemma UpdateWorkspace_step:
  "UpdateWorkspace now w v n db = Inr (r, db') \<Longrightarrow> same_runtime db db' \<and> same_queue db db'"
  by (auto simp: UpdateWorkspace_def queries_UpdateWorkspaceName_def Let_def same_runtime_def same_queue_def
      split: sum.splits if_splits store_error.splits)

lemma hierarchy_stepI: "same_runtime db db' \<and> same_queue db db' \<Longrightarrow> hierarchy_step db db'"
  unfolding hierarchy_step_def by blast

lemma hierarchy_step_queued:
  "same_runtime db db1 \<Longrightarrow> same_queue db db1 \<Longrightarrow> queries_InsertWorkspaceOperation now pid w u c ih ph db1 = Inr (r, db') \<Longrightarrow>
   hierarchy_step db db'"
  unfolding hierarchy_step_def by blast

lemma createWorkspace_step:
  assumes "createWorkspaceForCluster now u c pid oid n ih ph db = Inr (res, db')"
  shows "hierarchy_step db db'"
proof -
  obtain w operation b where res: "res = (w, operation, b)" by (cases res)
  show ?thesis
  proof (cases b)
    case True
    then have "db' = db" using createWorkspace_replay [of now u c pid oid n ih ph db w operation] assms res by simp
    then show ?thesis by (simp add: hierarchy_stepI same_runtime_def same_queue_def)
  next
    case False
    with assms res have "createWorkspaceForCluster now u c pid oid n ih ph db = Inr ((w, operation, False), db')" by simp
    then obtain r where "created_workspace now u ih ph w r db db'" by (rule createWorkspace_new)
    then obtain db3 m wc pid c where db3: "db3 = db\<lparr>workspaces := workspaces db @ [w], workspaces_seq := workspaces_seq db + 1,
           workspace_memberships := workspace_memberships db @ [m], workspace_clusters := workspace_clusters db @ [wc]\<rparr>"
      and op: "queries_InsertWorkspaceOperation now pid (ws_ID w) u c ih ph db3 = Inr (r, db')"
      unfolding created_workspace_def by blast
    show ?thesis
      by (rule hierarchy_step_queued [OF _ _ op]) (simp_all add: db3 same_runtime_def same_queue_def)
  qed
qed

lemma workspace_steps:
  "CreateWorkspace now u pid oid n ih ph db = Inr (r, db') \<Longrightarrow> hierarchy_step db db'"
  "CreateWorkspaceOnCluster now u cpid pid oid n ih ph db = Inr (r, db') \<Longrightarrow> hierarchy_step db db'"
  by (auto simp: CreateWorkspace_def CreateWorkspaceOnCluster_def split: sum.splits elim: createWorkspace_step)

lemma AttachWorkspaceCluster_step:
  assumes "AttachWorkspaceCluster now w u cpid oid ih ph db = Inr (res, db')"
  shows "hierarchy_step db db'"
proof (cases "operationByIdempotency db w u ih ph")
  case (Inr found)
  show ?thesis
  proof (cases found)
    case (Some existing)
    then have "db' = db" using assms Inr by (auto simp: AttachWorkspaceCluster_def split: sum.splits)
    then show ?thesis by (simp add: hierarchy_stepI same_runtime_def same_queue_def)
  next
    case None
    then obtain c ns wc db1 r where
      wc: "insert_workspace_cluster now w c ns db = Inr (wc, db1)" and
      op: "queries_InsertWorkspaceOperation now oid w u c ih ph db1 = Inr (r, db')"
      using assms Inr by (auto simp: AttachWorkspaceCluster_def split: sum.splits if_splits)
    show ?thesis
      by (rule hierarchy_step_queued [OF _ _ op])
        (use insert_workspace_frame(3) [OF wc] in \<open>simp_all add: same_runtime_def same_queue_def\<close>)
  qed
qed (use assms in \<open>simp add: AttachWorkspaceCluster_def\<close>)

lemma hierarchy_step_invariants:
  assumes "hierarchy_step db db'"
  shows "preserves work_inv db db'" and "preserves claims_inv db db'" and "same_storage db db'" and "queue_step now db db'"
proof -
  from assms obtain db1 where 1: "same_runtime db db1" "same_queue db db1"
    and 2: "db' = db1 \<or> (\<exists>now pid w u c ih ph r. queries_InsertWorkspaceOperation now pid w u c ih ph db1 = Inr (r, db'))"
    unfolding hierarchy_step_def by blast
  have first: "preserves work_inv db db1" "preserves claims_inv db db1" "same_storage db db1" "queue_step now db db1"
    using 1 by (auto intro!: calm_work calm_same claims_inv_same queue_step_same
        simp: same_storage_def same_runtime_def same_queue_def)
  have second: "preserves work_inv db1 db' \<and> preserves claims_inv db1 db' \<and> same_storage db1 db' \<and> queue_step now db1 db'"
    if op: "queries_InsertWorkspaceOperation t pid w u c ih ph db1 = Inr (r, db')" for t pid w u c ih ph r
  proof -
    obtain row where "insert_operation_row row db1 = Inr (r, db')" "o_status row = OperationPending"
        "o_kind row = OperationEnsureWorkspace"
      using op by (auto simp: queries_InsertWorkspaceOperation_def pending_operation_def split: sum.splits)
    then have "preserves work_inv db1 db'" by (elim insert_operation_work) simp_all
    note row = InsertWorkspaceOperation_row [OF op]
    have "queue_step now db1 db'" by (rule queue_step_insert [of db' db1 r]) (simp_all add: row)
    then show ?thesis using \<open>preserves work_inv db1 db'\<close> row(1)
      by (simp add: claims_inv_same same_storage_def)
  qed
  have "preserves work_inv db1 db' \<and> preserves claims_inv db1 db' \<and> same_storage db1 db' \<and> queue_step now db1 db'"
    using 2
  proof
    assume "db' = db1"
    then show ?thesis
      by (simp add: work_frame.frame_refl claims_frame.frame_refl storage_frame.frame_refl)
  next
    assume "\<exists>now pid w u c ih ph r. queries_InsertWorkspaceOperation now pid w u c ih ph db1 = Inr (r, db')"
    then show ?thesis by (elim exE) (rule second)
  qed
  then show "preserves work_inv db db'" "preserves claims_inv db db'" "same_storage db db'" "queue_step now db db'"
    using first by (meson work_frame.frame_trans, meson claims_frame.frame_trans, meson storage_frame.frame_trans,
      meson queue_step_trans)
qed

section \<open>Recorded requests\<close>

text \<open>No transaction forgets an operation or rewrites what was requested by it.\<close>

definition recorded :: "database \<Rightarrow> database \<Rightarrow> bool" where
  "recorded db db' \<longleftrightarrow> (operations_wf db \<longrightarrow> operations_wf db' \<and>
     (\<forall>q\<in>set (operations db). \<exists>q'\<in>set (operations db'). same_target q q'))"

lemma recorded_refl [simp]: "recorded db db"
  unfolding recorded_def using same_target_refl by blast

lemma recorded_trans: "recorded a b \<Longrightarrow> recorded b c \<Longrightarrow> recorded a c"
  unfolding recorded_def same_target_def by (intro impI conjI; metis)

interpretation record_frame: tx_frame recorded
  by unfold_locales (auto intro: recorded_trans)

lemma recorded_same: "same_queue db db' \<Longrightarrow> recorded db db'"
  unfolding recorded_def same_queue_def operations_wf_def using same_target_refl by (metis (full_types))

lemma recorded_append:
  "operations db' = operations db @ [r] \<Longrightarrow> operations_seq db' = operations_seq db + 1 \<Longrightarrow> o_id r = operations_seq db \<Longrightarrow>
   recorded db db'"
  unfolding recorded_def operations_wf_def by (auto simp: keyed_on_def list_all_iff intro!: bexI)

lemma recorded_leases:
  assumes f: "\<And>q. operations_wf db \<Longrightarrow> q \<in> set (operations db) \<Longrightarrow> p q \<Longrightarrow>
    same_target q (f q) \<and> (operation_active (f q) \<longrightarrow> operation_active q)"
  shows "recorded db (db\<lparr>operations := sql_update p f (operations db)\<rparr>)"
proof -
  let ?db' = "db\<lparr>operations := sql_update p f (operations db)\<rparr>"
  have "\<exists>q'\<in>set (operations ?db'). same_target q q'" if "operations_wf db" "q \<in> set (operations db)" for q
    using that f by (intro bexI [of _ "if p q then f q else q"]) (auto simp: in_sql_update)
  moreover have "operations_wf db \<Longrightarrow> operations_wf ?db'"
    using calm_operations [OF f] by (simp add: calm_def)
  ultimately show ?thesis unfolding recorded_def by blast
qed

interpretation record_worker: worker_writes recorded
proof unfold_locales
  fix policy now i v k c
  show "keeps recorded (activatePublicationClaims policy now i v k c)"
    by (rule keepsI, rule recorded_same, erule activatePublicationClaims_queue)
qed (rule recorded_leases, simp, (rule recorded_same, simp add: same_queue_def)+)

interpretation record_writes: environment_writes recorded
  by unfold_locales ((rule keeps_claims_only)?, rule recorded_same, simp add: same_queue_def)+

interpretation record_deployments: deployment_writes recorded
  by unfold_locales (rule recorded_same, simp add: same_queue_def)+

lemma allocate_operation_recorded:
  assumes "allocate_operation n draws row db = Inr (r, db')"
  shows "recorded db db'"
proof -
  obtain pid where "insert_operation_row (row\<lparr>o_public_id := pid\<rparr>) db = Inr (r, db')"
    using assms by (rule allocate_operation_Inr)
  from insert_operation_row_Inr [OF this] show ?thesis by (intro recorded_append [of db' db r]) simp_all
qed

lemma insertOperation_recorded:
  "keeps recorded (insertOperationForPrincipal now draws w e d p u' k ih ph v)"
  "keeps recorded (insertOperation now draws w e d u k ih ph v)"
  "keeps recorded (insertVolumeOperation now draws w e d u k ih ph v)"
  by (auto simp: keeps_def insertOperation_def insertOperationForPrincipal_def insertVolumeOperation_def
      split: sum.splits option.splits elim!: allocate_operation_recorded)

interpretation record_requests: request_writes recorded
  by unfold_locales (rule recorded_same, simp_all add: same_queue_def insertOperation_recorded)

lemma CreateDeployment_recorded:
  "keeps recorded (createDeployment policy now draws u actor request event)"
  "keeps recorded (CreateDeployment policy now draws userID request event)"
  "keeps recorded (CreateDeploymentForPrincipal policy now draws actor request event)"
proof -
  show create: "keeps recorded (createDeployment policy now draws u actor request event)" for u actor
    by (rule record_deployments.keeps_createDeployment) (rule insertOperation_recorded)
  show "keeps recorded (CreateDeployment policy now draws userID request event)"
    "keeps recorded (CreateDeploymentForPrincipal policy now draws actor request event)"
    unfolding CreateDeployment_def CreateDeploymentForPrincipal_def by (intro record_frame.keeps_rules create)+
qed

lemma hierarchy_step_recorded: "hierarchy_step db db' \<Longrightarrow> recorded db db'"
  unfolding hierarchy_step_def
proof (elim exE conjE disjE)
  fix db1 now pid w u c ih ph r
  assume "same_queue db db1" and "queries_InsertWorkspaceOperation now pid w u c ih ph db1 = Inr (r, db')"
  note InsertWorkspaceOperation_row [OF this(2)]
  then have "recorded db1 db'" by (intro recorded_append [of db' db1 r]) simp_all
  with \<open>same_queue db db1\<close> show "recorded db db'" by (blast intro: recorded_trans recorded_same)
qed (simp add: recorded_same)

end
