(* ===== verification/Store_System.thy ===== *)
theory Store_System
  imports Runtime_Work
begin

text \<open>
  The store as one system: a step is a committed transaction of any modelled operation, by a user of
  the API or by a worker, at some time; time passes between steps. A refused transaction changes
  nothing, so it is not a step. Workers may report on any operation value, also a stale or made-up
  one. Every run of the store is a run of the abstract queue, and the invariants of the components
  hold in every state it reaches.
\<close>

section \<open>Transactions\<close>

inductive hierarchy_tx :: "time \<Rightarrow> database \<Rightarrow> database \<Rightarrow> bool" for now where
  create_workspace: "CreateWorkspace now u pid oid n ih ph db = Inr (r, db') \<Longrightarrow> hierarchy_tx now db db'"
| create_workspace_on: "CreateWorkspaceOnCluster now u cls pid oid n ih ph db = Inr (r, db') \<Longrightarrow> hierarchy_tx now db db'"
| attach_cluster: "AttachWorkspaceCluster now w u cls oid ih ph db = Inr (r, db') \<Longrightarrow> hierarchy_tx now db db'"
| update_workspace: "UpdateWorkspace now w v n db = Inr (r, db') \<Longrightarrow> hierarchy_tx now db db'"
| create_project: "CreateProject now w pid n k db = Inr (r, db') \<Longrightarrow> hierarchy_tx now db db'"
| update_project: "UpdateProject now w pid v n k db = Inr (r, db') \<Longrightarrow> hierarchy_tx now db db'"
| archive_project: "ArchiveProject now w pid v db = Inr (r, db') \<Longrightarrow> hierarchy_tx now db db'"
| create_environment: "CreateEnvironment now w prj pid n k db = Inr (r, db') \<Longrightarrow> hierarchy_tx now db db'"
| update_environment: "UpdateEnvironment now w prj pid v n k db = Inr (r, db') \<Longrightarrow> hierarchy_tx now db db'"
| archive_environment: "ArchiveEnvironment now w prj pid v db = Inr (r, db') \<Longrightarrow> hierarchy_tx now db db'"
| create_app: "CreateApp now w prj pid n k db = Inr (r, db') \<Longrightarrow> hierarchy_tx now db db'"
| update_app: "UpdateApp now w prj pid v n k db = Inr (r, db') \<Longrightarrow> hierarchy_tx now db db'"
| archive_app: "ArchiveApp now w prj pid v db = Inr (r, db') \<Longrightarrow> hierarchy_tx now db db'"

inductive runtime_tx :: "PublicationPolicy \<Rightarrow> time \<Rightarrow> database \<Rightarrow> database \<Rightarrow> bool" for policy now where
  create_on_cluster: "CreateAppEnvironmentOnCluster policy now draw draws w u pid prj app env cls b k c vr db = Inr (r, db') \<Longrightarrow>
    runtime_tx policy now db db'"
| create_with_workload: "CreateAppEnvironmentWithWorkload policy now draw draws w u pid prj app env b k c vr db = Inr (r, db') \<Longrightarrow>
    runtime_tx policy now db db'"
| create_stateless: "CreateAppEnvironment policy now draw draws w u pid prj app env b c db = Inr (r, db') \<Longrightarrow>
    runtime_tx policy now db db'"
| update_configuration: "UpdateAppEnvironment policy now w u pid b c v db = Inr (r, db') \<Longrightarrow> runtime_tx policy now db db'"
| delete_environment: "DeleteAppEnvironment now draws w u pid v ih ph db = Inr (r, db') \<Longrightarrow> runtime_tx policy now db db'"
| expand_volume: "ExpandAppVolume now draws w u pid n v ih ph db = Inr (r, db') \<Longrightarrow> runtime_tx policy now db db'"
| delete_volume: "DeleteAppVolume now draws w u pid v ih ph db = Inr (r, db') \<Longrightarrow> runtime_tx policy now db db'"
| request_deployment: "CreateDeployment policy now draws u request event db = Inr (r, db') \<Longrightarrow> runtime_tx policy now db db'"
| request_deployment_as: "CreateDeploymentForPrincipal policy now draws actor request event db = Inr (r, db') \<Longrightarrow>
    runtime_tx policy now db db'"

inductive worker_tx :: "PublicationPolicy \<Rightarrow> time \<Rightarrow> database \<Rightarrow> database \<Rightarrow> bool" for policy now where
  claim: "ClaimNext now worker lease db = Inr (r, db') \<Longrightarrow> worker_tx policy now db db'"
| claim_for_agent: "ClaimNextForAgent now worker inst lease db = Inr (r, db') \<Longrightarrow> worker_tx policy now db db'"
| complete_deployment: "CompleteDeployment policy now operation m rel sh db = Inr (r, db') \<Longrightarrow> worker_tx policy now db db'"
| complete_stateful: "CompleteStatefulDeployment policy now operation m rel vm n sh db = Inr (r, db') \<Longrightarrow>
    worker_tx policy now db db'"
| complete_deletion: "CompleteAppEnvironmentDeletion now operation m db = Inr (r, db') \<Longrightarrow> worker_tx policy now db db'"
| complete_workspace: "CompleteWorkspace now operation db = Inr (r, db') \<Longrightarrow> worker_tx policy now db db'"
| complete_volume: "CompleteVolume now operation state m n sh db = Inr (r, db') \<Longrightarrow> worker_tx policy now db db'"
| fail: "Fail now operation code m retry db = Inr (r, db') \<Longrightarrow> worker_tx policy now db db'"
| release: "ReleaseClaims now worker db = Inr (r, db') \<Longrightarrow> worker_tx policy now db db'"

inductive store_step :: "PublicationPolicy \<Rightarrow> time \<times> database \<Rightarrow> time \<times> database \<Rightarrow> bool" for policy where
  wait: "now \<le> now' \<Longrightarrow> store_step policy (now, db) (now', db)"
| hierarchy: "hierarchy_tx now db db' \<Longrightarrow> store_step policy (now, db) (now, db')"
| runtime: "runtime_tx policy now db db' \<Longrightarrow> store_step policy (now, db) (now, db')"
| work: "worker_tx policy now db db' \<Longrightarrow> store_step policy (now, db) (now, db')"

abbreviation store_steps :: "PublicationPolicy \<Rightarrow> time \<times> database \<Rightarrow> time \<times> database \<Rightarrow> bool" where
  "store_steps policy \<equiv> (store_step policy)\<^sup>*\<^sup>*"

section \<open>What each kind of transaction keeps\<close>

lemma hierarchy_tx_step: "hierarchy_tx now db db' \<Longrightarrow> hierarchy_step db db'"
  by (induction rule: hierarchy_tx.induct)
    ((erule workspace_steps AttachWorkspaceCluster_step |
      rule hierarchy_stepI, erule UpdateWorkspace_step project_steps environment_steps app_steps)+)

lemma runtime_tx_keeps:
  assumes "runtime_tx policy now db db'"
  shows "preserves work_inv db db'" and "preserves claims_inv db db'" and "queue_step now db db'"
    and "preserves storage_inv db db'"
proof -
  have quota: "keeps (preserves storage_inv) (CreateAppEnvironmentOnCluster policy now draw draws w u pid prj app env cls b k c vr)"
    for draw draws w u pid prj app env cls b k c vr
    unfolding CreateAppEnvironmentOnCluster_def by (rule createAppEnvironment_quota)
  have quota': "keeps (preserves storage_inv) (CreateAppEnvironmentWithWorkload policy now draw draws w u pid prj app env b k c vr)"
    for draw draws w u pid prj app env b k c vr
    unfolding CreateAppEnvironmentWithWorkload_def by (intro quota_frame.keeps_rules quota)
  have quota'': "keeps (preserves storage_inv) (CreateAppEnvironment policy now draw draws w u pid prj app env b c)"
    for draw draws w u pid prj app env b c
    unfolding CreateAppEnvironment_def by (intro quota_frame.keeps_rules quota')
  have principal: "keeps (queue_step now) (CreateDeploymentForPrincipal policy now draws actor request event)"
      "keeps same_storage (CreateDeploymentForPrincipal policy now draws actor request event)"
    for draws actor request event
    unfolding CreateDeploymentForPrincipal_def by (rule createDeployment_queue createDeployment_storage)+
  show "preserves work_inv db db'"
    using assms by cases (rule keepsD [rotated], assumption, rule work_requests.keeps_requests CreateDeployment_work)+
  show "preserves claims_inv db db'"
    using assms by cases (rule keepsD [rotated], assumption, rule claims_requests.keeps_requests CreateDeployment_claims)+
  show "queue_step now db db'"
    using assms by cases (rule keepsD [rotated], assumption, rule queue_requests.keeps_requests CreateDeployment_queue principal)+
  show "preserves storage_inv db db'"
    using assms by cases (rule keepsD [rotated], assumption, rule quota quota' quota''
      quota_writes.keeps_UpdateAppEnvironment ExpandAppVolume_quota quota_same [OF DeleteAppEnvironment_storage]
      quota_same [OF DeleteAppVolume_storage] quota_same [OF CreateDeployment_storage] quota_same [OF principal(2)])+
qed

lemma worker_tx_keeps:
  assumes "worker_tx policy now db db'"
  shows "calm db db'" and "preserves claims_inv db db'" and "same_storage db db'" and "queue_step now db db'"
proof -
  show "calm db db'" using assms by cases (rule keepsD [rotated], assumption, rule calm_worker.keeps_worker)+
  show "preserves claims_inv db db'" using assms by cases (rule keepsD [rotated], assumption, rule claims_worker.keeps_worker)+
  show "same_storage db db'" using assms by cases (rule keepsD [rotated], assumption, rule storage_worker.keeps_worker)+
  show "queue_step now db db'" using assms by cases (erule queue_steps)+
qed

section \<open>Runs\<close>

text \<open>A database the components' invariants hold of; an empty one with configured storage profiles is an example.\<close>

definition store_inv :: "database \<Rightarrow> bool" where
  "store_inv db \<longleftrightarrow> work_inv db \<and> claims_inv db \<and> storage_inv db"

lemma store_step_queue:
  assumes "store_step policy s s'" and "operations_wf (snd s)"
  shows "operations_wf (snd s') \<and> ops.qsteps (fst s, operations (snd s)) (fst s', operations (snd s'))"
  using assms(1)
proof cases
  case (wait now now' db)
  then show ?thesis using assms(2) by (auto intro: ops.tick)
next
  case (hierarchy now db db')
  then show ?thesis
    using hierarchy_step_invariants(4) [OF hierarchy_tx_step, of now db db' now] assms(2) by (simp add: queue_step_def)
next
  case (runtime now db db')
  then show ?thesis using runtime_tx_keeps(3) [of policy now db db'] assms(2) by (simp add: queue_step_def)
next
  case (work now db db')
  then show ?thesis using worker_tx_keeps(4) [of policy now db db'] assms(2) by (simp add: queue_step_def)
qed

lemma store_steps_queue:
  assumes "store_steps policy s s'" and "operations_wf (snd s)"
  shows "operations_wf (snd s') \<and> ops.qsteps (fst s, operations (snd s)) (fst s', operations (snd s'))"
  using assms(1)
proof (induction rule: rtranclp_induct)
  case base
  then show ?case using assms(2) by simp
next
  case (step u v)
  then show ?case using store_step_queue [OF step.hyps(2)] by (meson rtranclp_trans)
qed

lemma store_step_inv:
  assumes "store_step policy s s'" and "store_inv (snd s)"
  shows "store_inv (snd s')"
  using assms(1)
proof cases
  case (hierarchy now db db')
  note hierarchy_tx_step [OF this(3)]
  note hierarchy_step_invariants [OF this]
  then show ?thesis using assms(2) hierarchy same_storage_inv by (simp add: store_inv_def preserves_def)
next
  case (runtime now db db')
  note runtime_tx_keeps [OF this(3)]
  then show ?thesis using assms(2) runtime by (simp add: store_inv_def preserves_def)
next
  case (work now db db')
  note worker_tx_keeps [OF this(3)]
  then show ?thesis using assms(2) work same_storage_inv calm_work by (simp add: store_inv_def preserves_def)
qed (use assms(2) in simp)

lemma store_steps_inv: "store_steps policy s s' \<Longrightarrow> store_inv (snd s) \<Longrightarrow> store_inv (snd s')"
  by (induction rule: rtranclp_induct) (auto dest: store_step_inv)

lemma tx_recorded:
  "runtime_tx policy now db db' \<Longrightarrow> recorded db db'"
  "worker_tx policy now db db' \<Longrightarrow> recorded db db'"
proof -
  assume "runtime_tx policy now db db'"
  then show "recorded db db'"
    by cases (rule keepsD [rotated], assumption, rule record_requests.keeps_requests CreateDeployment_recorded)+
next
  assume "worker_tx policy now db db'"
  then show "recorded db db'" by cases (rule keepsD [rotated], assumption, rule record_worker.keeps_worker)+
qed

lemma store_step_recorded: "store_step policy s s' \<Longrightarrow> recorded (snd s) (snd s')"
  by (induction rule: store_step.induct) (simp_all add: hierarchy_step_recorded [OF hierarchy_tx_step] tx_recorded)

lemma store_steps_recorded: "store_steps policy s s' \<Longrightarrow> recorded (snd s) (snd s')"
  by (induction rule: rtranclp_induct) (auto intro: recorded_trans store_step_recorded)

lemma idempotency_lookup:
  assumes inv: "work_inv db" and q: "q \<in> set (operations db)"
  shows "operationByPrincipalIdempotency db (o_workspace_id q) (o_requested_by_principal_id q) (o_idempotency_hash q) ph
    = (if o_payload_hash q \<noteq> ph then Inl ErrIdempotencyConflict else Inr (Some (scanOperation db q)))"
proof -
  have "query_row (\<lambda>o'. o_workspace_id o' = o_workspace_id q \<and> o_requested_by_principal_id o' = o_requested_by_principal_id q
      \<and> o_idempotency_hash o' = o_idempotency_hash q) (operations db) = Inr q"
  proof (rule query_row_unique [OF q])
    fix r assume "r \<in> set (operations db)" "o_workspace_id r = o_workspace_id q
      \<and> o_requested_by_principal_id r = o_requested_by_principal_id q \<and> o_idempotency_hash r = o_idempotency_hash q"
    then have "same_request q r" by (simp add: same_request_def)
    then have "o_id q = o_id r" using inv q \<open>r \<in> set (operations db)\<close> unfolding work_inv_def sole_request_def by blast
    then show "r = q" using inv q \<open>r \<in> set (operations db)\<close>
      by (auto simp: work_inv_def operations_wf_def dest: keyed_on_unique)
  qed simp
  then show ?thesis by (simp add: operationByPrincipalIdempotency_def)
qed

section \<open>A sample run\<close>

definition sample_claimed :: "time \<Rightarrow> string \<Rightarrow> database \<Rightarrow> Operation \<times> database" where
  "sample_claimed now worker db =
     (case operations db of
        r # _ \<Rightarrow> let operation = claimed_operation (claim_operation now 10 worker r)
                 in (operation, claim_workspace now operation (db\<lparr>operations := [claim_operation now 10 worker r]\<rparr>)))"

definition sample_first :: "Operation \<times> database" where "sample_first = sample_claimed 0 ''a'' sample_queue"

definition sample_second :: "Operation \<times> database" where "sample_second = sample_claimed 20 ''b'' (snd sample_first)"

lemmas sample_run_simps = sample_first_def sample_second_def sample_claimed_def sample_queue_simps Let_def
  claim_operation_def claimed_operation_def claim_workspace_def

lemma sample_claims:
  "ClaimNext 0 ''a'' 10 sample_queue = Inr (Some (fst sample_first,
     zero_AppEnvironment\<lparr>ae_WorkspaceID := op_WorkspaceID (fst sample_first)\<rparr>, zero_Deployment), snd sample_first)"
  "ClaimNext 20 ''b'' 10 (snd sample_first) = Inr (Some (fst sample_second,
     zero_AppEnvironment\<lparr>ae_WorkspaceID := op_WorkspaceID (fst sample_second)\<rparr>, zero_Deployment), snd sample_second)"
  by (simp_all add: ClaimNext_def claimNext_def sql_first_def operation_due_def for_installation_def unexpired_def
      sample_run_simps)

lemma sample_queue_inv: "store_inv sample_queue"
  by (simp add: store_inv_def work_inv_def claims_inv_def storage_inv_def operations_wf_def environments_wf_def
      sole_active_def sole_request_def volumes_wf_def within_quota_def claims_wf_def keyed_on_def sample_queue_simps active_on_def)

lemma sample_run: "store_steps policy (0, sample_queue) (20, snd sample_first)"
    "store_steps policy (0, snd sample_first) (20, snd sample_first)"
    "store_steps policy (0, sample_queue) (20, snd sample_second)"
proof -
  have 1: "store_step policy (0, sample_queue) (0, snd sample_first)"
    by (rule store_step.work, rule worker_tx.claim, rule sample_claims)
  have 2: "store_step policy (0, snd sample_first) (20, snd sample_first)" by (rule store_step.wait) simp
  have 3: "store_step policy (20, snd sample_first) (20, snd sample_second)"
    by (rule store_step.work, rule worker_tx.claim, rule sample_claims)
  show "store_steps policy (0, snd sample_first) (20, snd sample_first)" using 2 by (rule r_into_rtranclp)
  show "store_steps policy (0, sample_queue) (20, snd sample_first)"
    "store_steps policy (0, sample_queue) (20, snd sample_second)"
    using 1 2 3 by (meson r_into_rtranclp rtranclp.rtrancl_into_rtrancl)+
qed

text \<open>A busy database: a deployment under way, a volume and two public endpoints. Its worker stops.\<close>

definition sample_world :: "database \<Rightarrow> database" where
  "sample_world db = db
     \<lparr>app_environments := [(new_environment 0 ''aev-1'' 1 1 1 1 1 ''main'' WorkloadStateless zero_RuntimeConfig)
        \<lparr>aer_id := 1, aer_desired_deployment_id := Some 7\<rparr>], app_environments_seq := 2,
      operations := [claim_operation 0 10 ''a'' ((pending_operation 0 1 1 OperationApplyDeployment sample_hash sample_hash 1 1)
        \<lparr>o_id := 1, o_app_environment_id := Some 1, o_deployment_id := Some 7\<rparr>)], operations_seq := 2,
      storage_profiles := [profile_row 0 sample_profile],
      app_volumes := [(new_volume 0 1 (zero_AppEnvironment\<lparr>ae_ID := 1\<rparr>) (sample_request\<lparr>vr_SizeGiB := 8\<rparr>) sample_binding ''vol-1'')
        \<lparr>vol_id := 1\<rparr>], app_volumes_seq := 2\<rparr>"

definition released :: "database \<Rightarrow> database" where
  "released db = (case ReleaseClaims 5 ''a'' db of Inr (_, db') \<Rightarrow> db')"

lemma released_run: "store_steps policy (5, db) (5, released db)"
  by (rule r_into_rtranclp, rule store_step.work, rule worker_tx.release [where worker = "''a''"])
    (simp add: released_def ReleaseClaims_def)

lemmas sample_world_simps = sample_world_def new_environment_def pending_operation_def claim_operation_def
  profile_row_def sample_profile_def new_volume_def sample_request_def

lemma sample_world_inv: "claims_wf (publication_claims db) \<Longrightarrow> store_inv (sample_world db)"
  by (simp add: store_inv_def work_inv_def claims_inv_def storage_inv_def operations_wf_def environments_wf_def
      sole_active_def sole_request_def volumes_wf_def within_quota_def keyed_on_def active_on_def applies_desired_def
      global_used_def workspace_used_def sample_world_simps)

lemma released_tables [simp]:
  "storage_profiles (released db) = storage_profiles db" "app_volumes (released db) = app_volumes db"
  "publication_claims (released db) = publication_claims db"
  by (simp_all add: released_def ReleaseClaims_def)

section \<open>Properties of runs\<close>



text \<open>
  C1: A worker that lost its lease can do no harm: once an operation has been claimed again, every
  report of the earlier claim (completion of any kind or failure) is refused with \<open>ErrLeaseLost\<close>,
  in every state the store reaches afterwards.
\<close>

theorem stale_worker_refused:
  assumes wf: "operations_wf db0"
    and first: "claimNext t0 w0 i0 d0 db0 = Inr (Some (operation, ae, dpl), db1)"
    and between: "store_steps policy (t0, db1) (t2, db2)"
    and again: "claimNext t2 w2 i2 d2 db2 = Inr (Some (operation2, ae2, dpl2), db3)" "op_ID operation2 = op_ID operation"
    and after: "store_steps policy (t2, db3) (t4, db4)"
  shows "refused policy t4 operation db4"
proof -
  obtain r0 where r0: "claimed_row t0 w0 d0 operation db0 db1 r0" using first by (rule claimNext_row)
  obtain r2 where r2: "claimed_row t2 w2 d2 operation2 db2 db3 r2" using again(1) by (rule claimNext_row)
  have wf1: "operations_wf db1" using claimNext_queue [OF first] wf by (simp add: queue_step_def)
  note run = store_steps_queue [OF between, unfolded snd_conv fst_conv, OF wf1]
  have wf3: "operations_wf db3" using claimNext_queue [OF again(1)] run by (simp add: queue_step_def)
  let ?r0 = "claim_operation t0 d0 w0 r0" and ?r2 = "claim_operation t2 d2 w2 r2"
  have mem: "?r0 \<in> set (operations db1)" "?r2 \<in> set (operations db3)"
    using r0 r2 unfolding claimed_row_def by (auto simp: in_sql_update)
  have "r2 \<in> set (operations db2)" "o_id r2 = o_id ?r0" using r0 r2 again(2) by (simp_all add: claimed_row_def ops.claim_key)
  moreover obtain q where "q \<in> set (operations db2)" "o_id q = o_id ?r0" "o_fencing_token ?r0 \<le> o_fencing_token q"
    using ops.qsteps_row [OF conjunct2 [OF run]] wf1 mem(1) by (auto simp: operations_wf_def)
  ultimately have "o_fencing_token ?r0 \<le> o_fencing_token r2"
    using run by (metis operations_wf_def keyed_on_unique)
  then have "op_FencingToken operation < o_fencing_token ?r2" "op_ID operation = o_id ?r2"
    using r0 r2 again(2) by (simp_all add: claimed_row_def ops.claim_key ops.claim_token)
  moreover have "ops.qsteps (t2, operations db3) (t4, operations db4)"
    using store_steps_queue [OF after] wf3 by simp
  ultimately show ?thesis
    using ops.token_fences [OF _ mem(2)] wf3 by (intro not_owned_refused) (simp add: operations_wf_def)
qed

theorem stale_worker_refused_witness:
  "refused sample_policy 20 (fst sample_first) (snd sample_second)"
proof (rule stale_worker_refused)
  show "operations_wf sample_queue" using sample_queue_inv by (simp add: store_inv_def work_inv_def)
  show "claimNext 0 ''a'' '''' 10 sample_queue = Inr (Some (fst sample_first,
     zero_AppEnvironment\<lparr>ae_WorkspaceID := op_WorkspaceID (fst sample_first)\<rparr>, zero_Deployment), snd sample_first)"
    using sample_claims(1) by (simp add: ClaimNext_def)
  show "claimNext 20 ''b'' '''' 10 (snd sample_first) = Inr (Some (fst sample_second,
     zero_AppEnvironment\<lparr>ae_WorkspaceID := op_WorkspaceID (fst sample_second)\<rparr>, zero_Deployment), snd sample_second)"
    using sample_claims(2) by (simp add: ClaimNext_def)
qed (simp_all add: sample_run(2), simp add: sample_run_simps)



text \<open>
  C3: An environment never has two operations under way, and a deployment that is being applied is
  the one its environment desires, in every state reached from a consistent database.
\<close>

theorem one_operation_per_environment:
  assumes "store_steps policy (t0, db0) (now, db)" and "store_inv db0"
    and "q \<in> set (operations db)" and "active_on e q"
  shows "(\<forall>r\<in>set (operations db). active_on e r \<longrightarrow> r = q)
    \<and> (o_kind q = OperationApplyDeployment \<longrightarrow>
        (\<exists>ae\<in>set (app_environments db). aer_id ae = e \<and> o_deployment_id q \<noteq> None
           \<and> aer_desired_deployment_id ae = o_deployment_id q))"
proof -
  have inv: "work_inv db" using store_steps_inv [OF assms(1)] assms(2) by (simp add: store_inv_def)
  have "r = q" if "r \<in> set (operations db)" "active_on e r" for r
  proof -
    have "o_id r = o_id q" using inv that assms(3,4) unfolding work_inv_def sole_active_def by blast
    then show ?thesis using inv that(1) assms(3) by (auto simp: work_inv_def operations_wf_def dest: keyed_on_unique)
  qed
  moreover have "\<exists>ae\<in>set (app_environments db). aer_id ae = e \<and> o_deployment_id q \<noteq> None
      \<and> aer_desired_deployment_id ae = o_deployment_id q" if "o_kind q = OperationApplyDeployment"
  proof -
    have "applies_desired (app_environments db) q" using inv that assms(3,4) by (simp add: work_inv_def active_on_def)
    then show ?thesis using assms(4) by (auto simp: applies_desired_def active_on_def)
  qed
  ultimately show ?thesis by blast
qed

theorem one_operation_per_environment_witness:
  "\<exists>q\<in>set (operations (released (sample_world empty_database))). active_on 1 q \<and> o_status q = OperationPending
     \<and> (\<forall>r\<in>set (operations (released (sample_world empty_database))). active_on 1 r \<longrightarrow> r = q)
     \<and> (\<exists>ae\<in>set (app_environments (released (sample_world empty_database))). aer_id ae = 1 \<and> o_deployment_id q \<noteq> None
           \<and> aer_desired_deployment_id ae = o_deployment_id q)"
proof -
  obtain q where q: "q \<in> set (operations (released (sample_world empty_database)))" "active_on 1 q"
      "o_status q = OperationPending" "o_kind q = OperationApplyDeployment"
    by (simp add: released_def ReleaseClaims_def sample_world_simps active_on_def operation_active_def)
  from one_operation_per_environment [OF released_run [of sample_policy] sample_world_inv [OF empty_claims_wf] q(1,2)] q
  show ?thesis by blast
qed





text \<open>
  C9: The history of work is final: an operation that succeeded or failed is never changed again,
  so a stale or repeated report cannot reopen it.
\<close>

theorem finished_operations_final:
  assumes "store_steps policy (t0, db0) (now, db)" and "operations_wf db0"
    and "q \<in> set (operations db0)" and "o_status q = OperationSucceeded \<or> o_status q = OperationFailed"
  shows "q \<in> set (operations db)"
proof -
  note run = store_steps_queue [OF assms(1), unfolded snd_conv fst_conv, OF assms(2)]
  show ?thesis
    by (rule ops.terminal_stable [OF _ assms(3,4) conjunct2 [OF run]])
      (use assms(2) in \<open>simp add: operations_wf_def\<close>)
qed

theorem finished_operations_final_witness:
  "(sample_operation 1)\<lparr>o_status := OperationFailed\<rparr>
     \<in> set (operations (released (sample_queue\<lparr>operations := [(sample_operation 1)\<lparr>o_status := OperationFailed\<rparr>]\<rparr>)))"
  by (rule finished_operations_final [OF released_run [of sample_policy]])
    (simp_all add: sample_queue_simps operations_wf_def keyed_on_def)

end
