(* ===== verification/Deployment_Scenarios.thy ===== *)
theory Deployment_Scenarios
  imports Store_System
begin

text \<open>
  Deployments from request to completion, across the components: a request is accepted once, its
  completion makes the deployment current, and what an update of the configuration in between does.
\<close>

section \<open>Requests\<close>

lemma createDeployment_inv:
  assumes "createDeployment policy now draws u actor request event db = Inr (r, db')" and "store_inv db"
  shows "store_inv db'"
  using keepsD [OF createDeployment_work assms(1)] keepsD [OF createDeployment_claims assms(1)]
    same_storage_inv [OF keepsD [OF createDeployment_storage assms(1)]] assms(2)
  by (simp add: store_inv_def preserves_def)

lemma createDeployment_operation:
  assumes "createDeployment policy now draws u actor request event db = Inr ((d, operation, False), db')"
  obtains q where "q \<in> set (operations db')" and "o_id q = op_ID operation" and "o_deployment_id q = Some (dpl_ID d)"
    and "o_workspace_id q = drq_WorkspaceID request" and "o_requested_by_principal_id q = prin_ID actor"
    and "o_idempotency_hash q = drq_IdempotencyHash request" and "o_payload_hash q = drq_PayloadHash request"
    and "op_DeploymentID operation = dpl_ID d"
  using assms
proof (rule createDeployment_new)
  fix ae release revision configuration db1 vol volPublic row db2 version db3 op0 db4
  assume queued: "insertOperationForPrincipal now draws (drq_WorkspaceID request) (ae_ID ae) (dr_id row) u (prin_ID actor)
       OperationApplyDeployment (drq_IdempotencyHash request) (drq_PayloadHash request) version db3 = Inr (op0, db4)"
    and "\<exists>events. db' = db4\<lparr>audit_events := events\<rparr>"
    and d: "d = created_deployment actor request ae configuration volPublic row"
    and operation: "operation = op0\<lparr>op_AppEnvironmentPublicID := ae_PublicID ae, op_DeploymentPublicID := dr_public_id row\<rparr>"
  then have ops: "operations db' = operations db4" by auto
  obtain c r where alloc: "allocate_operation 3 draws
      ((pending_operation now (drq_WorkspaceID request) (prin_ID actor) OperationApplyDeployment (drq_IdempotencyHash request)
          (drq_PayloadHash request) version c)\<lparr>o_app_environment_id := NULLIF0 (ae_ID ae), o_deployment_id := NULLIF0 (dr_id row),
          o_requested_by_user_id := u\<rparr>) db3 = Inr (r, db4)"
    and op0: "op0 = inserted_operation (prin_ID actor) r"
    using queued by (auto simp: insertOperationForPrincipal_def split: sum.splits option.splits)
  obtain pid where ins: "insert_operation_row
      ((pending_operation now (drq_WorkspaceID request) (prin_ID actor) OperationApplyDeployment (drq_IdempotencyHash request)
          (drq_PayloadHash request) version c)\<lparr>o_app_environment_id := NULLIF0 (ae_ID ae), o_deployment_id := NULLIF0 (dr_id row),
          o_requested_by_user_id := u, o_public_id := pid\<rparr>) db3 = Inr (r, db4)"
    using alloc by (auto elim: allocate_operation_Inr)
  note row = insert_operation_row_Inr [OF ins]
  have "o_deployment_id r \<noteq> None"
    using ins row(1) by (auto simp: insert_operation_row_def Let_def operation_target_valid_def pending_operation_def split: if_splits)
  then have dep: "o_deployment_id r = Some (dr_id row)" unfolding row(1) by (simp add: NULLIF0_def split: if_splits)
  have mem: "r \<in> set (operations db')" unfolding ops row(2) by simp
  show thesis
    by (rule that [OF mem])
      (simp_all add: operation op0 inserted_operation_def dep d created_deployment_def,
       simp_all add: row(1) pending_operation_def)
qed

text \<open>
  C2: A deployment is requested once. When a request has been accepted, repeating its idempotency
  key never queues a second deployment, in no state the store reaches later: with another payload
  the request is refused with \<open>ErrIdempotencyConflict\<close>, and with the same payload it changes nothing
  and answers with the operation and deployment of the first request (or the error of reading that
  deployment back).
\<close>

theorem deployment_request_idempotent:
  assumes start: "store_inv db"
    and first: "createDeployment policy t draws u actor request event db = Inr ((d, operation, False), db1)"
    and later: "store_steps policy (t, db1) (t2, db2)"
    and same: "drq_WorkspaceID again = drq_WorkspaceID request" "prin_ID actor2 = prin_ID actor"
      "drq_IdempotencyHash again = drq_IdempotencyHash request"
  shows "if drq_PayloadHash again \<noteq> drq_PayloadHash request
    then createDeployment policy t2 draws2 u2 actor2 again event2 db2 = Inl ErrIdempotencyConflict
    else (case commit (createDeployment policy t2 draws2 u2 actor2 again event2) db2 of
            (Inl err, db3) \<Rightarrow> db3 = db2 \<and> deploymentByID db2 (dpl_ID d) = Inl err
          | (Inr (d3, operation3, replayed), db3) \<Rightarrow>
              db3 = db2 \<and> replayed \<and> op_ID operation3 = op_ID operation \<and> dpl_ID d3 = dpl_ID d)"
proof -
  have inv1: "store_inv db1" by (rule createDeployment_inv [OF first start])
  have inv2: "work_inv db2" using store_steps_inv [OF later] inv1 by (simp add: store_inv_def)
  obtain q where q: "q \<in> set (operations db1)" "o_id q = op_ID operation" "o_deployment_id q = Some (dpl_ID d)"
      "o_workspace_id q = drq_WorkspaceID request" "o_requested_by_principal_id q = prin_ID actor"
      "o_idempotency_hash q = drq_IdempotencyHash request" "o_payload_hash q = drq_PayloadHash request"
    using first by (rule createDeployment_operation)
  obtain q2 where q2: "q2 \<in> set (operations db2)" "same_target q q2"
    using store_steps_recorded [OF later] q(1) inv1 by (auto simp: recorded_def store_inv_def work_inv_def)
  note lookup = idempotency_lookup [OF inv2 q2(1), of "drq_PayloadHash again"]
  have found: "operationByPrincipalIdempotency db2 (drq_WorkspaceID again) (prin_ID actor2) (drq_IdempotencyHash again)
      (drq_PayloadHash again) = (if drq_PayloadHash request \<noteq> drq_PayloadHash again then Inl ErrIdempotencyConflict
        else Inr (Some (scanOperation db2 q2)))"
    using lookup q2(2) q same by (simp add: same_target_def)
  have ids: "op_ID (scanOperation db2 q2) = op_ID operation" "op_DeploymentID (scanOperation db2 q2) = dpl_ID d"
    using q2(2) q by (simp_all add: scanOperation_def same_target_def)
  have dpl: "deploymentByID db2 i = Inr d3 \<Longrightarrow> dpl_ID d3 = i" for i d3
    by (auto simp: deploymentByID_def scanDeployment_def split: sum.splits option.splits prod.splits dest: query_row_Inr)
  show ?thesis
    using found ids dpl by (auto simp: createDeployment_def with_replay_def replayed_deployment_def tx_simps commit_def
        split: sum.splits)
qed

section \<open>A sample site\<close>

definition sample_id :: "string \<Rightarrow> char \<Rightarrow> string" where
  "sample_id prefix c = prefix @ replicate 20 c"

definition sample_release :: ReleaseRow where
  "sample_release =
     \<lparr>rr_id = 1, rr_public_id = ''rel-1'', rr_workspace_id = 1, rr_project_id = 1, rr_app_id = 1, rr_build_id = None,
      rr_commit_sha = None, rr_image = ''registry/shop'', rr_platform = None, rr_created_at = 0, rr_app_environment_id = None,
      rr_availability_status = ''Available'', rr_expired_at = None, rr_origin_kind = '''', rr_source_provider = None,
      rr_source_repository = None, rr_source_revision = None, rr_source_ref = None, rr_producer_kind = '''',
      rr_producer_external_id = None, rr_producer_url = None, rr_created_by_principal_id = 1, rr_idempotency_hash = None,
      rr_payload_hash = None, rr_provenance_status = ''''\<rparr>"

definition sample_site :: database where
  "sample_site = empty_database
     \<lparr>agent_installations := [sample_installation],
      workspace_clusters := [\<lparr>wc_workspace_id = 1, wc_installation_id = 1, wc_namespace_name = ''ws'', wc_state = ''Ready'',
        wc_message = '''', wc_observed_generation = 1, wc_created_at = 0, wc_updated_at = 0\<rparr>],
      projects := [\<lparr>prj_id = 1, prj_public_id = ''prj-1'', prj_workspace_id = 1, prj_name = ''shop'', prj_name_key = ''shop'',
        prj_version = 1, prj_created_at = 0, prj_updated_at = 0, prj_archived_at = None\<rparr>], projects_seq := 2,
      apps := [\<lparr>app_id = 1, app_public_id = ''app-1'', app_project_id = 1, app_name = ''web'', app_name_key = ''web'',
        app_version = 1, app_created_at = 0, app_updated_at = 0, app_archived_at = None\<rparr>], apps_seq := 2,
      environments := [\<lparr>env_id = 1, env_public_id = ''env-1'', env_project_id = 1, env_name = ''prod'', env_name_key = ''prod'',
        env_version = 1, env_created_at = 0, env_updated_at = 0, env_archived_at = None\<rparr>], environments_seq := 2,
      releases := [sample_release],
      principals := [\<lparr>p_id = 1, p_public_id = ''prn-1'', p_kind = ''User'', p_display_name = ''ada'', p_status = ''Active'',
        p_created_at = 0, p_updated_at = 0\<rparr>]\<rparr>"

definition sample_actor :: Principal where
  "sample_actor = \<lparr>prin_ID = 1, prin_PublicID = ''prn-1'', prin_Kind = ''User'', prin_DisplayName = ''ada'',
     prin_WorkspaceID = 0, prin_ProjectID = 0, prin_AppID = 0\<rparr>"

definition sample_event :: Event where
  "sample_event =
     \<lparr>aud_PublicID = sample_id ''aud-'' CHR ''a'', aud_ActorUserID = None, aud_ActorPrincipalID = None, aud_SessionID = None,
      aud_WorkspaceID = None, aud_Action = ''deployment.create'', aud_TargetType = ''deployment'', aud_TargetPublicID = '''',
      aud_Outcome = ''Succeeded'', aud_Reason = '''', aud_RequestID = '''', aud_TraceID = '''', aud_SourceHash = '''',
      aud_UserAgentHash = '''', aud_Metadata = ''''\<rparr>"

definition sample_deployment_request :: DeploymentRequest where
  "sample_deployment_request =
     \<lparr>drq_WorkspaceID = 1, drq_AppEnvironmentPublicID = sample_id ''aev-'' CHR ''a'',
      drq_DeploymentPublicID = sample_id ''dpl-'' CHR ''a'', drq_ReleasePublicID = ''rel-1'', drq_ConfigurationVersion = 1,
      drq_ExpectedVersion = 1, drq_ExpectedCurrentDeploymentPublicID = '''', drq_IdempotencyHash = sample_hash,
      drq_PayloadHash = sample_hash\<rparr>"

definition sample_created :: "store_error + (AppEnvironment \<times> AppVolume option) \<times> database" where
  "sample_created = CreateAppEnvironmentOnCluster sample_policy 1 (Inl '''') (\<lambda>_. Inl '''') 1 1 (sample_id ''aev-'' CHR ''a'')
     ''prj-1'' ''app-1'' ''env-1'' ''cls-1'' ''main'' WorkloadStateless sample_config None sample_site"

definition sample_requested :: "store_error + (Deployment \<times> Operation \<times> bool) \<times> database" where
  "sample_requested = (case sample_created of
     Inl err \<Rightarrow> Inl err
   | Inr (_, db) \<Rightarrow> createDeployment sample_policy 2 (\<lambda>_. Inr ''op-1'') None sample_actor sample_deployment_request
       sample_event db)"

definition sample_rollout :: "bool \<Rightarrow> Operation tx" where
  "sample_rollout updated =
     bind_tx (CreateAppEnvironmentOnCluster sample_policy 1 (Inl '''') (\<lambda>_. Inl '''') 1 1 (sample_id ''aev-'' CHR ''a'')
       ''prj-1'' ''app-1'' ''env-1'' ''cls-1'' ''main'' WorkloadStateless sample_config None)
     (\<lambda>_. bind_tx (CreateDeploymentForPrincipal sample_policy 2 (\<lambda>_. Inr ''op-1'') sample_actor sample_deployment_request
         sample_event)
     (\<lambda>_. bind_tx (if updated then bind_tx (UpdateAppEnvironment sample_policy 3 1 1 (sample_id ''aev-'' CHR ''a'') ''main''
           (sample_config\<lparr>rc_Slug := ''store''\<rparr>) 2) (\<lambda>_. return_tx ()) else return_tx ())
     (\<lambda>_. bind_tx (ClaimNext 4 ''agent'' 60)
     (\<lambda>claimed. case claimed of None \<Rightarrow> fail_tx ErrNotFound | Some (operation, _, _) \<Rightarrow> return_tx operation))))"

definition complete_sample :: "bool \<Rightarrow> unit tx" where
  "complete_sample updated = bind_tx (sample_rollout updated)
     (\<lambda>operation. CompleteDeployment sample_policy 5 operation ''ready'' ''r1'' (replicate 64 CHR ''a''))"

lemma sample_site_inv: "store_inv sample_site"
  by (simp add: store_inv_def work_inv_def claims_inv_def storage_inv_def operations_wf_def environments_wf_def
      sole_active_def sole_request_def volumes_wf_def within_quota_def claims_wf_def keyed_on_def sample_site_def
      empty_database_def)

lemma sample_request_ok:
  obtains r db d operation db' where "sample_created = Inr (r, db)" and "store_inv db"
    and "createDeployment sample_policy 2 (\<lambda>_. Inr ''op-1'') None sample_actor sample_deployment_request sample_event db
      = Inr ((d, operation, False), db')"
proof -
  have "case sample_requested of Inl _ \<Rightarrow> False | Inr ((_, _, b), _) \<Rightarrow> \<not> b" by code_simp
  then obtain r db d operation db' where created: "sample_created = Inr (r, db)" and requested:
    "createDeployment sample_policy 2 (\<lambda>_. Inr ''op-1'') None sample_actor sample_deployment_request sample_event db
      = Inr ((d, operation, False), db')"
    by (auto simp: sample_requested_def split: sum.splits prod.splits)
  have "store_inv db"
    using store_step_inv [OF store_step.runtime [OF runtime_tx.create_on_cluster [OF created [unfolded sample_created_def]]]]
      sample_site_inv by simp
  from that [OF created this requested] show thesis .
qed

theorem deployment_request_idempotent_witness:
  "\<exists>db d operation db'. createDeployment sample_policy 2 (\<lambda>_. Inr ''op-1'') None sample_actor sample_deployment_request
      sample_event db = Inr ((d, operation, False), db')
    \<and> createDeployment sample_policy 9 (\<lambda>_. Inr ''op-2'') None sample_actor
        (sample_deployment_request\<lparr>drq_PayloadHash := replicate 32 CHR ''x''\<rparr>) sample_event db' = Inl ErrIdempotencyConflict"
proof -
  obtain r db d operation db' where inv: "store_inv db" and
    ok: "createDeployment sample_policy 2 (\<lambda>_. Inr ''op-1'') None sample_actor sample_deployment_request sample_event db
      = Inr ((d, operation, False), db')"
    by (rule sample_request_ok)
  have run: "store_steps sample_policy (2, db') (9, db')"
    by (rule r_into_rtranclp, rule store_step.wait) simp
  have "replicate 32 CHR ''x'' \<noteq> sample_hash" by code_simp
  then show ?thesis
    using ok deployment_request_idempotent [OF inv ok run, of "sample_deployment_request\<lparr>drq_PayloadHash := replicate 32 CHR ''x''\<rparr>"
        sample_actor "\<lambda>_. Inr ''op-2''" None sample_event]
    by (auto simp: sample_deployment_request_def)
qed

section \<open>Completion\<close>

text \<open>What a worker knows of the operation it was given.\<close>

definition describes :: "Operation \<Rightarrow> OperationRow \<Rightarrow> bool" where
  "describes operation q \<longleftrightarrow> op_ID operation = o_id q
     \<and> op_AppEnvironmentID operation = COALESCE (o_app_environment_id q) 0
     \<and> op_DeploymentID operation = COALESCE (o_deployment_id q) 0"

lemma completeDeployment_current:
  assumes ok: "completeDeployment policy now operation m rel sh v db = Inr (u, db')"
    and ae: "ae \<in> set (app_environments db)" "aer_id ae = op_AppEnvironmentID operation"
      "aer_desired_deployment_id ae = Some (op_DeploymentID operation)"
  shows "\<exists>ae'\<in>set (app_environments db'). aer_id ae' = aer_id ae
    \<and> aer_desired_deployment_id ae' = Some (op_DeploymentID operation)
    \<and> aer_current_deployment_id ae' = Some (op_DeploymentID operation) \<and> aer_last_state ae' = StateReady"
proof -
  let ?p = "\<lambda>d. dr_id d = op_DeploymentID operation \<and> dr_app_environment_id d = op_AppEnvironmentID operation"
  let ?f = "\<lambda>d. d\<lparr>dr_status := StateReady, dr_message := m, dr_observed_release := rel, dr_completed_at := Some now,
    dr_updated_at := now\<rparr>"
  obtain u1 db1 u2 db2 u3 db3 k c version where
    lease: "completeOperationLease now operation db = Inr (u1, db1)" and
    one: "sql_count ?p (deployments db1) = 1" and
    mark: "mark_current now operation m sh (db1\<lparr>deployments := sql_update ?p ?f (deployments db1)\<rparr>) = Inr (u2, db2)" and
    vol: "complete_attached_volume now operation v db2 = Inr (u3, db3)" and
    act: "activatePublicationClaims policy now (op_AppEnvironmentID operation) version k c db3 = Inr (u, db')"
    using ok by (auto simp: completeDeployment_def Let_def split: sum.splits if_splits)
  let ?db = "db1\<lparr>deployments := sql_update ?p ?f (deployments db1)\<rparr>"
  have envs: "app_environments ?db = app_environments db" using lease by (auto simp: completeOperationLease_def split: if_splits)
  obtain d0 where "d0 \<in> set (deployments db1)" "?p d0"
    using one sql_count_pos [of ?p "deployments db1"] by auto
  then have "?f d0 \<in> set (deployments ?db)" "dr_id (?f d0) = op_DeploymentID operation" by (auto simp: in_sql_update)
  then obtain d where d: "find (\<lambda>d. dr_id d = op_DeploymentID operation) (deployments ?db) = Some d"
    by (cases "find (\<lambda>d. dr_id d = op_DeploymentID operation) (deployments ?db)") (auto simp: find_None_iff)
  have [simp]: "dr_id d = op_DeploymentID operation" using find_SomeD [OF d] by simp
  let ?s = "\<lambda>ae. aer_id ae = op_AppEnvironmentID operation \<and> aer_desired_deployment_id ae = Some (op_DeploymentID operation)"
  let ?g = "\<lambda>ae. ae\<lparr>aer_current_deployment_id := Some (dr_id d), aer_current_release_id := Some (dr_release_id d),
      aer_last_state := StateReady, aer_last_message := m, aer_runtime_desired_version := op_DesiredVersion operation,
      aer_runtime_spec_hash := Some sh, aer_updated_at := now\<rparr>"
  have "app_environments db2 = sql_update ?s ?g (app_environments ?db)"
    using mark unfolding mark_current_def Let_def d by (auto split: if_splits)
  then have "app_environments db' = sql_update ?s ?g (app_environments db)"
    using complete_attached_volume_frame [OF vol] activatePublicationClaims_frame [OF act] envs
    by (auto simp: claims_only_def)
  then have "?g ae \<in> set (app_environments db')" using ae by (auto simp: in_sql_update)
  then show ?thesis using ae by (intro bexI [of _ "?g ae"]) simp_all
qed

text \<open>
  C5: A rollout that completes is never lost: whatever was requested while it ran, when the worker's
  completion of a deployment is accepted, the environment is ready with that deployment as its
  current one, and it is still the desired one.
\<close>

theorem completed_deployment_is_current:
  assumes "store_inv db0" and "store_steps policy (t0, db0) (now, db)"
    and q: "q \<in> set (operations db)" "o_kind q = OperationApplyDeployment" and op: "describes operation q"
    and ok: "CompleteDeployment policy now operation m rel sh db = Inr (u, db')"
  shows "\<exists>ae\<in>set (app_environments db'). o_app_environment_id q = Some (aer_id ae) \<and> o_deployment_id q \<noteq> None
    \<and> aer_desired_deployment_id ae = o_deployment_id q \<and> aer_current_deployment_id ae = o_deployment_id q
    \<and> aer_last_state ae = StateReady"
proof -
  have inv: "work_inv db" using store_steps_inv [OF assms(2)] assms(1) by (simp add: store_inv_def)
  obtain r where r: "r \<in> set (operations db)" "lease_owned now operation r"
    using ok sql_count_pos [of "lease_owned now operation" "operations db"]
    by (auto simp: CompleteDeployment_def completeDeployment_def completeOperationLease_def split: sum.splits if_splits)
  then have "o_id r = o_id q" using op by (simp add: lease_owned_def describes_def)
  then have "r = q" using inv r(1) q(1) by (auto simp: work_inv_def operations_wf_def dest: keyed_on_unique)
  then have "operation_active q" using r(2) by (simp add: lease_owned_def operation_active_def)
  then have "applies_desired (app_environments db) q" using inv q by (simp add: work_inv_def)
  then obtain ae d where ae: "ae \<in> set (app_environments db)" "o_app_environment_id q = Some (aer_id ae)"
      "o_deployment_id q = Some d" "aer_desired_deployment_id ae = Some d"
    by (auto simp: applies_desired_def)
  have "op_AppEnvironmentID operation = aer_id ae" "op_DeploymentID operation = d" using op ae by (simp_all add: describes_def)
  then obtain ae' where "ae' \<in> set (app_environments db')" "aer_id ae' = aer_id ae" "aer_desired_deployment_id ae' = Some d"
      "aer_current_deployment_id ae' = Some d" "aer_last_state ae' = StateReady"
    using completeDeployment_current [OF ok [unfolded CompleteDeployment_def] ae(1)] ae(4) by auto
  then show ?thesis using ae by (intro bexI [of _ ae']) simp_all
qed

lemma sample_rollout_run:
  assumes "sample_rollout False sample_site = Inr (operation, db)"
  shows "store_steps sample_policy (1, sample_site) (5, db)"
proof -
  obtain r1 db1 r2 db2 r3 where
    "CreateAppEnvironmentOnCluster sample_policy 1 (Inl '''') (\<lambda>_. Inl '''') 1 1 (sample_id ''aev-'' CHR ''a'')
       ''prj-1'' ''app-1'' ''env-1'' ''cls-1'' ''main'' WorkloadStateless sample_config None sample_site = Inr (r1, db1)"
    "CreateDeploymentForPrincipal sample_policy 2 (\<lambda>_. Inr ''op-1'') sample_actor sample_deployment_request
       sample_event db1 = Inr (r2, db2)"
    "ClaimNext 4 ''agent'' 60 db2 = Inr (r3, db)"
    using assms unfolding sample_rollout_def
    by (auto elim!: tx_elims simp: return_tx_def fail_tx_def split: option.splits prod.splits)
  then have "store_step sample_policy (1, sample_site) (1, db1)" "store_step sample_policy (2, db1) (2, db2)"
      "store_step sample_policy (4, db2) (4, db)"
    by (blast intro: store_step.runtime store_step.work runtime_tx.create_on_cluster runtime_tx.request_deployment_as
        worker_tx.claim)+
  moreover have "store_step sample_policy (1, db1) (2, db1)" "store_step sample_policy (2, db2) (4, db2)"
      "store_step sample_policy (4, db) (5, db)"
    by (rule store_step.wait, simp)+
  ultimately show ?thesis by (meson converse_rtranclp_into_rtranclp rtranclp.rtrancl_refl)
qed

theorem completed_deployment_is_current_witness:
  "\<exists>operation db q db'. sample_rollout False sample_site = Inr (operation, db) \<and> q \<in> set (operations db)
    \<and> CompleteDeployment sample_policy 5 operation ''ready'' ''r1'' (replicate 64 CHR ''a'') db = Inr ((), db')
    \<and> (\<exists>ae\<in>set (app_environments db'). o_app_environment_id q = Some (aer_id ae)
         \<and> aer_current_deployment_id ae = o_deployment_id q)"
proof -
  have "case sample_rollout False sample_site of
      Inl _ \<Rightarrow> False
    | Inr (operation, db) \<Rightarrow>
        list_ex (\<lambda>q. describes operation q \<and> o_kind q = OperationApplyDeployment) (operations db)
        \<and> is_ok (CompleteDeployment sample_policy 5 operation ''ready'' ''r1'' (replicate 64 CHR ''a'') db)"
    by code_simp
  then obtain operation db q db' where run: "sample_rollout False sample_site = Inr (operation, db)"
    and q: "q \<in> set (operations db)" "describes operation q" "o_kind q = OperationApplyDeployment"
    and ok: "CompleteDeployment sample_policy 5 operation ''ready'' ''r1'' (replicate 64 CHR ''a'') db = Inr ((), db')"
    by (auto simp: list_ex_iff is_ok_iff split: sum.splits)
  from completed_deployment_is_current [OF sample_site_inv sample_rollout_run [OF run] q(1,3,2) ok] run q(1) ok
  show ?thesis by blast
qed


end
