(* ===== verification/Spec2Isabelle.thy ===== *)
theory Spec2Isabelle
  imports Authorization Hierarchy_Properties Deployment_Scenarios
begin

text \<open>
  Verification of the Molejo control plane.

  \<^bold>\<open>The program.\<close> Molejo is a platform for deploying apps to Kubernetes clusters. Its control
  plane (\<^verbatim>\<open>services/control-plane-api\<close>) is an HTTP API over a PostgreSQL database. Handlers check
  a request and a principal's capabilities, normalise and validate the requested configuration,
  and change the database in one transaction; work for a cluster is recorded as a row of the
  table of operations, which the agent of that cluster claims under a lease, carries out and
  completes or fails.

  \<^bold>\<open>Theories.\<close>
  \<^item> \<^verbatim>\<open>Prelude\<close>: results, tables as lists of rows and the lemmas on them that all components use.
  \<^item> \<^verbatim>\<open>Go_Strings\<close>, \<^verbatim>\<open>Go_Strconv\<close>, \<^verbatim>\<open>Go_Regexp\<close>, \<^verbatim>\<open>Go_Encoding\<close>, \<^verbatim>\<open>Go_Path\<close>: the parts of the Go
    standard library the sources use, with strings as lists of bytes.
  \<^item> \<^verbatim>\<open>Domain_Types\<close>, \<^verbatim>\<open>Identifiers\<close>, \<^verbatim>\<open>Runtime_Config\<close>: the package \<^verbatim>\<open>domain\<close>, its records,
    identifiers, names and cursors, and the normalisation and validation of configurations.
  \<^item> \<^verbatim>\<open>Authorization\<close>: the capability policy of \<^verbatim>\<open>authorization/policy.go\<close> and its declarative form.
  \<^item> \<^verbatim>\<open>Store_Schema\<close>, \<^verbatim>\<open>Store_Reads\<close>: rows, the database record, transactions as functions to an
    error or a result with a new database, and the queries that build domain values.
  \<^item> \<^verbatim>\<open>Publication\<close>: hostnames and external ports of environments (\<^verbatim>\<open>store/publication.go\<close>).
  \<^item> \<^verbatim>\<open>Fenced_Queue\<close>: the contract of a queue with leases and fencing tokens, as a locale;
    \<^verbatim>\<open>Operation_Store\<close> models \<^verbatim>\<open>store/operation.go\<close> and interprets it, \<^verbatim>\<open>Operation_Queue\<close> shows
    what claiming, failing and completing do.
  \<^item> \<^verbatim>\<open>Pagination\<close>, \<^verbatim>\<open>Versioned_Table\<close>: the contracts of a listing with cursors and of a table with
    optimistic versions; \<^verbatim>\<open>Hierarchy_Queries\<close> and \<^verbatim>\<open>Hierarchy_Store\<close> model the generated queries
    and \<^verbatim>\<open>store/hierarchy.go\<close> and interpret them; \<^verbatim>\<open>Hierarchy_Properties\<close> holds what clients of
    projects, environments, apps and workspaces rely on.

  \<^bold>\<open>Bounds.\<close> No definition of the model uses fuel: every loop of the source is a recursion over a
  list. A client that follows cursors takes fuel, and one more step than there are rows is
  proved enough. Identity columns are assumed below the bound of a 64-bit integer where a cursor
  is encoded from them.

  \<^bold>\<open>Not modelled.\<close> Lost connections and serialisation failures of the database, the text of JSON
  columns (they hold the values they encode), and the components the manifest lists as not
  modelled.
\<close>

end
